(* ===== verification/Prelude.thy ===== *)
theory Prelude
  imports Main "HOL-Library.Sublist" "HOL-Library.Word"
begin

text \<open>
  Shared material of the galera-init development: the theorem collections the component
  theories extend, generic facts on lists and words, and the generic
  contract of a transition system with an invariant, which the signal machine of
  \<open>Main_Program\<close> and the restart machine of \<open>Restarts\<close> interpret.
\<close>

unbundle bit_operations_syntax

section \<open>Theorem collections\<close>

named_theorems go_defs \<open>definitions of the runtime operations, unfolded to compute a run\<close>
named_theorems wp_rules \<open>weakest-precondition equations of the runtime combinators\<close>
named_theorems journal_intros \<open>rules that keep the history and the world in step\<close>
named_theorems quiet_intros \<open>rules that leave processes and channels alone\<close>
named_theorems run_rules \<open>rules that run a computation step by step\<close>
named_theorems return_intros \<open>rules that show that a computation comes back\<close>
named_theorems order_intros \<open>rules that keep interactions in order\<close>
named_theorems emits_intros \<open>rules that bound the events an operation performs\<close>
named_theorems table_intros \<open>rules that keep the process table in order\<close>

section \<open>Lists and options\<close>

type_synonym bytes = string

text \<open>Whether a string occurs inside another, by scanning as Go's index functions do.\<close>

fun contains_sub :: "string \<Rightarrow> string \<Rightarrow> bool" where
  "contains_sub [] pat = (pat = [])"
| "contains_sub (c # cs) pat = (prefix pat (c # cs) \<or> contains_sub cs pat)"

lemma contains_sub_iff: "contains_sub s pat \<longleftrightarrow> sublist pat s"
  by (induction s) (auto simp: sublist_Cons_right)

lemma contains_sub_append: "contains_sub (a @ pat @ b) pat"
  by (auto simp: contains_sub_iff sublist_def)

lemma contains_sub_left: "contains_sub a p \<Longrightarrow> contains_sub (a @ b) p"
  by (auto simp: contains_sub_iff sublist_def) (metis append.assoc)

lemma contains_sub_right: "contains_sub b p \<Longrightarrow> contains_sub (a @ b) p"
  by (auto simp: contains_sub_iff sublist_def) (metis append.assoc)

text \<open>The first element of a list that satisfies a predicate, with what precedes it.\<close>

lemma takeWhile_split:
  assumes "\<exists>x \<in> set xs. P x"
  shows "\<exists>ys x zs. xs = ys @ x # zs \<and> P x \<and> (\<forall>y \<in> set ys. \<not> P y)"
  using split_list_first_prop [OF assms] by blast

lemma takeWhile_last_index:
  "c \<notin> set suf \<Longrightarrow> takeWhile (\<lambda>x. x \<noteq> c) (rev suf @ c # rev pre) = rev suf"
  by (induction suf rule: rev_induct) auto

section \<open>Machine words\<close>

text \<open>Masking bounds a word by the mask.\<close>

lemma uint_and_le:
  fixes w m :: "32 word"
  shows "uint (w AND m) \<le> uint m"
  using word_and_le1 [of w m] by (simp only: word_le_def)

lemma uint_pos: "w \<noteq> 0 \<Longrightarrow> 1 \<le> uint (w :: 32 word)"
  using uint_ge_0 [of w] uint_0_iff [of w] by linarith

section \<open>Transition systems with an invariant\<close>

text \<open>
  The contract of a state machine: its initial states satisfy the invariant and every step
  keeps it. The machines of the development interpret this locale on their own step
  relations, and read off that the invariant holds in every reachable state and along
  every finite run.
\<close>

inductive reach :: "('s \<Rightarrow> bool) \<Rightarrow> ('s \<Rightarrow> 's \<Rightarrow> bool) \<Rightarrow> 's \<Rightarrow> bool"
  for init :: "'s \<Rightarrow> bool" and step :: "'s \<Rightarrow> 's \<Rightarrow> bool" where
  reach_init: "init s \<Longrightarrow> reach init step s"
| reach_step: "reach init step s \<Longrightarrow> step s t \<Longrightarrow> reach init step t"

locale invariant_system =
  fixes init :: "'s \<Rightarrow> bool"
    and step :: "'s \<Rightarrow> 's \<Rightarrow> bool"
    and inv :: "'s \<Rightarrow> bool"
  assumes inv_init: "init s \<Longrightarrow> inv s"
    and inv_step: "inv s \<Longrightarrow> step s t \<Longrightarrow> inv t"
begin

lemma inv_reach: "reach init step s \<Longrightarrow> inv s"
  by (induction rule: reach.induct) (auto intro: inv_init inv_step)

lemma inv_steps: "inv s \<Longrightarrow> step\<^sup>*\<^sup>* s t \<Longrightarrow> inv t"
  by (rotate_tac, induction rule: rtranclp_induct) (auto intro: inv_step)

end

lemma map_filter_cong: "(\<And>x. x \<in> set xs \<Longrightarrow> f x = g x) \<Longrightarrow> List.map_filter f xs = List.map_filter g xs"
  by (induction xs) (auto simp: List.map_filter_simps split: option.splits)

end
