(* ===== verification/Go_Strings.thy ===== *)
theory Go_Strings
  imports Prelude
begin

text \<open>
  The parts of Go's standard library on strings that the program uses, on byte strings:
  \<^verbatim>\<open>strconv.Itoa\<close>, \<^verbatim>\<open>strconv.Quote\<close>, \<^verbatim>\<open>fmt.Sprintf\<close> with the verbs the source
  writes, \<^verbatim>\<open>strings.TrimSpace\<close>, \<^verbatim>\<open>strings.Replace\<close> with a count of \<open>-1\<close>, and the
  unanchored match of an alternation of literals (the only regular expression of the
  source). The lemmas are the facts the components need of them.
\<close>

section \<open>Decimal numerals\<close>

definition digit_char :: "nat \<Rightarrow> char" where
  "digit_char d = char_of (48 + d)"

fun nat_digits :: "nat \<Rightarrow> string" where
  "nat_digits n = (if n < 10 then [digit_char n]
                   else nat_digits (n div 10) @ [digit_char (n mod 10)])"

declare nat_digits.simps [simp del]

definition itoa :: "int \<Rightarrow> string" where
  "itoa i = (if i < 0 then CHR ''-'' # nat_digits (nat (- i)) else nat_digits (nat i))"

lemma nat_digits_nonempty [simp]: "nat_digits n \<noteq> []"
  by (subst nat_digits.simps) simp

section \<open>Formatted output\<close>

text \<open>
  \<^verbatim>\<open>strconv.Quote\<close> on bytes: the escapes of the ASCII range; bytes from \<open>0x80\<close> are
  copied, as the encodings of printable runes are.
\<close>

definition hex_digit :: "nat \<Rightarrow> char" where
  "hex_digit d = (if d < 10 then char_of (48 + d) else char_of (87 + d))"

definition quote_char :: "char \<Rightarrow> string" where
  "quote_char c =
     (let n = (of_char c :: nat) in
      if n = 34 \<or> n = 92 then [CHR 0x5C, c]
      else if n = 7 then [CHR 0x5C, CHR ''a'']
      else if n = 8 then [CHR 0x5C, CHR ''b'']
      else if n = 9 then [CHR 0x5C, CHR ''t'']
      else if n = 10 then [CHR 0x5C, CHR ''n'']
      else if n = 11 then [CHR 0x5C, CHR ''v'']
      else if n = 12 then [CHR 0x5C, CHR ''f'']
      else if n = 13 then [CHR 0x5C, CHR ''r'']
      else if n < 32 \<or> n = 127
      then [CHR 0x5C, CHR ''x'', hex_digit (n div 16), hex_digit (n mod 16)]
      else [c])"

definition strconv_quote :: "string \<Rightarrow> string" where
  "strconv_quote s = [CHR 0x22] @ concat (map quote_char s) @ [CHR 0x22]"

datatype fmt_arg = AStr string | AInt int

fun fmt_type :: "fmt_arg \<Rightarrow> string" where
  "fmt_type (AStr s) = ''string''"
| "fmt_type (AInt i) = ''int''"

fun fmt_plain :: "fmt_arg \<Rightarrow> string" where
  "fmt_plain (AStr s) = s"
| "fmt_plain (AInt i) = itoa i"

text \<open>One verb applied to one argument; a verb the type does not have prints Go's notice.\<close>

definition fmt_verb :: "char \<Rightarrow> fmt_arg \<Rightarrow> string" where
  "fmt_verb v a =
     (case a of
        AStr s \<Rightarrow>
          (if v = CHR ''s'' \<or> v = CHR ''v'' then s
           else if v = CHR ''q'' then strconv_quote s
           else ''%!'' @ [v] @ ''(string='' @ s @ '')'')
      | AInt i \<Rightarrow>
          (if v = CHR ''d'' \<or> v = CHR ''v'' then itoa i
           else ''%!'' @ [v] @ ''(int='' @ itoa i @ '')''))"

lemma fmt_verb_simps [simp]:
  "fmt_verb (CHR ''s'') (AStr s) = s"
  "fmt_verb (CHR ''v'') (AStr s) = s"
  "fmt_verb (CHR ''q'') (AStr s) = strconv_quote s"
  "fmt_verb (CHR ''d'') (AInt i) = itoa i"
  by (simp_all add: fmt_verb_def)

fun fmt_extra :: "fmt_arg list \<Rightarrow> string" where
  "fmt_extra [] = ''''"
| "fmt_extra [a] = fmt_type a @ ''='' @ fmt_plain a"
| "fmt_extra (a # as) = fmt_type a @ ''='' @ fmt_plain a @ '', '' @ fmt_extra as"

fun sprintf :: "string \<Rightarrow> fmt_arg list \<Rightarrow> string" where
  "sprintf [] args = (if args = [] then '''' else ''%!(EXTRA '' @ fmt_extra args @ '')'')"
| "sprintf [c] args =
     (if c = CHR ''%'' then ''%!(NOVERB)'' else [c]) @ sprintf [] args"
| "sprintf (c # v # rest) args =
     (if c \<noteq> CHR ''%'' then c # sprintf (v # rest) args
      else if v = CHR ''%'' then CHR ''%'' # sprintf rest args
      else (case args of
              [] \<Rightarrow> ''%!'' @ [v] @ ''(MISSING)'' @ sprintf rest []
            | a # as \<Rightarrow> fmt_verb v a @ sprintf rest as))"

text \<open>A format without verbs prints itself.\<close>

lemma sprintf_plain: "CHR ''%'' \<notin> set s \<Longrightarrow> sprintf s [] = s"
  by (induction s "[] :: fmt_arg list" rule: sprintf.induct) auto

section \<open>Trimming space\<close>

text \<open>
  The UTF-8 encodings of the runes for which \<^verbatim>\<open>unicode.IsSpace\<close> holds.
  \<^verbatim>\<open>strings.TrimSpace\<close> drops such encodings at both ends.
\<close>

definition space_encodings :: "string list" where
  "space_encodings =
     [[CHR 0x09], [CHR 0x0A], [CHR 0x0B], [CHR 0x0C], [CHR 0x0D], [CHR 0x20],
      [CHR 0xC2, CHR 0x85], [CHR 0xC2, CHR 0xA0], [CHR 0xE1, CHR 0x9A, CHR 0x80],
      [CHR 0xE2, CHR 0x80, CHR 0x80], [CHR 0xE2, CHR 0x80, CHR 0x81],
      [CHR 0xE2, CHR 0x80, CHR 0x82], [CHR 0xE2, CHR 0x80, CHR 0x83],
      [CHR 0xE2, CHR 0x80, CHR 0x84], [CHR 0xE2, CHR 0x80, CHR 0x85],
      [CHR 0xE2, CHR 0x80, CHR 0x86], [CHR 0xE2, CHR 0x80, CHR 0x87],
      [CHR 0xE2, CHR 0x80, CHR 0x88], [CHR 0xE2, CHR 0x80, CHR 0x89],
      [CHR 0xE2, CHR 0x80, CHR 0x8A], [CHR 0xE2, CHR 0x80, CHR 0xA8],
      [CHR 0xE2, CHR 0x80, CHR 0xA9], [CHR 0xE2, CHR 0x80, CHR 0xAF],
      [CHR 0xE2, CHR 0x81, CHR 0x9F], [CHR 0xE3, CHR 0x80, CHR 0x80]]"

text \<open>How many bytes of white space the string begins with: one rune's worth, or none.\<close>

definition lead_space :: "string list \<Rightarrow> string \<Rightarrow> nat" where
  "lead_space encs s = (case find (\<lambda>e. prefix e s) encs of None \<Rightarrow> 0 | Some e \<Rightarrow> length e)"

lemma lead_space_le: "lead_space encs s \<le> length s"
  by (auto simp: lead_space_def find_Some_iff prefix_length_le split: option.splits)

function trim_front :: "string list \<Rightarrow> string \<Rightarrow> string" where
  "trim_front encs s =
     (let n = lead_space encs s in if n = 0 then s else trim_front encs (drop n s))"
  by pat_completeness auto
termination
proof (relation "measure (\<lambda>(encs, s). length s)", goal_cases)
  case (2 encs s x)
  then show ?case using lead_space_le [of encs s] by simp
qed simp

declare trim_front.simps [simp del]

definition strings_TrimSpace :: "string \<Rightarrow> string" where
  "strings_TrimSpace s =
     rev (trim_front (map rev space_encodings) (rev (trim_front space_encodings s)))"

lemma trim_front_stop: "lead_space encs s = 0 \<Longrightarrow> trim_front encs s = s"
  by (subst trim_front.simps) simp

text \<open>Trimming leaves nothing to trim at the end it works on.\<close>

lemma lead_space_trim_front: "lead_space encs (trim_front encs s) = 0"
proof (induction encs s rule: trim_front.induct)
  case (1 encs s)
  then show ?case by (subst trim_front.simps) (simp add: Let_def)
qed

text \<open>A string that neither begins nor ends with white space is left alone.\<close>

lemma strings_TrimSpace_id:
  "lead_space space_encodings s = 0 \<Longrightarrow>
   lead_space (map rev space_encodings) (rev s) = 0 \<Longrightarrow> strings_TrimSpace s = s"
  by (simp add: strings_TrimSpace_def trim_front_stop)

section \<open>Replacing\<close>

text \<open>
  \<^verbatim>\<open>strings.Replace(s, old, new, -1)\<close> for a nonempty \<open>old\<close>: leftmost, non-overlapping
  occurrences.
\<close>

function strings_Replace :: "string \<Rightarrow> string \<Rightarrow> string \<Rightarrow> string" where
  "strings_Replace [] old new = []"
| "strings_Replace (c # cs) old new =
     (if old \<noteq> [] \<and> prefix old (c # cs)
      then new @ strings_Replace (drop (length old) (c # cs)) old new
      else c # strings_Replace cs old new)"
  by pat_completeness auto
termination
  by (relation "measure (\<lambda>(s, old, new). length s)")
     (auto simp: neq_Nil_conv)

section \<open>Cutting and matching\<close>

text \<open>Cutting a string at the first or the last occurrence of a character.\<close>

fun cut_first :: "char \<Rightarrow> string \<Rightarrow> (string \<times> string) option" where
  "cut_first c [] = None"
| "cut_first c (x # xs) =
     (if x = c then Some ([], xs)
      else (case cut_first c xs of None \<Rightarrow> None | Some (a, b) \<Rightarrow> Some (x # a, b)))"

fun cut_last :: "char \<Rightarrow> string \<Rightarrow> (string \<times> string) option" where
  "cut_last c [] = None"
| "cut_last c (x # xs) =
     (case cut_last c xs of
        Some (a, b) \<Rightarrow> Some (x # a, b)
      | None \<Rightarrow> if x = c then Some ([], xs) else None)"

lemma cut_first_Some:
  "c \<notin> set a \<Longrightarrow> cut_first c (a @ c # b) = Some (a, b)"
  by (induction a) auto

lemma cut_last_None: "c \<notin> set s \<Longrightarrow> cut_last c s = None"
  by (induction s) auto

lemma cut_last_Some:
  "c \<notin> set b \<Longrightarrow> cut_last c (a @ c # b) = Some (a, b)"
  by (induction a) (auto simp: cut_last_None)

text \<open>\<^verbatim>\<open>regexp.MatchString\<close> for an alternation of literals, unanchored.\<close>

definition match_any :: "string list \<Rightarrow> string \<Rightarrow> bool" where
  "match_any alts s = list_ex (contains_sub s) alts"

text \<open>
  Replacing a text by one that differs from it only in the last character, by a character
  the text does not have: nothing to replace is left over.
\<close>

lemma Replace_match [simp]:
  "old \<noteq> [] \<Longrightarrow> prefix old (c # cs) \<Longrightarrow>
   strings_Replace (c # cs) old new = new @ strings_Replace (drop (length old) (c # cs)) old new"
  by simp

lemma Replace_step [simp]:
  "\<not> prefix old (c # cs) \<Longrightarrow> strings_Replace (c # cs) old new = c # strings_Replace cs old new"
  by simp

declare strings_Replace.simps(2) [simp del]

lemma prefix_Replace:
  "prefix p (strings_Replace s (b @ [x]) (b @ [y])) \<Longrightarrow> y \<notin> set p \<Longrightarrow> prefix p s"
proof (induction "length s" arbitrary: s p rule: less_induct)
  case less
  show ?case
  proof (cases s)
    case (Cons c cs)
    show ?thesis
    proof (cases "prefix (b @ [x]) s")
      case True
      then have "prefix p ((b @ [y]) @ strings_Replace (drop (length (b @ [x])) s) (b @ [x]) (b @ [y]))"
        using less.prems(1) Cons by simp
      then have "prefix p b"
        using less.prems(2) by (auto simp: prefix_append prefix_Cons)
      then show ?thesis using True by (meson append_prefixD prefix_order.trans)
    next
      case False
      then show ?thesis
        using less.prems less.hyps [of cs "tl p"] Cons by (auto simp: prefix_Cons)
    qed
  qed (use less.prems in simp)
qed

lemma sublist_after:
  assumes "y \<notin> set (b @ [x])" and "sublist (b @ [x]) ((b @ [y]) @ r)"
  shows "sublist (b @ [x]) r"
proof -
  obtain u v where eq: "(b @ [y]) @ r = u @ (b @ [x]) @ v" using assms(2) by (auto simp: sublist_def)
  have "length b < length u"
  proof (rule ccontr)
    assume "\<not> length b < length u"
    then have "y = (b @ [x]) ! (length b - length u)"
      using arg_cong [OF eq, of "\<lambda>l. l ! length b"] by (simp add: nth_append)
    then show False using assms(1) by (metis diff_le_self le_imp_less_Suc length_append_singleton nth_mem)
  qed
  then have "r = drop (Suc (length b)) u @ (b @ [x]) @ v"
    using arg_cong [OF eq, of "drop (Suc (length b))"] by simp
  then show ?thesis by (auto simp: sublist_def)
qed

lemma Replace_complete:
  assumes "y \<notin> set (b @ [x])"
  shows "\<not> sublist (b @ [x]) (strings_Replace s (b @ [x]) (b @ [y]))"
proof (induction "length s" arbitrary: s rule: less_induct)
  case less
  show ?case
  proof (cases s)
    case (Cons c cs)
    show ?thesis
    proof (cases "prefix (b @ [x]) s")
      case True
      let ?rest = "strings_Replace (drop (length (b @ [x])) s) (b @ [x]) (b @ [y])"
      have "\<not> sublist (b @ [x]) ?rest" using less.hyps [of "drop (length (b @ [x])) s"] Cons by simp
      moreover have "strings_Replace s (b @ [x]) (b @ [y]) = (b @ [y]) @ ?rest" using True Cons by simp
      ultimately show ?thesis using sublist_after [OF assms] by auto
    next
      case False
      then have "\<not> prefix (b @ [x]) (c # strings_Replace cs (b @ [x]) (b @ [y]))"
        using prefix_Replace [of "tl (b @ [x])" cs b x y] assms Cons by (cases b) (auto simp: prefix_Cons)
      then show ?thesis
        using False less.hyps [of cs] Cons by (auto simp: sublist_Cons_right)
    qed
  qed simp
qed

end
