(* ===== verification/Go_Runtime.thy ===== *)
theory Go_Runtime
  imports Go_Strings
begin

text \<open>
  The Go program's interface to the outside: error values, wait statuses, the observable
  world (files, processes, channels, log, the sequence of system interactions), the
  environment that answers each interaction, and the computations that run against them.

  A computation takes the environment and a world. It returns \<open>None\<close> when the source never
  returns (an endless loop, or a receive on a channel nobody sends on), and otherwise an
  outcome and the new world. Everything not under the program's control is a field of the
  environment and is asked with the whole history of interactions, so that a theorem about
  every environment is a theorem about every behaviour of the operating system, of mysqld
  and of the other nodes.
\<close>

section \<open>Errors and wait statuses\<close>

text \<open>
  \<^verbatim>\<open>syscall.WaitStatus\<close> on Linux is a 32-bit word: the low seven bits hold the signal (zero
  for a normal exit, all ones for a stop), the next byte the exit status.
\<close>

type_synonym wait_status = "32 word"

definition ws_Exited :: "wait_status \<Rightarrow> bool" where
  "ws_Exited w = (w AND 0x7F = 0)"

definition ws_Signaled :: "wait_status \<Rightarrow> bool" where
  "ws_Signaled w = (w AND 0x7F \<noteq> 0x7F \<and> w AND 0x7F \<noteq> 0)"

definition ws_Signal :: "wait_status \<Rightarrow> int" where
  "ws_Signal w = (if ws_Signaled w then uint (w AND 0x7F) else - 1)"

definition ws_ExitStatus :: "wait_status \<Rightarrow> int" where
  "ws_ExitStatus w = (if ws_Exited w then uint (drop_bit 8 w AND 0xFF) else - 1)"

definition ws_CoreDump :: "wait_status \<Rightarrow> bool" where
  "ws_CoreDump w = (ws_Signaled w \<and> w AND 0x80 \<noteq> 0)"

text \<open>The names \<^verbatim>\<open>syscall.Signal.String\<close> prints on Linux.\<close>

definition signal_names :: "string list" where
  "signal_names =
     ['''', ''hangup'', ''interrupt'', ''quit'', ''illegal instruction'',
      ''trace/breakpoint trap'', ''aborted'', ''bus error'', ''floating point exception'',
      ''killed'', ''user defined signal 1'', ''segmentation fault'',
      ''user defined signal 2'', ''broken pipe'', ''alarm clock'', ''terminated'']"

definition signal_string :: "int \<Rightarrow> string" where
  "signal_string n =
     (if 0 < n \<and> n < int (length signal_names) then signal_names ! nat n
      else ''signal '' @ itoa n)"

definition process_state_string :: "wait_status \<Rightarrow> string" where
  "process_state_string w =
     (if ws_Exited w then ''exit status '' @ itoa (ws_ExitStatus w)
      else if ws_Signaled w then ''signal: '' @ signal_string (ws_Signal w)
      else ''stop signal: '' @ signal_string (uint (drop_bit 8 w AND 0xFF)))
     @ (if ws_CoreDump w then '' (core dumped)'' else '''')"

text \<open>
  Error values, by the dynamic types the program distinguishes. \<open>ErrorString\<close> is any error
  that only carries a text (\<^verbatim>\<open>errors.New\<close>, \<^verbatim>\<open>fmt.Errorf\<close>, path and driver errors);
  \<open>ExitError\<close> is \<^verbatim>\<open>*exec.ExitError\<close>; \<open>ErrNoRows\<close> is \<^verbatim>\<open>sql.ErrNoRows\<close>; the other two are
  the wrappers of \<^verbatim>\<open>github.com/pkg/errors\<close>.
\<close>

datatype go_error =
    ErrorString string
  | ExitError wait_status
  | ErrNoRows
  | WithMessage go_error string
  | WithStack go_error

fun error_text :: "go_error \<Rightarrow> string" where
  "error_text (ErrorString s) = s"
| "error_text (ExitError w) = process_state_string w"
| "error_text ErrNoRows = ''sql: no rows in result set''"
| "error_text (WithMessage e m) = m @ '': '' @ error_text e"
| "error_text (WithStack e) = error_text e"

definition errors_Wrap :: "go_error option \<Rightarrow> string \<Rightarrow> go_error option" where
  "errors_Wrap err message =
     (case err of None \<Rightarrow> None | Some e \<Rightarrow> Some (WithStack (WithMessage e message)))"

definition errors_Wrapf :: "go_error option \<Rightarrow> string \<Rightarrow> fmt_arg list \<Rightarrow> go_error option" where
  "errors_Wrapf err format args =
     (case err of None \<Rightarrow> None
      | Some e \<Rightarrow> Some (WithStack (WithMessage e (sprintf format args))))"

lemma errors_Wrap_None [simp]: "errors_Wrap err m = None \<longleftrightarrow> err = None"
  by (simp add: errors_Wrap_def split: option.splits)

lemma errors_Wrapf_None [simp]: "errors_Wrapf err f a = None \<longleftrightarrow> err = None"
  by (simp add: errors_Wrapf_def split: option.splits)

lemma errors_Wrap_no_ExitError: "errors_Wrap err m \<noteq> Some (ExitError w)"
  by (simp add: errors_Wrap_def split: option.splits)

text \<open>A process that did not succeed has a nonzero exit status or was signalled.\<close>

lemma ws_Exited_not_Signaled: "ws_Exited w \<Longrightarrow> \<not> ws_Signaled w"
  by (simp add: ws_Exited_def ws_Signaled_def)

lemma ws_Signal_range:
  assumes "ws_Signaled w"
  shows "1 \<le> ws_Signal w \<and> ws_Signal w \<le> 127"
proof -
  have "w AND 0x7F \<noteq> 0" using assms by (simp add: ws_Signaled_def)
  then show ?thesis
    using assms uint_and_le [of w "0x7F"] uint_pos [of "w AND 0x7F"] by (simp add: ws_Signal_def)
qed

lemma ws_ExitStatus_range:
  assumes "ws_Exited w"
  shows "0 \<le> ws_ExitStatus w \<and> ws_ExitStatus w \<le> 255"
  using assms uint_and_le [of "drop_bit 8 w" "0xFF"] by (simp add: ws_ExitStatus_def)

section \<open>The world and its environment\<close>

type_synonym duration = "64 word"

text \<open>The interactions with the outside, each with what came of it.\<close>

datatype event =
    EvRun string "string list" "go_error option"
  | EvStart string "string list" "nat option"
  | EvKill nat int "go_error option"
  | EvStat string bool
  | EvRead string bool
  | EvOpenAppend string bool
  | EvWrite string string bool
  | EvSleep duration
  | EvGet string duration "int option"
  | EvOpenDB string bool
  | EvCloseDB
  | EvExec string "go_error option"
  | EvQuery string "go_error option"
  | EvQueryRow string "go_error option"
  | EvPoll "nat option" bool
  | EvRecv "nat option"
  | EvSelect "nat option"
  | EvListen string bool
  | EvServe

text \<open>
  A started command is its program, its arguments and the process it got. A channel made by
  \<^verbatim>\<open>WaitForCommand\<close> waits for a process, already holds a value, or has been emptied.
\<close>

record cmd =
  cmd_path :: string
  cmd_args :: "string list"
  cmd_process :: "nat option"

datatype chan_state = ChWaiting nat | ChReady "go_error option" | ChDrained

datatype log_level = DEBUG | INFO | ERROR | FATAL

record world =
  trace :: "event list"
  files :: "string \<rightharpoonup> string"
  logs :: "(log_level \<times> string) list"
  next_pid :: nat
  chans :: "chan_state list"
  open_rows :: nat
  serving :: bool
  starter_mysqlCmd :: "cmd option"

datatype select_result = SelExit "go_error option" | SelDone | SelNever

text \<open>
  What the environment decides. \<open>interfere\<close> is what all other processes did to the files by
  the time an interaction is over. \<open>write_fails\<close> gives the error and, where the file had
  already been truncated, what is left in it. \<open>exited\<close> is asked by a poll and \<open>awaited\<close> by a
  blocking receive, where \<open>None\<close> means that the process never ends. \<open>serve_fails\<close> is whether the
  status server's listener has failed by then.
\<close>

record env =
  interfere :: "event list \<Rightarrow> (string \<rightharpoonup> string) \<Rightarrow> (string \<rightharpoonup> string)"
  stat_fails :: "event list \<Rightarrow> string \<Rightarrow> bool"
  read_fails :: "event list \<Rightarrow> string \<Rightarrow> go_error option"
  append_fails :: "event list \<Rightarrow> string \<Rightarrow> go_error option"
  write_fails :: "event list \<Rightarrow> string \<Rightarrow> (go_error \<times> string option) option"
  command :: "event list \<Rightarrow> string \<Rightarrow> string list \<Rightarrow> string \<times> go_error option"
  spawn_fails :: "event list \<Rightarrow> string \<Rightarrow> string list \<Rightarrow> go_error option"
  exited :: "event list \<Rightarrow> nat \<Rightarrow> go_error option option"
  awaited :: "event list \<Rightarrow> nat \<Rightarrow> go_error option option"
  signal_fails :: "event list \<Rightarrow> nat \<Rightarrow> go_error option"
  selects :: "event list \<Rightarrow> nat option \<Rightarrow> select_result"
  exec_fails :: "event list \<Rightarrow> string \<Rightarrow> go_error option"
  query_first :: "event list \<Rightarrow> string \<Rightarrow> go_error + bool"
  query_row :: "event list \<Rightarrow> string \<Rightarrow> go_error + (string \<times> string)"
  http_get :: "event list \<Rightarrow> string \<Rightarrow> duration \<Rightarrow> int option"
  listen_fails :: "event list \<Rightarrow> string \<Rightarrow> go_error option"
  serve_fails :: "event list \<Rightarrow> bool"

section \<open>Computations\<close>

text \<open>How a computation that stops can stop: a value, a panic, or \<^verbatim>\<open>os.Exit\<close>.\<close>

datatype 'a outcome = Ret 'a | Panic "go_error option" | OsExit int

type_synonym 'a go = "env \<Rightarrow> world \<Rightarrow> ('a outcome \<times> world) option"

definition ret :: "'a \<Rightarrow> 'a go" where
  "ret a = (\<lambda>e w. Some (Ret a, w))"

definition bind_go :: "'a go \<Rightarrow> ('a \<Rightarrow> 'b go) \<Rightarrow> 'b go" where
  "bind_go m k = (\<lambda>e w.
     case m e w of
       None \<Rightarrow> None
     | Some (Ret a, w') \<Rightarrow> k a e w'
     | Some (Panic p, w') \<Rightarrow> Some (Panic p, w')
     | Some (OsExit n, w') \<Rightarrow> Some (OsExit n, w'))"

definition andthen :: "unit go \<Rightarrow> 'b go \<Rightarrow> 'b go" where
  "andthen m n = bind_go m (\<lambda>_. n)"

definition panic_go :: "go_error option \<Rightarrow> 'a go" where
  "panic_go p = (\<lambda>e w. Some (Panic p, w))"

definition os_Exit :: "int \<Rightarrow> 'a go" where
  "os_Exit n = (\<lambda>e w. Some (OsExit n, w))"

definition never :: "'a go" where
  "never = (\<lambda>e w. None)"

definition ask :: "(env \<Rightarrow> world \<Rightarrow> 'a) \<Rightarrow> 'a go" where
  "ask f = (\<lambda>e w. Some (Ret (f e w), w))"

definition modify :: "(world \<Rightarrow> world) \<Rightarrow> unit go" where
  "modify f = (\<lambda>e w. Some (Ret (), f w))"

text \<open>A deferred call runs when the function returns or panics, not on \<^verbatim>\<open>os.Exit\<close>.\<close>

definition defer_go :: "unit go \<Rightarrow> 'a go \<Rightarrow> 'a go" where
  "defer_go cleanup m = (\<lambda>e w.
     case m e w of
       None \<Rightarrow> None
     | Some (Ret a, w') \<Rightarrow> andthen cleanup (ret a) e w'
     | Some (Panic p, w') \<Rightarrow> andthen cleanup (panic_go p) e w'
     | Some (OsExit n, w') \<Rightarrow> Some (OsExit n, w'))"

text \<open>An interaction is recorded, and the rest of the system gets to act on the files.\<close>

definition record_event :: "env \<Rightarrow> event \<Rightarrow> world \<Rightarrow> world" where
  "record_event e ev w =
     w\<lparr>trace := trace w @ [ev], files := interfere e (trace w @ [ev]) (files w)\<rparr>"

definition emit :: "event \<Rightarrow> unit go" where
  "emit ev = (\<lambda>e w. Some (Ret (), record_event e ev w))"

lemmas go_basic_defs =
  ret_def bind_go_def andthen_def panic_go_def os_Exit_def never_def ask_def modify_def emit_def

declare go_basic_defs [go_defs] defer_go_def [go_defs]

subsection \<open>Logging\<close>

text \<open>
  The \<^verbatim>\<open>lager\<close> logger keeps the level and the message; the data attached to a message is not
  kept. \<^verbatim>\<open>Fatal\<close> logs and panics with the error.
\<close>

definition log_at :: "log_level \<Rightarrow> string \<Rightarrow> unit go" where
  "log_at l msg = modify (\<lambda>w. w\<lparr>logs := logs w @ [(l, msg)]\<rparr>)"

definition log_info :: "string \<Rightarrow> unit go" where
  "log_info = log_at INFO"

definition log_debug :: "string \<Rightarrow> unit go" where
  "log_debug = log_at DEBUG"

definition log_error :: "string \<Rightarrow> go_error option \<Rightarrow> unit go" where
  "log_error msg err = log_at ERROR msg"

definition log_fatal :: "string \<Rightarrow> go_error option \<Rightarrow> 'a go" where
  "log_fatal msg err = andthen (log_at FATAL msg) (panic_go err)"

declare log_at_def [go_defs] log_info_def [go_defs] log_debug_def [go_defs]
  log_error_def [go_defs] log_fatal_def [go_defs]

section \<open>A calm environment\<close>

text \<open>
  An environment in which nothing fails, no other process interferes, no other node answers
  and galera is switched off, and a fresh world: the starting point of the concrete runs.
\<close>

definition calm_env :: env where
  "calm_env =
     \<lparr>interfere = (\<lambda>h fs. fs), stat_fails = (\<lambda>h f. False), read_fails = (\<lambda>h f. None),
      append_fails = (\<lambda>h f. None), write_fails = (\<lambda>h f. None), command = (\<lambda>h x args. ('''', None)),
      spawn_fails = (\<lambda>h x args. None), exited = (\<lambda>h pid. None), awaited = (\<lambda>h pid. Some None),
      signal_fails = (\<lambda>h pid. None), selects = (\<lambda>h c. SelExit None), exec_fails = (\<lambda>h q. None),
      query_first = (\<lambda>h q. Inr False), query_row = (\<lambda>h q. Inr (''wsrep_provider'', ''none'')),
      http_get = (\<lambda>h url t. None), listen_fails = (\<lambda>h a. None), serve_fails = (\<lambda>h. False)\<rparr>"

definition blank_world :: world where
  "blank_world =
     \<lparr>trace = [], files = (\<lambda>_. None), logs = [], next_pid = 1, chans = [], open_rows = 0,
      serving = False, starter_mysqlCmd = None\<rparr>"


lemma calm_env_simps [simp]:
  "interfere calm_env h fs = fs" "stat_fails calm_env h f = False" "read_fails calm_env h f = None"
  "append_fails calm_env h f = None" "write_fails calm_env h f = None"
  "command calm_env h x args = ('''', None)" "spawn_fails calm_env h x args = None"
  "exited calm_env h pid = None" "awaited calm_env h pid = Some None" "signal_fails calm_env h pid = None"
  "selects calm_env h c = SelExit None" "exec_fails calm_env h q = None" "query_first calm_env h q = Inr False"
  "query_row calm_env h q = Inr (''wsrep_provider'', ''none'')" "http_get calm_env h url t = None"
  "listen_fails calm_env h a = None" "\<not> serve_fails calm_env h"
  by (simp_all add: calm_env_def)

section \<open>Symbolic runs\<close>

text \<open>
  Rules that run a computation step by step: the continuation of a step is not looked at
  before the step has produced its result.
\<close>

fun resume :: "('a \<Rightarrow> 'b go) \<Rightarrow> env \<Rightarrow> 'a outcome \<times> world \<Rightarrow> ('b outcome \<times> world) option" where
  "resume k e (Ret a, w) = k a e w"
| "resume k e (Panic p, w) = Some (Panic p, w)"
| "resume k e (OsExit n, w) = Some (OsExit n, w)"

lemma bind_run [run_rules]: "bind_go m k e w = (case m e w of None \<Rightarrow> None | Some x \<Rightarrow> resume k e x)"
  by (auto simp: bind_go_def split: option.splits outcome.splits)

lemma andthen_run [run_rules]: "andthen m n e w = (case m e w of None \<Rightarrow> None | Some x \<Rightarrow> resume (\<lambda>_. n) e x)"
  by (simp add: andthen_def bind_run)

lemma defer_run [run_rules]:
  "defer_go c m e w = (case m e w of None \<Rightarrow> None
     | Some (r, w') \<Rightarrow> (case r of Ret a \<Rightarrow> andthen c (ret a) e w' | Panic p \<Rightarrow> andthen c (panic_go p) e w'
         | OsExit n \<Rightarrow> Some (OsExit n, w')))"
  by (simp add: defer_go_def split: option.splits prod.splits outcome.splits)

lemma run_cong:
  "m = m' \<Longrightarrow> bind_go m k = bind_go m' k" "u = u' \<Longrightarrow> andthen u n = andthen u' n"
  "defer_go c d = defer_go c d"
  by simp_all

declare ret_def [run_rules] panic_go_def [run_rules] os_Exit_def [run_rules] never_def [run_rules] ask_def [run_rules]
  modify_def [run_rules] emit_def [run_rules] record_event_def [run_rules] log_at_def [run_rules]
  log_info_def [run_rules] log_debug_def [run_rules] log_error_def [run_rules] log_fatal_def [run_rules]


declare errors_Wrap_def [run_rules] errors_Wrapf_def [run_rules]

end
