(* ===== verification/Go_Logic.thy ===== *)
theory Go_Logic
  imports Go_Runtime
begin

text \<open>
  Reasoning about computations: weakest preconditions as rewrite rules, and relations between
  the world before and after a computation. A relation that is reflexive and transitive is
  kept by every combinator as soon as the primitive steps keep it; the locale
  \<open>world_preorder\<close> proves this once, and is interpreted for \<^emph>\<open>only interacts in this way\<close>
  (\<open>extends\<close>) and \<^emph>\<open>the world follows the interactions\<close> (\<open>journal\<close>).
\<close>

section \<open>Weakest preconditions\<close>

definition wp :: "'a go \<Rightarrow> ('a outcome \<Rightarrow> world \<Rightarrow> bool) \<Rightarrow> env \<Rightarrow> world \<Rightarrow> bool" where
  "wp m Q e w = (case m e w of None \<Rightarrow> True | Some (r, w') \<Rightarrow> Q r w')"

definition returns :: "'a go \<Rightarrow> env \<Rightarrow> world \<Rightarrow> bool" where
  "returns m e w = (m e w \<noteq> None)"

abbreviation ok_post ::
  "('a \<Rightarrow> world \<Rightarrow> bool) \<Rightarrow> ('b outcome \<Rightarrow> world \<Rightarrow> bool) \<Rightarrow> 'a outcome \<Rightarrow> world \<Rightarrow> bool" where
  "ok_post P Q r w \<equiv>
     (case r of Ret a \<Rightarrow> P a w | Panic p \<Rightarrow> Q (Panic p) w | OsExit n \<Rightarrow> Q (OsExit n) w)"

lemma wpI: "(\<And>r w'. m e w = Some (r, w') \<Longrightarrow> Q r w') \<Longrightarrow> wp m Q e w"
  by (auto simp: wp_def split: option.splits)

lemma wpD: "wp m Q e w \<Longrightarrow> m e w = Some (r, w') \<Longrightarrow> Q r w'"
  by (auto simp: wp_def)

lemma wp_mono: "wp m P e w \<Longrightarrow> (\<And>r w'. P r w' \<Longrightarrow> Q r w') \<Longrightarrow> wp m Q e w"
  by (auto simp: wp_def split: option.splits)

lemma wp_ret [wp_rules]: "wp (ret a) Q e w = Q (Ret a) w"
  by (simp add: wp_def ret_def)

lemma wp_panic [wp_rules]: "wp (panic_go p) Q e w = Q (Panic p) w"
  by (simp add: wp_def panic_go_def)

lemma wp_os_Exit [wp_rules]: "wp (os_Exit n) Q e w = Q (OsExit n) w"
  by (simp add: wp_def os_Exit_def)

lemma wp_never [wp_rules]: "wp never Q e w"
  by (simp add: wp_def never_def)

lemma wp_ask [wp_rules]: "wp (ask f) Q e w = Q (Ret (f e w)) w"
  by (simp add: wp_def ask_def)

lemma wp_modify [wp_rules]: "wp (modify f) Q e w = Q (Ret ()) (f w)"
  by (simp add: wp_def modify_def)

lemma wp_emit [wp_rules]: "wp (emit ev) Q e w = Q (Ret ()) (record_event e ev w)"
  by (simp add: wp_def emit_def)

lemma wp_bind [wp_rules]:
  "wp (bind_go m k) Q e w = wp m (ok_post (\<lambda>a. wp (k a) Q e) Q) e w"
  by (auto simp: wp_def bind_go_def split: option.splits outcome.splits)

lemma wp_andthen [wp_rules]:
  "wp (andthen m n) Q e w = wp m (ok_post (\<lambda>_. wp n Q e) Q) e w"
  by (simp add: andthen_def wp_bind)

lemma wp_defer [wp_rules]:
  "wp (defer_go c m) Q e w =
     wp m (\<lambda>r w'. case r of Ret a \<Rightarrow> wp (andthen c (ret a)) Q e w'
                         | Panic p \<Rightarrow> wp (andthen c (panic_go p)) Q e w'
                         | OsExit n \<Rightarrow> Q (OsExit n) w') e w"
  by (auto simp: wp_def defer_go_def split: option.splits outcome.splits)

lemma wp_log_at [wp_rules]: "wp (log_at l s) Q e w = Q (Ret ()) (w\<lparr>logs := logs w @ [(l, s)]\<rparr>)"
  by (simp add: log_at_def wp_modify)

lemma wp_log_info [wp_rules]: "wp (log_info s) Q e w = Q (Ret ()) (w\<lparr>logs := logs w @ [(INFO, s)]\<rparr>)"
  by (simp add: log_info_def wp_log_at)

lemma wp_log_debug [wp_rules]:
  "wp (log_debug s) Q e w = Q (Ret ()) (w\<lparr>logs := logs w @ [(DEBUG, s)]\<rparr>)"
  by (simp add: log_debug_def wp_log_at)

lemma wp_log_error [wp_rules]:
  "wp (log_error s x) Q e w = Q (Ret ()) (w\<lparr>logs := logs w @ [(ERROR, s)]\<rparr>)"
  by (simp add: log_error_def wp_log_at)

lemma wp_log_fatal [wp_rules]:
  "wp (log_fatal s x) Q e w = Q (Panic x) (w\<lparr>logs := logs w @ [(FATAL, s)]\<rparr>)"
  by (simp add: log_fatal_def wp_log_at wp_andthen wp_panic)

text \<open>The monad laws, so that runs can be regrouped.\<close>

lemma bind_ret_left: "bind_go (ret a) k = k a"
  by (simp add: bind_go_def ret_def)

lemma bind_ret_right: "bind_go m ret = m"
  by (auto simp: bind_go_def ret_def fun_eq_iff split: option.splits outcome.splits)

lemma bind_assoc: "bind_go (bind_go m k) h = bind_go m (\<lambda>a. bind_go (k a) h)"
  by (auto simp: bind_go_def fun_eq_iff split: option.splits outcome.splits)

text \<open>Running the parts one after the other.\<close>

lemma bind_Some:
  "m e w = Some (Ret a, w') \<Longrightarrow> bind_go m k e w = k a e w'"
  by (simp add: bind_go_def)

lemma bind_eq_Some:
  "bind_go m k e w = Some (r, w'') \<longleftrightarrow>
     (\<exists>a w'. m e w = Some (Ret a, w') \<and> k a e w' = Some (r, w'')) \<or>
     (\<exists>p. m e w = Some (Panic p, w'') \<and> r = Panic p) \<or>
     (\<exists>n. m e w = Some (OsExit n, w'') \<and> r = OsExit n)"
  by (auto simp: bind_go_def split: option.splits outcome.splits)

section \<open>Relations kept by computations\<close>

type_synonym world_rel = "env \<Rightarrow> world \<Rightarrow> world \<Rightarrow> bool"

definition stable :: "world_rel \<Rightarrow> 'a go \<Rightarrow> bool" where
  "stable R m = (\<forall>e w. wp m (\<lambda>_ w'. R e w w') e w)"

lemma stableD: "stable R m \<Longrightarrow> m e w = Some (r, w') \<Longrightarrow> R e w w'"
  unfolding stable_def by (blast dest: wpD)

lemma stable_if:
  "(b \<Longrightarrow> stable R m) \<Longrightarrow> (\<not> b \<Longrightarrow> stable R n) \<Longrightarrow> stable R (if b then m else n)"
  by simp

lemma stable_case_option:
  "(x = None \<Longrightarrow> stable R m) \<Longrightarrow> (\<And>y. x = Some y \<Longrightarrow> stable R (k y)) \<Longrightarrow>
   stable R (case x of None \<Rightarrow> m | Some y \<Rightarrow> k y)"
  by (simp split: option.splits)

lemma stable_case_sum:
  "(\<And>a. x = Inl a \<Longrightarrow> stable R (f a)) \<Longrightarrow> (\<And>b. x = Inr b \<Longrightarrow> stable R (g b)) \<Longrightarrow>
   stable R (case x of Inl a \<Rightarrow> f a | Inr b \<Rightarrow> g b)"
  by (simp split: sum.splits)

lemma stable_case_prod:
  "(\<And>a b. x = (a, b) \<Longrightarrow> stable R (f a b)) \<Longrightarrow> stable R (case x of (a, b) \<Rightarrow> f a b)"
  by (simp split: prod.splits)

lemma stable_Let: "(\<And>y. stable R (f y)) \<Longrightarrow> stable R (let y = x in f y)"
  by simp

locale world_preorder =
  fixes R :: world_rel
  assumes R_refl: "R e w w"
    and R_trans: "R e u v \<Longrightarrow> R e v w \<Longrightarrow> R e u w"
begin

lemma stable_ret: "stable R (ret a)"
  by (simp add: stable_def wp_ret R_refl)

lemma stable_panic: "stable R (panic_go p)"
  by (simp add: stable_def wp_panic R_refl)

lemma stable_os_Exit: "stable R (os_Exit n)"
  by (simp add: stable_def wp_os_Exit R_refl)

lemma stable_never: "stable R never"
  by (simp add: stable_def wp_never)

lemma stable_ask: "stable R (ask f)"
  by (simp add: stable_def wp_ask R_refl)

lemma stable_bind:
  assumes "stable R m" and "\<And>a. stable R (k a)"
  shows "stable R (bind_go m k)"
  unfolding stable_def wp_bind
proof (intro allI)
  fix e w
  have "wp m (\<lambda>_ w'. R e w w') e w" using assms(1) by (simp add: stable_def)
  then show "wp m (ok_post (\<lambda>a. wp (k a) (\<lambda>_. R e w) e) (\<lambda>_. R e w)) e w"
  proof (rule wp_mono)
    fix r :: "'a outcome" and w'
    assume step: "R e w w'"
    show "ok_post (\<lambda>a. wp (k a) (\<lambda>_. R e w) e) (\<lambda>_ :: 'b outcome. R e w) r w'"
    proof (cases r)
      case (Ret a)
      have "wp (k a) (\<lambda>_ w''. R e w' w'') e w'" using assms(2) [of a] by (simp add: stable_def)
      then have "wp (k a) (\<lambda>_ w''. R e w w'') e w'"
        by (rule wp_mono) (rule R_trans [OF step])
      then show ?thesis using Ret by simp
    qed (simp_all add: step)
  qed
qed

lemma stable_andthen: "stable R m \<Longrightarrow> stable R n \<Longrightarrow> stable R (andthen m n)"
  unfolding andthen_def by (rule stable_bind)

lemma stable_defer:
  assumes c: "stable R c" and m: "stable R m"
  shows "stable R (defer_go c m)"
  unfolding stable_def wp_defer
proof (intro allI)
  fix e w
  have "wp m (\<lambda>_ w'. R e w w') e w" using m by (simp add: stable_def)
  then show "wp m (\<lambda>r w'. case r of
        Ret a \<Rightarrow> wp (andthen c (ret a)) (\<lambda>_. R e w) e w'
      | Panic p \<Rightarrow> wp (andthen c (panic_go p :: 'a go)) (\<lambda>_. R e w) e w'
      | OsExit n \<Rightarrow> R e w w') e w"
  proof (rule wp_mono)
    fix r :: "'a outcome" and w'
    assume step: "R e w w'"
    have k: "wp (andthen c x) (\<lambda>_. R e w) e w'" if "stable R x" for x :: "'a go"
    proof -
      have "wp (andthen c x) (\<lambda>_. R e w') e w'"
        using stable_andthen [OF c that] by (simp add: stable_def)
      then show ?thesis by (rule wp_mono) (rule R_trans [OF step])
    qed
    show "case r of
        Ret a \<Rightarrow> wp (andthen c (ret a)) (\<lambda>_. R e w) e w'
      | Panic p \<Rightarrow> wp (andthen c (panic_go p :: 'a go)) (\<lambda>_. R e w) e w'
      | OsExit n \<Rightarrow> R e w w'"
      by (cases r) (simp_all add: k step stable_ret stable_panic)
  qed
qed

lemmas stable_intros =
  stable_ret stable_panic stable_os_Exit stable_never stable_ask stable_bind stable_andthen
  stable_defer stable_if stable_case_option stable_case_sum stable_case_prod stable_Let

end

subsection \<open>Only interacts in a given way\<close>

text \<open>The world grew by interactions that all satisfy the predicate.\<close>

definition extends :: "(event \<Rightarrow> bool) \<Rightarrow> world_rel" where
  "extends A e w w' = (\<exists>evs. trace w' = trace w @ evs \<and> (\<forall>ev \<in> set evs. A ev))"

abbreviation emits :: "(event \<Rightarrow> bool) \<Rightarrow> 'a go \<Rightarrow> bool" where
  "emits A m \<equiv> stable (extends A) m"

interpretation em: world_preorder "extends A" for A
proof unfold_locales
  show "extends A e w w" for e w by (auto simp: extends_def)
  show "extends A e u v \<Longrightarrow> extends A e v w \<Longrightarrow> extends A e u w" for e u v w
    unfolding extends_def
  proof (elim exE conjE)
    fix xs ys
    assume "trace v = trace u @ xs" "\<forall>ev\<in>set xs. A ev" "trace w = trace v @ ys" "\<forall>ev\<in>set ys. A ev"
    then show "\<exists>evs. trace w = trace u @ evs \<and> (\<forall>ev\<in>set evs. A ev)"
      by (intro exI [of _ "xs @ ys"]) auto
  qed
qed

declare em.stable_intros [emits_intros]

lemma emits_emit [emits_intros]: "A ev \<Longrightarrow> emits A (emit ev)"
  by (auto simp: stable_def wp_emit record_event_def extends_def)

lemma emits_modify [emits_intros]: "(\<And>w. trace (f w) = trace w) \<Longrightarrow> emits A (modify f)"
  by (auto simp: stable_def wp_modify extends_def)

lemma emits_log [emits_intros]:
  "emits A (log_at l s)" "emits A (log_info s)" "emits A (log_debug s)"
  "emits A (log_error s x)" "emits A (log_fatal s x)"
  by (auto simp: stable_def wp_rules extends_def)

lemma emits_mono: "emits A m \<Longrightarrow> (\<And>ev. A ev \<Longrightarrow> B ev) \<Longrightarrow> emits B m"
  unfolding stable_def extends_def by (blast intro: wp_mono)

lemma emitsD:
  assumes "emits A m" and "m e w = Some (r, w')"
  obtains evs where "trace w' = trace w @ evs" and "\<forall>ev \<in> set evs. A ev"
  using stableD [OF assms] unfolding extends_def by blast

subsection \<open>The world follows the interactions\<close>

text \<open>No other process ever changes the file.\<close>

definition undisturbed :: "env \<Rightarrow> string \<Rightarrow> bool" where
  "undisturbed e f = (\<forall>h fs. interfere e h fs f = fs f)"

definition touches :: "string \<Rightarrow> event \<Rightarrow> bool" where
  "touches f ev = ((\<exists>c b. ev = EvWrite f c b) \<or> (\<exists>b. ev = EvOpenAppend f b))"

text \<open>
  The bookkeeping every computation respects: the history only grows, the status server
  serves once it was told to, an undisturbed file changes only where the history says it was
  written, and processes and channels are never forgotten.
\<close>

definition journal :: world_rel where
  "journal e w w' =
     (\<exists>evs. trace w' = trace w @ evs
        \<and> serving w' = (serving w \<or> EvServe \<in> set evs)
        \<and> (\<forall>f. undisturbed e f \<longrightarrow> (\<forall>ev \<in> set evs. \<not> touches f ev) \<longrightarrow> files w' f = files w f)
        \<and> next_pid w \<le> next_pid w' \<and> length (chans w) \<le> length (chans w'))"

lemma journal_trans:
  assumes "journal e u v" and "journal e v w"
  shows "journal e u w"
proof -
  obtain xs where xs: "trace v = trace u @ xs" "serving v = (serving u \<or> EvServe \<in> set xs)"
    "\<And>f. undisturbed e f \<Longrightarrow> (\<forall>ev \<in> set xs. \<not> touches f ev) \<Longrightarrow> files v f = files u f"
    "next_pid u \<le> next_pid v" "length (chans u) \<le> length (chans v)"
    using assms(1) unfolding journal_def by auto
  obtain ys where ys: "trace w = trace v @ ys" "serving w = (serving v \<or> EvServe \<in> set ys)"
    "\<And>f. undisturbed e f \<Longrightarrow> (\<forall>ev \<in> set ys. \<not> touches f ev) \<Longrightarrow> files w f = files v f"
    "next_pid v \<le> next_pid w" "length (chans v) \<le> length (chans w)"
    using assms(2) unfolding journal_def by auto
  show ?thesis
    unfolding journal_def using xs ys by (intro exI [of _ "xs @ ys"]) auto
qed

interpretation jr: world_preorder journal
proof unfold_locales
  show "journal e w w" for e w
    unfolding journal_def by (intro exI [of _ "[]"]) simp
qed (rule journal_trans)

declare jr.stable_intros [journal_intros]

lemma journal_record:
  "ev \<noteq> EvServe \<Longrightarrow> journal e w (record_event e ev w)"
  unfolding journal_def record_event_def undisturbed_def
  by (intro exI [of _ "[ev]"]) simp

lemma journal_emit [journal_intros]: "ev \<noteq> EvServe \<Longrightarrow> stable journal (emit ev)"
  by (simp add: stable_def wp_emit journal_record)

text \<open>A change of the files that is recorded right away.\<close>

lemma journal_touch:
  assumes "ev \<noteq> EvServe" and "touches f ev" and "\<And>g. g \<noteq> f \<Longrightarrow> fs g = files w g"
  shows "journal e w (record_event e ev (w\<lparr>files := fs\<rparr>))"
  unfolding journal_def record_event_def
proof (intro exI [of _ "[ev]"] conjI allI impI)
  fix g assume "undisturbed e g" "\<forall>ev' \<in> set [ev]. \<not> touches g ev'"
  moreover from this assms(2) have "g \<noteq> f" by auto
  ultimately show "files ((w\<lparr>files := fs\<rparr>)\<lparr>trace := trace (w\<lparr>files := fs\<rparr>) @ [ev],
      files := interfere e (trace (w\<lparr>files := fs\<rparr>) @ [ev]) (files (w\<lparr>files := fs\<rparr>))\<rparr>) g = files w g"
    using assms(3) by (simp add: undisturbed_def)
qed (use assms(1) in auto)

lemma journal_modify [journal_intros]:
  assumes "\<And>w. trace (f w) = trace w" and "\<And>w. serving (f w) = serving w"
    and "\<And>w. files (f w) = files w" and "\<And>w. next_pid w \<le> next_pid (f w)"
    and "\<And>w. length (chans w) \<le> length (chans (f w))"
  shows "stable journal (modify f)"
  using assms by (auto simp: stable_def wp_modify journal_def)

lemma journal_log [journal_intros]:
  "stable journal (log_at l s)" "stable journal (log_info s)" "stable journal (log_debug s)"
  "stable journal (log_error s x)" "stable journal (log_fatal s x)"
  by (auto simp: stable_def wp_rules journal_def)

text \<open>An undisturbed file that no interaction touches keeps its contents.\<close>

lemma journal_file:
  assumes "stable journal m" and "emits (\<lambda>ev. \<not> touches f ev) m"
    and "undisturbed e f" and "m e w = Some (r, w')"
  shows "files w' f = files w f"
proof -
  obtain evs where t: "trace w' = trace w @ evs" and n: "\<forall>ev \<in> set evs. \<not> touches f ev"
    using emitsD [OF assms(2,4)] .
  obtain evs' where "trace w' = trace w @ evs'"
    and "(\<forall>ev \<in> set evs'. \<not> touches f ev) \<longrightarrow> files w' f = files w f"
    using stableD [OF assms(1,4)] assms(3) unfolding journal_def by blast
  with t n show ?thesis by simp
qed

section \<open>Polling loops\<close>

text \<open>
  A loop whose body ends it with a result (\<open>Inl\<close>), goes round with a new state (\<open>Inr\<close>) or never
  comes back (\<open>None\<close>): run with fuel, and as the states reached by going round.
\<close>

fun fuel_loop :: "('s \<Rightarrow> ('r + 's) option) \<Rightarrow> nat \<Rightarrow> 's \<Rightarrow> 'r option" where
  "fuel_loop body 0 s = None"
| "fuel_loop body (Suc k) s =
     (case body s of
        None \<Rightarrow> None
      | Some (Inl r) \<Rightarrow> Some r
      | Some (Inr s') \<Rightarrow> fuel_loop body k s')"

fun round_state :: "('s \<Rightarrow> ('r + 's) option) \<Rightarrow> nat \<Rightarrow> 's \<Rightarrow> 's option" where
  "round_state body 0 s = Some s"
| "round_state body (Suc n) s =
     (case body s of Some (Inr s') \<Rightarrow> round_state body n s' | _ \<Rightarrow> None)"

lemma fuel_loop_iff:
  "fuel_loop body k s = Some r \<longleftrightarrow>
     (\<exists>n<k. \<exists>t. round_state body n s = Some t \<and> body t = Some (Inl r))"
proof (induction k arbitrary: s)
  case (Suc k)
  have "(\<exists>n<Suc k. \<exists>t. round_state body n s = Some t \<and> body t = Some (Inl r)) \<longleftrightarrow>
      body s = Some (Inl r) \<or>
      (\<exists>n<k. \<exists>t. round_state body (Suc n) s = Some t \<and> body t = Some (Inl r))"
    by (auto simp: Ex_less_Suc2)
  then show ?case using Suc by (auto split: option.splits sum.splits)
qed simp

lemma round_state_snoc:
  "round_state body (Suc n) s =
     (case round_state body n s of
        None \<Rightarrow> None
      | Some t \<Rightarrow> (case body t of Some (Inr s') \<Rightarrow> Some s' | _ \<Rightarrow> None))"
proof (induction n arbitrary: s)
  case (Suc n)
  show ?case
  proof (cases "body s")
    case (Some x)
    then show ?thesis using Suc.IH by (cases x) simp_all
  qed simp
qed (simp split: option.splits sum.splits)

locale polling_loop =
  fixes body :: "'s \<Rightarrow> ('r + 's) option" and loop :: "'s \<Rightarrow> 'r option"
  assumes loop_unfold: "loop s = (case body s of
      None \<Rightarrow> None | Some (Inl r) \<Rightarrow> Some r | Some (Inr s') \<Rightarrow> loop s')"
    and loop_fuel: "loop s = Some r \<Longrightarrow> \<exists>k. fuel_loop body k s = Some r"
begin

lemma fuel_loop_sound: "fuel_loop body k s = Some r \<Longrightarrow> loop s = Some r"
proof (induction k arbitrary: s)
  case (Suc k)
  then show ?case by (subst loop_unfold) (auto split: option.splits sum.splits)
qed simp

text \<open>The loop returns exactly when some round ends it.\<close>

lemma loop_iff:
  "loop s = Some r \<longleftrightarrow> (\<exists>n t. round_state body n s = Some t \<and> body t = Some (Inl r))"
  using loop_fuel fuel_loop_sound fuel_loop_iff by (metis lessI)

text \<open>It runs for ever when an invariant of the rounds keeps the body from ending it.\<close>

lemma loop_diverges:
  assumes "I s" and "\<And>t. I t \<Longrightarrow> \<exists>t'. body t = Some (Inr t') \<and> I t'"
  shows "loop s = None"
proof -
  have "\<exists>t. round_state body n s = Some t \<and> I t" for n
  proof (induction n)
    case (Suc n)
    then show ?case using assms(2) unfolding round_state_snoc by fastforce
  qed (simp add: assms(1))
  then have "\<not> (\<exists>n t. round_state body n s = Some t \<and> body t = Some (Inl r))" for r
    using assms(2) by (metis Inl_Inr_False option.inject)
  then show ?thesis using loop_iff by (metis not_None_eq)
qed

text \<open>It returns when a measure counts the rounds it can still go.\<close>

lemma loop_returns:
  assumes "I s" and "\<And>t. I t \<Longrightarrow> body t \<noteq> None"
    and "\<And>t t'. I t \<Longrightarrow> body t = Some (Inr t') \<Longrightarrow> I t' \<and> m t' < (m t :: nat)"
  shows "\<exists>r. loop s = Some r"
  using assms(1)
proof (induction "m s" arbitrary: s rule: less_induct)
  case less
  show ?case
  proof (cases "body s")
    case None
    then show ?thesis using less.prems assms(2) by blast
  next
    case (Some x)
    show ?thesis
    proof (cases x)
      case (Inr t)
      then have "\<exists>r. loop t = Some r" using less assms(3) Some by blast
      then show ?thesis using Some Inr loop_unfold [of s] by simp
    qed (simp add: loop_unfold [of s] Some)
  qed
qed

end

text \<open>How often the computation slept for a given time.\<close>

definition sleeps :: "duration \<Rightarrow> event list \<Rightarrow> nat" where
  "sleeps d evs = length (filter (\<lambda>ev. ev = EvSleep d) evs)"

lemma sleeps_append [simp]: "sleeps d (xs @ ys) = sleeps d xs + sleeps d ys"
  by (simp add: sleeps_def)

lemma sleeps_simps [simp]: "sleeps d [] = 0" "sleeps d [EvSleep d] = 1"
  by (simp_all add: sleeps_def)

lemma sleeps_0: "(\<forall>ev \<in> set evs. ev \<noteq> EvSleep d) \<Longrightarrow> sleeps d evs = 0"
  by (auto simp: sleeps_def)

subsection \<open>Leaves the processes alone\<close>

text \<open>Neither the starter's command nor the channels nor the processes change.\<close>

definition quiet :: world_rel where
  "quiet e w w' = (starter_mysqlCmd w' = starter_mysqlCmd w \<and> chans w' = chans w \<and>
     next_pid w' = next_pid w)"

interpretation qt: world_preorder quiet
  by unfold_locales (auto simp: quiet_def)

declare qt.stable_intros [quiet_intros]

lemma quiet_emit [quiet_intros]: "stable quiet (emit ev)"
  by (simp add: stable_def wp_emit quiet_def record_event_def)

lemma quiet_modify [quiet_intros]:
  "(\<And>w. starter_mysqlCmd (f w) = starter_mysqlCmd w) \<Longrightarrow> (\<And>w. chans (f w) = chans w) \<Longrightarrow>
   (\<And>w. next_pid (f w) = next_pid w) \<Longrightarrow> stable quiet (modify f)"
  by (simp add: stable_def wp_modify quiet_def)

lemma quiet_log [quiet_intros]:
  "stable quiet (log_at l s)" "stable quiet (log_info s)" "stable quiet (log_debug s)"
  "stable quiet (log_error s x)" "stable quiet (log_fatal s x)"
  by (auto simp: stable_def wp_rules quiet_def)

subsection \<open>Done in order\<close>

text \<open>
  Every interaction of the kind \<open>B\<close> comes after interactions that meet all the needs \<open>N\<close>.
\<close>

definition preceded :: "(event \<Rightarrow> bool) \<Rightarrow> (event \<Rightarrow> bool) set \<Rightarrow> world_rel" where
  "preceded B N e w w' =
     (\<exists>evs. trace w' = trace w @ evs \<and>
        (\<forall>xs ev ys. evs = xs @ ev # ys \<longrightarrow> B ev \<longrightarrow> (\<forall>need \<in> N. \<exists>x \<in> set xs. need x)))"

lemma preceded_append:
  assumes "\<forall>xs ev ys. us = xs @ ev # ys \<longrightarrow> B ev \<longrightarrow> (\<forall>need \<in> N. \<exists>x \<in> set xs. need x)"
    and "\<forall>xs ev ys. vs = xs @ ev # ys \<longrightarrow> B ev \<longrightarrow> (\<forall>need \<in> N. \<exists>x \<in> set us \<union> set xs. need x)"
  shows "\<forall>xs ev ys. us @ vs = xs @ ev # ys \<longrightarrow> B ev \<longrightarrow> (\<forall>need \<in> N. \<exists>x \<in> set xs. need x)"
proof (intro allI impI)
  fix xs ev ys
  assume eq: "us @ vs = xs @ ev # ys" and B: "B ev"
  from eq consider zs where "xs = us @ zs" "vs = zs @ ev # ys"
    | zs where "us = xs @ ev # zs"
    unfolding append_eq_append_conv2 append_eq_Cons_conv by (elim exE disjE conjE) auto
  then show "\<forall>need \<in> N. \<exists>x \<in> set xs. need x"
  proof cases
    case 1
    then have "set xs = set us \<union> set zs" by simp
    with assms(2) B 1(2) show ?thesis by blast
  next
    case 2
    with assms(1) B show ?thesis by blast
  qed
qed

interpretation pd: world_preorder "preceded B N" for B N
proof unfold_locales
  show "preceded B N e w w" for e w by (simp add: preceded_def)
  fix e u v w
  assume "preceded B N e u v" and "preceded B N e v w"
  then obtain us vs where
    us: "trace v = trace u @ us" "\<forall>xs ev ys. us = xs @ ev # ys \<longrightarrow> B ev \<longrightarrow> (\<forall>need \<in> N. \<exists>x \<in> set xs. need x)" and
    vs: "trace w = trace v @ vs" "\<forall>xs ev ys. vs = xs @ ev # ys \<longrightarrow> B ev \<longrightarrow> (\<forall>need \<in> N. \<exists>x \<in> set xs. need x)"
    unfolding preceded_def by blast
  have "\<forall>xs ev ys. us @ vs = xs @ ev # ys \<longrightarrow> B ev \<longrightarrow> (\<forall>need \<in> N. \<exists>x \<in> set xs. need x)"
    by (rule preceded_append [OF us(2)]) (use vs(2) in blast)
  then show "preceded B N e u w" unfolding preceded_def using us(1) vs(1) by auto
qed

declare pd.stable_intros [order_intros]

lemma preceded_emits:
  assumes "emits (\<lambda>ev. \<not> B ev) m"
  shows "stable (preceded B N) m"
  unfolding stable_def
proof (intro allI wpI)
  fix e w r w'
  assume "m e w = Some (r, w')"
  then obtain evs where "trace w' = trace w @ evs" "\<forall>ev \<in> set evs. \<not> B ev"
    using emitsD [OF assms] by blast
  then show "preceded B N e w w'" unfolding preceded_def by (intro exI [of _ evs]) simp
qed

text \<open>Once the needs are met anything may follow.\<close>

lemma preceded_after:
  assumes "trace v = trace u @ us" and "\<forall>ev \<in> set us. \<not> B ev" and "\<forall>need \<in> N. \<exists>x \<in> set us. need x"
    and "trace w = trace v @ vs"
  shows "preceded B N e u w"
proof -
  have "\<forall>xs ev ys. us @ vs = xs @ ev # ys \<longrightarrow> B ev \<longrightarrow> (\<forall>need \<in> N. \<exists>x \<in> set xs. need x)"
    by (rule preceded_append) (use assms(2,3) in \<open>simp, blast?\<close>)+
  then show ?thesis unfolding preceded_def using assms(1,4) by auto
qed

lemma precededD:
  assumes "preceded B N e w w'" and "trace w' = trace w @ xs @ ev # ys" and "B ev"
  shows "\<forall>need \<in> N. \<exists>x \<in> set xs. need x"
  using assms unfolding preceded_def by auto

lemma journal_grows: "stable journal m \<Longrightarrow> m e w = Some (r, w') \<Longrightarrow> \<exists>evs. trace w' = trace w @ evs"
  using stableD [of journal m e w r w'] unfolding journal_def by blast

lemma case_option_bind:
  "bind_go (case x of None \<Rightarrow> m | Some y \<Rightarrow> k y) h = (case x of None \<Rightarrow> bind_go m h | Some y \<Rightarrow> bind_go (k y) h)"
  by (simp split: option.splits)

lemma case_prod_bind: "bind_go (case p of (a, b) \<Rightarrow> f a b) h = (case p of (a, b) \<Rightarrow> bind_go (f a b) h)"
  by (simp split: prod.splits)

text \<open>A continuation needs to keep the relation only for the results that can come out.\<close>

context world_preorder
begin

lemma stable_bind_post:
  assumes "stable R m" and post: "\<And>e w a w'. m e w = Some (Ret a, w') \<Longrightarrow> P a" and "\<And>a. P a \<Longrightarrow> stable R (k a)"
  shows "stable R (bind_go m k)"
proof -
  have "bind_go m k = bind_go m (\<lambda>a. if P a then k a else never)"
    by (auto simp: bind_go_def fun_eq_iff post split: option.splits outcome.splits)
  then show ?thesis using assms(1,3) by (auto intro!: stable_bind stable_never)
qed

end

section \<open>Coming back\<close>

definition always_returns :: "env \<Rightarrow> 'a go \<Rightarrow> bool" where
  "always_returns e m = (\<forall>w. returns m e w)"

lemma always_returnsD: "always_returns e m \<Longrightarrow> \<exists>r w'. m e w = Some (r, w')"
  by (auto simp: always_returns_def returns_def)

lemma returns_bind:
  assumes "returns m e w" and "\<And>a w'. m e w = Some (Ret a, w') \<Longrightarrow> returns (k a) e w'"
  shows "returns (bind_go m k) e w"
  using assms by (auto simp: returns_def bind_go_def split: option.splits outcome.splits)

lemma return_basic [return_intros]:
  "always_returns e (ret a)" "always_returns e (panic_go p)" "always_returns e (os_Exit n)" "always_returns e (ask f)"
  "always_returns e (modify g)" "always_returns e (emit ev)" "always_returns e (log_at l s)"
  "always_returns e (log_info s)" "always_returns e (log_debug s)" "always_returns e (log_error s x)"
  "always_returns e (log_fatal s x)"
  by (simp_all add: always_returns_def returns_def go_defs)

lemma return_bind [return_intros]:
  "always_returns e m \<Longrightarrow> (\<And>a. always_returns e (k a)) \<Longrightarrow> always_returns e (bind_go m k)"
  "always_returns e u \<Longrightarrow> always_returns e n \<Longrightarrow> always_returns e (andthen u n)"
  by (simp_all add: always_returns_def returns_bind andthen_def)

lemma return_defer [return_intros]:
  fixes m :: "'a go"
  assumes "always_returns e c" and "always_returns e m"
  shows "always_returns e (defer_go c m)"
proof -
  have "always_returns e (andthen c (ret a))" "always_returns e (andthen c (panic_go p :: 'a go))" for a :: 'a and p
    using assms(1) by (auto intro: return_intros)
  then show ?thesis
    using assms(2) by (auto simp: always_returns_def returns_def defer_go_def split: option.splits outcome.splits)
qed

lemma return_cases [return_intros]:
  "(b \<Longrightarrow> always_returns e m) \<Longrightarrow> (\<not> b \<Longrightarrow> always_returns e n) \<Longrightarrow> always_returns e (if b then m else n)"
  "(x = None \<Longrightarrow> always_returns e m) \<Longrightarrow> (\<And>y. x = Some y \<Longrightarrow> always_returns e (f y)) \<Longrightarrow>
   always_returns e (case x of None \<Rightarrow> m | Some y \<Rightarrow> f y)"
  "(\<And>a. s = Inl a \<Longrightarrow> always_returns e (g a)) \<Longrightarrow> (\<And>b. s = Inr b \<Longrightarrow> always_returns e (h b)) \<Longrightarrow>
   always_returns e (case s of Inl a \<Rightarrow> g a | Inr b \<Rightarrow> h b)"
  "(\<And>a b. p = (a, b) \<Longrightarrow> always_returns e (k a b)) \<Longrightarrow> always_returns e (case p of (a, b) \<Rightarrow> k a b)"
  "(\<And>y. always_returns e (l y)) \<Longrightarrow> always_returns e (let y = z in l y)"
  by (simp_all split: option.splits sum.splits prod.splits)

end
