(* ===== verification/Os_Helper.thy ===== *)
theory Os_Helper
  imports Go_Logic
begin

text \<open>
  \<^verbatim>\<open>os_helper/os_helper.go\<close>: commands, files, sleeping and signalling, on top of the
  standard library's file and process operations. The laws of the file operations are stated
  as the locale \<open>file_store\<close> and interpreted on the two operations the start manager uses.
\<close>

section \<open>Standard library operations\<close>

definition os_Stat :: "string \<Rightarrow> bool go" where
  "os_Stat f =
     bind_go (ask (\<lambda>e w. \<not> stat_fails e (trace w) f \<and> files w f \<noteq> None)) (\<lambda>ok.
     andthen (emit (EvStat f ok)) (ret ok))"

definition ioutil_ReadFile :: "string \<Rightarrow> (string \<times> go_error option) go" where
  "ioutil_ReadFile f =
     bind_go (ask (\<lambda>e w.
       case read_fails e (trace w) f of
         Some er \<Rightarrow> ('''', Some er)
       | None \<Rightarrow> (case files w f of
           None \<Rightarrow> ('''', Some (ErrorString (''open '' @ f @ '': no such file or directory'')))
         | Some c \<Rightarrow> (c, None)))) (\<lambda>r.
     andthen (emit (EvRead f (snd r = None))) (ret r))"

text \<open>A write that fails may already have truncated the file.\<close>

definition ioutil_WriteFile :: "string \<Rightarrow> string \<Rightarrow> go_error option go" where
  "ioutil_WriteFile f contents =
     bind_go (ask (\<lambda>e w. write_fails e (trace w) f)) (\<lambda>bad.
     case bad of
       None \<Rightarrow>
         andthen (modify (\<lambda>w. w\<lparr>files := (files w)(f \<mapsto> contents)\<rparr>))
         (andthen (emit (EvWrite f contents True)) (ret None))
     | Some (er, left) \<Rightarrow>
         andthen (modify (\<lambda>w. case left of None \<Rightarrow> w
                              | Some part \<Rightarrow> w\<lparr>files := (files w)(f \<mapsto> part)\<rparr>))
         (andthen (emit (EvWrite f contents False)) (ret (Some er))))"

text \<open>
  A receive on the channel \<open>c\<close> (\<open>None\<close> is the nil channel, which is never ready): polled (\<^verbatim>\<open>select\<close> with a \<^verbatim>\<open>default\<close>), blocking, and in
  the \<^verbatim>\<open>select\<close> of the start manager next to the context's channel.
\<close>

definition chan_take :: "nat option \<Rightarrow> unit go" where
  "chan_take c =
     (case c of None \<Rightarrow> ret ()
      | Some i \<Rightarrow> modify (\<lambda>w. w\<lparr>chans := (chans w)[i := ChDrained]\<rparr>))"

definition chan_peek :: "nat option \<Rightarrow> chan_state go" where
  "chan_peek c =
     ask (\<lambda>e w. case c of None \<Rightarrow> ChDrained
              | Some i \<Rightarrow> (if i < length (chans w) then chans w ! i else ChDrained))"

definition chan_poll :: "nat option \<Rightarrow> go_error option option go" where
  "chan_poll c =
     bind_go (chan_peek c) (\<lambda>st.
     bind_go (ask (\<lambda>e w. case st of
                ChWaiting pid \<Rightarrow> exited e (trace w) pid
              | ChReady r \<Rightarrow> Some r
              | ChDrained \<Rightarrow> None)) (\<lambda>got.
     andthen (if got = None then ret () else chan_take c)
     (andthen (emit (EvPoll c (got \<noteq> None))) (ret got))))"

definition chan_recv :: "nat option \<Rightarrow> go_error option go" where
  "chan_recv c =
     bind_go (chan_peek c) (\<lambda>st.
     bind_go (ask (\<lambda>e w. case st of
                ChWaiting pid \<Rightarrow> awaited e (trace w) pid
              | ChReady r \<Rightarrow> Some r
              | ChDrained \<Rightarrow> None)) (\<lambda>got.
     case got of
       None \<Rightarrow> never
     | Some r \<Rightarrow> andthen (chan_take c) (andthen (emit (EvRecv c)) (ret r))))"

definition chan_select :: "nat option \<Rightarrow> go_error option option go" where
  "chan_select c =
     bind_go (chan_peek c) (\<lambda>st.
     bind_go (ask (\<lambda>e w. selects e (trace w) c)) (\<lambda>sel.
     let got = (case (st, sel) of
                  (_, SelDone) \<Rightarrow> Some None
                | (ChWaiting _, SelExit r) \<Rightarrow> Some (Some r)
                | (ChReady r, _) \<Rightarrow> Some (Some r)
                | _ \<Rightarrow> None)
     in case got of
          None \<Rightarrow> never
        | Some None \<Rightarrow> andthen (emit (EvSelect c)) (ret None)
        | Some (Some r) \<Rightarrow>
            andthen (chan_take c) (andthen (emit (EvSelect c)) (ret (Some r)))))"

section \<open>OsHelperImpl\<close>

definition RunCommand :: "string \<Rightarrow> string list \<Rightarrow> (string \<times> go_error option) go" where
  "RunCommand executable args =
     bind_go (ask (\<lambda>e w. command e (trace w) executable args)) (\<lambda>(out, err).
     andthen (emit (EvRun executable args err))
     (case err of
        Some x \<Rightarrow> ret (out, Some x)
      | None \<Rightarrow> ret (out, None)))"

definition open_append :: "string \<Rightarrow> go_error option go" where
  "open_append f =
     bind_go (ask (\<lambda>e w. append_fails e (trace w) f)) (\<lambda>bad.
     andthen (if bad = None
              then modify (\<lambda>w. w\<lparr>files := (case files w f of
                       None \<Rightarrow> (files w)(f \<mapsto> '''') | Some _ \<Rightarrow> files w)\<rparr>)
              else ret ())
     (andthen (emit (EvOpenAppend f (bad = None))) (ret bad)))"

definition cmd_Start :: "cmd \<Rightarrow> (cmd \<times> go_error option) go" where
  "cmd_Start c =
     bind_go (ask (\<lambda>e w. (spawn_fails e (trace w) (cmd_path c) (cmd_args c), next_pid w)))
     (\<lambda>(bad, pid).
     case bad of
       Some x \<Rightarrow>
         andthen (emit (EvStart (cmd_path c) (cmd_args c) None)) (ret (c, Some x))
     | None \<Rightarrow>
         andthen (modify (\<lambda>w. w\<lparr>next_pid := Suc pid\<rparr>))
         (andthen (emit (EvStart (cmd_path c) (cmd_args c) (Some pid)))
         (ret (c\<lparr>cmd_process := Some pid\<rparr>, None))))"

definition StartCommand ::
  "string \<Rightarrow> string \<Rightarrow> string list \<Rightarrow> (cmd option \<times> go_error option) go" where
  "StartCommand logFileName executable args =
     bind_go (open_append logFileName) (\<lambda>err.
     case err of
       Some x \<Rightarrow> ret (None, errors_Wrapf (Some x)
                   ''error logging output for command %q to filename %q''
                   [AStr executable, AStr logFileName])
     | None \<Rightarrow>
         bind_go (cmd_Start \<lparr>cmd_path = executable, cmd_args = args, cmd_process = None\<rparr>)
         (\<lambda>(cmd, startErr).
         ret (Some cmd, errors_Wrapf startErr ''error starting %q'' [AStr executable])))"

definition nil_deref :: "'a go" where
  "nil_deref = panic_go (Some (ErrorString
     ''runtime error: invalid memory address or nil pointer dereference''))"

definition WaitForCommand :: "cmd option \<Rightarrow> nat go" where
  "WaitForCommand cmd =
     (case cmd of
        None \<Rightarrow> nil_deref
      | Some c \<Rightarrow>
          bind_go (ask (\<lambda>e w. length (chans w))) (\<lambda>ch.
          andthen (modify (\<lambda>w. w\<lparr>chans := chans w @
                     [case cmd_process c of
                        Some pid \<Rightarrow> ChWaiting pid
                      | None \<Rightarrow> ChReady (Some (ErrorString ''exec: not started''))]\<rparr>))
          (ret ch)))"

definition FileExists :: "string \<Rightarrow> bool go" where
  "FileExists filename = os_Stat filename"

definition ReadFile :: "string \<Rightarrow> (string \<times> go_error option) go" where
  "ReadFile filename =
     bind_go (ioutil_ReadFile filename) (\<lambda>(b, err).
     case err of
       Some x \<Rightarrow> ret ('''', Some x)
     | None \<Rightarrow> ret (b, None))"

definition WriteStringToFile :: "string \<Rightarrow> string \<Rightarrow> go_error option go" where
  "WriteStringToFile filename contents = ioutil_WriteFile filename contents"

definition Sleep :: "duration \<Rightarrow> unit go" where
  "Sleep d = emit (EvSleep d)"

definition KillCommand :: "cmd option \<Rightarrow> int \<Rightarrow> go_error option go" where
  "KillCommand cmd signal =
     (case cmd of
        None \<Rightarrow> ret (Some (ErrorString ''process-was-not-started''))
      | Some c \<Rightarrow>
          (case cmd_process c of
             None \<Rightarrow> ret (Some (ErrorString ''process-was-not-started''))
           | Some pid \<Rightarrow>
               bind_go (ask (\<lambda>e w. signal_fails e (trace w) pid)) (\<lambda>err.
               andthen (emit (EvKill pid signal err))
               (ret (errors_Wrap err ''unable-to-kill-process'')))))"

lemmas os_helper_defs [go_defs, run_rules] =
  os_Stat_def ioutil_ReadFile_def ioutil_WriteFile_def chan_take_def chan_peek_def
  chan_poll_def chan_recv_def chan_select_def RunCommand_def open_append_def cmd_Start_def
  StartCommand_def nil_deref_def WaitForCommand_def FileExists_def ReadFile_def
  WriteStringToFile_def Sleep_def KillCommand_def

section \<open>Footprints\<close>

text \<open>What each operation can do to the outside, for any predicate on interactions.\<close>

lemma emits_os [emits_intros]:
  "(\<And>b. A (EvStat f b)) \<Longrightarrow> emits A (os_Stat f)"
  "(\<And>b. A (EvStat f b)) \<Longrightarrow> emits A (FileExists f)"
  "(\<And>b. A (EvRead f b)) \<Longrightarrow> emits A (ioutil_ReadFile f)"
  "(\<And>b. A (EvRead f b)) \<Longrightarrow> emits A (ReadFile f)"
  "(\<And>err. A (EvRun x args err)) \<Longrightarrow> emits A (RunCommand x args)"
  "A (EvSleep d) \<Longrightarrow> emits A (Sleep d)"
  "emits A nil_deref" "emits A (chan_peek c)" "emits A (WaitForCommand cmd)"
  "(\<And>p err. A (EvKill p s err)) \<Longrightarrow> emits A (KillCommand cmd s)"
  by (unfold os_helper_defs, (intro emits_intros; simp)+)

lemma emits_write [emits_intros]:
  "(\<And>b. A (EvWrite f c b)) \<Longrightarrow> emits A (ioutil_WriteFile f c)"
  "(\<And>b. A (EvWrite f c b)) \<Longrightarrow> emits A (WriteStringToFile f c)"
  by (unfold os_helper_defs, (intro emits_intros; simp split: option.splits)+)

lemma emits_start [emits_intros]:
  "(\<And>b. A (EvOpenAppend l b)) \<Longrightarrow> (\<And>p. A (EvStart x args p)) \<Longrightarrow> emits A (StartCommand l x args)"
  by (unfold os_helper_defs, (intro emits_intros; simp)+)

lemma emits_chan [emits_intros]:
  "emits A (chan_take c)"
  "(\<And>b. A (EvPoll c b)) \<Longrightarrow> emits A (chan_poll c)"
  "A (EvRecv c) \<Longrightarrow> emits A (chan_recv c)"
  "A (EvSelect c) \<Longrightarrow> emits A (chan_select c)"
  by (unfold os_helper_defs, (intro emits_intros; simp)+)

text \<open>Every operation keeps the world in step with the history.\<close>

lemma journal_write [journal_intros]:
  "stable journal (ioutil_WriteFile f c)" "stable journal (WriteStringToFile f c)"
  "stable journal (open_append f)"
  unfolding WriteStringToFile_def
  by (auto simp: ioutil_WriteFile_def open_append_def stable_def wp_rules journal_record touches_def
      intro!: journal_touch [where f = f] split: option.splits)

lemma journal_os [journal_intros]:
  "stable journal (os_Stat f)" "stable journal (FileExists f)" "stable journal (ioutil_ReadFile f)"
  "stable journal (ReadFile f)" "stable journal (RunCommand x args)" "stable journal (Sleep d)"
  "stable journal nil_deref" "stable journal (chan_peek c)" "stable journal (chan_take c)"
  "stable journal (WaitForCommand cmd)" "stable journal (KillCommand cmd s)"
  by (unfold os_helper_defs, (intro journal_intros; simp)+)

lemma journal_cmd_Start [journal_intros]: "stable journal (cmd_Start c)"
  unfolding cmd_Start_def stable_def
  by (auto simp: wp_rules split: option.splits intro!: journal_trans [OF _ journal_record])
    (auto simp: journal_def)

lemma journal_chan [journal_intros]:
  "stable journal (chan_poll c)" "stable journal (chan_recv c)" "stable journal (chan_select c)"
  "stable journal (StartCommand l x args)"
  by (unfold chan_poll_def chan_recv_def chan_select_def StartCommand_def,
      (intro journal_intros; simp)+)

lemma quiet_os [quiet_intros]:
  "stable quiet (os_Stat f)" "stable quiet (FileExists f)" "stable quiet (ioutil_ReadFile f)"
  "stable quiet (ReadFile f)" "stable quiet (ioutil_WriteFile f c)"
  "stable quiet (WriteStringToFile f c)" "stable quiet (RunCommand x args)"
  "stable quiet (Sleep d)" "stable quiet nil_deref" "stable quiet (chan_peek ch)"
  "stable quiet (KillCommand cmd s)"
  by (unfold os_helper_defs, (intro quiet_intros; simp split: option.splits)+)

section \<open>The laws of the file operations\<close>

text \<open>
  A file is steady when only this program changes it and looking at it does not fail; that
  is what the components that keep state in files rely on. A provider of the three operations
  promises to leave all other steady files alone.
\<close>

definition steady :: "env \<Rightarrow> string \<Rightarrow> bool" where
  "steady e f = (undisturbed e f \<and> (\<forall>h. \<not> stat_fails e h f) \<and> (\<forall>h. read_fails e h f = None))"

definition same_files :: "env \<Rightarrow> world \<Rightarrow> world \<Rightarrow> bool" where
  "same_files e w w' = (\<forall>g. steady e g \<longrightarrow> files w' g = files w g)"

locale file_store =
  fixes exists_op :: "string \<Rightarrow> bool go"
    and read_op :: "string \<Rightarrow> (string \<times> go_error option) go"
    and write_op :: "string \<Rightarrow> string \<Rightarrow> go_error option go"
  assumes exists_law: "steady e f \<Longrightarrow>
      \<exists>w'. exists_op f e w = Some (Ret (files w f \<noteq> None), w') \<and> same_files e w w'"
    and read_law: "steady e f \<Longrightarrow> files w f = Some c \<Longrightarrow>
      \<exists>w'. read_op f e w = Some (Ret (c, None), w') \<and> same_files e w w'"
    and write_law: "steady e f \<Longrightarrow> write_op f c e w = Some (Ret None, w') \<Longrightarrow>
      files w' f = Some c \<and> (\<forall>g. steady e g \<longrightarrow> g \<noteq> f \<longrightarrow> files w' g = files w g)"
    and write_total: "\<exists>r w'. write_op f c e w = Some (Ret r, w')"
begin

text \<open>What was written is found and read back, also after other looks at files.\<close>

lemma write_then_read:
  assumes "steady e f" and "write_op f c e w = Some (Ret None, w1)" and "same_files e w1 w2"
  shows "\<exists>w3 w4. exists_op f e w2 = Some (Ret True, w3) \<and> read_op f e w3 = Some (Ret (c, None), w4)"
proof -
  have c: "files w2 f = Some c" using assms write_law by (simp add: same_files_def)
  then obtain w3 where x: "exists_op f e w2 = Some (Ret True, w3)" "same_files e w2 w3"
    using exists_law [OF assms(1), of w2] by auto
  then have "files w3 f = Some c" using c assms(1) by (simp add: same_files_def)
  then show ?thesis using read_law [OF assms(1)] x(1) by blast
qed

text \<open>Reading one file after finding another.\<close>

lemma exists_then_read:
  assumes "steady e f" "steady e g" and "files w g = Some c"
  shows "\<exists>w1 w2. exists_op f e w = Some (Ret (files w f \<noteq> None), w1) \<and> same_files e w w1 \<and>
     read_op g e w1 = Some (Ret (c, None), w2) \<and> same_files e w w2"
proof -
  obtain w1 where 1: "exists_op f e w = Some (Ret (files w f \<noteq> None), w1)" "same_files e w w1"
    using exists_law [OF assms(1)] by blast
  then have "files w1 g = Some c" using assms(2,3) by (simp add: same_files_def)
  then obtain w2 where "read_op g e w1 = Some (Ret (c, None), w2)" "same_files e w1 w2"
    using read_law [OF assms(2)] by blast
  with 1 show ?thesis by (force simp: same_files_def)
qed

end

interpretation fs: file_store FileExists ReadFile WriteStringToFile
proof unfold_locales
  show "steady e f \<Longrightarrow> \<exists>w'. FileExists f e w = Some (Ret (files w f \<noteq> None), w') \<and> same_files e w w'" for e f w
    by (auto simp: go_defs record_event_def steady_def same_files_def undisturbed_def)
  show "steady e f \<Longrightarrow> files w f = Some c \<Longrightarrow>
      \<exists>w'. ReadFile f e w = Some (Ret (c, None), w') \<and> same_files e w w'" for e f w c
    by (auto simp: go_defs record_event_def steady_def same_files_def undisturbed_def)
  show "steady e f \<Longrightarrow> WriteStringToFile f c e w = Some (Ret None, w') \<Longrightarrow>
      files w' f = Some c \<and> (\<forall>g. steady e g \<longrightarrow> g \<noteq> f \<longrightarrow> files w' g = files w g)" for e f c w w'
    by (auto simp: go_defs record_event_def steady_def undisturbed_def split: option.splits)
  show "\<exists>r w'. WriteStringToFile f c e w = Some (Ret r, w')" for f c e w
    by (auto simp: go_defs split: option.splits)
qed

section \<open>Which operations come back\<close>

text \<open>All but the receive from a channel and the \<^verbatim>\<open>select\<close>.\<close>

lemma return_os [return_intros]:
  "always_returns e (os_Stat f)" "always_returns e (FileExists f)" "always_returns e (ioutil_ReadFile f)"
  "always_returns e (ReadFile f)" "always_returns e (ioutil_WriteFile f c)" "always_returns e (WriteStringToFile f c)"
  "always_returns e (RunCommand x args)" "always_returns e (Sleep d)" "always_returns e nil_deref"
  "always_returns e (chan_peek ch)" "always_returns e (chan_take ch)" "always_returns e (chan_poll ch)"
  "always_returns e (WaitForCommand cmd)" "always_returns e (KillCommand cmd s)" "always_returns e (StartCommand l x args)"
  by (unfold os_helper_defs, (intro return_intros; simp)+)

lemma StartCommand_ok:
  assumes "StartCommand l x args e w = Some (Ret (c, None), w')"
  shows "c = Some \<lparr>cmd_path = x, cmd_args = args, cmd_process = Some (next_pid w)\<rparr> \<and>
     trace w' = trace w @ [EvOpenAppend l True, EvStart x args (Some (next_pid w))] \<and>
     next_pid w' = Suc (next_pid w) \<and> chans w' = chans w"
  using assms by (auto simp: go_defs record_event_def split: option.splits if_splits)

lemma StartCommand_run:
  "\<exists>c err w'. StartCommand l x args e w = Some (Ret (c, err), w') \<and>
     (err \<noteq> None \<longrightarrow> (\<exists>evs. trace w' = trace w @ evs \<and>
        (\<forall>ev \<in> set evs. (\<exists>b. ev = EvOpenAppend l b) \<or> ev = EvStart x args None)))"
proof (cases "append_fails e (trace w) l")
  case None
  then show ?thesis
    by (cases "spawn_fails e (trace w @ [EvOpenAppend l True]) x args")
       (auto simp: StartCommand_def open_append_def cmd_Start_def go_basic_defs record_event_def errors_Wrapf_def)
next
  case (Some er)
  then show ?thesis by (auto simp: StartCommand_def open_append_def go_basic_defs record_event_def errors_Wrapf_def)
qed

end
