(* ===== verification/Config_Model.thy ===== *)
theory Config_Model
  imports Go_Logic "HOL-Library.AList" "HOL-Library.Multiset"
begin

text \<open>
  \<^verbatim>\<open>config/config.go\<close>: the configuration records, and \<^verbatim>\<open>Validate\<close> over the vendored
  reflective validator (\<^verbatim>\<open>gopkg.in/validator.v2\<close>), whose walk over struct fields, nested
  structs and slices is modelled on a small type of reflected values. The order in which Go
  iterates over an error map is not specified: it is the argument \<open>order\<close>.
\<close>

section \<open>Records\<close>

record PreseededDatabase =
  pd_DBName :: string
  pd_User :: string
  pd_Password :: string

record SeededUser =
  su_User :: string
  su_Password :: string
  su_Host :: string
  su_Role :: string

record DBHelperConfig =
  db_Password :: string
  db_PostStartSQLFiles :: "string list"
  db_PreseededDatabases :: "PreseededDatabase list"
  db_SeededUsers :: "SeededUser list"
  db_SkipBinlog :: bool
  db_Socket :: string
  db_UpgradePath :: string
  db_User :: string

record StartManagerConfig =
  StateFileLocation :: string
  GrastateFileLocation :: string
  ClusterIps :: "string list"
  BootstrapNode :: bool
  ClusterProbeTimeout :: "64 word"
  GaleraInitStatusServerAddress :: string

record UpgraderConfig =
  PackageVersionFile :: string
  LastUpgradedVersionFile :: string

record Config =
  LogFileLocation :: string
  Db :: DBHelperConfig
  Manager :: StartManagerConfig
  UpgraderCfg :: UpgraderConfig

section \<open>The validator\<close>

text \<open>
  Reflected values, by the kinds the configuration has. A slice of strings is not walked
  into; a slice of structs is. The tag \<^verbatim>\<open>nonzero\<close> is the only one the source uses.
\<close>

datatype rtag = NoTag | Nonzero

datatype rval =
    RString string
  | RBool bool
  | RInt "64 word"
  | RStrings "string list"
  | RSlice "rval list"
  | RStruct "rfield list"
and rfield = RField string rtag rval

type_synonym error_map = "(string \<times> string list) list"

definition ErrZeroValue :: string where
  "ErrZeroValue = ''zero value''"

fun nonzero :: "rval \<Rightarrow> string option" where
  "nonzero (RString s) = (if s \<noteq> [] then None else Some ErrZeroValue)"
| "nonzero (RBool b) = (if b then None else Some ErrZeroValue)"
| "nonzero (RInt i) = (if i \<noteq> 0 then None else Some ErrZeroValue)"
| "nonzero (RStrings ss) = (if ss \<noteq> [] then None else Some ErrZeroValue)"
| "nonzero (RSlice vs) = (if vs \<noteq> [] then None else Some ErrZeroValue)"
| "nonzero (RStruct fs) = None"

fun validValue :: "rtag \<Rightarrow> rval \<Rightarrow> string list" where
  "validValue NoTag v = []"
| "validValue Nonzero v = (case nonzero v of None \<Rightarrow> [] | Some msg \<Rightarrow> [msg])"

definition child_key :: "string \<Rightarrow> string \<Rightarrow> string" where
  "child_key parentName j = (if parentName \<noteq> '''' then parentName @ ''.'' @ j else j)"

definition merge_sub :: "string \<Rightarrow> error_map \<Rightarrow> error_map \<Rightarrow> error_map" where
  "merge_sub parentName subm m =
     fold (\<lambda>(j, k) acc. AList.update (child_key parentName j) k acc) subm m"

fun deepValidateCollection :: "rval \<Rightarrow> error_map \<Rightarrow> string \<Rightarrow> error_map"
  and validateElems :: "rval list \<Rightarrow> nat \<Rightarrow> error_map \<Rightarrow> string \<Rightarrow> error_map"
  and validateStruct :: "rfield list \<Rightarrow> error_map \<Rightarrow> error_map" where
  "deepValidateCollection (RStruct fs) m name = merge_sub name (validateStruct fs []) m"
| "deepValidateCollection (RSlice vs) m name = validateElems vs 0 m name"
| "deepValidateCollection _ m name = m"
| "validateElems [] i m name = m"
| "validateElems (v # vs) i m name =
     validateElems vs (Suc i)
       (deepValidateCollection v m (sprintf ''%s[%d]'' [AStr name, AInt (int i)])) name"
| "validateStruct [] m = m"
| "validateStruct (RField fname tag v # fs) m =
     (let errs = validValue tag v;
          m' = deepValidateCollection v m fname
      in validateStruct fs (if errs \<noteq> [] then AList.update fname errs m' else m'))"

definition validator_Validate :: "rval \<Rightarrow> error_map option" where
  "validator_Validate v =
     (let m = deepValidateCollection v [] '''' in if m \<noteq> [] then Some m else None)"

section \<open>The configuration's fields and tags\<close>

definition reflect_PreseededDatabase :: "PreseededDatabase \<Rightarrow> rval" where
  "reflect_PreseededDatabase d = RStruct
     [RField ''DBName'' Nonzero (RString (pd_DBName d)),
      RField ''User'' Nonzero (RString (pd_User d)),
      RField ''Password'' NoTag (RString (pd_Password d))]"

definition reflect_SeededUser :: "SeededUser \<Rightarrow> rval" where
  "reflect_SeededUser u = RStruct
     [RField ''User'' Nonzero (RString (su_User u)),
      RField ''Password'' Nonzero (RString (su_Password u)),
      RField ''Host'' Nonzero (RString (su_Host u)),
      RField ''Role'' Nonzero (RString (su_Role u))]"

definition reflect_DBHelper :: "DBHelperConfig \<Rightarrow> rval" where
  "reflect_DBHelper d = RStruct
     [RField ''Password'' NoTag (RString (db_Password d)),
      RField ''PostStartSQLFiles'' NoTag (RStrings (db_PostStartSQLFiles d)),
      RField ''PreseededDatabases'' NoTag
        (RSlice (map reflect_PreseededDatabase (db_PreseededDatabases d))),
      RField ''SeededUsers'' NoTag (RSlice (map reflect_SeededUser (db_SeededUsers d))),
      RField ''SkipBinlog'' NoTag (RBool (db_SkipBinlog d)),
      RField ''Socket'' NoTag (RString (db_Socket d)),
      RField ''UpgradePath'' Nonzero (RString (db_UpgradePath d)),
      RField ''User'' Nonzero (RString (db_User d))]"

definition reflect_StartManager :: "StartManagerConfig \<Rightarrow> rval" where
  "reflect_StartManager m = RStruct
     [RField ''StateFileLocation'' Nonzero (RString (StateFileLocation m)),
      RField ''GrastateFileLocation'' NoTag (RString (GrastateFileLocation m)),
      RField ''ClusterIps'' Nonzero (RStrings (ClusterIps m)),
      RField ''BootstrapNode'' NoTag (RBool (BootstrapNode m)),
      RField ''ClusterProbeTimeout'' Nonzero (RInt (ClusterProbeTimeout m)),
      RField ''GaleraInitStatusServerAddress'' Nonzero
        (RString (GaleraInitStatusServerAddress m))]"

definition reflect_Upgrader :: "UpgraderConfig \<Rightarrow> rval" where
  "reflect_Upgrader u = RStruct
     [RField ''PackageVersionFile'' Nonzero (RString (PackageVersionFile u)),
      RField ''LastUpgradedVersionFile'' Nonzero (RString (LastUpgradedVersionFile u))]"

text \<open>The logger is an interface whose value has no exported field: a struct without fields.\<close>

definition reflect_Config :: "Config \<Rightarrow> rval" where
  "reflect_Config c = RStruct
     [RField ''LogFileLocation'' Nonzero (RString (LogFileLocation c)),
      RField ''Db'' NoTag (reflect_DBHelper (Db c)),
      RField ''Manager'' NoTag (reflect_StartManager (Manager c)),
      RField ''Upgrader'' NoTag (reflect_Upgrader (UpgraderCfg c)),
      RField ''Logger'' NoTag (RStruct [])]"

section \<open>Validate\<close>

definition strings_TrimSuffix :: "string \<Rightarrow> string \<Rightarrow> string" where
  "strings_TrimSuffix s suf =
     (if suffix suf s then take (length s - length suf) s else s)"

definition ErrorArray_Error :: "string list \<Rightarrow> string" where
  "ErrorArray_Error errs = strings_TrimSuffix (concat (map (\<lambda>x. x @ '', '') errs)) '', ''"

type_synonym map_order = "string \<Rightarrow> error_map \<Rightarrow> error_map"

definition formatErrorString :: "map_order \<Rightarrow> error_map \<Rightarrow> string \<Rightarrow> string" where
  "formatErrorString order errs keyPrefix =
     concat (map (\<lambda>(fieldName, validationMessage).
                sprintf (''%s%s : %s'' @ [CHR 0x0A])
                  [AStr keyPrefix, AStr fieldName, AStr (ErrorArray_Error validationMessage)])
             (order keyPrefix errs))"

fun preseeded_errors :: "map_order \<Rightarrow> nat \<Rightarrow> PreseededDatabase list \<Rightarrow> string" where
  "preseeded_errors order i [] = ''''"
| "preseeded_errors order i (db # dbs) =
     (case validator_Validate (reflect_PreseededDatabase db) of
        None \<Rightarrow> ''''
      | Some dbErr \<Rightarrow>
          formatErrorString order dbErr
            (sprintf ''Db.PreseededDatabases[%d].'' [AInt (int i)]))
     @ preseeded_errors order (Suc i) dbs"

definition Validate :: "map_order \<Rightarrow> Config \<Rightarrow> go_error option" where
  "Validate order c =
     (let errString =
        (case validator_Validate (reflect_Config c) of
           None \<Rightarrow> ''''
         | Some err \<Rightarrow> formatErrorString order err '''')
        @ preseeded_errors order 0 (db_PreseededDatabases (Db c))
      in if length errString > 0
         then Some (ErrorString (sprintf (''Validation errors: %s'' @ [CHR 0x0A])
                [AStr errString]))
         else None)"

section \<open>What validation accepts\<close>

text \<open>The paths of the violated fields, as the walk names them.\<close>

fun violated :: "rval \<Rightarrow> string \<Rightarrow> string set"
  and violated_elems :: "rval list \<Rightarrow> nat \<Rightarrow> string \<Rightarrow> string set"
  and violated_fields :: "rfield list \<Rightarrow> string set" where
  "violated (RStruct fs) name = child_key name ` violated_fields fs"
| "violated (RSlice vs) name = violated_elems vs 0 name"
| "violated _ name = {}"
| "violated_elems [] i name = {}"
| "violated_elems (v # vs) i name =
     violated v (sprintf ''%s[%d]'' [AStr name, AInt (int i)]) \<union> violated_elems vs (Suc i) name"
| "violated_fields [] = {}"
| "violated_fields (RField fname tag v # fs) =
     violated v fname \<union> (if validValue tag v = [] then {} else {fname}) \<union> violated_fields fs"

abbreviation keys :: "error_map \<Rightarrow> string set" where
  "keys m \<equiv> fst ` set m"

lemma keys_update: "keys (AList.update k v m) = insert k (keys m)"
  by (induction m) auto

lemma keys_merge_sub: "keys (merge_sub name subm m) = keys m \<union> child_key name ` keys subm"
  unfolding merge_sub_def
proof (induction subm arbitrary: m)
  case (Cons x subm)
  then show ?case by (cases x) (simp add: keys_update)
qed simp

text \<open>The error map has exactly the violated paths as its keys.\<close>

lemma keys_walk:
  "keys (deepValidateCollection v m name) = keys m \<union> violated v name"
  "keys (validateElems vs i m name) = keys m \<union> violated_elems vs i name"
  "keys (validateStruct fs m) = keys m \<union> violated_fields fs"
  by (induction v m name and vs i m name and fs m
      rule: deepValidateCollection_validateElems_validateStruct.induct)
     (auto simp: keys_merge_sub Let_def keys_update)

lemma validator_keys:
  "(case validator_Validate v of None \<Rightarrow> {} | Some m \<Rightarrow> keys m) = violated v ''''"
  using keys_walk(1) [of v "[]" "''''"] by (auto simp: validator_Validate_def Let_def)

lemma validator_None: "validator_Validate v = None \<longleftrightarrow> violated v '''' = {}"
  using keys_walk(1) [of v "[]" "''''"] by (auto simp: validator_Validate_def Let_def)

text \<open>The key of element \<open>i\<close> of a slice.\<close>

definition elem_key :: "string \<Rightarrow> nat \<Rightarrow> string" where
  "elem_key name i = name @ ''['' @ itoa (int i) @ '']''"

lemma elem_key_nonempty [simp]: "elem_key p i \<noteq> []"
  by (simp add: elem_key_def)

lemma violated_slice:
  "violated_elems vs i name = (\<Union>k<length vs. violated (vs ! k) (elem_key name (i + k)))"
proof (induction vs arbitrary: i)
  case (Cons v vs)
  have "{..<length (v # vs)} = insert 0 (Suc ` {..<length vs})"
    by (simp add: lessThan_Suc_eq_insert_0)
  then show ?case by (simp add: Cons elem_key_def add_ac)
qed simp

text \<open>
  What the source asks of a configuration, read off the tags: the paths of the required
  fields that are empty.
\<close>

definition required :: "string \<Rightarrow> string \<Rightarrow> string set" where
  "required path s = (if s = [] then {path} else {})"

definition missing_preseeded :: "string \<Rightarrow> PreseededDatabase \<Rightarrow> string set" where
  "missing_preseeded p d =
     required (p @ ''.DBName'') (pd_DBName d) \<union> required (p @ ''.User'') (pd_User d)"

definition missing_user :: "string \<Rightarrow> SeededUser \<Rightarrow> string set" where
  "missing_user p u =
     required (p @ ''.User'') (su_User u) \<union> required (p @ ''.Password'') (su_Password u)
     \<union> required (p @ ''.Host'') (su_Host u) \<union> required (p @ ''.Role'') (su_Role u)"

definition missing_db :: "DBHelperConfig \<Rightarrow> string set" where
  "missing_db d =
     (\<Union>k<length (db_PreseededDatabases d).
        missing_preseeded (elem_key ''Db.PreseededDatabases'' k) (db_PreseededDatabases d ! k))
   \<union> (\<Union>k<length (db_SeededUsers d).
        missing_user (elem_key ''Db.SeededUsers'' k) (db_SeededUsers d ! k))
   \<union> required ''Db.UpgradePath'' (db_UpgradePath d) \<union> required ''Db.User'' (db_User d)"

definition missing_manager :: "StartManagerConfig \<Rightarrow> string set" where
  "missing_manager m =
     required ''Manager.StateFileLocation'' (StateFileLocation m)
   \<union> (if ClusterIps m = [] then {''Manager.ClusterIps''} else {})
   \<union> (if ClusterProbeTimeout m = 0 then {''Manager.ClusterProbeTimeout''} else {})
   \<union> required ''Manager.GaleraInitStatusServerAddress'' (GaleraInitStatusServerAddress m)"

definition missing_fields :: "Config \<Rightarrow> string set" where
  "missing_fields c =
     required ''LogFileLocation'' (LogFileLocation c)
   \<union> missing_db (Db c) \<union> missing_manager (Manager c)
   \<union> required ''Upgrader.PackageVersionFile'' (PackageVersionFile (UpgraderCfg c))
   \<union> required ''Upgrader.LastUpgradedVersionFile'' (LastUpgradedVersionFile (UpgraderCfg c))"

lemma child_key_nonempty: "p \<noteq> [] \<Longrightarrow> child_key p j = p @ ''.'' @ j"
  by (simp add: child_key_def)

lemma child_key_top: "child_key '''' = (\<lambda>j. j)"
  by (simp add: child_key_def fun_eq_iff)

lemma image_required: "f ` required p s = required (f p) s"
  by (simp add: required_def)

lemma violated_preseeded:
  "violated (reflect_PreseededDatabase d) p =
     required (child_key p ''DBName'') (pd_DBName d) \<union> required (child_key p ''User'') (pd_User d)"
  by (auto simp: reflect_PreseededDatabase_def required_def)

lemma violated_user: "p \<noteq> [] \<Longrightarrow> violated (reflect_SeededUser u) p = missing_user p u"
  by (auto simp: reflect_SeededUser_def missing_user_def child_key_nonempty required_def)

lemma missing_prefix:
  "child_key ''Db'' ` missing_preseeded (elem_key p i) d =
     missing_preseeded (elem_key (''Db.'' @ p) i) d"
  "child_key ''Db'' ` missing_user (elem_key p i) u = missing_user (elem_key (''Db.'' @ p) i) u"
  by (simp_all add: missing_preseeded_def missing_user_def image_Un image_required
      child_key_nonempty elem_key_def)

lemma violated_elem_preseeded:
  "violated (reflect_PreseededDatabase d) (elem_key p i) = missing_preseeded (elem_key p i) d"
  by (simp add: violated_preseeded missing_preseeded_def child_key_nonempty)

lemma violated_db: "violated (reflect_DBHelper d) ''Db'' = missing_db d"
  by (simp add: reflect_DBHelper_def missing_db_def violated_slice violated_elem_preseeded
      violated_user image_Un image_UN missing_prefix child_key_def [of _ "''UpgradePath''"]
      child_key_def [of _ "''User''"] required_def Un_ac)

lemma violated_manager: "violated (reflect_StartManager m) ''Manager'' = missing_manager m"
  by (simp add: reflect_StartManager_def missing_manager_def child_key_def required_def)

lemma violated_upgrader:
  "violated (reflect_Upgrader u) ''Upgrader'' =
     required ''Upgrader.PackageVersionFile'' (PackageVersionFile u)
   \<union> required ''Upgrader.LastUpgradedVersionFile'' (LastUpgradedVersionFile u)"
  by (simp add: reflect_Upgrader_def child_key_def required_def)

lemma violated_Config: "violated (reflect_Config c) '''' = missing_fields c"
  by (simp add: reflect_Config_def missing_fields_def child_key_top violated_db violated_manager
      violated_upgrader required_def Un_ac)

subsection \<open>The message\<close>

text \<open>Go iterates over a map in some order of its entries.\<close>

definition fair_order :: "map_order \<Rightarrow> bool" where
  "fair_order order = (\<forall>p m. mset (order p m) = mset m)"

definition error_line :: "string \<Rightarrow> string \<Rightarrow> string list \<Rightarrow> string" where
  "error_line keyPrefix fieldName msgs =
     keyPrefix @ fieldName @ '' : '' @ ErrorArray_Error msgs @ [CHR 0x0A]"

lemma formatErrorString_lines:
  "formatErrorString order errs p =
     concat (map (\<lambda>(f, msgs). error_line p f msgs) (order p errs))"
  by (simp add: formatErrorString_def error_line_def case_prod_beta)

lemma formatErrorString_empty:
  assumes "fair_order order"
  shows "formatErrorString order errs p = [] \<longleftrightarrow> errs = []"
proof -
  have "mset (order p errs) = mset errs" using assms by (simp add: fair_order_def)
  then have "order p errs = [] \<longleftrightarrow> errs = []" by (metis mset_zero_iff)
  then show ?thesis
    by (cases "order p errs") (auto simp: formatErrorString_lines error_line_def)
qed

lemma validator_part_empty:
  assumes "fair_order order"
  shows "(case validator_Validate v of None \<Rightarrow> '''' | Some err \<Rightarrow> formatErrorString order err p) = []
     \<longleftrightarrow> violated v '''' = {}"
  using formatErrorString_empty [OF assms] validator_None [of v]
  by (auto simp: validator_Validate_def Let_def split: option.splits if_splits)

lemma preseeded_errors_empty:
  assumes "fair_order order"
  shows "preseeded_errors order i ds = [] \<longleftrightarrow> (\<forall>d \<in> set ds. pd_DBName d \<noteq> [] \<and> pd_User d \<noteq> [])"
  by (induction ds arbitrary: i)
     (auto simp: validator_part_empty [OF assms] violated_preseeded required_def split: if_splits)

lemma missing_preseeded_covered:
  assumes "missing_fields c = {}"
  shows "\<forall>d \<in> set (db_PreseededDatabases (Db c)). pd_DBName d \<noteq> [] \<and> pd_User d \<noteq> []"
proof
  fix d assume "d \<in> set (db_PreseededDatabases (Db c))"
  then obtain k where k: "k < length (db_PreseededDatabases (Db c))" "db_PreseededDatabases (Db c) ! k = d"
    by (auto simp: in_set_conv_nth)
  have "missing_preseeded (elem_key ''Db.PreseededDatabases'' k) d = {}"
    using assms k by (auto simp: missing_fields_def missing_db_def)
  then show "pd_DBName d \<noteq> [] \<and> pd_User d \<noteq> []"
    by (auto simp: missing_preseeded_def required_def split: if_splits)
qed

lemma Validate_None:
  assumes "fair_order order"
  shows "Validate order c = None \<longleftrightarrow> missing_fields c = {}"
  using validator_part_empty [OF assms, where v = "reflect_Config c" and p = "''''"]
    preseeded_errors_empty [OF assms, where i = 0] missing_preseeded_covered [of c]
  by (auto simp: Validate_def Let_def violated_Config)

text \<open>Every entry of an error map is the one message of the only tag.\<close>

definition zero_only :: "error_map \<Rightarrow> bool" where
  "zero_only m = (\<forall>(k, v) \<in> set m. v = [ErrZeroValue])"

lemma zero_only_update: "zero_only m \<Longrightarrow> zero_only (AList.update k [ErrZeroValue] m)"
  by (induction m) (auto simp: zero_only_def)

lemma zero_only_merge:
  "zero_only subm \<Longrightarrow> zero_only m \<Longrightarrow> zero_only (merge_sub name subm m)"
  unfolding merge_sub_def
proof (induction subm arbitrary: m)
  case (Cons x subm)
  then show ?case
    by (cases x) (auto simp: zero_only_def [of "_ # _"] zero_only_update zero_only_def [of subm])
qed simp

lemma validValue_zero: "validValue tag v = [] \<or> validValue tag v = [ErrZeroValue]"
  by (cases tag; cases v) auto

lemma zero_only_valid:
  "validValue tag v \<noteq> [] \<Longrightarrow> zero_only m \<Longrightarrow> zero_only (AList.update k (validValue tag v) m)"
  using validValue_zero [of tag v] by (auto simp: zero_only_update)

lemma zero_only_walk:
  "zero_only m \<Longrightarrow> zero_only (deepValidateCollection v m name)"
  "zero_only m \<Longrightarrow> zero_only (validateElems vs i m name)"
  "zero_only m \<Longrightarrow> zero_only (validateStruct fs m)"
proof (induction v m name and vs i m name and fs m
    rule: deepValidateCollection_validateElems_validateStruct.induct)
  case (1 fs m name)
  have "zero_only []" by (simp add: zero_only_def)
  with 1 show ?case by (simp add: zero_only_merge)
qed (auto simp: Let_def zero_only_valid)

text \<open>A violated path has its line in the text printed for it.\<close>

lemma violated_line:
  assumes "fair_order order" and "p \<in> violated v ''''"
  shows "contains_sub (case validator_Validate v of None \<Rightarrow> ''''
            | Some err \<Rightarrow> formatErrorString order err q) (error_line q p [ErrZeroValue])"
proof -
  let ?m = "deepValidateCollection v [] ''''"
  have "p \<in> keys ?m" using assms(2) keys_walk(1) [of v "[]" "''''"] by simp
  moreover have "zero_only ?m" by (rule zero_only_walk) (simp add: zero_only_def)
  ultimately have "(p, [ErrZeroValue]) \<in> set ?m" by (auto simp: zero_only_def)
  moreover have "set (order q ?m) = set ?m"
    using assms(1) by (metis fair_order_def set_mset_mset)
  ultimately obtain xs ys where "order q ?m = xs @ (p, [ErrZeroValue]) # ys"
    by (metis split_list)
  then have "contains_sub (formatErrorString order ?m q) (error_line q p [ErrZeroValue])"
    by (simp add: formatErrorString_lines contains_sub_append)
  moreover have "?m \<noteq> []" using \<open>p \<in> keys ?m\<close> by auto
  ultimately show ?thesis by (simp add: validator_Validate_def)
qed

lemma preseeded_key:
  "sprintf ''Db.PreseededDatabases[%d].'' [AInt (int i)] =
     elem_key ''Db.PreseededDatabases'' i @ ''.''"
  by (simp add: elem_key_def)

lemma preseeded_line:
  assumes "fair_order order" and "k < length ds"
    and "p \<in> violated (reflect_PreseededDatabase (ds ! k)) ''''"
  shows "contains_sub (preseeded_errors order i ds)
     (error_line (elem_key ''Db.PreseededDatabases'' (i + k) @ ''.'') p [ErrZeroValue])"
  using assms(2,3)
proof (induction ds arbitrary: i k)
  case (Cons d ds)
  show ?case
  proof (cases k)
    case 0
    with Cons.prems violated_line [OF assms(1), of p "reflect_PreseededDatabase d"
        "elem_key ''Db.PreseededDatabases'' i @ ''.''"]
    show ?thesis unfolding preseeded_errors.simps preseeded_key by (simp add: contains_sub_left)
  next
    case (Suc k')
    with Cons.prems Cons.IH [of k' "Suc i"] show ?thesis
      by (simp add: contains_sub_right)
  qed
qed simp

definition walk_text :: "map_order \<Rightarrow> Config \<Rightarrow> string" where
  "walk_text order c = (case validator_Validate (reflect_Config c) of
     None \<Rightarrow> '''' | Some err \<Rightarrow> formatErrorString order err '''')"

lemma Validate_text:
  "Validate order c =
     (let t = walk_text order c @ preseeded_errors order 0 (db_PreseededDatabases (Db c))
      in if t = [] then None
         else Some (ErrorString (''Validation errors: '' @ t @ [CHR 0x0A])))"
  by (simp add: Validate_def walk_text_def Let_def)

section \<open>An example configuration\<close>

definition example_db :: DBHelperConfig where
  "example_db = \<lparr>db_Password = ''secret'', db_PostStartSQLFiles = [],
     db_PreseededDatabases = [],
     db_SeededUsers = [],
     db_SkipBinlog = True, db_Socket = ''/mysqld.sock'', db_UpgradePath = ''mysql_upgrade'', db_User = ''root''\<rparr>"

definition example_config :: Config where
  "example_config = \<lparr>LogFileLocation = ''/log'', Db = example_db,
     Manager = \<lparr>StateFileLocation = ''/state'', GrastateFileLocation = ''/grastate'',
       ClusterIps = [''10.0.0.1'', ''10.0.0.2''], BootstrapNode = True, ClusterProbeTimeout = 10,
       GaleraInitStatusServerAddress = '':8114''\<rparr>,
     UpgraderCfg = \<lparr>PackageVersionFile = ''/package'', LastUpgradedVersionFile = ''/last''\<rparr>\<rparr>"

definition seeding_db :: DBHelperConfig where
  "seeding_db = example_db
     \<lparr>db_PreseededDatabases := [\<lparr>pd_DBName = ''app'', pd_User = ''user'', pd_Password = ''pw''\<rparr>],
      db_SeededUsers := [\<lparr>su_User = ''admin'', su_Password = ''pw'', su_Host = ''any'', su_Role = ''admin''\<rparr>],
      db_PostStartSQLFiles := [''/post.sql'']\<rparr>"

lemma example_simps [simp]:
  "LogFileLocation example_config = ''/log''" "Db example_config = example_db"
  "StateFileLocation (Manager example_config) = ''/state''" "GrastateFileLocation (Manager example_config) = ''/grastate''"
  "ClusterIps (Manager example_config) = [''10.0.0.1'', ''10.0.0.2'']" "BootstrapNode (Manager example_config)"
  "ClusterProbeTimeout (Manager example_config) = 10" "GaleraInitStatusServerAddress (Manager example_config) = '':8114''"
  "PackageVersionFile (UpgraderCfg example_config) = ''/package''" "LastUpgradedVersionFile (UpgraderCfg example_config) = ''/last''"
  by (simp_all add: example_config_def)

lemma example_db_simps [simp]:
  "db_PostStartSQLFiles example_db = []" "db_UpgradePath example_db = ''mysql_upgrade''"
  "db_PreseededDatabases example_db = []" "db_SeededUsers example_db = []" "db_Socket example_db = ''/mysqld.sock''"
  "db_User example_db = ''root''"
  by (simp_all add: example_db_def)

section \<open>Properties\<close>

lemma missing_line:
  assumes "fair_order order" and "p \<in> missing_fields c"
  shows "contains_sub (walk_text order c) (p @ '' : zero value'' @ [CHR 0x0A])"
  using violated_line [OF assms(1), of p "reflect_Config c" "''''"] assms(2)
  by (simp add: violated_Config walk_text_def error_line_def ErrorArray_Error_def strings_TrimSuffix_def ErrZeroValue_def suffix_def)

text \<open>The loop after the walk reports a preseeded database without a name by the line the walk has for it.\<close>

lemma preseeded_reported_again:
  assumes "fair_order order" and "k < length (db_PreseededDatabases (Db c))" and "pd_DBName (db_PreseededDatabases (Db c) ! k) = ''''"
    and "p = ''Db.PreseededDatabases['' @ itoa (int k) @ ''].DBName''"
  shows "contains_sub (preseeded_errors order 0 (db_PreseededDatabases (Db c))) (p @ '' : zero value'' @ [CHR 0x0A])"
proof -
  have "contains_sub (preseeded_errors order 0 (db_PreseededDatabases (Db c)))
      (error_line (elem_key ''Db.PreseededDatabases'' (0 + k) @ ''.'') ''DBName'' [ErrZeroValue])"
    using assms(3) by (intro preseeded_line [OF assms(1,2)]) (simp add: violated_preseeded required_def child_key_def)
  then show ?thesis
    by (simp add: assms(4) error_line_def elem_key_def ErrorArray_Error_def strings_TrimSuffix_def ErrZeroValue_def suffix_def)
qed

lemma missing_reported:
  assumes "fair_order order" and "p \<in> missing_fields c"
  shows "\<exists>a b. Validate order c = Some (ErrorString (''Validation errors: '' @ a @ b @ [CHR 0x0A])) \<and>
     contains_sub a (p @ '' : zero value'' @ [CHR 0x0A]) \<and>
     (\<forall>k < length (db_PreseededDatabases (Db c)). pd_DBName (db_PreseededDatabases (Db c) ! k) = '''' \<and>
        p = ''Db.PreseededDatabases['' @ itoa (int k) @ ''].DBName'' \<longrightarrow> contains_sub b (p @ '' : zero value'' @ [CHR 0x0A]))"
proof -
  have a: "contains_sub (walk_text order c) (p @ '' : zero value'' @ [CHR 0x0A])" by (rule missing_line [OF assms])
  then have "walk_text order c \<noteq> []" by auto
  then have "Validate order c = Some (ErrorString (''Validation errors: '' @ walk_text order c @
      preseeded_errors order 0 (db_PreseededDatabases (Db c)) @ [CHR 0x0A]))"
    unfolding Validate_text Let_def by simp
  with a preseeded_reported_again [OF assms(1)] show ?thesis by blast
qed

text \<open>C25. Whatever order the error map is iterated in, a configuration is accepted exactly when no required field is empty:
  the log file, the state file, the node addresses, the probe time-out, the status address, the upgrade program, the
  database user, both version files, and the names and users of the preseeded databases and all fields of the seeded users.
  Otherwise every empty field has its own line in the message of the error, and a preseeded database without a name even has
  it twice: once from the walk over the configuration, which descends into slices, and once from the loop written to make up
  for a walk that would not.\<close>

theorem validation_reports_the_missing_fields:
  assumes "fair_order order"
  shows "(Validate order c = None \<longleftrightarrow> missing_fields c = {}) \<and>
     (\<forall>p \<in> missing_fields c.
        \<exists>a b. Validate order c = Some (ErrorString (''Validation errors: '' @ a @ b @ [CHR 0x0A])) \<and>
          contains_sub a (p @ '' : zero value'' @ [CHR 0x0A]) \<and>
          (\<forall>k < length (db_PreseededDatabases (Db c)). pd_DBName (db_PreseededDatabases (Db c) ! k) = '''' \<and>
             p = ''Db.PreseededDatabases['' @ itoa (int k) @ ''].DBName'' \<longrightarrow>
             contains_sub b (p @ '' : zero value'' @ [CHR 0x0A])))"
  using Validate_None [OF assms, of c] missing_reported [OF assms, of _ c] by blast

theorem validation_reports_the_missing_fields_witness:
  "Validate (\<lambda>p m. m) example_config = None \<and>
   (\<exists>a b. Validate (\<lambda>p m. rev m) (example_config\<lparr>Db := example_db\<lparr>db_PreseededDatabases := [\<lparr>pd_DBName = '''', pd_User = ''u'', pd_Password = ''''\<rparr>]\<rparr>\<rparr>)
       = Some (ErrorString (''Validation errors: '' @ a @ b @ [CHR 0x0A])) \<and>
     contains_sub a (''Db.PreseededDatabases[0].DBName : zero value'' @ [CHR 0x0A]) \<and>
     contains_sub b (''Db.PreseededDatabases[0].DBName : zero value'' @ [CHR 0x0A]))"
proof
  have "fair_order (\<lambda>p m. m)" by (simp add: fair_order_def)
  from validation_reports_the_missing_fields [OF this, of example_config] show "Validate (\<lambda>p m. m) example_config = None"
    by (auto simp: missing_fields_def missing_db_def missing_manager_def required_def)
next
  let ?c = "example_config\<lparr>Db := example_db\<lparr>db_PreseededDatabases := [\<lparr>pd_DBName = '''', pd_User = ''u'', pd_Password = ''''\<rparr>]\<rparr>\<rparr>"
  have order: "fair_order (\<lambda>p m. rev m)" by (simp add: fair_order_def)
  have "itoa (int 0) = ''0''" by code_simp
  moreover from this have "''Db.PreseededDatabases[0].DBName'' \<in> missing_fields ?c"
    unfolding missing_fields_def missing_db_def missing_preseeded_def required_def elem_key_def by fastforce
  ultimately show "\<exists>a b. Validate (\<lambda>p m. rev m) ?c = Some (ErrorString (''Validation errors: '' @ a @ b @ [CHR 0x0A])) \<and>
     contains_sub a (''Db.PreseededDatabases[0].DBName : zero value'' @ [CHR 0x0A]) \<and>
     contains_sub b (''Db.PreseededDatabases[0].DBName : zero value'' @ [CHR 0x0A])"
    using bspec [OF conjunct2 [OF validation_reports_the_missing_fields [OF order, of ?c]], of "''Db.PreseededDatabases[0].DBName''"]
    by simp
qed

end
