(* ===== verification/Sql_Db.thy ===== *)
theory Sql_Db
  imports Os_Helper Config_Model
begin

text \<open>
  The database access of \<^verbatim>\<open>db_helper/db_helper.go\<close>: the data source name it formats, how the
  vendored MySQL driver (\<^verbatim>\<open>github.com/go-sql-driver/mysql\<close>) reads it back, and the operations
  of \<^verbatim>\<open>database/sql\<close> on the opened handle. Result sets that are left open are counted.
\<close>

section \<open>Data source names\<close>

definition FormatDSN :: "DBHelperConfig \<Rightarrow> string" where
  "FormatDSN config =
     (let skipBinLog = (if db_SkipBinlog config then ''?sql_log_bin=off'' else '''')
      in sprintf ''%s:%s@unix(%s)/%s''
           [AStr (db_User config), AStr (db_Password config), AStr (db_Socket config),
            AStr skipBinLog])"

text \<open>
  The driver's configuration, with the query string as it is handed to
  \<^verbatim>\<open>parseDSNParams\<close>.
\<close>

record dsn =
  dsn_User :: string
  dsn_Passwd :: string
  dsn_Net :: string
  dsn_Addr :: string
  dsn_DBName :: string
  dsn_query :: "string option"

text \<open>\<^verbatim>\<open>net.SplitHostPort\<close> fails unless the address is a host and a port.\<close>

definition has_host_port :: "string \<Rightarrow> bool" where
  "has_host_port hp =
     (case cut_last (CHR '':'') hp of
        None \<Rightarrow> False
      | Some (before, port) \<Rightarrow>
          (if prefix ''['' hp
           then (case cut_first (CHR '']'') hp of
                   None \<Rightarrow> False
                 | Some (h, rest) \<Rightarrow>
                     rest = CHR '':'' # port \<and> CHR ''['' \<notin> set (drop 1 hp)
                       \<and> CHR '']'' \<notin> set rest)
           else CHR '':'' \<notin> set before \<and> CHR ''['' \<notin> set hp \<and> CHR '']'' \<notin> set hp))"

definition ensureHavePort :: "string \<Rightarrow> string" where
  "ensureHavePort addr =
     (if has_host_port addr then addr
      else if CHR '':'' \<in> set addr \<or> CHR ''%'' \<in> set addr
      then ''['' @ addr @ '']:3306''
      else addr @ '':3306'')"

definition normalize :: "dsn \<Rightarrow> go_error + dsn" where
  "normalize cfg =
     (let cfg = (if dsn_Net cfg = '''' then cfg\<lparr>dsn_Net := ''tcp''\<rparr> else cfg)
      in if dsn_Addr cfg = ''''
         then (if dsn_Net cfg = ''tcp'' then Inr (cfg\<lparr>dsn_Addr := ''127.0.0.1:3306''\<rparr>)
               else if dsn_Net cfg = ''unix'' then Inr (cfg\<lparr>dsn_Addr := ''/tmp/mysql.sock''\<rparr>)
               else Inl (ErrorString (''default addr for network '' @ [CHR 0x27] @ dsn_Net cfg
                      @ [CHR 0x27] @ '' unknown'')))
         else if dsn_Net cfg = ''tcp''
         then Inr (cfg\<lparr>dsn_Addr := ensureHavePort (dsn_Addr cfg)\<rparr>)
         else Inr cfg)"

text \<open>The left part \<^verbatim>\<open>[user[:password]@][net[(addr)]]\<close>: the last \<^verbatim>\<open>@\<close> ends the credentials.\<close>

definition parse_credentials :: "string \<Rightarrow> (string \<times> string) \<times> string" where
  "parse_credentials left =
     (case cut_last (CHR ''@'') left of
        None \<Rightarrow> (('''', ''''), left)
      | Some (cred, rest) \<Rightarrow>
          (case cut_first (CHR '':'') cred of
             None \<Rightarrow> ((cred, ''''), rest)
           | Some (user, passwd) \<Rightarrow> ((user, passwd), rest)))"

definition parse_address :: "string \<Rightarrow> go_error + (string \<times> string)" where
  "parse_address rest =
     (case cut_first (CHR ''('') rest of
        None \<Rightarrow> Inr (rest, '''')
      | Some (net, addr) \<Rightarrow>
          (if addr \<noteq> [] \<and> last addr = CHR '')'' then Inr (net, butlast addr)
           else if CHR '')'' \<in> set addr
           then Inl (ErrorString ''invalid DSN: did you forget to escape a param value?'')
           else Inl (ErrorString
             ''invalid DSN: network address not terminated (missing closing brace)'')))"

definition ParseDSN :: "string \<Rightarrow> go_error + dsn" where
  "ParseDSN s =
     (case cut_last (CHR ''/'') s of
        None \<Rightarrow>
          (if s = [] then normalize \<lparr>dsn_User = '''', dsn_Passwd = '''', dsn_Net = '''',
                            dsn_Addr = '''', dsn_DBName = '''', dsn_query = None\<rparr>
           else Inl (ErrorString ''invalid DSN: missing the slash separating the database name''))
      | Some (left, right) \<Rightarrow>
          (let ((user, passwd), rest) = parse_credentials left;
               (name, query) = (case cut_first (CHR ''?'') right of
                                  None \<Rightarrow> (right, None)
                                | Some (n, q) \<Rightarrow> (n, Some q))
           in case parse_address rest of
                Inl err \<Rightarrow> Inl err
              | Inr (net, addr) \<Rightarrow>
                  normalize \<lparr>dsn_User = user, dsn_Passwd = passwd, dsn_Net = net,
                    dsn_Addr = addr, dsn_DBName = name, dsn_query = query\<rparr>))"

section \<open>Handles\<close>

text \<open>\<^verbatim>\<open>sql.Open\<close> only parses the name; connections are made when they are used.\<close>

definition sql_Open :: "string \<Rightarrow> (unit option \<times> go_error option) go" where
  "sql_Open name =
     (case ParseDSN name of
        Inl err \<Rightarrow> andthen (emit (EvOpenDB name False)) (ret (None, Some err))
      | Inr cfg \<Rightarrow> andthen (emit (EvOpenDB name True)) (ret (Some (), None)))"

definition OpenDBConnection :: "DBHelperConfig \<Rightarrow> (unit option \<times> go_error option) go" where
  "OpenDBConnection config =
     bind_go (sql_Open (FormatDSN config)) (\<lambda>(db, err).
     case err of
       Some x \<Rightarrow> ret (None, Some x)
     | None \<Rightarrow> ret (db, None))"

definition CloseDBConnection :: "unit go" where
  "CloseDBConnection = emit EvCloseDB"

definition db_Exec :: "string \<Rightarrow> go_error option go" where
  "db_Exec query =
     bind_go (ask (\<lambda>e w. exec_fails e (trace w) query)) (\<lambda>err.
     andthen (emit (EvExec query err)) (ret err))"

text \<open>
  \<^verbatim>\<open>db.Query\<close> followed by one \<^verbatim>\<open>rows.Next\<close>: a result set that has a row stays open, one
  that is exhausted closes itself.
\<close>

definition db_Query_Next :: "string \<Rightarrow> (bool \<times> go_error option) go" where
  "db_Query_Next query =
     bind_go (ask (\<lambda>e w. query_first e (trace w) query)) (\<lambda>res.
     case res of
       Inl err \<Rightarrow> andthen (emit (EvQuery query (Some err))) (ret (False, Some err))
     | Inr hasRow \<Rightarrow>
         andthen (if hasRow then modify (\<lambda>w. w\<lparr>open_rows := Suc (open_rows w)\<rparr>) else ret ())
         (andthen (emit (EvQuery query None)) (ret (hasRow, None))))"

text \<open>\<^verbatim>\<open>db.QueryRow(..).Scan\<close> of two columns; it always closes its result set.\<close>

definition db_QueryRow :: "string \<Rightarrow> (go_error + string) go" where
  "db_QueryRow query =
     bind_go (ask (\<lambda>e w. query_row e (trace w) query)) (\<lambda>res.
     case res of
       Inl err \<Rightarrow> andthen (emit (EvQueryRow query (Some err))) (ret (Inl err))
     | Inr (unused, val) \<Rightarrow> andthen (emit (EvQueryRow query None)) (ret (Inr val)))"

lemmas sql_db_defs [go_defs] =
  sql_Open_def OpenDBConnection_def CloseDBConnection_def db_Exec_def db_Query_Next_def
  db_QueryRow_def

section \<open>Footprints\<close>

definition sql_event :: "event \<Rightarrow> bool" where
  "sql_event ev =
     (case ev of EvOpenDB _ _ \<Rightarrow> True | EvCloseDB \<Rightarrow> True | EvExec _ _ \<Rightarrow> True
      | EvQuery _ _ \<Rightarrow> True | EvQueryRow _ _ \<Rightarrow> True | _ \<Rightarrow> False)"

lemma sql_event_simps [simp]:
  "sql_event (EvOpenDB n b)" "sql_event EvCloseDB" "sql_event (EvExec q x)"
  "sql_event (EvQuery q x)" "sql_event (EvQueryRow q x)"
  by (simp_all add: sql_event_def)

lemma sql_event_no_sleep: "\<forall>ev \<in> set evs. sql_event ev \<Longrightarrow> sleeps d evs = 0"
  by (rule sleeps_0) (auto simp: sql_event_def)

lemma emits_db [emits_intros]:
  "(\<And>b. A (EvOpenDB (FormatDSN c) b)) \<Longrightarrow> emits A (OpenDBConnection c)"
  "A EvCloseDB \<Longrightarrow> emits A CloseDBConnection"
  "(\<And>x. A (EvExec q x)) \<Longrightarrow> emits A (db_Exec q)"
  "(\<And>x. A (EvQuery q x)) \<Longrightarrow> emits A (db_Query_Next q)"
  "(\<And>x. A (EvQueryRow q x)) \<Longrightarrow> emits A (db_QueryRow q)"
  by (unfold sql_db_defs, (intro emits_intros; simp)+)

lemma journal_db [journal_intros]:
  "stable journal (OpenDBConnection c)" "stable journal CloseDBConnection"
  "stable journal (db_Exec q)" "stable journal (db_Query_Next q)" "stable journal (db_QueryRow q)"
  by (unfold sql_db_defs, (intro journal_intros; simp)+)

section \<open>Reading a formatted name back\<close>

lemma FormatDSN_text:
  "FormatDSN c = (db_User c @ CHR '':'' # db_Password c @ CHR ''@'' # ''unix('' @ db_Socket c @ '')'')
     @ CHR ''/'' # (if db_SkipBinlog c then ''?sql_log_bin=off'' else '''')"
  by (simp add: FormatDSN_def)

text \<open>The slash before the query string is always the last one.\<close>

lemma ParseDSN_FormatDSN_cut:
  "cut_last (CHR ''/'') (FormatDSN c) =
     Some (db_User c @ CHR '':'' # db_Password c @ CHR ''@'' # ''unix('' @ db_Socket c @ '')'',
           if db_SkipBinlog c then ''?sql_log_bin=off'' else '''')"
  unfolding FormatDSN_text by (rule cut_last_Some) simp

lemma parse_credentials_FormatDSN:
  assumes "CHR '':'' \<notin> set (db_User c)" and "CHR ''@'' \<notin> set (db_Socket c)"
  shows "parse_credentials (db_User c @ CHR '':'' # db_Password c @ CHR ''@'' # ''unix('' @ db_Socket c @ '')'')
     = ((db_User c, db_Password c), ''unix('' @ db_Socket c @ '')'')"
proof -
  have "cut_last (CHR ''@'') ((db_User c @ CHR '':'' # db_Password c) @ CHR ''@'' # ''unix('' @ db_Socket c @ '')'')
     = Some (db_User c @ CHR '':'' # db_Password c, ''unix('' @ db_Socket c @ '')'')"
    by (rule cut_last_Some) (use assms in simp)
  then show ?thesis
    using cut_first_Some [OF assms(1), of "db_Password c"] by (simp add: parse_credentials_def)
qed

lemma parse_address_unix: "parse_address (''unix('' @ s @ '')'') = Inr (''unix'', s)"
proof -
  have "cut_first (CHR ''('') (''unix'' @ CHR ''('' # s @ '')'') = Some (''unix'', s @ '')'')"
    by (rule cut_first_Some) simp
  then show ?thesis by (simp add: parse_address_def butlast_append)
qed

definition dsn_of :: "DBHelperConfig \<Rightarrow> dsn" where
  "dsn_of c = \<lparr>dsn_User = db_User c, dsn_Passwd = db_Password c, dsn_Net = ''unix'',
     dsn_Addr = (if db_Socket c = '''' then ''/tmp/mysql.sock'' else db_Socket c),
     dsn_DBName = '''', dsn_query = (if db_SkipBinlog c then Some ''sql_log_bin=off'' else None)\<rparr>"

lemma ParseDSN_round_trip:
  assumes "CHR '':'' \<notin> set (db_User c)" and "CHR ''@'' \<notin> set (db_Socket c)"
  shows "ParseDSN (FormatDSN c) = Inr (dsn_of c)"
  unfolding ParseDSN_def ParseDSN_FormatDSN_cut
  using parse_credentials_FormatDSN [OF assms] parse_address_unix [of "db_Socket c"]
  by (cases "db_Socket c = []") (simp_all add: normalize_def dsn_of_def)

section \<open>Scripts of statements\<close>

text \<open>
  The contract the seeding operations share: a statement that fails is the last one, and its
  error is what the operation returns.
\<close>

fun stmt_error :: "event \<Rightarrow> go_error option" where
  "stmt_error (EvExec q x) = x"
| "stmt_error (EvQuery q x) = x"
| "stmt_error _ = None"

fun halts_on_error :: "event list \<Rightarrow> go_error option \<Rightarrow> bool" where
  "halts_on_error [] r = True"
| "halts_on_error (ev # evs) r =
     (case stmt_error ev of
        None \<Rightarrow> halts_on_error evs r
      | Some x \<Rightarrow> evs = [] \<and> r = Some x)"

lemma halts_on_error_ok:
  "halts_on_error evs None \<longleftrightarrow> (\<forall>ev \<in> set evs. stmt_error ev = None)"
  by (induction evs) (auto split: option.splits)

lemma halts_on_error_append:
  "halts_on_error xs None \<Longrightarrow> halts_on_error ys r \<Longrightarrow> halts_on_error (xs @ ys) r"
  by (induction xs) (auto split: option.splits)

definition scripted :: "go_error option go \<Rightarrow> bool" where
  "scripted m = (\<forall>e w. \<exists>r w' evs. m e w = Some (Ret r, w') \<and> trace w' = trace w @ evs \<and>
     halts_on_error evs r)"

lemma scriptedI:
  "(\<And>e w. \<exists>r w' evs. m e w = Some (Ret r, w') \<and> trace w' = trace w @ evs \<and> halts_on_error evs r) \<Longrightarrow>
   scripted m"
  by (simp add: scripted_def)

lemma scriptedE:
  assumes "scripted m"
  obtains r w' evs where "m e w = Some (Ret r, w')" "trace w' = trace w @ evs" "halts_on_error evs r"
  using assms unfolding scripted_def by blast

lemma scripted_ret: "scripted (ret r)"
  by (auto simp: scripted_def ret_def intro!: exI [of _ "[]"])

lemma scripted_exec:
  "scripted (bind_go (db_Exec q) (\<lambda>err. case err of
     Some x \<Rightarrow> andthen (log_error s (Some x)) (ret (Some x)) | None \<Rightarrow> ret None))"
  by (rule scriptedI) (auto simp: go_defs record_event_def split: option.splits)

text \<open>Running one operation after the other, until the first error.\<close>

fun for_each :: "('i \<Rightarrow> go_error option go) \<Rightarrow> go_error option go \<Rightarrow> 'i list \<Rightarrow> go_error option go" where
  "for_each step final [] = final"
| "for_each step final (x # xs) =
     bind_go (step x) (\<lambda>err. case err of Some y \<Rightarrow> ret (Some y) | None \<Rightarrow> for_each step final xs)"

lemma scripted_seq:
  assumes "scripted m" and "scripted n"
  shows "scripted (bind_go m (\<lambda>err. case err of Some y \<Rightarrow> ret (Some y) | None \<Rightarrow> n))"
proof (rule scriptedI)
  fix e w
  obtain r w1 evs where m: "m e w = Some (Ret r, w1)" "trace w1 = trace w @ evs" "halts_on_error evs r"
    using scriptedE [OF assms(1), of e w] by blast
  show "\<exists>r' w' evs. bind_go m (\<lambda>err. case err of Some y \<Rightarrow> ret (Some y) | None \<Rightarrow> n) e w = Some (Ret r', w') \<and>
      trace w' = trace w @ evs \<and> halts_on_error evs r'"
  proof (cases r)
    case (Some y)
    with m show ?thesis by (auto simp: bind_go_def ret_def)
  next
    case None
    obtain r2 w2 evs2 where n: "n e w1 = Some (Ret r2, w2)" "trace w2 = trace w1 @ evs2" "halts_on_error evs2 r2"
      using scriptedE [OF assms(2), of e w1] by blast
    show ?thesis
      using m n None halts_on_error_append [of evs evs2 r2]
      by (intro exI [of _ r2] exI [of _ w2] exI [of _ "evs @ evs2"]) (simp add: bind_go_def)
  qed
qed

text \<open>A session: the handle is closed whatever the script does.\<close>

definition session_events :: "string \<Rightarrow> event list \<Rightarrow> event list" where
  "session_events name body = EvOpenDB name True # body @ [EvCloseDB]"

definition db_session :: "DBHelperConfig \<Rightarrow> go_error option go \<Rightarrow> go_error option go" where
  "db_session c body =
     bind_go (OpenDBConnection c) (\<lambda>(db, err).
     case err of
       Some x \<Rightarrow> andthen (log_error ''database not reachable'' (Some x)) (ret (Some x))
     | None \<Rightarrow> defer_go CloseDBConnection body)"

lemma db_session_run:
  assumes "scripted body"
  shows "\<exists>r w' evs. db_session c body e w = Some (Ret r, w') \<and> trace w' = trace w @ evs \<and>
     (case ParseDSN (FormatDSN c) of
        Inl x \<Rightarrow> r = Some x \<and> evs = [EvOpenDB (FormatDSN c) False]
      | Inr _ \<Rightarrow> \<exists>stmts. evs = session_events (FormatDSN c) stmts \<and> halts_on_error stmts r)"
proof (cases "ParseDSN (FormatDSN c)")
  case (Inl x)
  then show ?thesis by (auto simp: db_session_def go_defs record_event_def)
next
  case (Inr d)
  let ?w1 = "record_event e (EvOpenDB (FormatDSN c) True) w"
  obtain r w2 evs where b: "body e ?w1 = Some (Ret r, w2)" "trace w2 = trace ?w1 @ evs" "halts_on_error evs r"
    using scriptedE [OF assms, of e ?w1] by blast
  have "db_session c body e w = Some (Ret r, record_event e EvCloseDB w2)"
    using Inr b(1) by (simp add: db_session_def go_defs)
  then show ?thesis
    using Inr b by (auto simp: record_event_def session_events_def)
qed

text \<open>The same, for a run known to have succeeded.\<close>

lemma db_session_ok:
  assumes "db_session c body e w = Some (Ret None, w')"
  obtains w2 where "body e (record_event e (EvOpenDB (FormatDSN c) True) w) = Some (Ret None, w2)"
    and "w' = record_event e EvCloseDB w2"
  using assms
  by (auto simp: db_session_def OpenDBConnection_def sql_Open_def defer_go_def CloseDBConnection_def
      go_basic_defs log_error_def log_at_def split: sum.splits option.splits outcome.splits)

locale script =
  fixes step :: "'i \<Rightarrow> go_error option go" and final :: "go_error option go"
  assumes step_scripted: "scripted (step x)" and final_scripted: "scripted final"
begin

lemma for_each_scripted: "scripted (for_each step final xs)"
  by (induction xs) (auto intro: final_scripted scripted_seq step_scripted)

end

lemma quiet_db [quiet_intros]:
  "stable quiet (OpenDBConnection c)" "stable quiet CloseDBConnection"
  "stable quiet (db_Exec q)" "stable quiet (db_Query_Next q)" "stable quiet (db_QueryRow q)"
  by (unfold sql_db_defs, (intro quiet_intros; simp)+)

lemma example_dsn [simp]: "ParseDSN (FormatDSN example_db) = Inr (dsn_of example_db)"
  by (rule ParseDSN_round_trip) simp_all

declare has_host_port_def [run_rules] ensureHavePort_def [run_rules] normalize_def [run_rules]
  parse_credentials_def [run_rules] parse_address_def [run_rules] sql_Open_def [run_rules]
  OpenDBConnection_def [run_rules] CloseDBConnection_def [run_rules] db_Exec_def [run_rules]
  db_Query_Next_def [run_rules] db_QueryRow_def [run_rules]

lemma return_db [return_intros]:
  "always_returns e (OpenDBConnection c)" "always_returns e CloseDBConnection"
  "always_returns e (db_Exec q)" "always_returns e (db_Query_Next q)" "always_returns e (db_QueryRow q)"
  by (unfold sql_db_defs, (intro return_intros; simp)+)

section \<open>Properties\<close>

text \<open>C32. The data source name the helper formats is read back by the driver as the configured user and
  password and the configured unix socket, whatever the password contains, as long as the user has no
  colon and the socket no at sign; an empty socket means the driver's default.\<close>

theorem dsn_round_trip:
  assumes "CHR '':'' \<notin> set (db_User c)" and "CHR ''@'' \<notin> set (db_Socket c)"
  shows "ParseDSN (FormatDSN c) = Inr \<lparr>dsn_User = db_User c, dsn_Passwd = db_Password c, dsn_Net = ''unix'',
     dsn_Addr = (if db_Socket c = '''' then ''/tmp/mysql.sock'' else db_Socket c),
     dsn_DBName = '''', dsn_query = (if db_SkipBinlog c then Some ''sql_log_bin=off'' else None)\<rparr>"
  using ParseDSN_round_trip [OF assms] by (simp add: dsn_of_def)

theorem dsn_round_trip_witness:
  "ParseDSN (FormatDSN (example_db\<lparr>db_Password := ''p@ss/w:rd?''\<rparr>)) = Inr \<lparr>dsn_User = ''root'', dsn_Passwd = ''p@ss/w:rd?'',
     dsn_Net = ''unix'', dsn_Addr = ''/mysqld.sock'', dsn_DBName = '''', dsn_query = Some ''sql_log_bin=off''\<rparr>"
  using dsn_round_trip [of "example_db\<lparr>db_Password := ''p@ss/w:rd?''\<rparr>"] by (simp add: example_db_def)

end
