(* ===== verification/Seeder.thy ===== *)
theory Seeder
  imports Sql_Db
begin

text \<open>
  \<^verbatim>\<open>db_helper/seeder/seeder.go\<close>: the statements that create a preseeded database and its user.
\<close>

text \<open>The seeder of one database; the handle and the logger are the world's.\<close>

record seeder =
  sd_config :: PreseededDatabase

definition NewSeeder :: "PreseededDatabase \<Rightarrow> seeder" where
  "NewSeeder config = \<lparr>sd_config = config\<rparr>"

text \<open>A format whose \<^verbatim>\<open>%s\<close> stands between single quotes.\<close>

abbreviation squoted :: "string \<Rightarrow> string" where
  "squoted s \<equiv> [CHR 0x27] @ s @ [CHR 0x27]"

definition sql_create_db :: "PreseededDatabase \<Rightarrow> string" where
  "sql_create_db config =
     sprintf ''CREATE DATABASE IF NOT EXISTS `%s`'' [AStr (pd_DBName config)]"

definition sql_find_user :: "PreseededDatabase \<Rightarrow> string" where
  "sql_find_user config =
     sprintf (''SELECT User FROM mysql.user WHERE User = '' @ squoted ''%s'')
       [AStr (pd_User config)]"

definition sql_create_user :: "PreseededDatabase \<Rightarrow> string" where
  "sql_create_user config =
     sprintf (''CREATE USER `%s` IDENTIFIED BY '' @ squoted ''%s'')
       [AStr (pd_User config), AStr (pd_Password config)]"

definition sql_set_password :: "PreseededDatabase \<Rightarrow> string" where
  "sql_set_password config =
     sprintf (''SET PASSWORD FOR `%s` = '' @ squoted ''%s'')
       [AStr (pd_User config), AStr (pd_Password config)]"

definition sql_grant :: "PreseededDatabase \<Rightarrow> string" where
  "sql_grant config =
     sprintf (''GRANT ALL ON `%s`.* TO '' @ squoted ''%s'' @ ''@'' @ squoted ''%%'')
       [AStr (pd_DBName config), AStr (pd_User config)]"

definition sql_revoke_lock :: "PreseededDatabase \<Rightarrow> string" where
  "sql_revoke_lock config =
     sprintf (''REVOKE LOCK TABLES ON `%s`.* FROM '' @ squoted ''%s'' @ ''@'' @ squoted ''%%'')
       [AStr (pd_DBName config), AStr (pd_User config)]"

definition CreateDBIfNeeded :: "seeder \<Rightarrow> go_error option go" where
  "CreateDBIfNeeded s =
     bind_go (db_Exec (sql_create_db (sd_config s))) (\<lambda>err.
     case err of
       Some x \<Rightarrow> andthen (log_error ''Error creating preseeded database'' (Some x)) (ret (Some x))
     | None \<Rightarrow> ret None)"

definition IsExistingUser :: "seeder \<Rightarrow> (bool \<times> go_error option) go" where
  "IsExistingUser s =
     bind_go (db_Query_Next (sql_find_user (sd_config s))) (\<lambda>(hasRow, err).
     case err of
       Some x \<Rightarrow> andthen (log_error ''Error getting list of users'' (Some x)) (ret (False, Some x))
     | None \<Rightarrow> ret (hasRow, None))"

definition CreateUser :: "seeder \<Rightarrow> go_error option go" where
  "CreateUser s =
     bind_go (db_Exec (sql_create_user (sd_config s))) (\<lambda>err.
     case err of
       Some x \<Rightarrow> andthen (log_error ''Error creating user'' (Some x)) (ret (Some x))
     | None \<Rightarrow> ret None)"

definition UpdateUser :: "seeder \<Rightarrow> go_error option go" where
  "UpdateUser s =
     bind_go (db_Exec (sql_set_password (sd_config s))) (\<lambda>err.
     case err of
       Some x \<Rightarrow> andthen (log_error ''Error updating user'' (Some x)) (ret (Some x))
     | None \<Rightarrow> ret None)"

definition GrantUserPrivileges :: "seeder \<Rightarrow> go_error option go" where
  "GrantUserPrivileges s =
     bind_go (db_Exec (sql_grant (sd_config s))) (\<lambda>err.
     case err of
       Some x \<Rightarrow> andthen (log_error ''Error granting user privileges'' (Some x)) (ret (Some x))
     | None \<Rightarrow>
         bind_go (db_Exec (sql_revoke_lock (sd_config s))) (\<lambda>err2.
         case err2 of
           Some x \<Rightarrow>
             andthen (log_error ''Error revoking LOCK TABLES privilege'' (Some x)) (ret (Some x))
         | None \<Rightarrow> ret None))"

lemmas seeder_defs [go_defs] =
  CreateDBIfNeeded_def IsExistingUser_def CreateUser_def UpdateUser_def GrantUserPrivileges_def

declare sql_grant_def [run_rules] CreateDBIfNeeded_def [run_rules] IsExistingUser_def [run_rules]
  CreateUser_def [run_rules] UpdateUser_def [run_rules] GrantUserPrivileges_def [run_rules]

end
