(* ===== verification/User_Seeder.thy ===== *)
theory User_Seeder
  imports Sql_Db
begin

text \<open>
  \<^verbatim>\<open>db_helper/user_seeder.go\<close>: creating a user with a password, a host and a role.
\<close>

definition getRoleQuery :: "string \<Rightarrow> string \<times> go_error option" where
  "getRoleQuery role =
     (if role = ''admin''
      then (''GRANT ALL PRIVILEGES ON *.* TO `%s`@`%s` WITH GRANT OPTION'', None)
      else if role = ''minimal''
      then (''REVOKE ALL PRIVILEGES ON *.* FROM `%s`@`%s`'', None)
      else ('''', Some (ErrorString (sprintf ''Invalid role: %s'' [AStr role]))))"

definition getHostString :: "string \<Rightarrow> string \<times> go_error option" where
  "getHostString host =
     (if host = ''localhost'' then (''localhost'', None)
      else if host = ''loopback'' then (''127.0.0.1'', None)
      else if host = ''any'' then (''%'', None)
      else ('''', Some (ErrorString (sprintf ''Invalid host: %s'' [AStr host]))))"

definition sql_create_seeded :: "string \<Rightarrow> string \<Rightarrow> string \<Rightarrow> string" where
  "sql_create_seeded user hostString password =
     sprintf (''CREATE USER IF NOT EXISTS `%s`@`%s` IDENTIFIED BY ''
              @ [CHR 0x27] @ ''%s'' @ [CHR 0x27])
       [AStr user, AStr hostString, AStr password]"

definition sql_alter_seeded :: "string \<Rightarrow> string \<Rightarrow> string \<Rightarrow> string" where
  "sql_alter_seeded user hostString password =
     sprintf (''ALTER USER `%s`@`%s` IDENTIFIED BY '' @ [CHR 0x27] @ ''%s'' @ [CHR 0x27])
       [AStr user, AStr hostString, AStr password]"

definition SeedUser ::
  "string \<Rightarrow> string \<Rightarrow> string \<Rightarrow> string \<Rightarrow> go_error option go" where
  "SeedUser user password host role =
     (let (roleQuery, err) = getRoleQuery role in
      case err of
        Some x \<Rightarrow> andthen (log_error ''Invalid role'' (Some x)) (ret (Some x))
      | None \<Rightarrow>
     (let (hostString, err) = getHostString host in
      case err of
        Some x \<Rightarrow> andthen (log_error ''Invalid host'' (Some x)) (ret (Some x))
      | None \<Rightarrow>
     bind_go (db_Exec (sql_create_seeded user hostString password)) (\<lambda>err.
     case err of
       Some x \<Rightarrow> andthen (log_error ''Error creating user'' (Some x)) (ret (Some x))
     | None \<Rightarrow>
     bind_go (db_Exec (sql_alter_seeded user hostString password)) (\<lambda>err.
     case err of
       Some x \<Rightarrow> andthen (log_error ''Error updating user password'' (Some x)) (ret (Some x))
     | None \<Rightarrow>
     bind_go (db_Exec (sprintf roleQuery [AStr user, AStr hostString])) (\<lambda>err.
     case err of
       Some x \<Rightarrow> andthen (log_error ''Error changing grants on user'' (Some x)) (ret (Some x))
     | None \<Rightarrow> ret None)))))"

declare getRoleQuery_def [run_rules] getHostString_def [run_rules] SeedUser_def [run_rules]

end
