(* ===== verification/Db_Helper.thy ===== *)
theory Db_Helper
  imports Seeder User_Seeder
begin

text \<open>
  \<^verbatim>\<open>db_helper/db_helper.go\<close>: starting and stopping mysqld, probing it, seeding databases and
  users, and running the post-start SQL files.
\<close>

record GaleraDBHelper =
  dbh_logFileLocation :: string
  dbh_config :: DBHelperConfig

definition NewDBHelper :: "DBHelperConfig \<Rightarrow> string \<Rightarrow> GaleraDBHelper" where
  "NewDBHelper config logFileLocation =
     \<lparr>dbh_logFileLocation = logFileLocation, dbh_config = config\<rparr>"

section \<open>Processes\<close>

definition mylogin_arg :: string where
  "mylogin_arg = ''--defaults-file=/var/vcap/jobs/pxc-mysql/config/mylogin.cnf''"

definition mycnf_arg :: string where
  "mycnf_arg = ''--defaults-file=/var/vcap/jobs/pxc-mysql/config/my.cnf''"

definition new_cluster_arg :: string where
  "new_cluster_arg = ''--wsrep-new-cluster''"

definition IsProcessRunning :: "GaleraDBHelper \<Rightarrow> bool go" where
  "IsProcessRunning m =
     bind_go (RunCommand ''mysqladmin'' [mylogin_arg, ''status'']) (\<lambda>(_, err).
     ret (err = None))"

definition upgrade_args :: "string list" where
  "upgrade_args =
     [mycnf_arg, ''--wsrep-on=OFF'', ''--wsrep-desync=ON'', ''--wsrep-OSU-method=RSU'',
      ''--wsrep-provider=none'', ''--skip-networking'']"

definition StartMysqldForUpgrade :: "GaleraDBHelper \<Rightarrow> (cmd option \<times> go_error option) go" where
  "StartMysqldForUpgrade m =
     bind_go (StartCommand (dbh_logFileLocation m) ''mysqld'' upgrade_args) (\<lambda>(cmd, err).
     case err of
       Some x \<Rightarrow> ret (None, errors_Wrap (Some x) ''Error starting mysqld in stand-alone'')
     | None \<Rightarrow> ret (cmd, None))"

definition startMysqldAsChildProcess ::
  "GaleraDBHelper \<Rightarrow> string list \<Rightarrow> (cmd option \<times> go_error option) go" where
  "startMysqldAsChildProcess m mysqlArgs =
     StartCommand (dbh_logFileLocation m) ''mysqld'' mysqlArgs"

definition StartMysqldInJoin :: "GaleraDBHelper \<Rightarrow> (cmd option \<times> go_error option) go" where
  "StartMysqldInJoin m =
     andthen (log_info (''Starting mysqld with '' @ squoted ''join'' @ ''.''))
     (bind_go (startMysqldAsChildProcess m [mycnf_arg]) (\<lambda>(cmd, err).
      case err of
        Some x \<Rightarrow>
          andthen (log_info (sprintf ''Error starting mysqld: %s'' [AStr (error_text x)]))
          (ret (None, Some x))
      | None \<Rightarrow> ret (cmd, None)))"

definition StartMysqldInBootstrap :: "GaleraDBHelper \<Rightarrow> (cmd option \<times> go_error option) go" where
  "StartMysqldInBootstrap m =
     andthen (log_info (''Starting mysql with '' @ squoted ''bootstrap'' @ ''.''))
     (bind_go (startMysqldAsChildProcess m [mycnf_arg, new_cluster_arg]) (\<lambda>(cmd, err).
      case err of
        Some x \<Rightarrow>
          andthen (log_info (sprintf (''Error starting node with '' @ squoted ''bootstrap''
                     @ '': %s'') [AStr (error_text x)]))
          (ret (None, Some x))
      | None \<Rightarrow> ret (cmd, None)))"

definition StopMysqld :: "GaleraDBHelper \<Rightarrow> unit go" where
  "StopMysqld m =
     andthen (log_info ''Stopping node'')
     (bind_go (RunCommand ''mysqladmin'' [mylogin_arg, ''shutdown'']) (\<lambda>(_, err).
      case err of
        Some x \<Rightarrow> log_fatal ''Error stopping mysqld'' (Some x)
      | None \<Rightarrow> ret ()))"

definition dbh_Upgrade :: "GaleraDBHelper \<Rightarrow> (string \<times> go_error option) go" where
  "dbh_Upgrade m = RunCommand (db_UpgradePath (dbh_config m)) [mylogin_arg]"

section \<open>Reachability\<close>

definition sql_wsrep_provider :: string where
  "sql_wsrep_provider =
     ''SHOW GLOBAL VARIABLES LIKE '' @ squoted (''wsrep'' @ [CHR 0x5C] @ ''_provider'')"

definition sql_local_state :: string where
  "sql_local_state =
     ''SHOW GLOBAL STATUS LIKE '' @ squoted (''wsrep'' @ [CHR 0x5C] @ ''_local'' @ [CHR 0x5C]
       @ ''_state'' @ [CHR 0x5C] @ ''_comment'')"

definition IsDatabaseReachable :: "GaleraDBHelper \<Rightarrow> bool go" where
  "IsDatabaseReachable m =
     andthen (log_info ''Determining if database is reachable'')
     (bind_go (OpenDBConnection (dbh_config m)) (\<lambda>(db, err).
      case err of
        Some x \<Rightarrow> andthen (log_info ''database not reachable'') (ret False)
      | None \<Rightarrow>
     defer_go CloseDBConnection
     (bind_go (db_QueryRow sql_wsrep_provider) (\<lambda>res.
      case res of
        Inl x \<Rightarrow>
          (if x = ErrNoRows
           then andthen (log_info ''Database is reachable, Galera is off'') (ret True)
           else andthen (log_debug (sprintf ''Could not connect to database, received: %v''
                  [AStr (error_text x)])) (ret False))
      | Inr val \<Rightarrow>
          (if val = ''none''
           then andthen (log_info ''Database is reachable, Galera is off'') (ret True)
           else
     bind_go (db_QueryRow sql_local_state) (\<lambda>res2.
     case res2 of
       Inl x \<Rightarrow>
         andthen (log_debug (sprintf ''Galera state not Synced, received: %v''
           [AStr (error_text x)])) (ret False)
     | Inr val2 \<Rightarrow>
         andthen (log_info (sprintf ''Galera Database state is %s'' [AStr val2]))
         (ret (val2 = ''Synced''))))))))"

section \<open>Seeding\<close>

definition flushPrivileges :: "go_error option go" where
  "flushPrivileges =
     bind_go (db_Exec ''FLUSH PRIVILEGES'') (\<lambda>err.
     case err of
       Some x \<Rightarrow> andthen (log_error ''Error flushing privileges'' (Some x)) (ret (Some x))
     | None \<Rightarrow> ret None)"

definition BuildSeeder :: "PreseededDatabase \<Rightarrow> seeder" where
  "BuildSeeder config = NewSeeder config"

lemma BuildSeeder_config [simp]: "sd_config (BuildSeeder d) = d"
  by (simp add: BuildSeeder_def NewSeeder_def)

definition seed_one :: "PreseededDatabase \<Rightarrow> go_error option go" where
  "seed_one dbToCreate =
     bind_go (CreateDBIfNeeded (BuildSeeder dbToCreate)) (\<lambda>err.
     case err of Some x \<Rightarrow> ret (Some x) | None \<Rightarrow>
     bind_go (IsExistingUser (BuildSeeder dbToCreate)) (\<lambda>(userAlreadyExists, err).
     case err of Some x \<Rightarrow> ret (Some x) | None \<Rightarrow>
     bind_go (if userAlreadyExists = False then CreateUser (BuildSeeder dbToCreate)
              else UpdateUser (BuildSeeder dbToCreate)) (\<lambda>err.
     case err of Some x \<Rightarrow> ret (Some x) | None \<Rightarrow>
     GrantUserPrivileges (BuildSeeder dbToCreate))))"

fun seed_loop :: "PreseededDatabase list \<Rightarrow> go_error option go" where
  "seed_loop [] = flushPrivileges"
| "seed_loop (d # ds) =
     bind_go (seed_one d) (\<lambda>err.
     case err of Some x \<Rightarrow> ret (Some x) | None \<Rightarrow> seed_loop ds)"

definition Seed :: "GaleraDBHelper \<Rightarrow> go_error option go" where
  "Seed m =
     (if db_PreseededDatabases (dbh_config m) = []
      then andthen (log_info ''No preseeded databases specified, skipping seeding.'') (ret None)
      else
     andthen (log_info ''Preseeding Databases'')
     (bind_go (OpenDBConnection (dbh_config m)) (\<lambda>(db, err).
      case err of
        Some x \<Rightarrow> andthen (log_error ''database not reachable'' (Some x)) (ret (Some x))
      | None \<Rightarrow>
          defer_go CloseDBConnection (seed_loop (db_PreseededDatabases (dbh_config m))))))"

fun seed_users_loop :: "SeededUser list \<Rightarrow> go_error option go" where
  "seed_users_loop [] = ret None"
| "seed_users_loop (u # us) =
     bind_go (SeedUser (su_User u) (su_Password u) (su_Host u) (su_Role u)) (\<lambda>err.
     case err of Some x \<Rightarrow> ret (Some x) | None \<Rightarrow> seed_users_loop us)"

definition SeedUsers :: "GaleraDBHelper \<Rightarrow> go_error option go" where
  "SeedUsers m =
     (if db_SeededUsers (dbh_config m) = []
      then andthen (log_info ''No seeded users specified, skipping seeding.'') (ret None)
      else
     andthen (log_info ''Seeding Users'')
     (bind_go (OpenDBConnection (dbh_config m)) (\<lambda>(db, err).
      case err of
        Some x \<Rightarrow> andthen (log_error ''database not reachable'' (Some x)) (ret (Some x))
      | None \<Rightarrow>
          defer_go CloseDBConnection (seed_users_loop (db_SeededUsers (dbh_config m))))))"

fun post_start_loop :: "string list \<Rightarrow> go_error option go" where
  "post_start_loop [] = ret None"
| "post_start_loop (file # fs) =
     bind_go (ioutil_ReadFile file) (\<lambda>(sqlString, err).
     case err of
       Some x \<Rightarrow>
         andthen (log_error ''error reading PostStartSQL file'' (Some x)) (post_start_loop fs)
     | None \<Rightarrow>
         bind_go (db_Exec sqlString) (\<lambda>err.
         case err of Some x \<Rightarrow> ret (Some x) | None \<Rightarrow> post_start_loop fs))"

definition RunPostStartSQL :: "GaleraDBHelper \<Rightarrow> go_error option go" where
  "RunPostStartSQL m =
     andthen (log_info ''Running Post Start SQL Queries'')
     (bind_go (OpenDBConnection (dbh_config m)) (\<lambda>(db, err).
      case err of
        Some x \<Rightarrow> andthen (log_error ''database not reachable'' (Some x)) (ret (Some x))
      | None \<Rightarrow>
          defer_go CloseDBConnection (post_start_loop (db_PostStartSQLFiles (dbh_config m)))))"

section \<open>Footprints\<close>

lemma emits_seeding [emits_intros]:
  assumes "\<And>ev. sql_event ev \<Longrightarrow> A ev"
  shows "emits A (seed_one d)" "emits A (seed_loop ds)" "emits A (seed_users_loop us)" "emits A (Seed m)"
    "emits A (SeedUsers m)" "emits A (IsDatabaseReachable m)"
proof -
  note sql = assms
  show one: "emits A (seed_one d)" for d
    unfolding seed_one_def seeder_defs by (intro emits_intros; simp add: sql)+
  show loop: "emits A (seed_loop ds)"  for ds
    by (induction ds) (auto simp: flushPrivileges_def sql intro!: emits_intros one)
  have user: "emits A (SeedUser u p h r)" for u p h r
    unfolding SeedUser_def by (intro emits_intros; simp add: sql)+
  show users: "emits A (seed_users_loop us)" for us
    by (induction us) (auto simp: sql intro!: emits_intros user)
  show "emits A (Seed m)" "emits A (SeedUsers m)" "emits A (IsDatabaseReachable m)"
    unfolding Seed_def SeedUsers_def IsDatabaseReachable_def
    by (intro emits_intros loop users; simp add: sql)+
qed

lemma emits_post_start [emits_intros]:
  assumes "\<And>ev. sql_event ev \<Longrightarrow> A ev" and "\<And>f b. A (EvRead f b)"
  shows "emits A (post_start_loop fs)" "emits A (RunPostStartSQL m)"
proof -
  show loop: "emits A (post_start_loop fs)" for fs
    by (induction fs) (auto simp: assms intro!: emits_intros)
  show "emits A (RunPostStartSQL m)"
    unfolding RunPostStartSQL_def by (intro emits_intros loop; simp add: assms)+
qed

lemma emits_processes [emits_intros]:
  "(\<And>x. A (EvRun ''mysqladmin'' [mylogin_arg, ''status''] x)) \<Longrightarrow> emits A (IsProcessRunning m)"
  "(\<And>x. A (EvRun ''mysqladmin'' [mylogin_arg, ''shutdown''] x)) \<Longrightarrow> emits A (StopMysqld m)"
  "(\<And>x. A (EvRun (db_UpgradePath (dbh_config m)) [mylogin_arg] x)) \<Longrightarrow> emits A (dbh_Upgrade m)"
  by (unfold IsProcessRunning_def StopMysqld_def dbh_Upgrade_def, (intro emits_intros; simp)+)

lemma emits_start_mysqld [emits_intros]:
  assumes "\<And>b. A (EvOpenAppend (dbh_logFileLocation m) b)"
  shows "(\<And>p. A (EvStart ''mysqld'' upgrade_args p)) \<Longrightarrow> emits A (StartMysqldForUpgrade m)"
    "(\<And>p. A (EvStart ''mysqld'' [mycnf_arg] p)) \<Longrightarrow> emits A (StartMysqldInJoin m)"
    "(\<And>p. A (EvStart ''mysqld'' [mycnf_arg, new_cluster_arg] p)) \<Longrightarrow> emits A (StartMysqldInBootstrap m)"
  by (unfold StartMysqldForUpgrade_def StartMysqldInJoin_def StartMysqldInBootstrap_def
      startMysqldAsChildProcess_def, (intro emits_intros; simp add: assms)+)

lemma journal_seeding [journal_intros]:
  "stable journal (seed_one d)" "stable journal (seed_loop ds)" "stable journal (SeedUser u p h r)"
  "stable journal (seed_users_loop us)" "stable journal (post_start_loop fs)"
proof -
  show one: "stable journal (seed_one d)" for d
    unfolding seed_one_def seeder_defs by (intro journal_intros; simp)+
  show "stable journal (seed_loop ds)"
    by (induction ds) (auto simp: flushPrivileges_def intro!: journal_intros one)
  show user: "stable journal (SeedUser u p h r)" for u p h r
    unfolding SeedUser_def by (intro journal_intros; simp)+
  show "stable journal (seed_users_loop us)"
    by (induction us) (auto intro!: journal_intros user)
  show "stable journal (post_start_loop fs)"
    by (induction fs) (auto intro!: journal_intros)
qed

lemma journal_db_helper [journal_intros]:
  "stable journal (Seed m)" "stable journal (SeedUsers m)" "stable journal (RunPostStartSQL m)"
  "stable journal (IsDatabaseReachable m)" "stable journal (IsProcessRunning m)"
  "stable journal (StopMysqld m)" "stable journal (dbh_Upgrade m)"
  "stable journal (StartMysqldForUpgrade m)" "stable journal (StartMysqldInJoin m)"
  "stable journal (StartMysqldInBootstrap m)"
  by (unfold Seed_def SeedUsers_def RunPostStartSQL_def IsDatabaseReachable_def IsProcessRunning_def
      StopMysqld_def dbh_Upgrade_def StartMysqldForUpgrade_def StartMysqldInJoin_def
      StartMysqldInBootstrap_def startMysqldAsChildProcess_def, (intro journal_intros; simp)+)

section \<open>The verdict on the database\<close>

text \<open>
  The verdict on the two answers of the server: galera switched off, or a synced node.
\<close>

definition galera_verdict :: "go_error + string \<times> string \<Rightarrow> go_error + string \<times> string \<Rightarrow> bool" where
  "galera_verdict provider state =
     (case provider of
        Inl x \<Rightarrow> x = ErrNoRows
      | Inr (_, val) \<Rightarrow>
          val = ''none'' \<or> (case state of Inl _ \<Rightarrow> False | Inr (_, st) \<Rightarrow> st = ''Synced''))"

definition row_error :: "go_error + string \<times> string \<Rightarrow> go_error option" where
  "row_error r = (case r of Inl x \<Rightarrow> Some x | Inr _ \<Rightarrow> None)"

definition asks_state :: "go_error + string \<times> string \<Rightarrow> bool" where
  "asks_state provider = (case provider of Inl _ \<Rightarrow> False | Inr (_, val) \<Rightarrow> val \<noteq> ''none'')"

text \<open>The interactions of one probe of a database whose name the driver accepts.\<close>

definition reach_events ::
  "GaleraDBHelper \<Rightarrow> go_error + string \<times> string \<Rightarrow> go_error + string \<times> string \<Rightarrow> event list" where
  "reach_events m provider state =
     [EvOpenDB (FormatDSN (dbh_config m)) True, EvQueryRow sql_wsrep_provider (row_error provider)]
     @ (if asks_state provider then [EvQueryRow sql_local_state (row_error state)] else [])
     @ [EvCloseDB]"

lemma IsDatabaseReachable_run:
  fixes e :: env and w :: world
  assumes "ParseDSN (FormatDSN (dbh_config m)) = Inr cfg"
  defines "h0 \<equiv> trace w @ [EvOpenDB (FormatDSN (dbh_config m)) True]"
  defines "provider \<equiv> query_row e h0 sql_wsrep_provider"
  defines "state \<equiv> query_row e (h0 @ [EvQueryRow sql_wsrep_provider None]) sql_local_state"
  shows "\<exists>w'. IsDatabaseReachable m e w = Some (Ret (galera_verdict provider state), w') \<and>
    trace w' = trace w @ reach_events m provider state"
  using assms(1) unfolding IsDatabaseReachable_def
  by (cases provider; cases state)
     (auto simp: go_defs provider_def state_def h0_def record_event_def galera_verdict_def
        asks_state_def row_error_def reach_events_def)

lemma IsDatabaseReachable_bad_dsn:
  assumes "ParseDSN (FormatDSN (dbh_config m)) = Inl err"
  shows "\<exists>w'. IsDatabaseReachable m e w = Some (Ret False, w') \<and>
    trace w' = trace w @ [EvOpenDB (FormatDSN (dbh_config m)) False]"
  using assms unfolding IsDatabaseReachable_def by (auto simp: go_defs record_event_def)

text \<open>A probe always comes back, and opens the database once.\<close>

lemma IsDatabaseReachable_total:
  "\<exists>b w' evs. IsDatabaseReachable m e w = Some (Ret b, w') \<and> trace w' = trace w @ evs \<and>
     length (filter (\<lambda>ev. \<exists>n ok. ev = EvOpenDB n ok) evs) = 1 \<and> (\<forall>ev \<in> set evs. sql_event ev)"
proof (cases "ParseDSN (FormatDSN (dbh_config m))")
  case (Inl err)
  with IsDatabaseReachable_bad_dsn [OF Inl, of e w] show ?thesis by fastforce
next
  case (Inr cfg)
  with IsDatabaseReachable_run [OF Inr, of e w] show ?thesis
    by (fastforce simp: reach_events_def split: if_splits)
qed

section \<open>Scripts of statements\<close>

lemma seed_one_scripted: "scripted (seed_one d)"
proof (rule scriptedI)
  fix e w
  show "\<exists>r w' evs. seed_one d e w = Some (Ret r, w') \<and> trace w' = trace w @ evs \<and> halts_on_error evs r"
    unfolding seed_one_def by (auto simp: go_defs record_event_def split: option.splits sum.splits)
qed

lemma flushPrivileges_scripted: "scripted flushPrivileges"
  unfolding flushPrivileges_def by (rule scripted_exec)

lemma SeedUser_scripted: "scripted (SeedUser u p h r)"
proof (rule scriptedI)
  fix e w
  show "\<exists>res w' evs. SeedUser u p h r e w = Some (Ret res, w') \<and> trace w' = trace w @ evs \<and>
      halts_on_error evs res"
    unfolding SeedUser_def
    by (auto simp: go_defs record_event_def Let_def split: option.splits prod.splits)
qed

definition seed_user :: "SeededUser \<Rightarrow> go_error option go" where
  "seed_user u = SeedUser (su_User u) (su_Password u) (su_Host u) (su_Role u)"

definition post_start_file :: "string \<Rightarrow> go_error option go" where
  "post_start_file file =
     bind_go (ioutil_ReadFile file) (\<lambda>(sqlString, err).
     case err of
       Some x \<Rightarrow> andthen (log_error ''error reading PostStartSQL file'' (Some x)) (ret None)
     | None \<Rightarrow> db_Exec sqlString)"

lemma post_start_file_scripted: "scripted (post_start_file f)"
proof (rule scriptedI)
  fix e w
  show "\<exists>res w' evs. post_start_file f e w = Some (Ret res, w') \<and> trace w' = trace w @ evs \<and>
      halts_on_error evs res"
    unfolding post_start_file_def by (auto simp: go_defs record_event_def split: option.splits)
qed

interpretation sd: script seed_one flushPrivileges
  by unfold_locales (rule seed_one_scripted flushPrivileges_scripted)+

interpretation su: script seed_user "ret None"
  by unfold_locales (simp_all add: seed_user_def SeedUser_scripted scripted_ret)

interpretation ps: script post_start_file "ret None"
  by unfold_locales (rule post_start_file_scripted scripted_ret)+

text \<open>The loops of the source are such scripts.\<close>

lemma seed_loop_each: "seed_loop ds = for_each seed_one flushPrivileges ds"
  by (induction ds) simp_all

lemma seed_users_loop_each: "seed_users_loop us = for_each seed_user (ret None) us"
  by (induction us) (simp_all add: seed_user_def)

lemma post_start_loop_each: "post_start_loop fs = for_each post_start_file (ret None) fs"
proof (induction fs)
  case (Cons f fs)
  have "post_start_loop (f # fs) e w = bind_go (post_start_file f)
      (\<lambda>err. case err of Some y \<Rightarrow> ret (Some y) | None \<Rightarrow> post_start_loop fs) e w" for e w
    by (auto simp: post_start_file_def go_defs split: option.splits)
  then show ?case unfolding for_each.simps Cons.IH [symmetric] by blast
qed simp

lemma Seed_session:
  "db_PreseededDatabases (dbh_config m) \<noteq> [] \<Longrightarrow>
   Seed m = andthen (log_info ''Preseeding Databases'')
     (db_session (dbh_config m) (seed_loop (db_PreseededDatabases (dbh_config m))))"
  by (simp add: Seed_def db_session_def)

lemma SeedUsers_session:
  "db_SeededUsers (dbh_config m) \<noteq> [] \<Longrightarrow>
   SeedUsers m = andthen (log_info ''Seeding Users'')
     (db_session (dbh_config m) (seed_users_loop (db_SeededUsers (dbh_config m))))"
  by (simp add: SeedUsers_def db_session_def)

lemma RunPostStartSQL_session:
  "RunPostStartSQL m = andthen (log_info ''Running Post Start SQL Queries'')
     (db_session (dbh_config m) (post_start_loop (db_PostStartSQLFiles (dbh_config m))))"
  by (simp add: RunPostStartSQL_def db_session_def)

subsection \<open>The statements of a successful run\<close>

definition seed_events :: "PreseededDatabase \<Rightarrow> bool \<Rightarrow> event list" where
  "seed_events d existing =
     [EvExec (sql_create_db d) None, EvQuery (sql_find_user d) None,
      EvExec (if existing then sql_set_password d else sql_create_user d) None,
      EvExec (sql_grant d) None, EvExec (sql_revoke_lock d) None]"

lemma exec_logged_ok:
  assumes "bind_go (db_Exec q) (\<lambda>err. case err of
     Some x \<Rightarrow> andthen (log_error s (Some x)) (ret (Some x)) | None \<Rightarrow> ret None) e w = Some (Ret None, w')"
  shows "trace w' = trace w @ [EvExec q None] \<and> open_rows w' = open_rows w"
  using assms by (auto simp: go_defs record_event_def split: option.splits)

lemma seeder_exec_ok:
  "CreateDBIfNeeded (BuildSeeder d) e w = Some (Ret None, w') \<Longrightarrow>
     trace w' = trace w @ [EvExec (sql_create_db d) None] \<and> open_rows w' = open_rows w"
  "CreateUser (BuildSeeder d) e w = Some (Ret None, w') \<Longrightarrow>
     trace w' = trace w @ [EvExec (sql_create_user d) None] \<and> open_rows w' = open_rows w"
  "UpdateUser (BuildSeeder d) e w = Some (Ret None, w') \<Longrightarrow>
     trace w' = trace w @ [EvExec (sql_set_password d) None] \<and> open_rows w' = open_rows w"
  "flushPrivileges e w = Some (Ret None, w') \<Longrightarrow>
     trace w' = trace w @ [EvExec ''FLUSH PRIVILEGES'' None] \<and> open_rows w' = open_rows w"
  unfolding CreateDBIfNeeded_def CreateUser_def UpdateUser_def flushPrivileges_def BuildSeeder_config
  by (erule exec_logged_ok)+

lemma GrantUserPrivileges_ok:
  assumes "GrantUserPrivileges (BuildSeeder d) e w = Some (Ret None, w')"
  shows "trace w' = trace w @ [EvExec (sql_grant d) None, EvExec (sql_revoke_lock d) None] \<and>
     open_rows w' = open_rows w"
  using assms unfolding GrantUserPrivileges_def
  by (auto simp: go_defs record_event_def split: option.splits)

lemma IsExistingUser_ok:
  assumes "IsExistingUser (BuildSeeder d) e w = Some (Ret (existing, None), w')"
  shows "trace w' = trace w @ [EvQuery (sql_find_user d) None] \<and>
     open_rows w' = open_rows w + (if existing then 1 else 0)"
  using assms unfolding IsExistingUser_def
  by (auto simp: go_defs record_event_def split: option.splits sum.splits if_splits)

lemma seed_one_ok:
  assumes "seed_one d e w = Some (Ret None, w')"
  shows "\<exists>existing. trace w' = trace w @ seed_events d existing \<and>
     open_rows w' = open_rows w + (if existing then 1 else 0)"
proof -
  obtain w1 w2 w3 existing where
    1: "CreateDBIfNeeded (BuildSeeder d) e w = Some (Ret None, w1)" and
    2: "IsExistingUser (BuildSeeder d) e w1 = Some (Ret (existing, None), w2)" and
    3: "(if existing = False then CreateUser (BuildSeeder d) else UpdateUser (BuildSeeder d)) e w2 = Some (Ret None, w3)" and
    4: "GrantUserPrivileges (BuildSeeder d) e w3 = Some (Ret None, w')"
    using assms unfolding seed_one_def
    by (auto simp: bind_eq_Some ret_def split: option.splits prod.splits)
  have "trace w3 = trace w2 @ [EvExec (if existing then sql_set_password d else sql_create_user d) None] \<and>
      open_rows w3 = open_rows w2"
    using 3 seeder_exec_ok(2,3) by (cases existing) auto
  then show ?thesis
    using seeder_exec_ok(1) [OF 1] IsExistingUser_ok [OF 2] GrantUserPrivileges_ok [OF 4]
    by (intro exI [of _ existing]) (simp add: seed_events_def)
qed

lemma seed_loop_ok:
  "seed_loop ds e w = Some (Ret None, w') \<Longrightarrow>
   \<exists>exs. length exs = length ds \<and>
     trace w' = trace w @ concat (map2 seed_events ds exs) @ [EvExec ''FLUSH PRIVILEGES'' None] \<and>
     open_rows w' = open_rows w + length (filter (\<lambda>x. x) exs)"
proof (induction ds arbitrary: w)
  case Nil
  then show ?case using seeder_exec_ok(4) [of e w w'] by simp
next
  case (Cons d ds)
  obtain w1 where one: "seed_one d e w = Some (Ret None, w1)" and rest: "seed_loop ds e w1 = Some (Ret None, w')"
    using Cons.prems by (auto simp: bind_eq_Some ret_def split: option.splits)
  obtain ex where "trace w1 = trace w @ seed_events d ex"
    "open_rows w1 = open_rows w + (if ex then 1 else 0)" using seed_one_ok [OF one] by blast
  moreover obtain exs where "length exs = length ds"
    "trace w' = trace w1 @ concat (map2 seed_events ds exs) @ [EvExec ''FLUSH PRIVILEGES'' None]"
    "open_rows w' = open_rows w1 + length (filter (\<lambda>x. x) exs)" using Cons.IH [OF rest] by blast
  ultimately show ?case by (intro exI [of _ "ex # exs"]) simp
qed

definition seed_user_events :: "SeededUser \<Rightarrow> event list" where
  "seed_user_events u =
     (let host = fst (getHostString (su_Host u)) in
      [EvExec (sql_create_seeded (su_User u) host (su_Password u)) None,
       EvExec (sql_alter_seeded (su_User u) host (su_Password u)) None,
       EvExec (sprintf (fst (getRoleQuery (su_Role u))) [AStr (su_User u), AStr host]) None])"

lemma seed_user_ok:
  assumes "seed_user u e w = Some (Ret None, w')"
  shows "trace w' = trace w @ seed_user_events u \<and>
     snd (getRoleQuery (su_Role u)) = None \<and> snd (getHostString (su_Host u)) = None"
  using assms unfolding seed_user_def SeedUser_def
  by (auto simp: go_defs record_event_def Let_def seed_user_events_def split: option.splits prod.splits)

lemma seed_users_loop_ok:
  "seed_users_loop us e w = Some (Ret None, w') \<Longrightarrow>
   trace w' = trace w @ concat (map seed_user_events us) \<and>
   (\<forall>u \<in> set us. snd (getRoleQuery (su_Role u)) = None \<and> snd (getHostString (su_Host u)) = None)"
proof (induction us arbitrary: w)
  case Nil
  then show ?case by (simp add: ret_def)
next
  case (Cons u us)
  obtain w1 where one: "seed_user u e w = Some (Ret None, w1)" and rest: "seed_users_loop us e w1 = Some (Ret None, w')"
    using Cons.prems by (auto simp: bind_eq_Some ret_def seed_user_def split: option.splits)
  show ?case using seed_user_ok [OF one] Cons.IH [OF rest] by simp
qed

lemma quiet_seeding [quiet_intros]:
  "stable quiet (seed_one d)" "stable quiet (seed_loop ds)" "stable quiet (SeedUser u p h r)"
  "stable quiet (seed_users_loop us)" "stable quiet (post_start_loop fs)"
proof -
  show one: "stable quiet (seed_one d)" for d
    unfolding seed_one_def seeder_defs by (intro quiet_intros; simp)+
  show "stable quiet (seed_loop ds)"
    by (induction ds) (auto simp: flushPrivileges_def intro!: quiet_intros one)
  show user: "stable quiet (SeedUser u p h r)" for u p h r
    unfolding SeedUser_def by (intro quiet_intros; simp)+
  show "stable quiet (seed_users_loop us)"
    by (induction us) (auto intro!: quiet_intros user)
  show "stable quiet (post_start_loop fs)"
    by (induction fs) (auto intro!: quiet_intros)
qed

lemma quiet_db_helper [quiet_intros]:
  "stable quiet (Seed m)" "stable quiet (SeedUsers m)" "stable quiet (RunPostStartSQL m)"
  "stable quiet (IsDatabaseReachable m)"
  by (unfold Seed_def SeedUsers_def RunPostStartSQL_def IsDatabaseReachable_def,
      (intro quiet_intros; simp)+)

declare IsProcessRunning_def [run_rules] StartMysqldForUpgrade_def [run_rules]
  startMysqldAsChildProcess_def [run_rules] StartMysqldInJoin_def [run_rules]
  StartMysqldInBootstrap_def [run_rules] StopMysqld_def [run_rules] dbh_Upgrade_def [run_rules]
  IsDatabaseReachable_def [run_rules] flushPrivileges_def [run_rules] seed_one_def [run_rules]
  Seed_def [run_rules] SeedUsers_def [run_rules] RunPostStartSQL_def [run_rules]

lemma NewDBHelper_simps [simp]: "dbh_config (NewDBHelper c l) = c" "dbh_logFileLocation (NewDBHelper c l) = l"
  by (simp_all add: NewDBHelper_def)

lemma return_seeding [return_intros]:
  "always_returns e (seed_loop ds)" "always_returns e (seed_users_loop us)" "always_returns e (post_start_loop fs)"
proof -
  have one: "always_returns e (seed_one d)" for d
    unfolding seed_one_def seeder_defs by (intro return_intros; simp)+
  show "always_returns e (seed_loop ds)"
    by (induction ds) (auto simp: flushPrivileges_def intro!: return_intros one)
  have user: "always_returns e (SeedUser u p h r)" for u p h r
    unfolding SeedUser_def by (intro return_intros; simp)+
  show "always_returns e (seed_users_loop us)"
    by (induction us) (auto intro!: return_intros user)
  show "always_returns e (post_start_loop fs)"
    by (induction fs) (auto intro!: return_intros)
qed

lemma return_db_helper [return_intros]:
  "always_returns e (Seed m)" "always_returns e (SeedUsers m)" "always_returns e (RunPostStartSQL m)"
  "always_returns e (IsDatabaseReachable m)" "always_returns e (IsProcessRunning m)" "always_returns e (StopMysqld m)"
  "always_returns e (dbh_Upgrade m)" "always_returns e (StartMysqldForUpgrade m)" "always_returns e (StartMysqldInJoin m)"
  "always_returns e (StartMysqldInBootstrap m)"
  by (unfold Seed_def SeedUsers_def RunPostStartSQL_def IsDatabaseReachable_def IsProcessRunning_def StopMysqld_def
      dbh_Upgrade_def StartMysqldForUpgrade_def StartMysqldInJoin_def StartMysqldInBootstrap_def
      startMysqldAsChildProcess_def, (intro return_intros; simp)+)

lemma quiet_processes [quiet_intros]:
  "stable quiet (IsProcessRunning m)" "stable quiet (StopMysqld m)" "stable quiet (dbh_Upgrade m)"
  by (unfold IsProcessRunning_def StopMysqld_def dbh_Upgrade_def, (intro quiet_intros; simp)+)

section \<open>Properties\<close>

text \<open>C20. A probe of the database comes back with the verdict on the server's two answers, reachable if galera
  is off (no such variable, or the provider is none) or the node is synced; it opens one handle, asks for
  the local state only when a provider is set, and closes the handle.\<close>

theorem reachability_verdict:
  assumes "ParseDSN (FormatDSN (dbh_config m)) = Inr cfg"
    and "provider = query_row e (trace w @ [EvOpenDB (FormatDSN (dbh_config m)) True]) sql_wsrep_provider"
    and "state = query_row e (trace w @ [EvOpenDB (FormatDSN (dbh_config m)) True, EvQueryRow sql_wsrep_provider None]) sql_local_state"
  shows "\<exists>w'. IsDatabaseReachable m e w = Some (Ret (
       provider = Inl ErrNoRows \<or> (\<exists>n. provider = Inr (n, ''none'')) \<or>
       ((\<exists>n v. provider = Inr (n, v)) \<and> (\<exists>n. state = Inr (n, ''Synced'')))), w') \<and>
     trace w' = trace w @ reach_events m provider state"
proof -
  have "galera_verdict provider state = (provider = Inl ErrNoRows \<or> (\<exists>n. provider = Inr (n, ''none'')) \<or>
       ((\<exists>n v. provider = Inr (n, v)) \<and> (\<exists>n. state = Inr (n, ''Synced''))))"
    by (auto simp: galera_verdict_def split: sum.splits)
  then show ?thesis using IsDatabaseReachable_run [OF assms(1), of e w] assms(2,3) by simp
qed

theorem reachability_verdict_witness:
  "\<exists>w'. IsDatabaseReachable (NewDBHelper example_db ''/log'') calm_env blank_world = Some (Ret True, w') \<and>
     trace w' = [EvOpenDB (FormatDSN example_db) True, EvQueryRow sql_wsrep_provider None, EvCloseDB]"
  using reachability_verdict [of "NewDBHelper example_db ''/log''" "dsn_of example_db" _ calm_env blank_world, OF _ refl refl]
  by (simp add: blank_world_def reach_events_def row_error_def asks_state_def)

text \<open>A statement that fails ends the script with its error; without one the script succeeds.\<close>

definition reports :: "event list \<Rightarrow> go_error option \<Rightarrow> bool" where
  "reports evs r =
     (case r of
        None \<Rightarrow> (\<forall>ev \<in> set evs. stmt_error ev = None)
      | Some x \<Rightarrow> evs \<noteq> [] \<and> stmt_error (last evs) = Some x \<and> (\<forall>ev \<in> set (butlast evs). stmt_error ev = None))"

lemma reports_append: "reports xs None \<Longrightarrow> reports ys r \<Longrightarrow> reports (xs @ ys) r"
  by (auto simp: reports_def butlast_append split: option.splits)

lemma seed_one_reports:
  "\<exists>r w' evs. seed_one d e w = Some (Ret r, w') \<and> trace w' = trace w @ evs \<and> reports evs r"
  unfolding seed_one_def by (auto simp: go_defs record_event_def reports_def split: option.splits sum.splits)

lemma seed_loop_reports:
  "\<exists>r w' evs. seed_loop ds e w = Some (Ret r, w') \<and> trace w' = trace w @ evs \<and> reports evs r"
proof (induction ds arbitrary: w)
  case Nil
  show ?case by (auto simp: flushPrivileges_def go_defs record_event_def reports_def split: option.splits)
next
  case (Cons d ds)
  obtain r w1 evs where one: "seed_one d e w = Some (Ret r, w1)" "trace w1 = trace w @ evs" "reports evs r"
    using seed_one_reports by blast
  obtain r2 w2 evs2 where rest: "seed_loop ds e w1 = Some (Ret r2, w2)" "trace w2 = trace w1 @ evs2" "reports evs2 r2"
    using Cons.IH by blast
  show ?case
  proof (cases r)
    case None
    then show ?thesis using one rest reports_append [of evs evs2 r2] by (auto simp: bind_go_def)
  qed (use one in \<open>auto simp: bind_go_def ret_def\<close>)
qed


lemma seeding_db_facts [simp]:
  "db_PreseededDatabases seeding_db = [\<lparr>pd_DBName = ''app'', pd_User = ''user'', pd_Password = ''pw''\<rparr>]"
  "db_SeededUsers seeding_db = [\<lparr>su_User = ''admin'', su_Password = ''pw'', su_Host = ''any'', su_Role = ''admin''\<rparr>]"
  "db_PostStartSQLFiles seeding_db = [''/post.sql'']" "ParseDSN (FormatDSN seeding_db) = Inr (dsn_of seeding_db)"
  by (simp_all add: seeding_db_def ParseDSN_round_trip)


text \<open>C21. A seeding that succeeds has executed, for each configured database in order, the statements that create
  it, look for its user, create the user or set its password, grant and revoke, and then flushed the privileges.
  Every user that existed already leaves one result set open: the rows of the query are never closed.\<close>

theorem seeding_statements:
  assumes "Seed m e w = Some (Ret None, w')" and "db_PreseededDatabases (dbh_config m) = ds" and "ds \<noteq> []"
  shows "\<exists>existing. length existing = length ds \<and>
     trace w' = trace w @ EvOpenDB (FormatDSN (dbh_config m)) True #
       concat (map2 (\<lambda>d ex.
         [EvExec (sql_create_db d) None, EvQuery (sql_find_user d) None,
          EvExec (if ex then sql_set_password d else sql_create_user d) None,
          EvExec (sql_grant d) None, EvExec (sql_revoke_lock d) None]) ds existing) @
       [EvExec ''FLUSH PRIVILEGES'' None, EvCloseDB] \<and>
     open_rows w' = open_rows w + length (filter (\<lambda>ex. ex) existing)"
proof -
  have "db_session (dbh_config m) (seed_loop ds) e (w\<lparr>logs := logs w @ [(INFO, ''Preseeding Databases'')]\<rparr>) = Some (Ret None, w')"
    using assms Seed_session [of m] by (simp add: go_basic_defs log_info_def log_at_def)
  then obtain w2 where "seed_loop ds e (record_event e (EvOpenDB (FormatDSN (dbh_config m)) True)
      (w\<lparr>logs := logs w @ [(INFO, ''Preseeding Databases'')]\<rparr>)) = Some (Ret None, w2)" "w' = record_event e EvCloseDB w2"
    by (rule db_session_ok)
  then show ?thesis
    using seed_loop_ok [of ds e _ w2] unfolding seed_events_def by (fastforce simp: record_event_def)
qed

theorem seeding_statements_witness:
  "\<exists>w' existing. Seed (NewDBHelper seeding_db ''/log'') calm_env blank_world = Some (Ret None, w') \<and>
     length existing = 1 \<and>
     trace w' = trace blank_world @ EvOpenDB (FormatDSN seeding_db) True #
       concat (map2 (\<lambda>d ex.
         [EvExec (sql_create_db d) None, EvQuery (sql_find_user d) None,
          EvExec (if ex then sql_set_password d else sql_create_user d) None,
          EvExec (sql_grant d) None, EvExec (sql_revoke_lock d) None])
         [\<lparr>pd_DBName = ''app'', pd_User = ''user'', pd_Password = ''pw''\<rparr>] existing) @
       [EvExec ''FLUSH PRIVILEGES'' None, EvCloseDB]"
proof -
  have "\<exists>w'. Seed (NewDBHelper seeding_db ''/log'') calm_env blank_world = Some (Ret None, w')"
    by (simp add: run_rules cong: run_cong)
  then obtain w' where "Seed (NewDBHelper seeding_db ''/log'') calm_env blank_world = Some (Ret None, w')" by blast
  then show ?thesis using seeding_statements [OF _ refl] by fastforce
qed

text \<open>C23. A seeding of the users that succeeds has, for each configured user in order, created it if needed, set its
  password and changed its grants, with the host and the role of the configuration; and every host and every
  role of the configuration is one of those the seeder knows.\<close>

theorem user_seeding_statements:
  assumes "SeedUsers m e w = Some (Ret None, w')" and "db_SeededUsers (dbh_config m) = us" and "us \<noteq> []"
  shows "trace w' = trace w @ EvOpenDB (FormatDSN (dbh_config m)) True # concat (map seed_user_events us) @ [EvCloseDB] \<and>
     (\<forall>u \<in> set us. su_Role u \<in> {''admin'', ''minimal''} \<and> su_Host u \<in> {''localhost'', ''loopback'', ''any''})"
proof -
  have "db_session (dbh_config m) (seed_users_loop us) e (w\<lparr>logs := logs w @ [(INFO, ''Seeding Users'')]\<rparr>) = Some (Ret None, w')"
    using assms SeedUsers_session [of m] by (simp add: go_basic_defs log_info_def log_at_def)
  then obtain w2 where w2: "seed_users_loop us e (record_event e (EvOpenDB (FormatDSN (dbh_config m)) True)
      (w\<lparr>logs := logs w @ [(INFO, ''Seeding Users'')]\<rparr>)) = Some (Ret None, w2)" "w' = record_event e EvCloseDB w2"
    by (rule db_session_ok)
  have "snd (getRoleQuery r) = None \<Longrightarrow> r \<in> {''admin'', ''minimal''}"
    "snd (getHostString h) = None \<Longrightarrow> h \<in> {''localhost'', ''loopback'', ''any''}" for r h
    by (auto simp: getRoleQuery_def getHostString_def split: if_splits)
  then show ?thesis using seed_users_loop_ok [OF w2(1)] w2(2) by (simp add: record_event_def)
qed

theorem user_seeding_statements_witness:
  "\<exists>w'. SeedUsers (NewDBHelper seeding_db ''/log'') calm_env blank_world = Some (Ret None, w') \<and>
     trace w' = EvOpenDB (FormatDSN seeding_db) True #
       seed_user_events \<lparr>su_User = ''admin'', su_Password = ''pw'', su_Host = ''any'', su_Role = ''admin''\<rparr> @ [EvCloseDB]"
proof -
  have "\<exists>w'. SeedUsers (NewDBHelper seeding_db ''/log'') calm_env blank_world = Some (Ret None, w')"
    by (simp add: run_rules cong: run_cong)
  then obtain w' where w': "SeedUsers (NewDBHelper seeding_db ''/log'') calm_env blank_world = Some (Ret None, w')" by blast
  then show ?thesis using user_seeding_statements [OF w' refl] by (simp add: blank_world_def)
qed

text \<open>The statements among the interactions.\<close>

definition executed :: "event list \<Rightarrow> string list" where
  "executed evs = concat (map (\<lambda>ev. case ev of EvExec q _ \<Rightarrow> [q] | _ \<Rightarrow> []) evs)"

lemma executed_simps [simp]:
  "executed [] = []" "executed (xs @ ys) = executed xs @ executed ys" "executed (EvExec q x # evs) = q # executed evs"
  "executed (EvRead f b # evs) = executed evs" "executed (EvOpenDB n b # evs) = executed evs"
  "executed (EvCloseDB # evs) = executed evs"
  by (simp_all add: executed_def)

lemma post_start_file_run:
  assumes "steady e f" and "\<forall>h q. exec_fails e h q = None"
  shows "\<exists>w' evs. post_start_file f e w = Some (Ret None, w') \<and> trace w' = trace w @ evs \<and>
     executed evs = (case files w f of None \<Rightarrow> [] | Some c \<Rightarrow> [c]) \<and> same_files e w w'"
  using assms by (cases "files w f") (auto simp: post_start_file_def go_defs record_event_def steady_def same_files_def undisturbed_def)

lemma post_start_loop_run:
  assumes "\<forall>f \<in> set fs. steady e f" and "\<forall>h q. exec_fails e h q = None"
  shows "\<exists>w' evs. post_start_loop fs e w = Some (Ret None, w') \<and> trace w' = trace w @ evs \<and>
     executed evs = List.map_filter (files w) fs \<and> same_files e w w'"
  using assms(1)
proof (induction fs arbitrary: w)
  case Nil
  show ?case by (auto simp: ret_def same_files_def)
next
  case (Cons f fs)
  obtain w1 evs where one: "post_start_file f e w = Some (Ret None, w1)" "trace w1 = trace w @ evs"
    "executed evs = (case files w f of None \<Rightarrow> [] | Some c \<Rightarrow> [c])" "same_files e w w1"
    using post_start_file_run [OF _ assms(2)] Cons.prems by (metis list.set_intros(1))
  obtain w2 evs2 where rest: "post_start_loop fs e w1 = Some (Ret None, w2)" "trace w2 = trace w1 @ evs2"
    "executed evs2 = List.map_filter (files w1) fs" "same_files e w1 w2"
    using Cons.IH [of w1] Cons.prems by auto
  have "List.map_filter (files w1) fs = List.map_filter (files w) fs"
    using one(4) Cons.prems by (intro map_filter_cong) (simp add: same_files_def)
  moreover have "post_start_loop (f # fs) e w = Some (Ret None, w2)"
    using one(1) rest(1) unfolding post_start_loop_each by (simp add: bind_go_def)
  ultimately show ?case
    using one rest by (auto simp: same_files_def List.map_filter_simps split: option.splits)
qed



end
