(* ===== verification/Cluster_Health_Checker.thy ===== *)
theory Cluster_Health_Checker
  imports Os_Helper
begin

text \<open>
  \<^verbatim>\<open>cluster_health_checker/cluster_health_checker.go\<close>: the HTTP probe of the other nodes. The
  time-out is a 64-bit duration in nanoseconds, so the multiplication by \<^verbatim>\<open>time.Second\<close>
  wraps around.
\<close>

record httpClusterHealthChecker =
  clusterIps :: "string list"
  clusterProbeTimeout :: "64 word"

definition NewClusterHealthChecker ::
  "string list \<Rightarrow> 64 word \<Rightarrow> httpClusterHealthChecker" where
  "NewClusterHealthChecker ips t = \<lparr>clusterIps = ips, clusterProbeTimeout = t\<rparr>"

definition time_Second :: duration where
  "time_Second = 1000000000"

definition MakeRequest :: "string \<Rightarrow> duration \<Rightarrow> int option go" where
  "MakeRequest url timeout =
     bind_go (ask (\<lambda>e w. http_get e (trace w) url timeout)) (\<lambda>resp.
     andthen (emit (EvGet url timeout resp)) (ret resp))"

definition probe_url :: "string \<Rightarrow> string" where
  "probe_url ip = ''http://'' @ ip @ '':9200/''"

definition probe_timeout :: "httpClusterHealthChecker \<Rightarrow> duration" where
  "probe_timeout h = clusterProbeTimeout h * time_Second"

fun probe_ips :: "httpClusterHealthChecker \<Rightarrow> string list \<Rightarrow> bool go" where
  "probe_ips h [] =
     andthen (log_info ''No nodes in cluster are healthy.'') (ret False)"
| "probe_ips h (ip # ips) =
     andthen (log_info (''Checking if node is healthy: '' @ ip))
     (bind_go (MakeRequest (probe_url ip) (probe_timeout h)) (\<lambda>resp.
      if resp = Some 200
      then andthen (log_info (''node '' @ ip @ '' is healthy - cluster is healthy.''))
             (ret True)
      else probe_ips h ips))"

definition HealthyCluster :: "httpClusterHealthChecker \<Rightarrow> bool go" where
  "HealthyCluster h =
     andthen (log_info ''Checking for healthy cluster'') (probe_ips h (clusterIps h))"

section \<open>Footprint\<close>

lemma emits_probe_ips [emits_intros]:
  "(\<And>ip st. ip \<in> set ips \<Longrightarrow> A (EvGet (probe_url ip) (probe_timeout h) st)) \<Longrightarrow> emits A (probe_ips h ips)"
  by (induction ips) (auto simp: MakeRequest_def intro!: emits_intros)

lemma emits_HealthyCluster [emits_intros]:
  "(\<And>ip st. ip \<in> set (clusterIps h) \<Longrightarrow> A (EvGet (probe_url ip) (probe_timeout h) st)) \<Longrightarrow>
   emits A (HealthyCluster h)"
  unfolding HealthyCluster_def by (intro emits_intros; simp)

lemma journal_probe_ips [journal_intros]: "stable journal (probe_ips h ips)"
  by (induction ips) (auto simp: MakeRequest_def intro!: journal_intros)

lemma journal_HealthyCluster [journal_intros]: "stable journal (HealthyCluster h)"
  unfolding HealthyCluster_def by (intro journal_intros; simp)

section \<open>What the probe finds\<close>

text \<open>The interactions of probing a list of nodes that gave these answers.\<close>

definition probe_events :: "httpClusterHealthChecker \<Rightarrow> string list \<Rightarrow> int option list \<Rightarrow> event list" where
  "probe_events h ips sts =
     map2 (\<lambda>ip st. EvGet (probe_url ip) (probe_timeout h) st) ips sts"

definition probe_verdict :: "string list \<Rightarrow> int option list \<Rightarrow> bool \<Rightarrow> bool" where
  "probe_verdict ips sts healthy =
     (if healthy
      then length sts \<le> length ips \<and> sts \<noteq> [] \<and> last sts = Some 200 \<and> Some 200 \<notin> set (butlast sts)
      else length sts = length ips \<and> Some 200 \<notin> set sts)"

lemma probe_ips_run:
  "\<exists>b w' sts. probe_ips h ips e w = Some (Ret b, w') \<and>
     trace w' = trace w @ probe_events h ips sts \<and> probe_verdict ips sts b"
proof (induction ips arbitrary: w)
  case Nil
  have "probe_ips h [] e w =
      Some (Ret False, w\<lparr>logs := logs w @ [(INFO, ''No nodes in cluster are healthy.'')]\<rparr>)"
    by (simp add: go_defs)
  moreover have "probe_verdict [] [] False" by (simp add: probe_verdict_def)
  ultimately show ?case by (fastforce simp: probe_events_def)
next
  case (Cons ip ips)
  let ?st = "http_get e (trace w) (probe_url ip) (probe_timeout h)"
  let ?ev = "EvGet (probe_url ip) (probe_timeout h) ?st"
  show ?case
  proof (cases "?st = Some 200")
    case True
    then show ?thesis
      by (intro exI [of _ True] exI [of _ "[?st]"] exI conjI)
         (auto simp: go_defs MakeRequest_def probe_events_def probe_verdict_def record_event_def)
  next
    case False
    let ?w1 = "record_event e ?ev (w\<lparr>logs := logs w @ [(INFO, ''Checking if node is healthy: '' @ ip)]\<rparr>)"
    obtain b w' sts where *: "probe_ips h ips e ?w1 = Some (Ret b, w')"
      "trace w' = trace ?w1 @ probe_events h ips sts" "probe_verdict ips sts b"
      using Cons.IH by blast
    have "probe_ips h (ip # ips) e w = Some (Ret b, w')"
      using False *(1) by (simp add: go_defs MakeRequest_def)
    moreover have "trace w' = trace w @ probe_events h (ip # ips) (?st # sts)"
      using *(2) by (simp add: probe_events_def record_event_def)
    moreover have "probe_verdict (ip # ips) (?st # sts) b"
      using *(3) False by (auto simp: probe_verdict_def split: if_splits)
    ultimately show ?thesis by blast
  qed
qed

lemma HealthyCluster_run:
  "\<exists>b w' sts. HealthyCluster h e w = Some (Ret b, w') \<and>
     trace w' = trace w @ probe_events h (clusterIps h) sts \<and> probe_verdict (clusterIps h) sts b"
  using probe_ips_run [of h "clusterIps h" e
      "w\<lparr>logs := logs w @ [(INFO, ''Checking for healthy cluster'')]\<rparr>"]
  by (simp add: HealthyCluster_def go_defs)

lemma probe_events_all:
  assumes "probe_verdict ips sts False" and "ip \<in> set ips"
  shows "\<exists>st. EvGet (probe_url ip) (probe_timeout h) st \<in> set (probe_events h ips sts) \<and> st \<noteq> Some 200"
proof -
  from assms obtain i where i: "i < length ips" "ips ! i = ip" by (auto simp: in_set_conv_nth)
  with assms have "i < length sts" "sts ! i \<noteq> Some 200"
    by (auto simp: probe_verdict_def in_set_conv_nth)
  moreover have "probe_events h ips sts ! i = EvGet (probe_url ip) (probe_timeout h) (sts ! i)"
    using i calculation by (simp add: probe_events_def)
  ultimately show ?thesis
    using i unfolding in_set_conv_nth probe_events_def by (metis length_map length_zip min_less_iff_conj)
qed

declare MakeRequest_def [run_rules] probe_url_def [run_rules] HealthyCluster_def [run_rules]

section \<open>Properties\<close>


text \<open>C35. The probe waits for exactly the configured number of seconds if that number is at most 9223372036 in absolute value, and for
  no other number: beyond that the 64-bit product with the nanoseconds of a second wraps around, and already one second more
  makes it negative, which the HTTP client takes for no time-out at all.\<close>

theorem probe_timeout_exact_range:
  "(sint (probe_timeout h) = sint (clusterProbeTimeout h) * 1000000000 \<longleftrightarrow> \<bar>sint (clusterProbeTimeout h)\<bar> \<le> 9223372036) \<and>
   sint (probe_timeout (NewClusterHealthChecker ips 9223372037)) < 0"
proof
  let ?t = "clusterProbeTimeout h"
  have "sint (?t * 1000000000) = signed_take_bit 63 (sint ?t * sint (1000000000 :: 64 word))"
    by (simp add: sint_word_ariths)
  also have "sint (1000000000 :: 64 word) = 1000000000" by simp
  finally have eq: "sint (probe_timeout h) = signed_take_bit 63 (sint ?t * 1000000000)"
    by (simp add: probe_timeout_def time_Second_def)
  show "sint (probe_timeout h) = sint ?t * 1000000000 \<longleftrightarrow> \<bar>sint ?t\<bar> \<le> 9223372036"
    unfolding eq signed_take_bit_int_eq_self_iff by (simp add: abs_le_iff) linarith
  show "sint (probe_timeout (NewClusterHealthChecker ips 9223372037)) < 0"
    by (simp add: NewClusterHealthChecker_def probe_timeout_def time_Second_def)
qed

end
