(* ===== verification/Node_Starter.thy ===== *)
theory Node_Starter
  imports Db_Helper Cluster_Health_Checker
begin

text \<open>
  \<^verbatim>\<open>start_manager/node_starter/starter.go\<close>: starting mysqld in the mode the node's state asks
  for, waiting until it accepts connections, and seeding it.
\<close>

definition Clustered :: string where "Clustered = ''CLUSTERED''"

definition NeedsBootstrap :: string where "NeedsBootstrap = ''NEEDS_BOOTSTRAP''"

definition SingleNode :: string where "SingleNode = ''SINGLE_NODE''"

definition StartupPollingFrequencyInSeconds :: int where
  "StartupPollingFrequencyInSeconds = 5"

record starter =
  st_dbHelper :: GaleraDBHelper
  st_config :: StartManagerConfig
  st_healthChecker :: httpClusterHealthChecker

definition NewStarter ::
  "GaleraDBHelper \<Rightarrow> StartManagerConfig \<Rightarrow> httpClusterHealthChecker \<Rightarrow> starter" where
  "NewStarter dbHelper config healthChecker =
     \<lparr>st_dbHelper = dbHelper, st_config = config, st_healthChecker = healthChecker\<rparr>"

text \<open>The field \<^verbatim>\<open>mysqlCmd\<close> of the one starter object is kept in the world.\<close>

definition GetMysqlCmd :: "cmd option go" where
  "GetMysqlCmd = ask (\<lambda>e w. starter_mysqlCmd w)"

definition set_mysqlCmd :: "cmd option \<Rightarrow> unit go" where
  "set_mysqlCmd c = modify (\<lambda>w. w\<lparr>starter_mysqlCmd := c\<rparr>)"

section \<open>Starting mysqld\<close>

definition mark_safe_to_bootstrap :: "string \<Rightarrow> string" where
  "mark_safe_to_bootstrap contents =
     strings_Replace contents ''safe_to_bootstrap: 0'' ''safe_to_bootstrap: 1''"

definition update_grastate :: "starter \<Rightarrow> go_error option go" where
  "update_grastate s =
     bind_go (ioutil_ReadFile (GrastateFileLocation (st_config s))) (\<lambda>(contents, err).
     if err = None
     then ioutil_WriteFile (GrastateFileLocation (st_config s)) (mark_safe_to_bootstrap contents)
     else ret None)"

definition bootstrapNode :: "starter \<Rightarrow> (nat option \<times> go_error option) go" where
  "bootstrapNode s =
     andthen (log_info ''Updating safe_to_bootstrap flag'')
     (bind_go (update_grastate s) (\<lambda>err.
      case err of Some x \<Rightarrow> ret (None, Some x) | None \<Rightarrow>
      andthen (log_info ''Bootstrapping node'')
      (bind_go (StartMysqldInBootstrap (st_dbHelper s)) (\<lambda>(cmd, err).
       case err of Some x \<Rightarrow> ret (None, Some x) | None \<Rightarrow>
       andthen (set_mysqlCmd cmd)
       (andthen (log_info ''Issusing a non-blocking Wait for mysqld in bootstrapping mode'')
       (bind_go (WaitForCommand cmd) (\<lambda>errorChan.
        ret (Some errorChan, None))))))))"

definition joinCluster :: "starter \<Rightarrow> (nat option \<times> go_error option) go" where
  "joinCluster s =
     andthen (log_info ''Joining a multi-node cluster'')
     (bind_go (StartMysqldInJoin (st_dbHelper s)) (\<lambda>(cmd, err).
      case err of Some x \<Rightarrow> ret (None, Some x) | None \<Rightarrow>
      andthen (set_mysqlCmd cmd)
      (andthen (log_info ''Issueing a non-blocking Wait for mysqld in join cluster mode'')
      (bind_go (WaitForCommand cmd) (\<lambda>mysqldChan.
       ret (Some mysqldChan, None))))))"

section \<open>Waiting for the database\<close>

text \<open>
  One iteration of the endless polling loop: \<open>Some r\<close> when the loop returns \<open>r\<close>, \<open>None\<close> when
  it goes round again.
\<close>

definition poll_database :: "starter \<Rightarrow> nat \<Rightarrow> int \<Rightarrow> go_error option option go" where
  "poll_database s mysqldChan numTries =
     bind_go (chan_poll (Some mysqldChan)) (\<lambda>got.
     case got of
       Some _ \<Rightarrow>
         andthen (log_info ''Database process exited, stop trying to connect to database'')
         (ret (Some (Some (ErrorString
            ''Mysqld exited with error; aborting. Review the mysqld error logs for more information.''))))
     | None \<Rightarrow>
         bind_go (IsDatabaseReachable (st_dbHelper s)) (\<lambda>reachable.
         if reachable
         then andthen (log_info (sprintf ''Database became reachable after %d seconds''
                  [AInt (numTries * StartupPollingFrequencyInSeconds)]))
                (ret (Some None))
         else andthen (log_info ''Database not reachable, retrying...'')
                (andthen (Sleep (word_of_int StartupPollingFrequencyInSeconds * time_Second))
                (ret None))))"

partial_function (option) poll_loop ::
  "starter \<Rightarrow> nat \<Rightarrow> int \<Rightarrow> env \<Rightarrow> world \<Rightarrow> (go_error option outcome \<times> world) option" where
  "poll_loop s mysqldChan numTries e w =
     (case poll_database s mysqldChan (numTries + 1) e w of
        None \<Rightarrow> None
      | Some (Ret (Some r), w') \<Rightarrow> Some (Ret r, w')
      | Some (Ret None, w') \<Rightarrow> poll_loop s mysqldChan (numTries + 1) e w'
      | Some (Panic p, w') \<Rightarrow> Some (Panic p, w')
      | Some (OsExit n, w') \<Rightarrow> Some (OsExit n, w'))"

definition waitForDatabaseToAcceptConnections :: "starter \<Rightarrow> nat \<Rightarrow> go_error option go" where
  "waitForDatabaseToAcceptConnections s mysqldChan =
     andthen (log_info ''Attempting to reach database.'') (poll_loop s mysqldChan 0)"

section \<open>Seeding\<close>

definition seedDatabases :: "starter \<Rightarrow> go_error option go" where
  "seedDatabases s =
     bind_go (Seed (st_dbHelper s)) (\<lambda>err.
     case err of
       Some x \<Rightarrow>
         andthen (log_info (sprintf (''There was a problem seeding the database: '' @ squoted ''%s'')
           [AStr (error_text x)])) (ret (Some x))
     | None \<Rightarrow> andthen (log_info ''Seeding databases succeeded.'') (ret None))"

definition seedUsers :: "starter \<Rightarrow> go_error option go" where
  "seedUsers s =
     bind_go (SeedUsers (st_dbHelper s)) (\<lambda>err.
     case err of
       Some x \<Rightarrow>
         andthen (log_info (sprintf (''There was a problem seeding the users: '' @ squoted ''%s'')
           [AStr (error_text x)])) (ret (Some x))
     | None \<Rightarrow> andthen (log_info ''Seeding users succeeded.'') (ret None))"

definition runPostStartSQL :: "starter \<Rightarrow> go_error option go" where
  "runPostStartSQL s =
     bind_go (RunPostStartSQL (st_dbHelper s)) (\<lambda>err.
     case err of
       Some x \<Rightarrow>
         andthen (log_info (sprintf (''There was a problem running post start sql: ''
           @ squoted ''%s'') [AStr (error_text x)])) (ret (Some x))
     | None \<Rightarrow> andthen (log_info ''Post start sql succeeded.'') (ret None))"

section \<open>StartNodeFromState\<close>

text \<open>The switch on the state: the new state, the channel and the error.\<close>

definition start_switch :: "starter \<Rightarrow> string \<Rightarrow> (string \<times> nat option \<times> go_error option) go" where
  "start_switch s state =
     (if state = SingleNode
      then bind_go (bootstrapNode s) (\<lambda>(ch, err). ret (SingleNode, ch, err))
      else if state = NeedsBootstrap
      then bind_go (HealthyCluster (st_healthChecker s)) (\<lambda>healthy.
           bind_go (if healthy then joinCluster s else bootstrapNode s) (\<lambda>(ch, err).
           ret (Clustered, ch, err)))
      else if state = Clustered
      then bind_go (joinCluster s) (\<lambda>(ch, err). ret (Clustered, ch, err))
      else ret ('''', None, Some (ErrorString
             (sprintf ''Unsupported state file contents: %s'' [AStr state]))))"

definition StartNodeFromState ::
  "starter \<Rightarrow> string \<Rightarrow> (string \<times> nat option \<times> go_error option) go" where
  "StartNodeFromState s state =
     bind_go (start_switch s state) (\<lambda>(newNodeState, mysqldChan, err).
     case err of Some x \<Rightarrow> ret ('''', None, Some x) | None \<Rightarrow>
     (case mysqldChan of
        None \<Rightarrow> ret ('''', None, Some (ErrorString
                 ''Starting mysql failed, no channel created - exiting''))
      | Some ch \<Rightarrow>
     bind_go (waitForDatabaseToAcceptConnections s ch) (\<lambda>err.
     case err of Some x \<Rightarrow> ret ('''', None, Some x) | None \<Rightarrow>
     bind_go (seedDatabases s) (\<lambda>err.
     case err of Some x \<Rightarrow> ret ('''', None, Some x) | None \<Rightarrow>
     bind_go (seedUsers s) (\<lambda>err.
     case err of Some x \<Rightarrow> ret ('''', None, Some x) | None \<Rightarrow>
     bind_go (runPostStartSQL s) (\<lambda>err.
     case err of Some x \<Rightarrow> ret ('''', None, Some x) | None \<Rightarrow>
     ret (newNodeState, Some ch, None)))))))"

section \<open>Footprints\<close>

text \<open>
  A relation kept by every iteration is kept by the polling loop, however long it runs.
\<close>

lemma stable_poll_loop:
  assumes R: "world_preorder R" and step: "\<And>n. stable R (poll_database s ch n)"
  shows "stable R (poll_loop s ch n)"
  unfolding stable_def
proof (intro allI wpI)
  fix e w r w'
  assume ret: "poll_loop s ch n e w = Some (r, w')"
  have "\<forall>r w'. y = (r, w') \<longrightarrow> s' = s \<longrightarrow> ch' = ch \<longrightarrow> R e' u w'"
    if "poll_loop s' ch' n' e' u = Some y" for s' ch' n' e' u y
  proof (rule poll_loop.raw_induct
      [where P = "\<lambda>s' ch' n' e' u y. \<forall>r w'. y = (r, w') \<longrightarrow> s' = s \<longrightarrow> ch' = ch \<longrightarrow> R e' u w'", OF _ that])
    fix f s' ch' n' e' u y
    assume IH: "\<And>s' ch' n' e' u y. f s' ch' n' e' u = Some y \<Longrightarrow>
        \<forall>r w'. y = (r, w') \<longrightarrow> s' = s \<longrightarrow> ch' = ch \<longrightarrow> R e' u w'"
      and body: "(case poll_database s' ch' (n' + 1) e' u of None \<Rightarrow> None
        | Some (Ret None, w') \<Rightarrow> f s' ch' (n' + 1) e' w'
        | Some (Ret (Some r), w') \<Rightarrow> Some (Ret r, w')
        | Some (Panic p, w') \<Rightarrow> Some (Panic p, w')
        | Some (OsExit n, w') \<Rightarrow> Some (OsExit n, w')) = Some y"
    show "\<forall>r w'. y = (r, w') \<longrightarrow> s' = s \<longrightarrow> ch' = ch \<longrightarrow> R e' u w'"
    proof (intro allI impI)
      fix r w'
      assume y: "y = (r, w')" and eqs: "s' = s" "ch' = ch"
      obtain q v where q: "poll_database s ch (n' + 1) e' u = Some (q, v)"
        using body eqs by (auto split: option.splits)
      have first: "R e' u v" using stableD [OF step q] .
      show "R e' u w'"
        using body y eqs q first world_preorder.R_trans [OF R first] IH
        by (auto split: outcome.splits option.splits)
    qed
  qed
  with ret show "R e w w'" by blast
qed

definition poll_event :: "nat \<Rightarrow> event \<Rightarrow> bool" where
  "poll_event ch ev =
     (sql_event ev \<or> (\<exists>b. ev = EvPoll (Some ch) b)
      \<or> ev = EvSleep (word_of_int StartupPollingFrequencyInSeconds * time_Second))"

lemma emits_poll_database: "emits (poll_event ch) (poll_database s ch n)"
  unfolding poll_database_def by (intro emits_intros; simp add: poll_event_def)+

lemma emits_wait: "emits (poll_event ch) (waitForDatabaseToAcceptConnections s ch)"
  unfolding waitForDatabaseToAcceptConnections_def
  by (intro emits_intros stable_poll_loop emits_poll_database) unfold_locales

lemma emits_wait_mono [emits_intros]:
  "(\<And>ev. poll_event ch ev \<Longrightarrow> A ev) \<Longrightarrow> emits A (waitForDatabaseToAcceptConnections s ch)"
  by (rule emits_mono [OF emits_wait])

lemma emits_starter_seeding [emits_intros]:
  "(\<And>ev. sql_event ev \<Longrightarrow> A ev) \<Longrightarrow> emits A (seedDatabases s)"
  "(\<And>ev. sql_event ev \<Longrightarrow> A ev) \<Longrightarrow> emits A (seedUsers s)"
  "(\<And>ev. sql_event ev \<Longrightarrow> A ev) \<Longrightarrow> (\<And>f b. A (EvRead f b)) \<Longrightarrow> emits A (runPostStartSQL s)"
  by (unfold seedDatabases_def seedUsers_def runPostStartSQL_def, (intro emits_intros; simp)+)

lemma emits_starter_cmd [emits_intros]:
  "emits A GetMysqlCmd" "emits A (set_mysqlCmd c)"
  by (unfold GetMysqlCmd_def set_mysqlCmd_def, (intro emits_intros; simp)+)

definition join_event :: "starter \<Rightarrow> event \<Rightarrow> bool" where
  "join_event s ev =
     ((\<exists>b. ev = EvOpenAppend (dbh_logFileLocation (st_dbHelper s)) b)
      \<or> (\<exists>p. ev = EvStart ''mysqld'' [mycnf_arg] p))"

definition bootstrap_event :: "starter \<Rightarrow> event \<Rightarrow> bool" where
  "bootstrap_event s ev =
     ((\<exists>b. ev = EvOpenAppend (dbh_logFileLocation (st_dbHelper s)) b)
      \<or> (\<exists>b. ev = EvRead (GrastateFileLocation (st_config s)) b)
      \<or> (\<exists>c b. ev = EvWrite (GrastateFileLocation (st_config s)) c b)
      \<or> (\<exists>p. ev = EvStart ''mysqld'' [mycnf_arg, new_cluster_arg] p))"

lemma emits_joinCluster: "emits (join_event s) (joinCluster s)"
  unfolding joinCluster_def by (intro emits_intros; simp add: join_event_def)+

lemma emits_bootstrapNode: "emits (bootstrap_event s) (bootstrapNode s)"
  unfolding bootstrapNode_def update_grastate_def
  by (intro emits_intros; simp add: bootstrap_event_def)+

lemma journal_starter [journal_intros]:
  "stable journal (poll_database s ch n)" "stable journal GetMysqlCmd"
  "stable journal (set_mysqlCmd c)" "stable journal (joinCluster s)"
  "stable journal (bootstrapNode s)" "stable journal (seedDatabases s)"
  "stable journal (seedUsers s)" "stable journal (runPostStartSQL s)"
  by (unfold poll_database_def GetMysqlCmd_def set_mysqlCmd_def joinCluster_def bootstrapNode_def
      update_grastate_def seedDatabases_def seedUsers_def runPostStartSQL_def,
      (intro journal_intros; simp)+)

lemma journal_wait [journal_intros]:
  "stable journal (waitForDatabaseToAcceptConnections s ch)"
  unfolding waitForDatabaseToAcceptConnections_def
  by (intro journal_intros stable_poll_loop) unfold_locales

lemma journal_start [journal_intros]:
  "stable journal (start_switch s state)" "stable journal (StartNodeFromState s state)"
  by (unfold StartNodeFromState_def start_switch_def, (intro journal_intros; simp)+)

lemma quiet_starter_seeding [quiet_intros]:
  "stable quiet (seedDatabases s)" "stable quiet (seedUsers s)" "stable quiet (runPostStartSQL s)"
  by (unfold seedDatabases_def seedUsers_def runPostStartSQL_def, (intro quiet_intros; simp)+)

section \<open>Waiting for the database\<close>

abbreviation poll_delay :: duration where
  "poll_delay \<equiv> word_of_int StartupPollingFrequencyInSeconds * time_Second"

definition poll_body ::
  "starter \<Rightarrow> nat \<Rightarrow> env \<Rightarrow> int \<times> world \<Rightarrow> ((go_error option outcome \<times> world) + int \<times> world) option" where
  "poll_body s ch e st =
     (case st of (n, w) \<Rightarrow>
       (case poll_database s ch (n + 1) e w of
          None \<Rightarrow> None
        | Some (Ret (Some r), w') \<Rightarrow> Some (Inl (Ret r, w'))
        | Some (Ret None, w') \<Rightarrow> Some (Inr (n + 1, w'))
        | Some (Panic p, w') \<Rightarrow> Some (Inl (Panic p, w'))
        | Some (OsExit x, w') \<Rightarrow> Some (Inl (OsExit x, w'))))"

lemma poll_loop_fuel:
  "poll_loop s ch n e w = Some y \<Longrightarrow> \<exists>k. fuel_loop (poll_body s ch e) k (n, w) = Some y"
proof (rule poll_loop.raw_induct
    [where P = "\<lambda>s ch n e w y. \<exists>k. fuel_loop (poll_body s ch e) k (n, w) = Some y"])
  fix f s ch n e w y
  assume IH: "\<And>s ch n e w y. f s ch n e w = Some y \<Longrightarrow> \<exists>k. fuel_loop (poll_body s ch e) k (n, w) = Some y"
    and body: "(case poll_database s ch (n + 1) e w of None \<Rightarrow> None
        | Some (Ret None, w') \<Rightarrow> f s ch (n + 1) e w'
        | Some (Ret (Some r), w') \<Rightarrow> Some (Ret r, w')
        | Some (Panic p, w') \<Rightarrow> Some (Panic p, w')
        | Some (OsExit n, w') \<Rightarrow> Some (OsExit n, w')) = Some y"
  show "\<exists>k. fuel_loop (poll_body s ch e) k (n, w) = Some y"
  proof (cases "\<exists>w'. poll_database s ch (n + 1) e w = Some (Ret None, w')")
    case True
    then obtain w' where w': "poll_database s ch (n + 1) e w = Some (Ret None, w')" by blast
    then obtain k where "fuel_loop (poll_body s ch e) k (n + 1, w') = Some y"
      using IH body by fastforce
    then show ?thesis using w' by (intro exI [of _ "Suc k"]) (simp add: poll_body_def)
  next
    case False
    then show ?thesis
      using body by (intro exI [of _ 1]) (auto simp: poll_body_def split: option.splits outcome.splits)
  qed
qed

interpretation pl: polling_loop "poll_body s ch e" "\<lambda>(n, w). poll_loop s ch n e w" for s ch e
proof unfold_locales
  show "(case st of (n, w) \<Rightarrow> poll_loop s ch n e w) = (case poll_body s ch e st of None \<Rightarrow> None
      | Some (Inl r) \<Rightarrow> Some r | Some (Inr st') \<Rightarrow> (case st' of (n, w) \<Rightarrow> poll_loop s ch n e w))" for s ch e st
  proof (cases st)
    case (Pair n w)
    then show ?thesis
      by (simp add: poll_loop.simps [of s ch n e w] poll_body_def split: option.splits outcome.splits)
  qed
  show "(case st of (n, w) \<Rightarrow> poll_loop s ch n e w) = Some r \<Longrightarrow> \<exists>k. fuel_loop (poll_body s ch e) k st = Some r" for s ch e st r
    by (cases st) (auto dest: poll_loop_fuel)
qed

lemma chan_poll_run:
  "\<exists>got w'. chan_poll (Some c) e w = Some (Ret got, w') \<and> trace w' = trace w @ [EvPoll (Some c) (got \<noteq> None)] \<and>
     logs w' = logs w \<and> (got = None \<longrightarrow> chans w' = chans w) \<and>
     ((\<exists>pid. c < length (chans w) \<and> chans w ! c = ChWaiting pid \<and> exited e (trace w) pid = None) \<longrightarrow> got = None)"
  by (auto simp: go_defs record_event_def split: chan_state.splits)

text \<open>One round: it ends with an error if mysqld is gone, ends well if the database answers, and
  otherwise sleeps once.\<close>

definition exited_error :: go_error where
  "exited_error = ErrorString
     ''Mysqld exited with error; aborting. Review the mysqld error logs for more information.''"

definition reachable_log :: "int \<Rightarrow> log_level \<times> string" where
  "reachable_log n = (INFO, ''Database became reachable after '' @ itoa (n * 5) @ '' seconds'')"

lemma poll_database_run:
  "\<exists>q w' evs. poll_database s ch n e w = Some (Ret q, w') \<and> trace w' = trace w @ evs \<and>
     sleeps poll_delay evs = (if q = None then 1 else 0) \<and>
     (q = None \<longrightarrow> chans w' = chans w) \<and>
     (q = Some None \<longrightarrow> last (logs w') = reachable_log n) \<and>
     (q = None \<or> q = Some None \<or> q = Some (Some exited_error))"
proof -
  obtain got w1 where p: "chan_poll (Some ch) e w = Some (Ret got, w1)"
    "trace w1 = trace w @ [EvPoll (Some ch) (got \<noteq> None)]" "got = None \<Longrightarrow> chans w1 = chans w"
    using chan_poll_run [of ch e w] by blast
  show ?thesis
  proof (cases got)
    case (Some x)
    then show ?thesis
      using p by (auto simp: poll_database_def go_basic_defs log_info_def log_at_def exited_error_def sleeps_def)
  next
    case None
    obtain b w2 evs where r: "IsDatabaseReachable (st_dbHelper s) e w1 = Some (Ret b, w2)"
      "trace w2 = trace w1 @ evs" "\<forall>ev \<in> set evs. sql_event ev"
      using IsDatabaseReachable_total [of "st_dbHelper s" e w1] by blast
    have "chans w2 = chans w1"
      using stableD [OF quiet_db_helper(4) r(1)] by (simp add: quiet_def)
    moreover have "sleeps poll_delay evs = 0" using r(3) by (rule sql_event_no_sleep)
    ultimately show ?thesis
      using p r None
      by (cases b) (auto simp: poll_database_def go_basic_defs log_info_def log_at_def Sleep_def
          record_event_def reachable_log_def StartupPollingFrequencyInSeconds_def sleeps_def)
  qed
qed


text \<open>The rounds of the loop: after \<open>n\<close> of them it has slept \<open>n\<close> times and still waits.\<close>

lemma poll_rounds:
  "round_state (poll_body s ch e) n (0, w) = Some (k, u) \<Longrightarrow>
   k = int n \<and> chans u = chans w \<and> (\<exists>evs. trace u = trace w @ evs \<and> sleeps poll_delay evs = n)"
proof (induction n arbitrary: k u)
  case (Suc n)
  obtain k' v where v: "round_state (poll_body s ch e) n (0, w) = Some (k', v)"
    and b: "poll_body s ch e (k', v) = Some (Inr (k, u))"
    using Suc.prems unfolding round_state_snoc by (auto split: option.splits sum.splits)
  obtain evs where IH: "k' = int n" "chans v = chans w" "trace v = trace w @ evs" "sleeps poll_delay evs = n"
    using Suc.IH [OF v] by blast
  obtain q w' evs' where "poll_database s ch (k' + 1) e v = Some (Ret q, w')" "trace w' = trace v @ evs'"
    "sleeps poll_delay evs' = (if q = None then 1 else 0)" "q = None \<longrightarrow> chans w' = chans v"
    using poll_database_run [of s ch "k' + 1" e v] by blast
  then show ?case using b IH by (auto simp: poll_body_def split: option.splits)
qed simp

lemma wait_run:
  "waitForDatabaseToAcceptConnections s ch e w =
     poll_loop s ch 0 e (w\<lparr>logs := logs w @ [(INFO, ''Attempting to reach database.'')]\<rparr>)"
  by (simp add: waitForDatabaseToAcceptConnections_def go_basic_defs log_info_def log_at_def)

lemma wait_rounds:
  assumes "waitForDatabaseToAcceptConnections s ch e w = Some (r, w')"
  obtains n u evs q where "trace u = trace w @ evs" "sleeps poll_delay evs = n" "chans u = chans w"
    "poll_database s ch (int n + 1) e u = Some (Ret (Some q), w')" "r = Ret q"
proof -
  let ?w = "w\<lparr>logs := logs w @ [(INFO, ''Attempting to reach database.'')]\<rparr>"
  obtain n st where st: "round_state (poll_body s ch e) n (0, ?w) = Some st"
    and fin: "poll_body s ch e st = Some (Inl (r, w'))"
    using assms pl.loop_iff [of s ch e "(0, ?w)" "(r, w')"] unfolding wait_run by auto
  obtain k u where ku: "st = (k, u)" by (cases st)
  obtain q v evs' where q: "poll_database s ch (k + 1) e u = Some (Ret q, v)"
    using poll_database_run [of s ch "k + 1" e u] by blast
  obtain evs where "k = int n" "chans u = chans w" "trace u = trace w @ evs" "sleeps poll_delay evs = n"
    using poll_rounds [OF st [unfolded ku]] by auto
  with that fin q ku show thesis by (auto simp: poll_body_def split: option.splits)
qed

text \<open>What keeps a round from ending: mysqld is still running and the database does not answer.\<close>

definition alive :: "env \<Rightarrow> nat \<Rightarrow> world \<Rightarrow> bool" where
  "alive e ch w = (\<exists>pid. ch < length (chans w) \<and> chans w ! ch = ChWaiting pid \<and> (\<forall>h. exited e h pid = None))"

lemma poll_alive:
  assumes "alive e ch w" and "poll_database s ch n e w = Some (Ret q, w')"
  shows "q \<noteq> Some (Some x)"
proof -
  obtain got w1 where p: "chan_poll (Some ch) e w = Some (Ret got, w1)" "got = None"
    using chan_poll_run [of ch e w] assms(1) unfolding alive_def by blast
  obtain b w2 where r: "IsDatabaseReachable (st_dbHelper s) e w1 = Some (Ret b, w2)"
    using IsDatabaseReachable_total [of "st_dbHelper s" e w1] by blast
  show ?thesis
    using assms(2) p r by (cases b) (auto simp: poll_database_def go_basic_defs log_info_def log_at_def Sleep_def)
qed

lemma poll_not_reachable:
  assumes "ParseDSN (FormatDSN (dbh_config (st_dbHelper s))) = Inl err"
    and "poll_database s ch n e w = Some (Ret q, w')"
  shows "q \<noteq> Some None"
proof -
  obtain got w1 where p: "chan_poll (Some ch) e w = Some (Ret got, w1)"
    using chan_poll_run [of ch e w] by blast
  obtain w2 where r: "IsDatabaseReachable (st_dbHelper s) e w1 = Some (Ret False, w2)"
    using IsDatabaseReachable_bad_dsn [OF assms(1), of e w1] by blast
  show ?thesis
    using assms(2) p r
    by (cases got) (auto simp: poll_database_def go_basic_defs log_info_def log_at_def Sleep_def)
qed

lemma wait_never:
  assumes "ParseDSN (FormatDSN (dbh_config (st_dbHelper s))) = Inl err" and "alive e ch w"
  shows "waitForDatabaseToAcceptConnections s ch e w = None"
proof -
  let ?w = "w\<lparr>logs := logs w @ [(INFO, ''Attempting to reach database.'')]\<rparr>"
  have "(\<lambda>(n, w). poll_loop s ch n e w) (0, ?w) = None"
  proof (rule pl.loop_diverges [where I = "\<lambda>(n, w). alive e ch w"])
    show "case (0, ?w) of (n, w) \<Rightarrow> alive e ch w" using assms(2) by (simp add: alive_def)
    fix t :: "int \<times> world"
    assume "case t of (n, w) \<Rightarrow> alive e ch w"
    then obtain n u where t: "t = (n, u)" and al: "alive e ch u" by (cases t) auto
    obtain q w' where q: "poll_database s ch (n + 1) e u = Some (Ret q, w')" "q = None \<longrightarrow> chans w' = chans u"
      using poll_database_run [of s ch "n + 1" e u] by blast
    then have "q = None"
      using poll_alive [OF al q(1)] poll_not_reachable [OF assms(1) q(1)] by (metis option.exhaust)
    then show "\<exists>t'. poll_body s ch e t = Some (Inr t') \<and> (case t' of (n, w) \<Rightarrow> alive e ch w)"
      using q t al by (auto simp: poll_body_def alive_def)
  qed
  then show ?thesis by (simp add: wait_run)
qed

text \<open>A server that answers well once the starter has slept long enough.\<close>

definition ready_after :: "env \<Rightarrow> nat \<Rightarrow> bool" where
  "ready_after e N = (\<forall>h. N \<le> sleeps poll_delay h \<longrightarrow>
     galera_verdict (query_row e h sql_wsrep_provider)
       (query_row e (h @ [EvQueryRow sql_wsrep_provider None]) sql_local_state))"

lemma poll_ready:
  assumes "ParseDSN (FormatDSN (dbh_config (st_dbHelper s))) = Inr cfg"
    and "ready_after e N" and "N \<le> sleeps poll_delay (trace w)"
    and "poll_database s ch n e w = Some (Ret q, w')"
  shows "q \<noteq> None"
proof -
  obtain got w1 where p: "chan_poll (Some ch) e w = Some (Ret got, w1)"
    "trace w1 = trace w @ [EvPoll (Some ch) (got \<noteq> None)]"
    using chan_poll_run [of ch e w] by blast
  let ?h = "trace w1 @ [EvOpenDB (FormatDSN (dbh_config (st_dbHelper s))) True]"
  have "N \<le> sleeps poll_delay ?h" using assms(3) p(2) by (simp add: sleeps_def)
  then have "galera_verdict (query_row e ?h sql_wsrep_provider)
       (query_row e (?h @ [EvQueryRow sql_wsrep_provider None]) sql_local_state)"
    using assms(2) unfolding ready_after_def by blast
  then obtain w2 where r: "IsDatabaseReachable (st_dbHelper s) e w1 = Some (Ret True, w2)"
    using IsDatabaseReachable_run [OF assms(1), of e w1] by auto
  show ?thesis
    using assms(4) p r
    by (cases got) (auto simp: poll_database_def go_basic_defs log_info_def log_at_def)
qed

lemma wait_returns:
  assumes "ParseDSN (FormatDSN (dbh_config (st_dbHelper s))) = Inr cfg" and "ready_after e N"
  shows "\<exists>r w'. waitForDatabaseToAcceptConnections s ch e w = Some (Ret r, w') \<and>
     (r = None \<or> r = Some exited_error)"
proof -
  let ?w = "w\<lparr>logs := logs w @ [(INFO, ''Attempting to reach database.'')]\<rparr>"
  have "\<exists>y. (\<lambda>(n, w). poll_loop s ch n e w) (0, ?w) = Some y"
  proof (rule pl.loop_returns [where I = "\<lambda>_. True" and m = "\<lambda>(n, w). N - sleeps poll_delay (trace w)"])
    fix t :: "int \<times> world"
    obtain n u where t: "t = (n, u)" by (cases t)
    obtain q w' evs where q: "poll_database s ch (n + 1) e u = Some (Ret q, w')" "trace w' = trace u @ evs"
      "sleeps poll_delay evs = (if q = None then 1 else 0)"
      using poll_database_run [of s ch "n + 1" e u] by blast
    show "poll_body s ch e t \<noteq> None" using t q by (simp add: poll_body_def split: option.splits)
    fix t'
    assume "poll_body s ch e t = Some (Inr t')"
    then have "q = None" "t' = (n + 1, w')" using t q by (auto simp: poll_body_def split: option.splits)
    moreover have "sleeps poll_delay (trace u) < N"
      using poll_ready [OF assms _ q(1)] calculation(1) by (meson not_le)
    ultimately show "True \<and> (case t' of (n, w) \<Rightarrow> N - sleeps poll_delay (trace w)) <
        (case t of (n, w) \<Rightarrow> N - sleeps poll_delay (trace w))"
      using t q by auto
  qed simp
  then obtain r w' where y: "waitForDatabaseToAcceptConnections s ch e w = Some (r, w')"
    by (auto simp: wait_run)
  obtain n u q where fin: "poll_database s ch (int n + 1) e u = Some (Ret (Some q), w')" "r = Ret q"
    using wait_rounds [OF y] by metis
  have "q = None \<or> q = Some exited_error"
    using poll_database_run [of s ch "int n + 1" e u] fin(1) by auto
  with y fin(2) show ?thesis by blast
qed

section \<open>Which mysqld is started, and when\<close>

definition bootstrap_start :: "event \<Rightarrow> bool" where
  "bootstrap_start ev =
     (case ev of EvStart exe args _ \<Rightarrow> exe = ''mysqld'' \<and> args = [mycnf_arg, new_cluster_arg] | _ \<Rightarrow> False)"

definition join_start :: "event \<Rightarrow> bool" where
  "join_start ev = (case ev of EvStart exe args _ \<Rightarrow> exe = ''mysqld'' \<and> args = [mycnf_arg] | _ \<Rightarrow> False)"

text \<open>The node at the address was asked and did not say that it is healthy.\<close>

definition found_down :: "httpClusterHealthChecker \<Rightarrow> string \<Rightarrow> event \<Rightarrow> bool" where
  "found_down h ip ev =
     (case ev of EvGet url t st \<Rightarrow> url = probe_url ip \<and> t = probe_timeout h \<and> st \<noteq> Some 200 | _ \<Rightarrow> False)"

lemma args_distinct [simp]:
  "upgrade_args \<noteq> [mycnf_arg, new_cluster_arg]" "upgrade_args \<noteq> [mycnf_arg]"
  by (simp_all add: upgrade_args_def)

lemma sql_event_start [simp]: "sql_event ev \<Longrightarrow> \<not> bootstrap_start ev" "sql_event ev \<Longrightarrow> \<not> join_start ev"
  by (auto simp: bootstrap_start_def join_start_def sql_event_def split: event.splits)

lemma poll_event_start [simp]: "poll_event ch ev \<Longrightarrow> \<not> bootstrap_start ev" "poll_event ch ev \<Longrightarrow> \<not> join_start ev"
  by (auto simp: poll_event_def) (auto simp: bootstrap_start_def join_start_def)

lemma join_event_start [simp]: "join_event s ev \<Longrightarrow> \<not> bootstrap_start ev"
  by (auto simp: join_event_def bootstrap_start_def)

lemma bootstrap_event_start [simp]: "bootstrap_event s ev \<Longrightarrow> \<not> join_start ev"
  by (auto simp: bootstrap_event_def join_start_def)

lemma states_distinct [simp]:
  "SingleNode \<noteq> NeedsBootstrap" "NeedsBootstrap \<noteq> SingleNode" "SingleNode \<noteq> Clustered"
  "Clustered \<noteq> SingleNode" "NeedsBootstrap \<noteq> Clustered" "Clustered \<noteq> NeedsBootstrap"
  by (simp_all add: SingleNode_def NeedsBootstrap_def Clustered_def)

text \<open>What follows the switch starts no server.\<close>

definition serving_work :: "starter \<Rightarrow> nat \<Rightarrow> go_error option go" where
  "serving_work s ch =
     bind_go (waitForDatabaseToAcceptConnections s ch) (\<lambda>err.
     case err of Some x \<Rightarrow> ret (Some x) | None \<Rightarrow>
     bind_go (seedDatabases s) (\<lambda>err.
     case err of Some x \<Rightarrow> ret (Some x) | None \<Rightarrow>
     bind_go (seedUsers s) (\<lambda>err.
     case err of Some x \<Rightarrow> ret (Some x) | None \<Rightarrow> runPostStartSQL s)))"

definition work_event :: "nat \<Rightarrow> event \<Rightarrow> bool" where
  "work_event ch ev = (poll_event ch ev \<or> (\<exists>f b. ev = EvRead f b))"

lemma work_event_start [simp]: "work_event ch ev \<Longrightarrow> \<not> bootstrap_start ev" "work_event ch ev \<Longrightarrow> \<not> join_start ev"
  by (auto simp: work_event_def) (auto simp: bootstrap_start_def join_start_def)

lemma emits_serving_work: "emits (work_event ch) (serving_work s ch)"
  unfolding serving_work_def by (intro emits_intros; simp add: work_event_def poll_event_def)+

lemma StartNodeFromState_work:
  "StartNodeFromState s state =
     bind_go (start_switch s state) (\<lambda>(newNodeState, mysqldChan, err).
     case err of Some x \<Rightarrow> ret ('''', None, Some x) | None \<Rightarrow>
     (case mysqldChan of
        None \<Rightarrow> ret ('''', None, Some (ErrorString ''Starting mysql failed, no channel created - exiting''))
      | Some ch \<Rightarrow> bind_go (serving_work s ch) (\<lambda>err.
          case err of Some x \<Rightarrow> ret ('''', None, Some x) | None \<Rightarrow> ret (newNodeState, Some ch, None))))"
  unfolding StartNodeFromState_def serving_work_def bind_assoc case_option_bind bind_ret_left
  by (simp cong: option.case_cong)

lemma journal_work [journal_intros]: "stable journal (serving_work s ch)"
  unfolding serving_work_def by (intro journal_intros; simp)+

text \<open>
  Apart from a single node, mysqld forms a new cluster only after every configured address
  was found down.
\<close>

lemma HealthyCluster_no_start: "emits (\<lambda>ev. \<not> bootstrap_start ev) (HealthyCluster h)"
  by (intro emits_intros) (simp add: bootstrap_start_def)

lemma bootstrap_after_probe:
  "stable (preceded bootstrap_start (found_down (st_healthChecker s) ` set (clusterIps (st_healthChecker s))))
     (bind_go (HealthyCluster (st_healthChecker s)) (\<lambda>healthy.
      bind_go (if healthy then joinCluster s else bootstrapNode s) (\<lambda>(ch, err). ret (Clustered, ch, err))))"
  (is "stable ?R (bind_go ?H ?k)")
  unfolding stable_def
proof (intro allI wpI)
  fix e w r w'
  assume run: "bind_go ?H ?k e w = Some (r, w')"
  obtain b w1 sts where H: "?H e w = Some (Ret b, w1)"
    "trace w1 = trace w @ probe_events (st_healthChecker s) (clusterIps (st_healthChecker s)) sts"
    "probe_verdict (clusterIps (st_healthChecker s)) sts b"
    using HealthyCluster_run by blast
  have k: "?k b e w1 = Some (r, w')" using run H(1) by (simp add: bind_Some)
  show "?R e w w'"
  proof (cases b)
    case True
    have "emits (\<lambda>ev. \<not> bootstrap_start ev) (bind_go ?H (\<lambda>_. ?k True))"
      by (intro emits_intros emits_mono [OF emits_joinCluster] HealthyCluster_no_start | simp)+
    then have "stable ?R (bind_go ?H (\<lambda>_. ?k True))" by (rule preceded_emits)
    moreover have "bind_go ?H (\<lambda>_. ?k True) e w = Some (r, w')" using H(1) k True by (simp add: bind_Some)
    ultimately show ?thesis by (rule stableD)
  next
    case False
    have "stable journal (?k b)" by (intro journal_intros | simp)+
    from journal_grows [OF this k] obtain vs where vs: "trace w' = trace w1 @ vs" by blast
    have "\<exists>ev \<in> set (probe_events (st_healthChecker s) (clusterIps (st_healthChecker s)) sts). found_down (st_healthChecker s) ip ev"
      if "ip \<in> set (clusterIps (st_healthChecker s))" for ip
      using probe_events_all [of _ _ ip "st_healthChecker s"] H(3) False that by (force simp: found_down_def)
    moreover have "\<forall>ev \<in> set (probe_events (st_healthChecker s) (clusterIps (st_healthChecker s)) sts). \<not> bootstrap_start ev"
      by (auto simp: probe_events_def bootstrap_start_def)
    ultimately show ?thesis by (intro preceded_after [OF H(2) _ _ vs]) auto
  qed
qed

lemma start_switch_order:
  assumes "state \<noteq> SingleNode"
  shows "stable (preceded bootstrap_start (found_down (st_healthChecker s) ` set (clusterIps (st_healthChecker s))))
     (start_switch s state)"
proof -
  have "stable (preceded bootstrap_start N) (joinCluster s)" for N
    by (rule preceded_emits [OF emits_mono [OF emits_joinCluster]]) simp
  then show ?thesis
    unfolding start_switch_def
    by (intro stable_if bootstrap_after_probe; use assms in \<open>auto intro!: pd.stable_intros\<close>)
qed

lemma StartNodeFromState_order:
  assumes "state \<noteq> SingleNode"
  shows "stable (preceded bootstrap_start (found_down (st_healthChecker s) ` set (clusterIps (st_healthChecker s))))
     (StartNodeFromState s state)"
  unfolding StartNodeFromState_work
  by (intro pd.stable_intros start_switch_order assms preceded_emits
      emits_mono [OF emits_serving_work] | simp)+

text \<open>A node in the cluster only ever joins.\<close>

lemma StartNodeFromState_clustered: "emits (\<lambda>ev. \<not> bootstrap_start ev) (StartNodeFromState s Clustered)"
  unfolding StartNodeFromState_work start_switch_def
  by (intro emits_intros emits_mono [OF emits_joinCluster] emits_mono [OF emits_serving_work]
      | simp)+


section \<open>What a successful start leaves behind\<close>

definition mysqld_cmd :: "string list \<Rightarrow> nat \<Rightarrow> cmd" where
  "mysqld_cmd args pid = \<lparr>cmd_path = ''mysqld'', cmd_args = args, cmd_process = Some pid\<rparr>"

text \<open>The process the starter owns, and the channel that waits for it.\<close>

definition owns :: "string list \<Rightarrow> nat \<Rightarrow> nat \<Rightarrow> world \<Rightarrow> bool" where
  "owns args pid ch w =
     (starter_mysqlCmd w = Some (mysqld_cmd args pid) \<and> ch < length (chans w) \<and> chans w ! ch = ChWaiting pid
      \<and> pid < next_pid w)"

lemma owns_quiet: "quiet e w w' \<Longrightarrow> owns args pid ch w \<Longrightarrow> owns args pid ch w'"
  by (simp add: quiet_def owns_def)

lemma set_and_wait:
  assumes "andthen (set_mysqlCmd (Some (mysqld_cmd args pid))) (andthen (log_info t)
      (bind_go (WaitForCommand (Some (mysqld_cmd args pid))) (\<lambda>ch. ret (Some ch, None)))) e w = Some (r, w')"
    and "pid < next_pid w"
  shows "\<exists>ch. r = Ret (Some ch, None) \<and> owns args pid ch w' \<and> trace w' = trace w"
  using assms by (auto simp: set_mysqlCmd_def WaitForCommand_def go_basic_defs log_info_def log_at_def
      mysqld_cmd_def owns_def)

lemma joinCluster_ok:
  assumes "joinCluster s e w = Some (Ret (ch, None), w')"
  shows "\<exists>c. ch = Some c \<and> owns [mycnf_arg] (next_pid w) c w' \<and>
     trace w' = trace w @ [EvOpenAppend (dbh_logFileLocation (st_dbHelper s)) True,
       EvStart ''mysqld'' [mycnf_arg] (Some (next_pid w))]"
proof -
  let ?w = "w\<lparr>logs := logs w @ [(INFO, ''Joining a multi-node cluster''),
     (INFO, ''Starting mysqld with '' @ squoted ''join'' @ ''.'')]\<rparr>"
  obtain c w1 where c: "StartCommand (dbh_logFileLocation (st_dbHelper s)) ''mysqld'' [mycnf_arg] e ?w = Some (Ret (c, None), w1)"
    and rest: "andthen (set_mysqlCmd c) (andthen (log_info ''Issueing a non-blocking Wait for mysqld in join cluster mode'')
      (bind_go (WaitForCommand c) (\<lambda>ch. ret (Some ch, None)))) e w1 = Some (Ret (ch, None), w')"
    using assms unfolding joinCluster_def StartMysqldInJoin_def startMysqldAsChildProcess_def andthen_def
    by (auto simp: bind_eq_Some ret_def log_info_def log_at_def modify_def split: option.splits prod.splits)
  have c': "c = Some (mysqld_cmd [mycnf_arg] (next_pid w))" "next_pid w < next_pid w1"
    using StartCommand_ok [OF c] by (simp_all add: mysqld_cmd_def)
  show ?thesis
    using set_and_wait [OF rest [unfolded c'(1)] c'(2)] StartCommand_ok [OF c] by auto
qed


text \<open>What the update of the grastate file does: nothing if it cannot be read.\<close>

definition grastate_events :: "starter \<Rightarrow> string option \<Rightarrow> bool \<Rightarrow> event list" where
  "grastate_events s found ok =
     (case found of
        None \<Rightarrow> [EvRead (GrastateFileLocation (st_config s)) False]
      | Some c \<Rightarrow> [EvRead (GrastateFileLocation (st_config s)) True,
          EvWrite (GrastateFileLocation (st_config s)) (mark_safe_to_bootstrap c) ok])"

definition readable :: "env \<Rightarrow> world \<Rightarrow> string \<Rightarrow> string option" where
  "readable e w f = (if read_fails e (trace w) f = None then files w f else None)"

lemma update_grastate_run:
  "\<exists>r w'. update_grastate s e w = Some (Ret r, w') \<and> quiet e w w' \<and>
     trace w' = trace w @ grastate_events s (readable e w (GrastateFileLocation (st_config s))) (r = None) \<and>
     (readable e w (GrastateFileLocation (st_config s)) = None \<longrightarrow> r = None)"
  by (auto simp: update_grastate_def go_defs record_event_def readable_def grastate_events_def quiet_def
      split: option.splits)

lemma bootstrapNode_ok:
  assumes "bootstrapNode s e w = Some (Ret (ch, None), w')"
  shows "\<exists>c. ch = Some c \<and> owns [mycnf_arg, new_cluster_arg] (next_pid w) c w' \<and>
     trace w' = trace w @ grastate_events s (readable e w (GrastateFileLocation (st_config s))) True @
       [EvOpenAppend (dbh_logFileLocation (st_dbHelper s)) True,
        EvStart ''mysqld'' [mycnf_arg, new_cluster_arg] (Some (next_pid w))]"
proof -
  let ?w = "w\<lparr>logs := logs w @ [(INFO, ''Updating safe_to_bootstrap flag'')]\<rparr>"
  obtain r w1 where g: "update_grastate s e ?w = Some (Ret r, w1)" "quiet e ?w w1"
    "trace w1 = trace ?w @ grastate_events s (readable e ?w (GrastateFileLocation (st_config s))) (r = None)"
    using update_grastate_run [of s e ?w] by blast
  let ?w1 = "w1\<lparr>logs := logs w1 @ [(INFO, ''Bootstrapping node''),
     (INFO, ''Starting mysql with '' @ squoted ''bootstrap'' @ ''.'')]\<rparr>"
  obtain c w2 where r: "r = None"
    and c: "StartCommand (dbh_logFileLocation (st_dbHelper s)) ''mysqld'' [mycnf_arg, new_cluster_arg] e ?w1 = Some (Ret (c, None), w2)"
    and rest: "andthen (set_mysqlCmd c) (andthen (log_info ''Issusing a non-blocking Wait for mysqld in bootstrapping mode'')
      (bind_go (WaitForCommand c) (\<lambda>ch. ret (Some ch, None)))) e w2 = Some (Ret (ch, None), w')"
    using assms g(1) unfolding bootstrapNode_def StartMysqldInBootstrap_def startMysqldAsChildProcess_def andthen_def
    by (auto simp: bind_eq_Some ret_def log_info_def log_at_def modify_def split: option.splits prod.splits)
  have n: "next_pid w1 = next_pid w" using g(2) by (simp add: quiet_def)
  have c': "c = Some (mysqld_cmd [mycnf_arg, new_cluster_arg] (next_pid w))" "next_pid w < next_pid w2"
    using StartCommand_ok [OF c] n by (simp_all add: mysqld_cmd_def)
  show ?thesis
    using set_and_wait [OF rest [unfolded c'(1)] c'(2)] StartCommand_ok [OF c] g(3) r n
    by (auto simp: readable_def)
qed

text \<open>A round that does not end in an error leaves the process alone.\<close>

lemma chan_poll_quiet:
  "\<exists>got w'. chan_poll (Some ch) e w = Some (Ret got, w') \<and> (got = None \<longrightarrow> quiet e w w')"
  by (auto simp: go_defs record_event_def quiet_def split: chan_state.splits)

lemma poll_database_quiet:
  assumes "poll_database s ch n e w = Some (Ret q, w')" and "q \<noteq> Some (Some exited_error)"
  shows "quiet e w w'"
proof -
  obtain got w1 where p: "chan_poll (Some ch) e w = Some (Ret got, w1)" "got = None \<longrightarrow> quiet e w w1"
    using chan_poll_quiet by blast
  obtain b w2 where r: "IsDatabaseReachable (st_dbHelper s) e w1 = Some (Ret b, w2)"
    using IsDatabaseReachable_total by blast
  have "quiet e w1 w2" using stableD [OF quiet_db_helper(4) r] .
  then show ?thesis
    using assms p r
    by (cases got; cases b) (auto simp: poll_database_def go_basic_defs log_info_def log_at_def Sleep_def
        record_event_def quiet_def exited_error_def)
qed

lemma poll_rounds_quiet:
  "round_state (poll_body s ch e) n (0, w) = Some (k, u) \<Longrightarrow> quiet e w u"
proof (induction n arbitrary: k u)
  case (Suc n)
  obtain k' v where v: "round_state (poll_body s ch e) n (0, w) = Some (k', v)"
    and b: "poll_body s ch e (k', v) = Some (Inr (k, u))"
    using Suc.prems unfolding round_state_snoc by (auto split: option.splits sum.splits)
  have "poll_database s ch (k' + 1) e v = Some (Ret None, u)"
    using b by (auto simp: poll_body_def split: option.splits outcome.splits)
  then have "quiet e v u" by (rule poll_database_quiet) simp
  then show ?case using Suc.IH [OF v] qt.R_trans by blast
qed (simp add: quiet_def)

lemma wait_ok_quiet:
  assumes "waitForDatabaseToAcceptConnections s ch e w = Some (Ret None, w')"
  shows "quiet e w w'"
proof -
  let ?w = "w\<lparr>logs := logs w @ [(INFO, ''Attempting to reach database.'')]\<rparr>"
  obtain n k u where st: "round_state (poll_body s ch e) n (0, ?w) = Some (k, u)"
    and fin: "poll_body s ch e (k, u) = Some (Inl (Ret None, w'))"
    using assms pl.loop_iff [of s ch e "(0, ?w)" "(Ret None, w')"] unfolding wait_run by auto
  have "poll_database s ch (k + 1) e u = Some (Ret (Some None), w')"
    using fin by (auto simp: poll_body_def split: option.splits outcome.splits)
  then have "quiet e u w'" by (rule poll_database_quiet) simp
  moreover have "quiet e w ?w" by (simp add: quiet_def)
  ultimately show ?thesis using poll_rounds_quiet [OF st] qt.R_trans by blast
qed

lemma serving_work_ok_quiet:
  assumes "serving_work s ch e w = Some (Ret None, w')"
  shows "quiet e w w'"
proof -
  obtain w1 w2 w3 where "waitForDatabaseToAcceptConnections s ch e w = Some (Ret None, w1)"
    "seedDatabases s e w1 = Some (Ret None, w2)" "seedUsers s e w2 = Some (Ret None, w3)"
    "runPostStartSQL s e w3 = Some (Ret None, w')"
    using assms unfolding serving_work_def by (auto simp: bind_eq_Some ret_def split: option.splits)
  then have "quiet e w w1" "quiet e w1 w2" "quiet e w2 w3" "quiet e w3 w'"
    by (auto intro: wait_ok_quiet quiet_starter_seeding [THEN stableD])
  then show ?thesis by (simp add: quiet_def)
qed

text \<open>
  A start either fails, with no state and no channel, or gives the new state of the node and
  the channel of the mysqld it started.
\<close>

definition mysqld_args :: "string \<Rightarrow> bool \<Rightarrow> string list" where
  "mysqld_args state healthy =
     (if state = SingleNode \<or> (state = NeedsBootstrap \<and> \<not> healthy)
      then [mycnf_arg, new_cluster_arg] else [mycnf_arg])"

definition new_state :: "string \<Rightarrow> string" where
  "new_state state = (if state = SingleNode then SingleNode else Clustered)"

lemma start_switch_ok:
  assumes "start_switch s state e w = Some (Ret (ns, ch, None), w')"
  shows "state \<in> {SingleNode, NeedsBootstrap, Clustered} \<and> ns = new_state state \<and>
     (\<exists>c pid healthy evs. ch = Some c \<and> owns (mysqld_args state healthy) pid c w' \<and>
        trace w' = trace w @ evs @ [EvStart ''mysqld'' (mysqld_args state healthy) (Some pid)])"
proof -
  consider (single) "state = SingleNode" "bootstrapNode s e w = Some (Ret (ch, None), w')" "ns = SingleNode"
    | (needs) b w1 where "state = NeedsBootstrap" "HealthyCluster (st_healthChecker s) e w = Some (Ret b, w1)"
        "(if b then joinCluster s else bootstrapNode s) e w1 = Some (Ret (ch, None), w')" "ns = Clustered"
    | (join) "state = Clustered" "joinCluster s e w = Some (Ret (ch, None), w')" "ns = Clustered"
    using assms unfolding start_switch_def by (auto simp: bind_eq_Some ret_def split: if_splits)
  then show ?thesis
  proof cases
    case single
    then show ?thesis using bootstrapNode_ok [OF single(2)] by (fastforce simp: mysqld_args_def new_state_def)
  next
    case needs
    obtain xs where xs: "trace w1 = trace w @ xs" using journal_grows [OF journal_HealthyCluster needs(2)] by blast
    show ?thesis
    proof (cases b)
      case True
      then show ?thesis using joinCluster_ok [of s e w1 ch w'] needs xs
        by (auto simp: mysqld_args_def new_state_def intro!: exI [of _ True])
    next
      case False
      then show ?thesis using bootstrapNode_ok [of s e w1 ch w'] needs xs
        by (auto simp: mysqld_args_def new_state_def intro!: exI [of _ False])
    qed
  next
    case join
    then show ?thesis using joinCluster_ok [OF join(2)] by (fastforce simp: mysqld_args_def new_state_def)
  qed
qed

lemma StartNodeFromState_ok:
  assumes "StartNodeFromState s state e w = Some (Ret (ns, ch, None), w')"
  shows "state \<in> {SingleNode, NeedsBootstrap, Clustered} \<and> ns = new_state state \<and>
     (\<exists>c pid healthy evs. ch = Some c \<and> owns (mysqld_args state healthy) pid c w' \<and>
        trace w' = trace w @ evs \<and> EvStart ''mysqld'' (mysqld_args state healthy) (Some pid) \<in> set evs)"
proof -
  obtain c w1 where sw: "start_switch s state e w = Some (Ret (ns, Some c, None), w1)"
    and wk: "serving_work s c e w1 = Some (Ret None, w')" and ch: "ch = Some c"
    using assms unfolding StartNodeFromState_work by (auto simp: bind_eq_Some ret_def split: option.splits)
  obtain pid healthy xs where own: "owns (mysqld_args state healthy) pid c w1"
    and xs: "trace w1 = trace w @ xs @ [EvStart ''mysqld'' (mysqld_args state healthy) (Some pid)]"
    using start_switch_ok [OF sw] by blast
  obtain ys where "trace w' = trace w1 @ ys" using journal_grows [OF journal_work wk] by blast
  then show ?thesis
    using start_switch_ok [OF sw] owns_quiet [OF serving_work_ok_quiet [OF wk] own] xs ch
    by (intro conjI exI [of _ c] exI [of _ pid] exI [of _ healthy]
        exI [of _ "xs @ EvStart ''mysqld'' (mysqld_args state healthy) (Some pid) # ys"]) auto
qed

lemma wait_unfold [run_rules]: "waitForDatabaseToAcceptConnections s ch e w =
     (case poll_database s ch 1 e (w\<lparr>logs := logs w @ [(INFO, ''Attempting to reach database.'')]\<rparr>) of
        None \<Rightarrow> None
      | Some (r, w') \<Rightarrow> (case r of Ret q \<Rightarrow> (case q of Some x \<Rightarrow> Some (Ret x, w') | None \<Rightarrow> poll_loop s ch 1 e w') | Panic p \<Rightarrow> Some (Panic p, w')
      | OsExit n \<Rightarrow> Some (OsExit n, w')))"
  unfolding wait_run by (subst poll_loop.simps) (auto split: option.splits outcome.splits)

declare Clustered_def [run_rules] NeedsBootstrap_def [run_rules] SingleNode_def [run_rules]
  StartupPollingFrequencyInSeconds_def [run_rules] GetMysqlCmd_def [run_rules]
  set_mysqlCmd_def [run_rules] mark_safe_to_bootstrap_def [run_rules]
  update_grastate_def [run_rules] bootstrapNode_def [run_rules] joinCluster_def [run_rules]
  poll_database_def [run_rules] seedDatabases_def [run_rules] seedUsers_def [run_rules]
  runPostStartSQL_def [run_rules] start_switch_def [run_rules] StartNodeFromState_def [run_rules]

section \<open>A start comes back\<close>

lemma return_wait:
  assumes "ParseDSN (FormatDSN (dbh_config (st_dbHelper s))) = Inr cfg" and "ready_after e N"
  shows "always_returns e (waitForDatabaseToAcceptConnections s ch)"
  unfolding always_returns_def returns_def using wait_returns [OF assms] by fastforce

lemma return_HealthyCluster [return_intros]: "always_returns e (HealthyCluster h)"
  unfolding always_returns_def returns_def using HealthyCluster_run by fastforce

lemma return_start:
  assumes "ParseDSN (FormatDSN (dbh_config (st_dbHelper s))) = Inr cfg" and "ready_after e N"
  shows "always_returns e (StartNodeFromState s state)"
  unfolding StartNodeFromState_def start_switch_def joinCluster_def bootstrapNode_def update_grastate_def
    seedDatabases_def seedUsers_def runPostStartSQL_def set_mysqlCmd_def
  by (intro return_intros return_wait [OF assms]; simp)

lemma found_down_iff:
  "found_down h ip ev \<longleftrightarrow> (\<exists>st. ev = EvGet (probe_url ip) (probe_timeout h) st \<and> st \<noteq> Some 200)"
  by (cases ev) (auto simp: found_down_def)

lemma bootstrap_start_iff: "bootstrap_start ev \<longleftrightarrow> (\<exists>p. ev = EvStart ''mysqld'' [mycnf_arg, new_cluster_arg] p)"
  by (cases ev) (auto simp: bootstrap_start_def)

section \<open>Properties\<close>

lemma length_Replace: "length old = length new \<Longrightarrow> length (strings_Replace s old new) = length s"
proof (induction "length s" arbitrary: s rule: less_induct)
  case less
  show ?case
  proof (cases s)
    case (Cons c cs)
    show ?thesis
    proof (cases "old \<noteq> [] \<and> prefix old s")
      case True
      then have "length old \<le> length s" "0 < length old" by (auto simp: prefix_length_le)
      then show ?thesis
        using True Cons less.hyps [of "drop (length old) s"] less.prems by (simp add: strings_Replace.simps)
    next
      case False
      then show ?thesis using Cons less.hyps [of cs] less.prems by (auto simp: strings_Replace.simps)
    qed
  qed simp
qed

text \<open>C33. After the flag was rewritten the contents of galera's state file have the same length and nowhere say that
  bootstrapping is unsafe any more.\<close>

theorem safe_to_bootstrap_everywhere:
  "length (mark_safe_to_bootstrap contents) = length contents \<and>
   \<not> contains_sub (mark_safe_to_bootstrap contents) ''safe_to_bootstrap: 0''"
proof -
  have "\<not> sublist (''safe_to_bootstrap: '' @ [CHR ''0''])
      (strings_Replace contents (''safe_to_bootstrap: '' @ [CHR ''0'']) (''safe_to_bootstrap: '' @ [CHR ''1'']))"
    by (rule Replace_complete) simp
  then show ?thesis by (simp add: mark_safe_to_bootstrap_def contains_sub_iff length_Replace)
qed

text \<open>The reported time is always five seconds more than the pauses.\<close>

lemma reported_time_counts_one_pause_more:
  assumes "waitForDatabaseToAcceptConnections s ch e w = Some (Ret None, w')"
  shows "\<exists>n evs. trace w' = trace w @ evs \<and> sleeps (5 * 1000000000) evs = n \<and>
     last (logs w') = (INFO, ''Database became reachable after '' @ itoa (5 * (int n + 1)) @ '' seconds'')"
proof -
  have delay: "poll_delay = 5 * 1000000000" by (simp add: StartupPollingFrequencyInSeconds_def time_Second_def)
  obtain n u evs where u: "trace u = trace w @ evs" "sleeps poll_delay evs = n"
    and fin: "poll_database s ch (int n + 1) e u = Some (Ret (Some None), w')"
    using wait_rounds [OF assms] by (metis outcome.inject(1))
  obtain evs2 where "trace w' = trace u @ evs2" "sleeps poll_delay evs2 = 0" "last (logs w') = reachable_log (int n + 1)"
    using poll_database_run [of s ch "int n + 1" e u] fin by auto
  then show ?thesis
    using u unfolding delay by (intro exI [of _ n] exI [of _ "evs @ evs2"]) (simp add: reachable_log_def mult.commute)
qed


definition example_starter :: starter where
  "example_starter = NewStarter (NewDBHelper example_db ''/log'') (Manager example_config)
     (NewClusterHealthChecker (ClusterIps (Manager example_config)) (ClusterProbeTimeout (Manager example_config)))"

lemma example_starter_facts [simp]:
  "st_dbHelper example_starter = NewDBHelper example_db ''/log''" "st_config example_starter = Manager example_config"
  by (simp_all add: example_starter_def NewStarter_def)

lemma calm_ready: "ready_after calm_env 0"
  by (simp add: ready_after_def galera_verdict_def)


text \<open>C39. If the driver rejects the data source name, which happens for a socket path with an at sign, the wait never
  comes back as long as mysqld runs: the error is taken for a database that is not up yet, and probed again for ever.\<close>

theorem wait_for_database_never_ends:
  assumes "ParseDSN (FormatDSN (dbh_config (st_dbHelper s))) = Inl err" and "ch < length (chans w)"
    and "chans w ! ch = ChWaiting pid" and "\<forall>h. exited e h pid = None"
  shows "waitForDatabaseToAcceptConnections s ch e w = None"
  using assms by (intro wait_never) (auto simp: alive_def)

theorem wait_for_database_never_ends_witness:
  "waitForDatabaseToAcceptConnections (example_starter\<lparr>st_dbHelper := NewDBHelper (example_db\<lparr>db_Socket := ''/a@b.sock''\<rparr>) ''/log''\<rparr>) 0
     calm_env (blank_world\<lparr>chans := [ChWaiting 1]\<rparr>) = None"
proof -
  have "ParseDSN (FormatDSN (example_db\<lparr>db_Socket := ''/a@b.sock''\<rparr>)) = Inl (ErrorString
      (''default addr for network '' @ [CHR 0x27] @ ''b.sock)'' @ [CHR 0x27] @ '' unknown''))" by code_simp
  then show ?thesis by (intro wait_for_database_never_ends) auto
qed

text \<open>C14. A start from a state either fails, with an error, no new state and no channel, or it succeeds: then the state
  was one of the three, the new state is single node for a single node and clustered otherwise, and the starter owns
  a mysqld that it started in the mode the state asks for, with a channel that waits for its end.\<close>

theorem start_from_state_result:
  assumes "StartNodeFromState s state e w = Some (Ret (newState, ch, err), w')"
  shows "(err \<noteq> None \<longrightarrow> newState = '''' \<and> ch = None) \<and>
     (err = None \<longrightarrow> state \<in> {SingleNode, NeedsBootstrap, Clustered} \<and>
        newState = (if state = SingleNode then SingleNode else Clustered) \<and>
        (\<exists>c pid args evs. ch = Some c \<and> trace w' = trace w @ evs \<and> EvStart ''mysqld'' args (Some pid) \<in> set evs \<and>
           starter_mysqlCmd w' = Some (mysqld_cmd args pid) \<and> chans w' ! c = ChWaiting pid \<and>
           args \<in> {[mycnf_arg], [mycnf_arg, new_cluster_arg]} \<and>
           (state = Clustered \<longrightarrow> args = [mycnf_arg]) \<and> (state = SingleNode \<longrightarrow> args = [mycnf_arg, new_cluster_arg])))"
proof (cases err)
  case None
  obtain c pid healthy evs where "ch = Some c" "owns (mysqld_args state healthy) pid c w'" "trace w' = trace w @ evs"
    "EvStart ''mysqld'' (mysqld_args state healthy) (Some pid) \<in> set evs"
    using StartNodeFromState_ok [OF assms [unfolded None]] by blast
  moreover have "mysqld_args state healthy \<in> {[mycnf_arg], [mycnf_arg, new_cluster_arg]}"
    "state = Clustered \<longrightarrow> mysqld_args state healthy = [mycnf_arg]"
    "state = SingleNode \<longrightarrow> mysqld_args state healthy = [mycnf_arg, new_cluster_arg]"
    by (simp_all add: mysqld_args_def)
  ultimately show ?thesis
    using StartNodeFromState_ok [OF assms [unfolded None]] None unfolding owns_def new_state_def by blast
next
  case (Some x)
  then show ?thesis
    using assms unfolding StartNodeFromState_work by (auto simp: bind_eq_Some ret_def split: option.splits)
qed

theorem start_from_state_result_witness:
  "\<exists>w' ch. StartNodeFromState example_starter ''CLUSTERED'' calm_env blank_world = Some (Ret (''CLUSTERED'', ch, None), w') \<and>
     (\<exists>c pid args evs. ch = Some c \<and> trace w' = trace blank_world @ evs \<and> EvStart ''mysqld'' args (Some pid) \<in> set evs \<and>
        starter_mysqlCmd w' = Some (mysqld_cmd args pid) \<and> args = [mycnf_arg])"
proof -
  have "\<exists>w' ch. StartNodeFromState example_starter ''CLUSTERED'' calm_env blank_world = Some (Ret (''CLUSTERED'', ch, None), w')"
    by (simp add: run_rules blank_world_def cong: run_cong)
  then obtain w' ch where run: "StartNodeFromState example_starter ''CLUSTERED'' calm_env blank_world = Some (Ret (''CLUSTERED'', ch, None), w')"
    by blast
  have "''CLUSTERED'' = Clustered" by (simp add: Clustered_def)
  with run start_from_state_result [OF run] show ?thesis by auto
qed

end
