(* ===== verification/Upgrader.thy ===== *)
theory Upgrader
  imports Db_Helper
begin

text \<open>
  \<^verbatim>\<open>upgrader/upgrader.go\<close>: deciding whether an upgrade is needed, and running it against a
  stand-alone mysqld.
\<close>

record upgrader =
  up_config :: UpgraderConfig
  up_dbHelper :: GaleraDBHelper

definition NewUpgrader :: "UpgraderConfig \<Rightarrow> GaleraDBHelper \<Rightarrow> upgrader" where
  "NewUpgrader config dbHelper = \<lparr>up_config = config, up_dbHelper = dbHelper\<rparr>"

definition DBReachablePollingAttempts :: nat where
  "DBReachablePollingAttempts = 30"

definition DBReachablePollingDelay :: duration where
  "DBReachablePollingDelay = 10000000000"

section \<open>Upgrading\<close>

primrec wait_tries :: "upgrader \<Rightarrow> nat \<Rightarrow> go_error option go" where
  "wait_tries u 0 =
     andthen (log_info ''wait-for-upgrade-mysqld'')
     (ret (Some (ErrorString ''Database is not reachable after 30 tries.'')))"
| "wait_tries u (Suc left) =
     bind_go (IsDatabaseReachable (up_dbHelper u)) (\<lambda>reachable.
     if reachable
     then andthen (log_info ''wait-for-upgrade-mysqld'') (ret None)
     else andthen (log_info ''wait-for-upgrade-mysqld'')
          (andthen (Sleep DBReachablePollingDelay) (wait_tries u left)))"

definition waitUntilMySQLReachable :: "upgrader \<Rightarrow> go_error option go" where
  "waitUntilMySQLReachable u =
     andthen (log_info ''wait-for-upgrade-mysqld'') (wait_tries u DBReachablePollingAttempts)"

definition stopStandaloneDatabaseSynchronously :: "upgrader \<Rightarrow> unit go" where
  "stopStandaloneDatabaseSynchronously u = StopMysqld (up_dbHelper u)"

definition acceptable_errors :: "string list" where
  "acceptable_errors =
     [''already upgraded'', ''Unknown command'', ''WSREP has not yet prepared node'']"

definition upgrade_result :: "string \<Rightarrow> go_error option \<Rightarrow> go_error option go" where
  "upgrade_result output upgrade_err =
     (case upgrade_err of
        Some x \<Rightarrow>
          (if match_any acceptable_errors output
           then andthen
             (log_info ''output string matches acceptable errors - continuing startup.'')
             (ret None)
           else andthen
             (log_info ''output string does not match acceptable errors - aborting startup.'')
             (ret (Some x)))
      | None \<Rightarrow> andthen (log_info ''mysql-upgrade-complete'') (ret None))"

definition Upgrade :: "upgrader \<Rightarrow> go_error option go" where
  "Upgrade u =
     andthen (log_info ''starting-mysqld-for-upgrade'')
     (bind_go (StartMysqldForUpgrade (up_dbHelper u)) (\<lambda>(cmd, err).
      case err of Some x \<Rightarrow> ret (Some x) | None \<Rightarrow>
      bind_go (WaitForCommand cmd) (\<lambda>mysqldExitChan.
      bind_go (waitUntilMySQLReachable u) (\<lambda>err.
      case err of Some x \<Rightarrow> ret (Some x) | None \<Rightarrow>
      andthen (log_info ''mysql-upgrade-starting'')
      (bind_go (dbh_Upgrade (up_dbHelper u)) (\<lambda>(output, upgrade_err).
       bind_go (upgrade_result output upgrade_err) (\<lambda>err.
       andthen (log_info ''stopping-upgrade-mysqld'')
       (andthen (stopStandaloneDatabaseSynchronously u)
       (bind_go (chan_recv (Some mysqldExitChan)) (\<lambda>mysqldErr.
        if mysqldErr \<noteq> None
        then ret (errors_Wrap mysqldErr ''mysqld failed during upgrade'')
        else andthen (log_info ''mysqld-stopped'') (ret err)))))))))))"

section \<open>Whether to upgrade\<close>

definition NeedsUpgrade :: "upgrader \<Rightarrow> (bool \<times> go_error option) go" where
  "NeedsUpgrade u =
     bind_go (FileExists (LastUpgradedVersionFile (up_config u))) (\<lambda>lastExists.
     if \<not> lastExists then andthen (log_info ''Upgrade required'') (ret (True, None)) else
     bind_go (FileExists (PackageVersionFile (up_config u))) (\<lambda>packageExists.
     if \<not> packageExists
     then andthen (log_info ''Cannot determine whether upgrade is required.'')
       (ret (False, Some (ErrorString
          ''DB package is invalid because it is missing the version file.''))) else
     bind_go (ReadFile (LastUpgradedVersionFile (up_config u))) (\<lambda>(existingVersion, err).
     case err of
       Some x \<Rightarrow>
         andthen (log_info ''Cannot determine whether upgrade is required.'')
         (ret (False, Some (ErrorString
            ''Could not read last upgraded version file in the data dir.'')))
     | None \<Rightarrow>
     bind_go (ReadFile (PackageVersionFile (up_config u))) (\<lambda>(packageVersion, err).
     case err of
       Some x \<Rightarrow>
         andthen (log_info ''Cannot determine whether upgrade is required.'')
         (ret (False, Some (ErrorString
            ''DB package is invalid because the version file is not readable.'')))
     | None \<Rightarrow>
         (if strings_TrimSpace existingVersion \<noteq> strings_TrimSpace packageVersion
          then andthen (log_info ''Need to upgrade to latest version.'') (ret (True, None))
          else andthen (log_info ''Already upgraded to latest version, starting normally.'')
            (ret (False, None)))))))"

section \<open>Footprints\<close>

text \<open>The interactions an upgrade consists of.\<close>

definition upgrade_event :: "upgrader \<Rightarrow> event \<Rightarrow> bool" where
  "upgrade_event u ev =
     (sql_event ev \<or> ev = EvSleep DBReachablePollingDelay
      \<or> (\<exists>b. ev = EvOpenAppend (dbh_logFileLocation (up_dbHelper u)) b)
      \<or> (\<exists>p. ev = EvStart ''mysqld'' upgrade_args p)
      \<or> (\<exists>x. ev = EvRun ''mysqladmin'' [mylogin_arg, ''shutdown''] x)
      \<or> (\<exists>x. ev = EvRun (db_UpgradePath (dbh_config (up_dbHelper u))) [mylogin_arg] x)
      \<or> (\<exists>c. ev = EvRecv c))"

lemma emits_wait_tries [emits_intros]:
  "(\<And>ev. sql_event ev \<Longrightarrow> A ev) \<Longrightarrow> A (EvSleep DBReachablePollingDelay) \<Longrightarrow> emits A (wait_tries u n)"
  by (induction n) (auto intro!: emits_intros)

lemma emits_Upgrade: "emits (upgrade_event u) (Upgrade u)"
  unfolding Upgrade_def waitUntilMySQLReachable_def stopStandaloneDatabaseSynchronously_def
    upgrade_result_def
  by (intro emits_intros; simp add: upgrade_event_def)+

lemma emits_NeedsUpgrade [emits_intros]:
  "(\<And>f b. A (EvStat f b)) \<Longrightarrow> (\<And>f b. A (EvRead f b)) \<Longrightarrow> emits A (NeedsUpgrade u)"
  unfolding NeedsUpgrade_def by (intro emits_intros; simp)+

lemma journal_wait_tries [journal_intros]: "stable journal (wait_tries u n)"
  by (induction n) (auto intro!: journal_intros)

lemma journal_upgrader [journal_intros]:
  "stable journal (NeedsUpgrade u)" "stable journal (Upgrade u)"
  by (unfold NeedsUpgrade_def Upgrade_def waitUntilMySQLReachable_def
      stopStandaloneDatabaseSynchronously_def upgrade_result_def, (intro journal_intros; simp)+)

section \<open>Waiting for the upgrade's mysqld\<close>

definition opens :: "event list \<Rightarrow> nat" where
  "opens evs = length (filter (\<lambda>ev. \<exists>n ok. ev = EvOpenDB n ok) evs)"

lemma opens_append [simp]: "opens (xs @ ys) = opens xs + opens ys"
  by (simp add: opens_def)

text \<open>One round of the bounded loop, as the body of a polling loop.\<close>

definition tries_body ::
  "upgrader \<Rightarrow> env \<Rightarrow> nat \<times> world \<Rightarrow> ((go_error option outcome \<times> world) + nat \<times> world) option" where
  "tries_body u e s =
     (case s of
        (0, w) \<Rightarrow> map_option Inl (wait_tries u 0 e w)
      | (Suc n, w) \<Rightarrow>
          (case IsDatabaseReachable (up_dbHelper u) e w of
             Some (Ret True, w') \<Rightarrow> map_option Inl (andthen (log_info ''wait-for-upgrade-mysqld'') (ret None) e w')
           | Some (Ret False, w') \<Rightarrow>
               Some (Inr (n, record_event e (EvSleep DBReachablePollingDelay)
                 (w'\<lparr>logs := logs w' @ [(INFO, ''wait-for-upgrade-mysqld'')]\<rparr>)))
           | _ \<Rightarrow> None))"

lemma wait_tries_unfold:
  "(\<lambda>(n, w). wait_tries u n e w) s =
     (case tries_body u e s of
        None \<Rightarrow> None | Some (Inl r) \<Rightarrow> Some r | Some (Inr s') \<Rightarrow> (\<lambda>(n, w). wait_tries u n e w) s')"
proof (cases s)
  case (Pair n w)
  obtain b w' where "IsDatabaseReachable (up_dbHelper u) e w = Some (Ret b, w')"
    using IsDatabaseReachable_total [of "up_dbHelper u" e w] by blast
  then show ?thesis
    using Pair by (cases n; cases b) (simp_all add: tries_body_def go_defs)
qed

lemma wait_tries_fuel:
  "wait_tries u n e w = Some r \<Longrightarrow> fuel_loop (tries_body u e) (Suc n) (n, w) = Some r"
proof (induction n arbitrary: w)
  case (Suc n)
  obtain b w' where "IsDatabaseReachable (up_dbHelper u) e w = Some (Ret b, w')"
    using IsDatabaseReachable_total [of "up_dbHelper u" e w] by blast
  with Suc show ?case by (cases b) (simp_all add: tries_body_def go_defs)
qed (simp add: tries_body_def)

interpretation wt: polling_loop "tries_body u e" "\<lambda>(n, w). wait_tries u n e w" for u e
proof unfold_locales
  show "(case s of (n, w) \<Rightarrow> wait_tries u n e w) = (case tries_body u e s of None \<Rightarrow> None
      | Some (Inl r) \<Rightarrow> Some r | Some (Inr s') \<Rightarrow> (case s' of (n, w) \<Rightarrow> wait_tries u n e w))" for u e s
    using wait_tries_unfold [of u e s] by simp
  show "(case s of (n, w) \<Rightarrow> wait_tries u n e w) = Some r \<Longrightarrow> \<exists>k. fuel_loop (tries_body u e) k s = Some r" for u e s r
    by (cases s) (auto dest: wait_tries_fuel simp del: fuel_loop.simps)
qed

text \<open>
  The bounded wait: it sleeps once for every failed probe, and gives up after as many failed
  probes as it was allowed.
\<close>

lemma wait_tries_run:
  "\<exists>r w' evs. wait_tries u n e w = Some (Ret r, w') \<and> trace w' = trace w @ evs \<and>
     sleeps DBReachablePollingDelay evs \<le> n \<and>
     (r = None \<longleftrightarrow> sleeps DBReachablePollingDelay evs < n) \<and>
     opens evs = sleeps DBReachablePollingDelay evs + (if r = None then 1 else 0) \<and>
     (r = None \<or> r = Some (ErrorString ''Database is not reachable after 30 tries.''))"
proof (induction n arbitrary: w)
  case 0
  show ?case by (auto simp: go_defs opens_def)
next
  case (Suc n)
  obtain b w1 evs where r: "IsDatabaseReachable (up_dbHelper u) e w = Some (Ret b, w1)"
    "trace w1 = trace w @ evs" "opens evs = 1" "sleeps DBReachablePollingDelay evs = 0"
    using IsDatabaseReachable_total [of "up_dbHelper u" e w] sql_event_no_sleep
    unfolding opens_def by metis
  show ?case
  proof (cases b)
    case True
    with r show ?thesis by (auto simp: go_defs)
  next
    case False
    let ?w2 = "record_event e (EvSleep DBReachablePollingDelay)
      (w1\<lparr>logs := logs w1 @ [(INFO, ''wait-for-upgrade-mysqld'')]\<rparr>)"
    obtain res w' evs2 where IH: "wait_tries u n e ?w2 = Some (Ret res, w')" "trace w' = trace ?w2 @ evs2"
      "sleeps DBReachablePollingDelay evs2 \<le> n"
      "res = None \<longleftrightarrow> sleeps DBReachablePollingDelay evs2 < n"
      "opens evs2 = sleeps DBReachablePollingDelay evs2 + (if res = None then 1 else 0)"
      "res = None \<or> res = Some (ErrorString ''Database is not reachable after 30 tries.'')"
      using Suc.IH [of ?w2] by blast
    have "wait_tries u (Suc n) e w = Some (Ret res, w')"
      using r(1) False IH(1) by (simp add: go_defs)
    moreover have "trace w' = trace w @ (evs @ EvSleep DBReachablePollingDelay # evs2)"
      using r(2) IH(2) by (simp add: record_event_def)
    moreover have "sleeps DBReachablePollingDelay (evs @ EvSleep DBReachablePollingDelay # evs2) =
        Suc (sleeps DBReachablePollingDelay evs2)"
      using r(4) by (simp add: sleeps_def)
    moreover have "opens (evs @ EvSleep DBReachablePollingDelay # evs2) = Suc (opens evs2)"
      using r(3) by (simp add: opens_def)
    ultimately show ?thesis using IH(3-6) by (metis Suc_le_mono Suc_less_eq add_Suc)
  qed
qed

section \<open>The decision\<close>

text \<open>What decides about an upgrade: the two version files.\<close>

definition upgrade_decision :: "string option \<Rightarrow> string option \<Rightarrow> bool \<times> go_error option" where
  "upgrade_decision last_upgraded package =
     (case last_upgraded of
        None \<Rightarrow> (True, None)
      | Some a \<Rightarrow>
          (case package of
             None \<Rightarrow> (False, Some (ErrorString ''DB package is invalid because it is missing the version file.''))
           | Some b \<Rightarrow> (strings_TrimSpace a \<noteq> strings_TrimSpace b, None)))"

lemma NeedsUpgrade_refines:
  assumes "steady e (LastUpgradedVersionFile (up_config u))" and "steady e (PackageVersionFile (up_config u))"
  shows "\<exists>w'. NeedsUpgrade u e w = Some (Ret (upgrade_decision
     (files w (LastUpgradedVersionFile (up_config u))) (files w (PackageVersionFile (up_config u)))), w') \<and>
     same_files e w w'"
proof -
  let ?l = "LastUpgradedVersionFile (up_config u)" and ?p = "PackageVersionFile (up_config u)"
  obtain w1 where 1: "FileExists ?l e w = Some (Ret (files w ?l \<noteq> None), w1)" "same_files e w w1"
    using fs.exists_law [OF assms(1)] by blast
  have f1: "files w1 ?l = files w ?l" "files w1 ?p = files w ?p" using 1(2) assms by (simp_all add: same_files_def)
  obtain w2 where 2: "FileExists ?p e w1 = Some (Ret (files w ?p \<noteq> None), w2)" "same_files e w1 w2"
    using fs.exists_law [OF assms(2), of w1] f1 by auto
  have f2: "files w2 ?l = files w ?l" "files w2 ?p = files w ?p" using f1 2(2) assms by (simp_all add: same_files_def)
  show ?thesis
  proof (cases "files w ?l = None \<or> files w ?p = None")
    case True
    then show ?thesis
      using 1 2 unfolding NeedsUpgrade_def
      by (cases "files w ?l") (auto simp: go_basic_defs log_info_def log_at_def upgrade_decision_def same_files_def)
  next
    case False
    then obtain a b where ab: "files w ?l = Some a" "files w ?p = Some b" by auto
    obtain w3 where 3: "ReadFile ?l e w2 = Some (Ret (a, None), w3)" "same_files e w2 w3"
      using fs.read_law [OF assms(1)] f2 ab by metis
    have "files w3 ?p = Some b" using f2 ab 3(2) assms by (simp add: same_files_def)
    then obtain w4 where 4: "ReadFile ?p e w3 = Some (Ret (b, None), w4)" "same_files e w3 w4"
      using fs.read_law [OF assms(2)] by metis
    show ?thesis
      using 1 2 3 4 ab unfolding NeedsUpgrade_def
      by (auto simp: go_basic_defs log_info_def log_at_def upgrade_decision_def same_files_def)
  qed
qed

lemma wait_tries_numeral [run_rules]:
  "wait_tries u (numeral k) =
     bind_go (IsDatabaseReachable (up_dbHelper u)) (\<lambda>reachable.
     if reachable
     then andthen (log_info ''wait-for-upgrade-mysqld'') (ret None)
     else andthen (log_info ''wait-for-upgrade-mysqld'')
          (andthen (Sleep DBReachablePollingDelay) (wait_tries u (pred_numeral k))))"
  by (simp add: numeral_eq_Suc)

declare DBReachablePollingAttempts_def [run_rules] waitUntilMySQLReachable_def [run_rules]
  stopStandaloneDatabaseSynchronously_def [run_rules] acceptable_errors_def [run_rules]
  upgrade_result_def [run_rules] Upgrade_def [run_rules] NeedsUpgrade_def [run_rules]

section \<open>An upgrade comes back\<close>

lemma quiet_wait_tries [quiet_intros]: "stable quiet (wait_tries u n)"
  by (induction n) (auto intro!: quiet_intros)

lemma return_upgrader [return_intros]:
  "always_returns e (wait_tries u n)" "always_returns e (NeedsUpgrade u)"
proof -
  show "always_returns e (wait_tries u n)" by (induction n) (auto intro!: return_intros)
  show "always_returns e (NeedsUpgrade u)" unfolding NeedsUpgrade_def by (intro return_intros; simp)
qed

text \<open>The part of the upgrade between the start of mysqld and the wait for its end.\<close>

definition upgrade_work :: "upgrader \<Rightarrow> (go_error option + go_error option) go" where
  "upgrade_work u =
     bind_go (waitUntilMySQLReachable u) (\<lambda>err.
     case err of Some x \<Rightarrow> ret (Inl (Some x)) | None \<Rightarrow>
     andthen (log_info ''mysql-upgrade-starting'')
     (bind_go (dbh_Upgrade (up_dbHelper u)) (\<lambda>(output, upgrade_err).
      bind_go (upgrade_result output upgrade_err) (\<lambda>err.
      andthen (log_info ''stopping-upgrade-mysqld'')
      (andthen (stopStandaloneDatabaseSynchronously u) (ret (Inr err)))))))"

lemma case_sum_bind:
  "bind_go (case s of Inl a \<Rightarrow> f a | Inr b \<Rightarrow> g b) h = (case s of Inl a \<Rightarrow> bind_go (f a) h | Inr b \<Rightarrow> bind_go (g b) h)"
  by (simp split: sum.splits)

definition upgrade_end :: "nat \<Rightarrow> go_error option + go_error option \<Rightarrow> go_error option go" where
  "upgrade_end mysqldExitChan res =
     (case res of Inl err \<Rightarrow> ret err | Inr err \<Rightarrow>
      bind_go (chan_recv (Some mysqldExitChan)) (\<lambda>mysqldErr.
      if mysqldErr \<noteq> None
      then ret (errors_Wrap mysqldErr ''mysqld failed during upgrade'')
      else andthen (log_info ''mysqld-stopped'') (ret err)))"

lemma Upgrade_phases:
  "Upgrade u =
     andthen (log_info ''starting-mysqld-for-upgrade'')
     (bind_go (StartMysqldForUpgrade (up_dbHelper u)) (\<lambda>(cmd, err).
      case err of Some x \<Rightarrow> ret (Some x) | None \<Rightarrow>
      bind_go (WaitForCommand cmd) (\<lambda>mysqldExitChan.
      bind_go (upgrade_work u) (upgrade_end mysqldExitChan))))"
  unfolding Upgrade_def upgrade_end_def upgrade_work_def andthen_def bind_assoc case_option_bind case_prod_bind bind_ret_left
  by (simp cong: option.case_cong)

lemma upgrade_work_basics:
  "stable quiet (upgrade_work u)" "always_returns e (upgrade_work u)"
  unfolding upgrade_work_def waitUntilMySQLReachable_def stopStandaloneDatabaseSynchronously_def upgrade_result_def
  by (intro quiet_intros return_intros; simp)+


lemma StartMysqldForUpgrade_cases:
  obtains (failed) c x w' where "StartMysqldForUpgrade m e w = Some (Ret (c, Some x), w')"
      "\<exists>evs. trace w' = trace w @ evs \<and> (\<forall>ev \<in> set evs. \<forall>y args pid x. ev \<noteq> EvRun y args x \<and> ev \<noteq> EvStart y args (Some pid))"
  | (ok) w' where "StartMysqldForUpgrade m e w =
       Some (Ret (Some \<lparr>cmd_path = ''mysqld'', cmd_args = upgrade_args, cmd_process = Some (next_pid w)\<rparr>, None), w')"
      "trace w' = trace w @ [EvOpenAppend (dbh_logFileLocation m) True, EvStart ''mysqld'' upgrade_args (Some (next_pid w))]"
      "chans w' = chans w"
proof -
  obtain c err w1 where c: "StartCommand (dbh_logFileLocation m) ''mysqld'' upgrade_args e w = Some (Ret (c, err), w1)"
    "err \<noteq> None \<longrightarrow> (\<exists>evs. trace w1 = trace w @ evs \<and>
        (\<forall>ev \<in> set evs. (\<exists>b. ev = EvOpenAppend (dbh_logFileLocation m) b) \<or> ev = EvStart ''mysqld'' upgrade_args None))"
    using StartCommand_run [of "dbh_logFileLocation m" "''mysqld''" upgrade_args e w] by blast
  show thesis
  proof (cases err)
    case None
    then show thesis using ok [of w1] StartCommand_ok [OF c(1) [unfolded None]] c(1)
      by (simp add: StartMysqldForUpgrade_def bind_go_def ret_def)
  next
    case (Some x)
    then have "StartMysqldForUpgrade m e w = Some (Ret (None, Some (WithStack (WithMessage x ''Error starting mysqld in stand-alone''))), w1)"
      using c(1) by (simp add: StartMysqldForUpgrade_def bind_go_def ret_def errors_Wrap_def)
    moreover have "\<exists>evs. trace w1 = trace w @ evs \<and> (\<forall>ev \<in> set evs. \<forall>y args pid x. ev \<noteq> EvRun y args x \<and> ev \<noteq> EvStart y args (Some pid))"
      using c(2) Some by fastforce
    ultimately show thesis using failed by blast
  qed
qed

text \<open>The world in which the work of an upgrade begins.\<close>

lemma Upgrade_start:
  obtains (failed) x w1 w0 c where "Upgrade u e w = Some (Ret (Some x), w1)"
      "StartMysqldForUpgrade (up_dbHelper u) e w0 = Some (Ret (c, Some x), w1)"
      "\<exists>evs. trace w1 = trace w @ evs \<and> (\<forall>ev \<in> set evs. \<forall>y args pid x. ev \<noteq> EvRun y args x \<and> ev \<noteq> EvStart y args (Some pid))"
  | (begun) w1 where "chans w1 = chans w @ [ChWaiting (next_pid w)]"
      "trace w1 = trace w @ [EvOpenAppend (dbh_logFileLocation (up_dbHelper u)) True, EvStart ''mysqld'' upgrade_args (Some (next_pid w))]"
      "Upgrade u e w = bind_go (upgrade_work u) (upgrade_end (length (chans w))) e w1"
proof -
  let ?w = "w\<lparr>logs := logs w @ [(INFO, ''starting-mysqld-for-upgrade'')]\<rparr>"
  show thesis
  proof (cases rule: StartMysqldForUpgrade_cases [of "up_dbHelper u" e ?w])
    case (ok w1)
    show thesis
      using begun [of "w1\<lparr>chans := chans w1 @ [ChWaiting (next_pid w)]\<rparr>"] ok
      by (simp add: Upgrade_phases WaitForCommand_def go_basic_defs log_info_def log_at_def
          split: option.splits outcome.splits)
  next
    case (failed c x w1)
    then have "Upgrade u e w = Some (Ret (Some x), w1)"
      by (simp add: Upgrade_phases go_basic_defs log_info_def log_at_def)
    then show thesis using that(1) failed by simp
  qed
qed


text \<open>The end of mysqld, as the upgrade sees it.\<close>

lemma upgrade_end_run:
  assumes "ch < length (chans w)" and "chans w ! ch = ChWaiting pid"
  shows "upgrade_end ch (Inr err) e w = (case awaited e (trace w) pid of
     None \<Rightarrow> None
   | Some mysqldErr \<Rightarrow> Some (Ret (if mysqldErr \<noteq> None then errors_Wrap mysqldErr ''mysqld failed during upgrade'' else err),
       (record_event e (EvRecv (Some ch)) (w\<lparr>chans := (chans w)[ch := ChDrained]\<rparr>))
         \<lparr>logs := logs w @ (if mysqldErr \<noteq> None then [] else [(INFO, ''mysqld-stopped'')])\<rparr>))"
  using assms by (auto simp: upgrade_end_def go_defs record_event_def split: option.splits)

lemma Upgrade_returns:
  assumes "\<And>h pid. awaited e h pid \<noteq> None"
  shows "always_returns e (Upgrade u)"
  unfolding always_returns_def
proof
  fix w
  show "returns (Upgrade u) e w"
  proof (cases rule: Upgrade_start [of u e w])
    case (failed x w1 w0 c)
    then show ?thesis by (simp add: returns_def)
  next
    case (begun w1)
    obtain r w2 where wk: "upgrade_work u e w1 = Some (r, w2)"
      using always_returnsD [OF upgrade_work_basics(2)] by blast
    have ch: "chans w2 = chans w @ [ChWaiting (next_pid w)]"
      using stableD [OF upgrade_work_basics(1) wk] begun(1) by (simp add: quiet_def)
    have "returns (upgrade_end (length (chans w)) res) e w2" for res
    proof (cases res)
      case (Inr err)
      then show ?thesis
        using assms [of "trace w2" "next_pid w"] upgrade_end_run [of "length (chans w)" w2 "next_pid w" err e] ch
        by (auto simp: returns_def)
    qed (simp add: upgrade_end_def returns_def ret_def)
    then show ?thesis
      unfolding returns_def begun(3) using wk by (auto simp: bind_go_def returns_def split: outcome.splits)
  qed
qed

text \<open>What an upgrade does, by how it ends.\<close>

definition upgrade_verdict :: "string \<Rightarrow> go_error option \<Rightarrow> go_error option" where
  "upgrade_verdict output err =
     (if err \<noteq> None \<and> match_any acceptable_errors output then None else err)"

lemma upgrade_result_run: "\<exists>w'. upgrade_result output err e w = Some (Ret (upgrade_verdict output err), w') \<and>
   trace w' = trace w \<and> chans w' = chans w"
  by (auto simp: upgrade_result_def upgrade_verdict_def go_defs split: option.splits)

definition wait_event :: "event \<Rightarrow> bool" where
  "wait_event ev = (sql_event ev \<or> ev = EvSleep DBReachablePollingDelay)"

lemma waitUntil_run:
  obtains r w' evs where "waitUntilMySQLReachable u e w = Some (Ret r, w')" "trace w' = trace w @ evs"
    "\<forall>ev \<in> set evs. wait_event ev"
    "r = None \<longleftrightarrow> sleeps DBReachablePollingDelay evs < 30" "sleeps DBReachablePollingDelay evs \<le> 30"
    "r = None \<or> r = Some (ErrorString ''Database is not reachable after 30 tries.'')"
proof -
  let ?w = "w\<lparr>logs := logs w @ [(INFO, ''wait-for-upgrade-mysqld'')]\<rparr>"
  obtain r w' evs where r: "wait_tries u 30 e ?w = Some (Ret r, w')" "trace w' = trace ?w @ evs"
     "sleeps DBReachablePollingDelay evs \<le> 30" "r = None \<longleftrightarrow> sleeps DBReachablePollingDelay evs < 30"
     "r = None \<or> r = Some (ErrorString ''Database is not reachable after 30 tries.'')"
    using wait_tries_run [of u 30 e ?w] by blast
  have "emits wait_event (wait_tries u 30)" by (intro emits_intros) (simp_all add: wait_event_def)
  from emitsD [OF this r(1)] r(2) have "\<forall>ev \<in> set evs. wait_event ev" by auto
  then show thesis
    using that [of r w' evs] r unfolding waitUntilMySQLReachable_def DBReachablePollingAttempts_def
    by (simp add: andthen_def bind_go_def log_info_def log_at_def modify_def)
qed


abbreviation timeout_error :: go_error where
  "timeout_error \<equiv> ErrorString ''Database is not reachable after 30 tries.''"

definition shutdown_run :: "go_error option \<Rightarrow> event" where
  "shutdown_run x = EvRun ''mysqladmin'' [mylogin_arg, ''shutdown''] x"

definition upgrade_run :: "upgrader \<Rightarrow> go_error option \<Rightarrow> event" where
  "upgrade_run u x = EvRun (db_UpgradePath (dbh_config (up_dbHelper u))) [mylogin_arg] x"

lemma upgrade_work_cases:
  assumes "upgrade_work u e w = Some (r, w')"
  obtains (timeout) evs where "r = Ret (Inl (Some timeout_error))" "trace w' = trace w @ evs"
      "\<forall>ev \<in> set evs. wait_event ev" "sleeps DBReachablePollingDelay evs = 30"
  | (unstopped) evs x y where "r = Panic (Some y)" "trace w' = trace w @ evs @ [upgrade_run u x, shutdown_run (Some y)]"
      "\<forall>ev \<in> set evs. wait_event ev" "sleeps DBReachablePollingDelay evs < 30"
  | (stopped) evs out x where "r = Ret (Inr (upgrade_verdict out x))"
      "trace w' = trace w @ evs @ [upgrade_run u x, shutdown_run None]"
      "\<forall>ev \<in> set evs. wait_event ev" "sleeps DBReachablePollingDelay evs < 30"
      "command e (trace w @ evs) (db_UpgradePath (dbh_config (up_dbHelper u))) [mylogin_arg] = (out, x)"
proof -
  obtain q w1 evs where q: "waitUntilMySQLReachable u e w = Some (Ret q, w1)" "trace w1 = trace w @ evs"
    "\<forall>ev \<in> set evs. wait_event ev" "q = None \<longleftrightarrow> sleeps DBReachablePollingDelay evs < 30"
    "sleeps DBReachablePollingDelay evs \<le> 30" "q = None \<or> q = Some timeout_error"
    by (rule waitUntil_run)
  show thesis
  proof (cases "q = None")
    case False
    then show thesis using timeout [of evs] q assms by (auto simp: upgrade_work_def bind_go_def ret_def)
  next
    case True
    obtain out x where cmd: "command e (trace w @ evs) (db_UpgradePath (dbh_config (up_dbHelper u))) [mylogin_arg] = (out, x)"
      by (cases "command e (trace w @ evs) (db_UpgradePath (dbh_config (up_dbHelper u))) [mylogin_arg]")
    let ?w1 = "w1\<lparr>logs := logs w1 @ [(INFO, ''mysql-upgrade-starting'')]\<rparr>"
    let ?w2 = "record_event e (upgrade_run u x) ?w1"
    have up: "dbh_Upgrade (up_dbHelper u) e ?w1 = Some (Ret (out, x), ?w2)"
      using cmd q(2) unfolding dbh_Upgrade_def by (auto simp: RunCommand_def go_basic_defs upgrade_run_def split: option.splits)
    obtain w3 where w3: "upgrade_result out x e ?w2 = Some (Ret (upgrade_verdict out x), w3)" "trace w3 = trace ?w2"
      using upgrade_result_run [of out x e ?w2] by blast
    let ?w4 = "w3\<lparr>logs := logs w3 @ [(INFO, ''stopping-upgrade-mysqld'')]\<rparr>"
    have run: "bind_go (StopMysqld (up_dbHelper u)) (\<lambda>_. ret (Inr (upgrade_verdict out x))) e ?w4 = Some (r, w')"
      using assms q(1) True up w3(1)
      by (simp add: upgrade_work_def andthen_def stopStandaloneDatabaseSynchronously_def log_info_def log_at_def modify_def bind_go_def)
    have tr: "trace ?w4 = trace w @ evs @ [upgrade_run u x]" using w3(2) q(2) by (simp add: record_event_def)
    obtain z y where "command e (trace ?w4) ''mysqladmin'' [mylogin_arg, ''shutdown''] = (z, y)" by fastforce
    then show thesis
      using run tr q(3,4) True cmd unstopped [of _ evs x] stopped [of out x evs]
      by (cases y) (auto simp: StopMysqld_def RunCommand_def go_basic_defs log_info_def log_at_def log_fatal_def
          record_event_def shutdown_run_def)
  qed
qed


definition upgrade_started :: "upgrader \<Rightarrow> nat \<Rightarrow> event list" where
  "upgrade_started u pid =
     [EvOpenAppend (dbh_logFileLocation (up_dbHelper u)) True, EvStart ''mysqld'' upgrade_args (Some pid)]"

lemma Upgrade_cases:
  assumes "Upgrade u e w = Some (r, w')"
  obtains (unstarted) x evs where "r = Ret (Some x)" "trace w' = trace w @ evs"
      "\<forall>ev \<in> set evs. \<forall>y args pid x. ev \<noteq> EvRun y args x \<and> ev \<noteq> EvStart y args (Some pid)"
  | (timeout) evs where "r = Ret (Some timeout_error)" "trace w' = trace w @ upgrade_started u (next_pid w) @ evs"
      "\<forall>ev \<in> set evs. wait_event ev" "sleeps DBReachablePollingDelay evs = 30"
  | (unstopped) evs x y where "r = Panic (Some y)"
      "trace w' = trace w @ upgrade_started u (next_pid w) @ evs @ [upgrade_run u x, shutdown_run (Some y)]"
      "\<forall>ev \<in> set evs. wait_event ev"
  | (finished) evs out x mysqldErr where
      "r = Ret (if mysqldErr \<noteq> None then errors_Wrap mysqldErr ''mysqld failed during upgrade'' else upgrade_verdict out x)"
      "trace w' = trace w @ upgrade_started u (next_pid w) @ evs @
         [upgrade_run u x, shutdown_run None, EvRecv (Some (length (chans w)))]"
      "\<forall>ev \<in> set evs. wait_event ev" "sleeps DBReachablePollingDelay evs < 30"
      "command e (trace w @ upgrade_started u (next_pid w) @ evs) (db_UpgradePath (dbh_config (up_dbHelper u))) [mylogin_arg] = (out, x)"
      "awaited e (butlast (trace w')) (next_pid w) = Some mysqldErr"
proof (cases rule: Upgrade_start [of u e w])
  case (failed x w1 w0 c)
  then show thesis using unstarted assms by auto
next
  case (begun w1)
  have tr: "trace w1 = trace w @ upgrade_started u (next_pid w)" using begun(2) by (simp add: upgrade_started_def)
  obtain q w2 where wk: "upgrade_work u e w1 = Some (q, w2)"
    using always_returnsD [OF upgrade_work_basics(2)] by blast
  have ch: "length (chans w) < length (chans w2)" "chans w2 ! length (chans w) = ChWaiting (next_pid w)"
    using stableD [OF upgrade_work_basics(1) wk] begun(1) by (simp_all add: quiet_def)
  have run: "bind_go (upgrade_work u) (upgrade_end (length (chans w))) e w1 = Some (r, w')" using assms begun(3) by simp
  from wk show thesis
  proof (cases rule: upgrade_work_cases)
    case (timeout evs)
    then show thesis using that(2) [of evs] run wk tr by (simp add: bind_go_def upgrade_end_def ret_def)
  next
    case (unstopped evs x y)
    then show thesis using that(3) [of y evs x] run wk tr by (simp add: bind_go_def)
  next
    case (stopped evs out x)
    have fin: "upgrade_end (length (chans w)) (Inr (upgrade_verdict out x)) e w2 = Some (r, w')"
      using run wk stopped(1) by (simp add: bind_go_def)
    then obtain me where me: "awaited e (trace w2) (next_pid w) = Some me"
      using upgrade_end_run [OF ch] by (auto split: option.splits)
    have "trace w' = trace w2 @ [EvRecv (Some (length (chans w)))]"
      "r = Ret (if me \<noteq> None then errors_Wrap me ''mysqld failed during upgrade'' else upgrade_verdict out x)"
      using fin me upgrade_end_run [OF ch] by (auto simp: record_event_def)
    then show thesis using that(4) [of me out x evs] stopped tr me by (simp add: butlast_append)
  qed
qed

section \<open>Properties\<close>

text \<open>C16. With version files that nobody else changes and that can be looked at, the check decides as
  specified: upgrade if the data directory has no version file, fail if the package has none, and
  otherwise upgrade exactly if the two trimmed versions differ. It changes no such file.\<close>

theorem upgrade_check_refines_decision:
  assumes "steady e (LastUpgradedVersionFile (up_config u))" and "steady e (PackageVersionFile (up_config u))"
  shows "\<exists>w'. NeedsUpgrade u e w = Some (Ret (upgrade_decision
       (files w (LastUpgradedVersionFile (up_config u))) (files w (PackageVersionFile (up_config u)))), w') \<and>
     same_files e w w'"
  using assms by (rule NeedsUpgrade_refines)

theorem upgrade_check_refines_decision_witness:
  "\<exists>w'. NeedsUpgrade (NewUpgrader (UpgraderCfg example_config) (NewDBHelper example_db ''/log'')) calm_env
     (blank_world\<lparr>files := [''/last'' \<mapsto> ''5.7.25 '', ''/package'' \<mapsto> ''5.7.25'']\<rparr>) = Some (Ret (False, None), w')"
proof -
  have trim: "strings_TrimSpace ''5.7.25 '' = ''5.7.25''" "strings_TrimSpace ''5.7.25'' = ''5.7.25''" by code_simp+
  have steady: "steady calm_env f" for f by (simp add: steady_def undisturbed_def)
  show ?thesis
    using upgrade_check_refines_decision [of calm_env "NewUpgrader (UpgraderCfg example_config) (NewDBHelper example_db ''/log'')"
        "blank_world\<lparr>files := [''/last'' \<mapsto> ''5.7.25 '', ''/package'' \<mapsto> ''5.7.25'']\<rparr>"] trim
    by (auto simp: steady NewUpgrader_def upgrade_decision_def)
qed

text \<open>C17. An upgrade that succeeds has, in this order, started a stand-alone mysqld, waited for it with fewer
  than thirty pauses, run the upgrade program, stopped mysqld and seen it end without an error; and the
  upgrade program either succeeded or printed one of the three acceptable messages.\<close>

theorem successful_upgrade:
  assumes "Upgrade u e w = Some (Ret None, w')"
  shows "\<exists>evs x. trace w' = trace w @
       [EvOpenAppend (dbh_logFileLocation (up_dbHelper u)) True, EvStart ''mysqld'' upgrade_args (Some (next_pid w))] @ evs @
       [EvRun (db_UpgradePath (dbh_config (up_dbHelper u))) [mylogin_arg] x,
        EvRun ''mysqladmin'' [mylogin_arg, ''shutdown''] None, EvRecv (Some (length (chans w)))] \<and>
     (\<forall>ev \<in> set evs. wait_event ev) \<and> sleeps DBReachablePollingDelay evs < 30 \<and>
     awaited e (butlast (trace w')) (next_pid w) = Some None \<and>
     (x = None \<or> match_any acceptable_errors (fst (command e
        (trace w @ upgrade_started u (next_pid w) @ evs) (db_UpgradePath (dbh_config (up_dbHelper u))) [mylogin_arg])))"
  using assms
proof (cases rule: Upgrade_cases)
  case (finished evs out x me)
  then have "me = None" by (auto simp: errors_Wrap_def split: if_splits)
  then show ?thesis
    using finished by (auto simp: upgrade_started_def upgrade_run_def shutdown_run_def upgrade_verdict_def split: if_splits)
qed auto

theorem successful_upgrade_witness:
  "\<exists>w' evs. Upgrade (NewUpgrader (UpgraderCfg example_config) (NewDBHelper example_db ''/log'')) calm_env blank_world = Some (Ret None, w') \<and>
     trace w' = [EvOpenAppend ''/log'' True, EvStart ''mysqld'' upgrade_args (Some 1)] @ evs @
       [EvRun ''mysql_upgrade'' [mylogin_arg] None, EvRun ''mysqladmin'' [mylogin_arg, ''shutdown''] None, EvRecv (Some 0)]"
proof -
  let ?u = "NewUpgrader (UpgraderCfg example_config) (NewDBHelper example_db ''/log'')"
  have "\<exists>w'. Upgrade ?u calm_env blank_world = Some (Ret None, w') \<and>
      EvRun ''mysql_upgrade'' [mylogin_arg] None \<in> set (trace w') \<and> (\<forall>x. EvRun ''mysql_upgrade'' [mylogin_arg] (Some x) \<notin> set (trace w'))"
    by (simp add: run_rules NewUpgrader_def blank_world_def cong: run_cong)
  then obtain w' where w': "Upgrade ?u calm_env blank_world = Some (Ret None, w')"
    "\<forall>x. EvRun ''mysql_upgrade'' [mylogin_arg] (Some x) \<notin> set (trace w')" by blast
  from successful_upgrade [OF w'(1)] obtain evs x where "trace w' = trace blank_world @
      [EvOpenAppend ''/log'' True, EvStart ''mysqld'' upgrade_args (Some (next_pid blank_world))] @ evs @
      [EvRun ''mysql_upgrade'' [mylogin_arg] x, EvRun ''mysqladmin'' [mylogin_arg, ''shutdown''] None,
       EvRecv (Some (length (chans blank_world)))]" by (auto simp: NewUpgrader_def)
  moreover from this w'(2) have "x = None" by (cases x) auto
  ultimately show ?thesis using w'(1) by (auto simp: blank_world_def)
qed



definition unreachable_env :: env where
  "unreachable_env = calm_env\<lparr>query_row := (\<lambda>h q. Inl (ErrorString ''connection refused''))\<rparr>"

lemma unreachable_env_simps:
  "interfere unreachable_env h fs = fs" "append_fails unreachable_env h f = None" "spawn_fails unreachable_env h x args = None"
  "query_row unreachable_env h q = Inl (ErrorString ''connection refused'')" "command unreachable_env h x args = ('''', None)"
  by (simp_all add: unreachable_env_def)

lemma unreachable_probe:
  "\<exists>w' evs. IsDatabaseReachable (NewDBHelper example_db l) unreachable_env w = Some (Ret False, w') \<and> trace w' = trace w @ evs"
proof -
  obtain b w' where "IsDatabaseReachable (NewDBHelper example_db l) unreachable_env w = Some (Ret b, w')" "\<not> b"
    using IsDatabaseReachable_run [of "NewDBHelper example_db l" "dsn_of example_db" unreachable_env w]
    by (auto simp: galera_verdict_def unreachable_env_simps)
  then show ?thesis using journal_grows [OF journal_db_helper(4)] by fastforce
qed

lemma unreachable_wait:
  assumes "up_dbHelper u = NewDBHelper example_db l"
  shows "\<exists>w' evs. wait_tries u n unreachable_env w = Some (Ret (Some timeout_error), w') \<and> trace w' = trace w @ evs"
proof (induction n arbitrary: w)
  case (Suc n)
  obtain w1 evs where "IsDatabaseReachable (NewDBHelper example_db l) unreachable_env w = Some (Ret False, w1)" "trace w1 = trace w @ evs"
    using unreachable_probe by blast
  moreover obtain w2 evs2 where "wait_tries u n unreachable_env (record_event unreachable_env (EvSleep DBReachablePollingDelay)
      (w1\<lparr>logs := logs w1 @ [(INFO, ''wait-for-upgrade-mysqld'')]\<rparr>)) = Some (Ret (Some timeout_error), w2)"
    "trace w2 = trace w1 @ EvSleep DBReachablePollingDelay # evs2"
    using Suc.IH [of "record_event unreachable_env (EvSleep DBReachablePollingDelay)
      (w1\<lparr>logs := logs w1 @ [(INFO, ''wait-for-upgrade-mysqld'')]\<rparr>)"] by (auto simp: record_event_def)
  ultimately show ?case using assms by (simp add: go_defs)
qed (simp add: go_defs)


end
