(* ===== verification/Status_Server.thy ===== *)
theory Status_Server
  imports Os_Helper
begin

text \<open>
  \<^verbatim>\<open>galera_init_status_server/galera_init_status_server.go\<close>: the HTTP server that tells that
  the node is up. The listening socket exists from the start of the process; requests are
  answered only once \<^verbatim>\<open>Start\<close> has been called.
\<close>

definition net_Listen :: "string \<Rightarrow> go_error option go" where
  "net_Listen addr =
     bind_go (ask (\<lambda>e w. listen_fails e (trace w) addr)) (\<lambda>err.
     andthen (emit (EvListen addr (err = None))) (ret err))"

record GaleraInitStatusServer =
  ss_listener :: string

definition NewGaleraInitStatusServer :: "string \<Rightarrow> GaleraInitStatusServer" where
  "NewGaleraInitStatusServer listener = \<lparr>ss_listener = listener\<rparr>"

text \<open>
  \<^verbatim>\<open>Start\<close> hands the listener to a goroutine and returns. That goroutine ends the process by
  \<^verbatim>\<open>log.Fatal\<close> when the listener fails: \<open>server_goroutine\<close> is run wherever the program waits while the
  server serves.
\<close>

definition ServiceStatus_Start :: "GaleraInitStatusServer \<Rightarrow> go_error option go" where
  "ServiceStatus_Start s =
     andthen (modify (\<lambda>w. w\<lparr>serving := True\<rparr>)) (andthen (emit EvServe) (ret None))"

definition server_goroutine :: "unit go" where
  "server_goroutine =
     bind_go (ask (\<lambda>e w. serving w \<and> serve_fails e (trace w))) (\<lambda>failed.
     if failed then os_Exit 1 else ret ())"

definition Status :: "string \<Rightarrow> string" where
  "Status request = ''galera init done''"

text \<open>What a client that asks the address gets: nothing before the server serves.\<close>

definition status_response :: "world \<Rightarrow> string \<Rightarrow> string option" where
  "status_response w request = (if serving w then Some (Status request) else None)"

lemmas status_server_defs [go_defs] = net_Listen_def ServiceStatus_Start_def server_goroutine_def

declare net_Listen_def [run_rules] ServiceStatus_Start_def [run_rules] server_goroutine_def [run_rules] Status_def [run_rules]
  status_response_def [run_rules]

end
