(* ===== verification/Start_Manager.thy ===== *)
theory Start_Manager
  imports Node_Starter Upgrader Status_Server
begin

text \<open>
  \<^verbatim>\<open>start_manager/start_manager.go\<close>: the whole life of the process, from stopping a leftover
  mysqld to handing its exit status back.
\<close>

record startManager =
  sm_config :: StartManagerConfig
  sm_dbHelper :: GaleraDBHelper
  sm_upgrader :: upgrader
  sm_startCaller :: starter
  sm_healthChecker :: httpClusterHealthChecker
  sm_galeraInitStatusServer :: GaleraInitStatusServer

definition start_manager_New ::
  "StartManagerConfig \<Rightarrow> GaleraDBHelper \<Rightarrow> upgrader \<Rightarrow> starter \<Rightarrow> httpClusterHealthChecker \<Rightarrow>
   GaleraInitStatusServer \<Rightarrow> startManager" where
  "start_manager_New config dbHelper up startCaller healthChecker galeraInitStatusServer =
     \<lparr>sm_config = config, sm_dbHelper = dbHelper, sm_upgrader = up, sm_startCaller = startCaller,
      sm_healthChecker = healthChecker, sm_galeraInitStatusServer = galeraInitStatusServer\<rparr>"

definition SIGTERM :: int where "SIGTERM = 15"

definition firstTimeDeploy :: "startManager \<Rightarrow> bool go" where
  "firstTimeDeploy m =
     bind_go (FileExists (StateFileLocation (sm_config m))) (\<lambda>b. ret (\<not> b))"

definition readStateFromFile :: "startManager \<Rightarrow> (string \<times> go_error option) go" where
  "readStateFromFile m =
     bind_go (ReadFile (StateFileLocation (sm_config m))) (\<lambda>(state, err).
     case err of
       Some x \<Rightarrow> ret ('''', Some x)
     | None \<Rightarrow>
         (let state = strings_TrimSpace state in
          andthen (log_info (sprintf (''state file exists and contains: '' @ squoted ''%s'')
            [AStr state])) (ret (state, None))))"

definition getCurrentNodeState :: "startManager \<Rightarrow> (string \<times> go_error option) go" where
  "getCurrentNodeState m =
     (if length (ClusterIps (sm_config m)) = 1 then ret (SingleNode, None) else
      bind_go (firstTimeDeploy m) (\<lambda>first.
      if first
      then (if BootstrapNode (sm_config m) then ret (NeedsBootstrap, None)
            else ret (Clustered, None))
      else
      bind_go (readStateFromFile m) (\<lambda>(state, err).
      case err of
        Some x \<Rightarrow> andthen (log_info ''state file could not be read'') (ret ('''', Some x))
      | None \<Rightarrow>
          (if state = SingleNode \<and> length (ClusterIps (sm_config m)) > 1
           then ret (NeedsBootstrap, None)
           else ret (state, None)))))"

definition Shutdown :: "startManager \<Rightarrow> unit go" where
  "Shutdown m = andthen (log_info ''Shutting down mysqld'') (StopMysqld (sm_dbHelper m))"

definition writeStringToFile :: "startManager \<Rightarrow> string \<Rightarrow> go_error option go" where
  "writeStringToFile m contents =
     andthen (log_info (sprintf (''updating file with contents: '' @ squoted ''%s'')
       [AStr contents]))
     (WriteStringToFile (StateFileLocation (sm_config m)) contents)"

text \<open>
  The part of \<^verbatim>\<open>Execute\<close> from the \<^verbatim>\<open>select\<close> on. At both of its waits the goroutine of the status server may end
  the process.
\<close>

definition await_mysqld :: "nat option \<Rightarrow> go_error option go" where
  "await_mysqld mysqldChan =
     andthen server_goroutine
     (bind_go (chan_select mysqldChan) (\<lambda>got.
      case got of
       Some err \<Rightarrow> andthen (log_info ''mysqld-exited'') (ret err)
     | None \<Rightarrow>
         andthen (log_info ''shutdown-detected'')
         (bind_go GetMysqlCmd (\<lambda>cmd.
          bind_go (KillCommand cmd SIGTERM) (\<lambda>err.
          case err of
            Some x \<Rightarrow> andthen (log_error ''sigterm-mysqld-failed'' (Some x)) (ret (Some x))
          | None \<Rightarrow>
              andthen (log_info ''sigterm-mysqld-ok'')
              (andthen (log_info ''mysqld-shutdown-started'')
              (andthen server_goroutine
              (bind_go (chan_recv mysqldChan) (\<lambda>err.
               andthen (log_info ''mysqld-shutdown-complete'') (ret err))))))))))"

text \<open>The part of \<^verbatim>\<open>Execute\<close> from the determination of the node's state on.\<close>

definition bootstrap_procedure :: "startManager \<Rightarrow> go_error option go" where
  "bootstrap_procedure m =
     andthen (log_info ''determining-bootstrap-procedure'')
     (bind_go (getCurrentNodeState m) (\<lambda>(currentState, err).
      case err of Some x \<Rightarrow> ret (Some x) | None \<Rightarrow>
      bind_go (StartNodeFromState (sm_startCaller m) currentState)
        (\<lambda>(newNodeState, mysqldChan, err).
      case err of Some x \<Rightarrow> ret (Some x) | None \<Rightarrow>
      bind_go (writeStringToFile m newNodeState) (\<lambda>err.
      case err of Some x \<Rightarrow> ret (Some x) | None \<Rightarrow>
      andthen (log_info ''bootstrap-complete'')
      (andthen (log_info ''waiting-for-mysqld'')
      (andthen (log_info ''status-server-starting'')
      (bind_go (ServiceStatus_Start (sm_galeraInitStatusServer m)) (\<lambda>_.
       andthen (log_info ''status-server-started'')
       (await_mysqld mysqldChan)))))))))"

definition Execute :: "startManager \<Rightarrow> go_error option go" where
  "Execute m =
     bind_go (IsProcessRunning (sm_dbHelper m)) (\<lambda>running.
     andthen (if running
              then andthen (log_info ''mysqld-already-running'')
                   (andthen (log_info ''shutdown-old-mysql'') (Shutdown m))
              else ret ())
     (bind_go (NeedsUpgrade (sm_upgrader m)) (\<lambda>(needsUpgrade, err).
      case err of
        Some x \<Rightarrow> andthen (log_error ''upgrade-check-failed'' (Some x)) (ret (Some x))
      | None \<Rightarrow>
      bind_go (if needsUpgrade then Upgrade (sm_upgrader m) else ret None) (\<lambda>err.
      case err of
        Some x \<Rightarrow> andthen (log_error ''mysql-upgrade-failed'' (Some x)) (ret (Some x))
      | None \<Rightarrow> bootstrap_procedure m))))"

section \<open>Footprints\<close>

lemma emits_manager [emits_intros]:
  "(\<And>b. A (EvStat (StateFileLocation (sm_config m)) b)) \<Longrightarrow>
   (\<And>b. A (EvRead (StateFileLocation (sm_config m)) b)) \<Longrightarrow> emits A (getCurrentNodeState m)"
  "(\<And>b. A (EvWrite (StateFileLocation (sm_config m)) c b)) \<Longrightarrow> emits A (writeStringToFile m c)"
  "(\<And>x. A (EvRun ''mysqladmin'' [mylogin_arg, ''shutdown''] x)) \<Longrightarrow> emits A (Shutdown m)"
  "A (EvSelect ch) \<Longrightarrow> A (EvRecv ch) \<Longrightarrow> (\<And>p x. A (EvKill p SIGTERM x)) \<Longrightarrow> emits A (await_mysqld ch)"
  by (unfold getCurrentNodeState_def firstTimeDeploy_def readStateFromFile_def writeStringToFile_def
      Shutdown_def await_mysqld_def server_goroutine_def, (intro emits_intros; simp)+)

lemma journal_serve [journal_intros]: "stable journal (ServiceStatus_Start s)"
  unfolding ServiceStatus_Start_def stable_def
  by (auto simp: wp_rules journal_def record_event_def undisturbed_def intro!: exI [of _ "[EvServe]"])

lemma journal_manager [journal_intros]:
  "stable journal (getCurrentNodeState m)" "stable journal (writeStringToFile m c)"
  "stable journal (Shutdown m)" "stable journal (await_mysqld ch)"
  "stable journal (bootstrap_procedure m)" "stable journal (Execute m)"
  by (unfold getCurrentNodeState_def firstTimeDeploy_def readStateFromFile_def writeStringToFile_def
      Shutdown_def await_mysqld_def server_goroutine_def bootstrap_procedure_def Execute_def,
      (intro journal_intros; simp)+)

section \<open>The state of the node\<close>

text \<open>The decision on the state, from the number of nodes, the flag and the state file.\<close>

definition boot_decision :: "nat \<Rightarrow> bool \<Rightarrow> string option \<Rightarrow> string" where
  "boot_decision nodes bootstrap_node state_file =
     (if nodes = 1 then SingleNode
      else case state_file of
        None \<Rightarrow> if bootstrap_node then NeedsBootstrap else Clustered
      | Some contents \<Rightarrow>
          if strings_TrimSpace contents = SingleNode \<and> nodes > 1 then NeedsBootstrap
          else strings_TrimSpace contents)"

lemma getCurrentNodeState_refines:
  assumes "steady e (StateFileLocation (sm_config m))"
  shows "\<exists>w'. getCurrentNodeState m e w = Some (Ret (boot_decision (length (ClusterIps (sm_config m)))
     (BootstrapNode (sm_config m)) (files w (StateFileLocation (sm_config m))), None), w') \<and> same_files e w w'"
proof (cases "length (ClusterIps (sm_config m)) = 1 \<or> files w (StateFileLocation (sm_config m)) = None")
  case True
  obtain w1 where "FileExists (StateFileLocation (sm_config m)) e w =
      Some (Ret (files w (StateFileLocation (sm_config m)) \<noteq> None), w1)" "same_files e w w1"
    using fs.exists_law [OF assms] by blast
  with True show ?thesis
    unfolding getCurrentNodeState_def firstTimeDeploy_def
    by (cases "length (ClusterIps (sm_config m)) = 1")
       (auto simp: go_basic_defs boot_decision_def same_files_def)
next
  case False
  then obtain c where c: "files w (StateFileLocation (sm_config m)) = Some c" by auto
  obtain w1 w2 where "FileExists (StateFileLocation (sm_config m)) e w = Some (Ret True, w1)"
    "ReadFile (StateFileLocation (sm_config m)) e w1 = Some (Ret (c, None), w2)" "same_files e w w2"
    using fs.exists_then_read [OF assms assms c] c by auto
  with False c show ?thesis
    unfolding getCurrentNodeState_def firstTimeDeploy_def readStateFromFile_def
    by (auto simp: go_basic_defs log_info_def log_at_def Let_def boot_decision_def same_files_def)
qed


section \<open>Bootstrapping safely\<close>

text \<open>The interactions before the state of the node is determined form no cluster.\<close>

definition preparation :: "startManager \<Rightarrow> go_error option go" where
  "preparation m =
     bind_go (IsProcessRunning (sm_dbHelper m)) (\<lambda>running.
     andthen (if running
              then andthen (log_info ''mysqld-already-running'')
                   (andthen (log_info ''shutdown-old-mysql'') (Shutdown m))
              else ret ())
     (bind_go (NeedsUpgrade (sm_upgrader m)) (\<lambda>(needsUpgrade, err).
      case err of
        Some x \<Rightarrow> andthen (log_error ''upgrade-check-failed'' (Some x)) (ret (Some x))
      | None \<Rightarrow>
      bind_go (if needsUpgrade then Upgrade (sm_upgrader m) else ret None) (\<lambda>err.
      case err of
        Some x \<Rightarrow> andthen (log_error ''mysql-upgrade-failed'' (Some x)) (ret (Some x))
      | None \<Rightarrow> ret None))))"

lemma Execute_phases:
  "Execute m = bind_go (preparation m) (\<lambda>err. case err of Some x \<Rightarrow> ret (Some x) | None \<Rightarrow> bootstrap_procedure m)"
  unfolding Execute_def preparation_def andthen_def bind_assoc case_option_bind bind_ret_left case_prod_bind
  by (simp cong: option.case_cong)

definition prep_event :: "startManager \<Rightarrow> event \<Rightarrow> bool" where
  "prep_event m ev =
     (upgrade_event (sm_upgrader m) ev \<or> (\<exists>f b. ev = EvStat f b) \<or> (\<exists>f b. ev = EvRead f b)
      \<or> (\<exists>a x. ev = EvRun ''mysqladmin'' [mylogin_arg, a] x))"

lemma emits_preparation: "emits (prep_event m) (preparation m)"
  unfolding preparation_def
  by (intro emits_intros emits_mono [OF emits_Upgrade]; simp add: prep_event_def)+

lemma prep_event_start [simp]: "prep_event m ev \<Longrightarrow> \<not> bootstrap_start ev" "prep_event m ev \<Longrightarrow> \<not> join_start ev"
  unfolding prep_event_def upgrade_event_def
  by (elim disjE exE; use sql_event_start in \<open>force simp: bootstrap_start_def join_start_def\<close>)+

lemma getCurrentNodeState_multi:
  assumes "length (ClusterIps (sm_config m)) > 1" and "getCurrentNodeState m e w = Some (Ret (state, err), w')"
  shows "state \<noteq> SingleNode"
proof -
  have "length (ClusterIps (sm_config m)) \<noteq> 1" using assms(1) by simp
  then show ?thesis
    using assms unfolding getCurrentNodeState_def andthen_def
    by (simp add: bind_eq_Some) (auto simp: ret_def bind_eq_Some SingleNode_def NeedsBootstrap_def Clustered_def split: option.splits if_splits)
qed

text \<open>The rest of the procedure, once the state is known.\<close>

definition start_and_serve :: "startManager \<Rightarrow> string \<Rightarrow> go_error option go" where
  "start_and_serve m currentState =
     bind_go (StartNodeFromState (sm_startCaller m) currentState)
       (\<lambda>(newNodeState, mysqldChan, err).
     case err of Some x \<Rightarrow> ret (Some x) | None \<Rightarrow>
     bind_go (writeStringToFile m newNodeState) (\<lambda>err.
     case err of Some x \<Rightarrow> ret (Some x) | None \<Rightarrow>
     andthen (log_info ''bootstrap-complete'')
     (andthen (log_info ''waiting-for-mysqld'')
     (andthen (log_info ''status-server-starting'')
     (bind_go (ServiceStatus_Start (sm_galeraInitStatusServer m)) (\<lambda>_.
      andthen (log_info ''status-server-started'')
      (await_mysqld mysqldChan)))))))"

lemma bootstrap_procedure_phases:
  "bootstrap_procedure m =
     andthen (log_info ''determining-bootstrap-procedure'')
     (bind_go (getCurrentNodeState m) (\<lambda>(currentState, err).
      case err of Some x \<Rightarrow> ret (Some x) | None \<Rightarrow> start_and_serve m currentState))"
  unfolding bootstrap_procedure_def start_and_serve_def ..

text \<open>The run up to the announcement, and what follows it.\<close>

text \<open>\<open>Inl\<close>: the run ended with this result; \<open>Inr\<close>: the node is announced, and the run goes on to wait on this channel.\<close>

definition start_node :: "startManager \<Rightarrow> string \<Rightarrow> (go_error option + nat option) go" where
  "start_node m currentState =
     bind_go (StartNodeFromState (sm_startCaller m) currentState)
       (\<lambda>(newNodeState, mysqldChan, err).
     case err of Some x \<Rightarrow> ret (Inl (Some x)) | None \<Rightarrow>
     bind_go (writeStringToFile m newNodeState) (\<lambda>err.
     case err of Some x \<Rightarrow> ret (Inl (Some x)) | None \<Rightarrow>
     andthen (log_info ''bootstrap-complete'')
     (andthen (log_info ''waiting-for-mysqld'')
     (andthen (log_info ''status-server-starting'')
     (bind_go (ServiceStatus_Start (sm_galeraInitStatusServer m)) (\<lambda>_.
      andthen (log_info ''status-server-started'')
      (ret (Inr mysqldChan))))))))"

definition launch :: "startManager \<Rightarrow> (go_error option + nat option) go" where
  "launch m =
     bind_go (preparation m) (\<lambda>err.
     case err of Some x \<Rightarrow> ret (Inl (Some x)) | None \<Rightarrow>
     andthen (log_info ''determining-bootstrap-procedure'')
     (bind_go (getCurrentNodeState m) (\<lambda>(currentState, err).
      case err of Some x \<Rightarrow> ret (Inl (Some x)) | None \<Rightarrow> start_node m currentState)))"

definition conclude :: "go_error option + nat option \<Rightarrow> go_error option go" where
  "conclude r = (case r of Inl err \<Rightarrow> ret err | Inr mysqldChan \<Rightarrow> await_mysqld mysqldChan)"

lemma start_and_serve_launched: "start_and_serve m st = bind_go (start_node m st) conclude"
  unfolding start_and_serve_def start_node_def andthen_def bind_assoc case_option_bind case_prod_bind bind_ret_left
  by (simp add: conclude_def cong: option.case_cong)

lemma Execute_launched: "Execute m = bind_go (launch m) conclude"
  unfolding Execute_phases bootstrap_procedure_phases start_and_serve_launched launch_def andthen_def bind_assoc
    case_option_bind case_prod_bind bind_ret_left
  by (simp add: conclude_def cong: option.case_cong)

lemma journal_start_and_serve [journal_intros]: "stable journal (start_and_serve m st)"
  unfolding start_and_serve_def by (intro journal_intros; simp)+

lemma emits_finish:
  assumes "\<And>c b. A (EvWrite (StateFileLocation (sm_config m)) c b)" and "A EvServe"
    and "\<And>ch. A (EvSelect ch)" and "\<And>ch. A (EvRecv ch)" and "\<And>p x. A (EvKill p SIGTERM x)"
  shows "emits A (writeStringToFile m ns)" "emits A (ServiceStatus_Start s)" "emits A (await_mysqld ch)"
  unfolding ServiceStatus_Start_def by (intro emits_intros; simp add: assms)+

lemma start_node_order:
  assumes "state \<noteq> SingleNode"
  shows "stable (preceded bootstrap_start (found_down (st_healthChecker (sm_startCaller m)) `
     set (clusterIps (st_healthChecker (sm_startCaller m))))) (start_node m state)"
  unfolding start_node_def
  by (intro pd.stable_intros StartNodeFromState_order assms
      preceded_emits [OF emits_finish(1)] preceded_emits [OF emits_finish(2)]
      preceded_emits [OF emits_log(2)]) (simp_all add: bootstrap_start_def)

lemma launch_order:
  assumes "length (ClusterIps (sm_config m)) > 1"
  shows "stable (preceded bootstrap_start (found_down (st_healthChecker (sm_startCaller m)) `
     set (clusterIps (st_healthChecker (sm_startCaller m))))) (launch m)"
proof -
  have prep: "stable (preceded bootstrap_start N) (preparation m)" for N
    by (rule preceded_emits [OF emits_mono [OF emits_preparation]]) simp
  have "emits (\<lambda>ev. \<not> bootstrap_start ev) (getCurrentNodeState m)"
    by (intro emits_intros; simp add: bootstrap_start_def)
  then have st: "stable (preceded bootstrap_start N) (getCurrentNodeState m)" for N
    by (rule preceded_emits)
  have post: "getCurrentNodeState m e w = Some (Ret p, w') \<Longrightarrow> fst p \<noteq> SingleNode" for e w p w'
    using getCurrentNodeState_multi [OF assms, of e w "fst p" "snd p" w'] by simp
  have rest: "stable (preceded bootstrap_start (found_down (st_healthChecker (sm_startCaller m)) `
     set (clusterIps (st_healthChecker (sm_startCaller m)))))
     (andthen (log_info ''determining-bootstrap-procedure'')
      (bind_go (getCurrentNodeState m) (\<lambda>(currentState, err).
       case err of Some x \<Rightarrow> ret (Inl (Some x)) | None \<Rightarrow> start_node m currentState)))"
    by (intro pd.stable_andthen preceded_emits [OF emits_log(2)] pd.stable_bind_post [OF st post])
       (auto intro!: pd.stable_intros start_node_order split: option.splits)
  show ?thesis
    unfolding launch_def by (rule pd.stable_bind [OF prep]) (simp add: rest pd.stable_ret split: option.splits)
qed

lemma Execute_order:
  assumes "length (ClusterIps (sm_config m)) > 1"
  shows "stable (preceded bootstrap_start (found_down (st_healthChecker (sm_startCaller m)) `
     set (clusterIps (st_healthChecker (sm_startCaller m))))) (Execute m)"
proof -
  have "stable (preceded bootstrap_start N) (conclude r)" for N r
    unfolding conclude_def
    by (cases r) (simp_all add: pd.stable_ret preceded_emits [OF emits_finish(3)] bootstrap_start_def)
  then show ?thesis unfolding Execute_launched by (rule pd.stable_bind [OF launch_order [OF assms]])
qed

section \<open>The state file\<close>

text \<open>The state file is neither the log of mysqld nor galera's own state file.\<close>

definition separate :: "startManager \<Rightarrow> bool" where
  "separate m =
     (StateFileLocation (sm_config m) \<noteq> dbh_logFileLocation (up_dbHelper (sm_upgrader m)) \<and>
      StateFileLocation (sm_config m) \<noteq> dbh_logFileLocation (st_dbHelper (sm_startCaller m)) \<and>
      StateFileLocation (sm_config m) \<noteq> GrastateFileLocation (st_config (sm_startCaller m)))"

abbreviation state_file :: "startManager \<Rightarrow> string" where
  "state_file m \<equiv> StateFileLocation (sm_config m)"

lemma sql_event_touches [simp]: "sql_event ev \<Longrightarrow> \<not> touches f ev"
  by (auto simp: touches_def sql_event_def)

lemma poll_event_touches [simp]: "poll_event ch ev \<Longrightarrow> \<not> touches f ev" "work_event ch ev \<Longrightarrow> \<not> touches f ev"
  by (auto simp: poll_event_def work_event_def) (auto simp: touches_def)

lemma preparation_spares: "separate m \<Longrightarrow> emits (\<lambda>ev. \<not> touches (state_file m) ev) (preparation m)"
  by (rule emits_mono [OF emits_preparation])
     (auto simp: prep_event_def upgrade_event_def separate_def; auto simp: touches_def)

lemma start_switch_spares:
  assumes "separate m"
  shows "emits (\<lambda>ev. \<not> touches (state_file m) ev) (start_switch (sm_startCaller m) st)"
proof -
  have "emits (\<lambda>ev. \<not> touches (state_file m) ev) (joinCluster (sm_startCaller m))"
    by (rule emits_mono [OF emits_joinCluster]) (use assms in \<open>auto simp: join_event_def separate_def touches_def\<close>)
  moreover have "emits (\<lambda>ev. \<not> touches (state_file m) ev) (bootstrapNode (sm_startCaller m))"
    by (rule emits_mono [OF emits_bootstrapNode]) (use assms in \<open>auto simp: bootstrap_event_def separate_def touches_def\<close>)
  ultimately show ?thesis
    unfolding start_switch_def by (intro emits_intros; simp add: touches_def)
qed

lemma StartNodeFromState_spares:
  assumes "separate m"
  shows "emits (\<lambda>ev. \<not> touches (state_file m) ev) (StartNodeFromState (sm_startCaller m) st)"
  unfolding StartNodeFromState_work
  by (intro emits_intros start_switch_spares assms emits_mono [OF emits_serving_work] | simp)+

lemma steady_undisturbed: "steady e f \<Longrightarrow> undisturbed e f"
  by (simp add: steady_def)

lemma preparation_keeps_state:
  assumes "separate m" and "steady e (state_file m)" and "preparation m e w = Some (r, w')"
  shows "files w' (state_file m) = files w (state_file m)"
proof -
  have "stable journal (preparation m)" unfolding preparation_def by (intro journal_intros; simp)+
  from journal_file [OF this preparation_spares [OF assms(1)] steady_undisturbed [OF assms(2)] assms(3)]
  show ?thesis .
qed

text \<open>
  With a steady state file the procedure continues with the state the decision gives.
\<close>

lemma bootstrap_procedure_steady:
  assumes "steady e (state_file m)"
  obtains w1 where "bootstrap_procedure m e w = start_and_serve m (boot_decision (length (ClusterIps (sm_config m)))
     (BootstrapNode (sm_config m)) (files w (state_file m))) e w1"
    and "same_files e w w1" and "\<exists>evs. trace w1 = trace w @ evs \<and> (\<forall>ev \<in> set evs. \<exists>f b. ev = EvStat f b \<or> ev = EvRead f b)"
    and "serving w1 = serving w"
proof -
  let ?w = "w\<lparr>logs := logs w @ [(INFO, ''determining-bootstrap-procedure'')]\<rparr>"
  obtain w1 where g: "getCurrentNodeState m e ?w = Some (Ret (boot_decision (length (ClusterIps (sm_config m)))
     (BootstrapNode (sm_config m)) (files ?w (state_file m)), None), w1)" "same_files e ?w w1"
    using getCurrentNodeState_refines [OF assms, of ?w] by blast
  have "emits (\<lambda>ev. \<exists>f b. ev = EvStat f b \<or> ev = EvRead f b) (getCurrentNodeState m)" by (intro emits_intros; auto)
  from emitsD [OF this g(1)] obtain evs where "trace w1 = trace w @ evs" "\<forall>ev \<in> set evs. \<exists>f b. ev = EvStat f b \<or> ev = EvRead f b"
    by auto
  moreover from this have "serving w1 = serving w"
    using stableD [OF journal_manager(1) g(1)] unfolding journal_def by auto
  ultimately show thesis
    using that [of w1] g by (simp add: bootstrap_procedure_phases go_basic_defs log_info_def log_at_def same_files_def)
qed

lemma Execute_steady:
  assumes "separate m" and "steady e (state_file m)" and "Execute m e w = Some (r, w')"
  obtains (stopped) "preparation m e w = Some (r, w')" "r \<noteq> Ret None"
  | (started) w1 w2 evs where "preparation m e w = Some (Ret None, w1)" "trace w2 = trace w @ evs"
      "\<forall>ev \<in> set evs. \<not> bootstrap_start ev \<and> \<not> join_start ev"
      "start_and_serve m (boot_decision (length (ClusterIps (sm_config m))) (BootstrapNode (sm_config m))
         (files w (state_file m))) e w2 = Some (r, w')"
      "files w2 (state_file m) = files w (state_file m)"
proof (cases "preparation m e w")
  case None
  then show thesis using assms(3) by (simp add: Execute_phases bind_go_def)
next
  case (Some p)
  obtain q w1 where p: "preparation m e w = Some (q, w1)" using Some by (cases p) simp
  show thesis
  proof (cases "q = Ret None")
    case True
    obtain xs where xs: "trace w1 = trace w @ xs" "\<forall>ev \<in> set xs. prep_event m ev"
      using emitsD [OF emits_preparation p] .
    have keep: "files w1 (state_file m) = files w (state_file m)" by (rule preparation_keeps_state [OF assms(1,2) p])
    obtain w2 ys where w2: "bootstrap_procedure m e w1 = start_and_serve m (boot_decision (length (ClusterIps (sm_config m)))
        (BootstrapNode (sm_config m)) (files w (state_file m))) e w2" "same_files e w1 w2" "trace w2 = trace w1 @ ys"
        "\<forall>ev \<in> set ys. \<exists>f b. ev = EvStat f b \<or> ev = EvRead f b"
      using bootstrap_procedure_steady [OF assms(2), of w1] keep by metis
    have "bootstrap_procedure m e w1 = Some (r, w')" using assms(3) p True by (simp add: Execute_phases bind_Some)
    moreover have "\<forall>ev \<in> set ys. \<not> bootstrap_start ev \<and> \<not> join_start ev"
      using w2(4) by (force simp: bootstrap_start_def join_start_def)
    then have "\<forall>ev \<in> set (xs @ ys). \<not> bootstrap_start ev \<and> \<not> join_start ev"
      using xs(2) by (metis UnE prep_event_start set_append)
    ultimately show thesis
      using started [of w1 w2 "xs @ ys"] p True xs(1) w2 keep assms(2) by (simp add: same_files_def)
  next
    case False
    then consider x where "q = Ret (Some x)" | pa where "q = Panic pa" | n where "q = OsExit n"
      by (metis option.exhaust outcome.exhaust)
    then have "q = r \<and> w1 = w'" using p assms(3) by cases (simp_all add: Execute_phases bind_go_def ret_def)
    then show thesis using stopped p False by simp
  qed
qed


section \<open>When the node is announced\<close>

text \<open>The announcement comes last, after the state was written.\<close>

lemma not_served:
  "emits (\<lambda>ev. ev \<noteq> EvServe) (preparation m)" "emits (\<lambda>ev. ev \<noteq> EvServe) (getCurrentNodeState m)"
  "emits (\<lambda>ev. ev \<noteq> EvServe) (StartNodeFromState s st)" "emits (\<lambda>ev. ev \<noteq> EvServe) (writeStringToFile m ns)"
proof -
  show "emits (\<lambda>ev. ev \<noteq> EvServe) (preparation m)"
    by (rule emits_mono [OF emits_preparation]) (auto simp: prep_event_def upgrade_event_def sql_event_def)
  have "emits (\<lambda>ev. ev \<noteq> EvServe) (start_switch s st)"
    unfolding start_switch_def
    by (intro emits_intros emits_mono [OF emits_joinCluster] emits_mono [OF emits_bootstrapNode];
        auto simp: join_event_def bootstrap_event_def)
  then show "emits (\<lambda>ev. ev \<noteq> EvServe) (StartNodeFromState s st)"
    unfolding StartNodeFromState_work
    by (intro emits_intros emits_mono [OF emits_serving_work])
       (auto simp: work_event_def poll_event_def sql_event_def)
qed (intro emits_intros; simp)+

lemma writeStringToFile_run:
  "\<exists>r w'. writeStringToFile m c e w = Some (Ret r, w') \<and> quiet e w w' \<and>
     trace w' = trace w @ [EvWrite (state_file m) c (r = None)] \<and>
     (r = None \<longrightarrow> files w' = interfere e (trace w') ((files w)(state_file m \<mapsto> c)))"
  unfolding writeStringToFile_def by (auto simp: go_defs record_event_def quiet_def split: option.splits)

text \<open>Either the run ends before the announcement, or the whole start succeeded.\<close>

lemma start_and_serve_cases:
  assumes "start_and_serve m state e w = Some (r, w')"
  obtains (unstarted) ns ch x where "StartNodeFromState (sm_startCaller m) state e w = Some (Ret (ns, ch, Some x), w')" "r = Ret (Some x)"
  | (aborted) q where "StartNodeFromState (sm_startCaller m) state e w = Some (q, w')" "\<forall>x. q \<noteq> Ret x" "\<forall>x. r \<noteq> Ret x"
  | (unwritten) ns ch w1 x where "StartNodeFromState (sm_startCaller m) state e w = Some (Ret (ns, ch, None), w1)"
      "writeStringToFile m ns e w1 = Some (Ret (Some x), w')" "r = Ret (Some x)"
  | (served) ns ch w1 w2 w3 where "StartNodeFromState (sm_startCaller m) state e w = Some (Ret (ns, Some ch, None), w1)"
      "writeStringToFile m ns e w1 = Some (Ret None, w2)" "quiet e w2 w3" "trace w3 = trace w2 @ [EvServe]"
      "files w3 = interfere e (trace w3) (files w2)" "await_mysqld (Some ch) e w3 = Some (r, w')"
proof -
  consider (P) p where "StartNodeFromState (sm_startCaller m) state e w = Some (Panic p, w')" "r = Panic p"
    | (X) n where "StartNodeFromState (sm_startCaller m) state e w = Some (OsExit n, w')" "r = OsExit n"
    | (R) ns ch err w1 where "StartNodeFromState (sm_startCaller m) state e w = Some (Ret (ns, ch, err), w1)"
    using assms unfolding start_and_serve_def bind_eq_Some by auto
  then show thesis
  proof cases
    case R
    show thesis
    proof (cases err)
      case (Some x)
      then show thesis using R unstarted assms unfolding start_and_serve_def by (simp add: bind_Some ret_def)
    next
      case None
      obtain c where c: "ch = Some c" using StartNodeFromState_ok R None by blast
      obtain q w2 where q: "writeStringToFile m ns e w1 = Some (Ret q, w2)"
        using writeStringToFile_run by blast
      show thesis
      proof (cases q)
        case (Some x)
        then show thesis using R None q unwritten assms unfolding start_and_serve_def by (auto simp: bind_Some ret_def)
      next
        case qNone: None
        let ?w3 = "w2\<lparr>serving := True, trace := trace w2 @ [EvServe],
          files := interfere e (trace w2 @ [EvServe]) (files w2),
          logs := logs w2 @ [(INFO, ''bootstrap-complete''), (INFO, ''waiting-for-mysqld''),
            (INFO, ''status-server-starting''), (INFO, ''status-server-started'')]\<rparr>"
        have "await_mysqld (Some c) e ?w3 = Some (r, w')"
          using assms R None q c qNone unfolding start_and_serve_def
          by (simp add: go_basic_defs log_info_def log_at_def ServiceStatus_Start_def record_event_def)
        then show thesis using served [of ns c w1 w2 ?w3] R None q c qNone by (simp add: quiet_def)
      qed
    qed
  qed (use aborted in auto)
qed


section \<open>Waiting for mysqld to end\<close>

lemma await_owned:
  assumes "owns args pid ch w" and "await_mysqld (Some ch) e w = Some (r, w')"
  obtains (exited) x where "selects e (trace w) (Some ch) = SelExit x" "r = Ret x" "trace w' = trace w @ [EvSelect (Some ch)]"
  | (unkilled) er where "selects e (trace w) (Some ch) = SelDone" "r = Ret (errors_Wrap (Some er) ''unable-to-kill-process'')"
      "trace w' = trace w @ [EvSelect (Some ch), EvKill pid SIGTERM (Some er)]"
  | (stopped) x where "selects e (trace w) (Some ch) = SelDone" "r = Ret x"
      "awaited e (trace w @ [EvSelect (Some ch), EvKill pid SIGTERM None]) pid = Some x"
      "trace w' = trace w @ [EvSelect (Some ch), EvKill pid SIGTERM None, EvRecv (Some ch)]"
  | (fatal) zs where "serve_fails e (trace w')" "r = OsExit 1" "trace w' = trace w @ zs"
      "zs \<in> {[], [EvSelect (Some ch), EvKill pid SIGTERM None]}"
proof (cases "serving w \<and> serve_fails e (trace w)")
  case True
  then have "r = OsExit 1" "w' = w" using assms(2) unfolding await_mysqld_def by (simp_all add: go_defs)
  then show thesis using fatal [of "[]"] True by simp
next
  case up: False
  show thesis
  proof (cases "selects e (trace w) (Some ch)")
    case (SelExit x)
    then show thesis
      using exited assms up unfolding await_mysqld_def owns_def by (auto simp: go_defs record_event_def)
  next
    case SelDone
    let ?h = "trace w @ [EvSelect (Some ch)]"
    have cmd: "starter_mysqlCmd w = Some (mysqld_cmd args pid)" "ch < length (chans w)" "chans w ! ch = ChWaiting pid"
      using assms(1) by (simp_all add: owns_def)
    show thesis
    proof (cases "signal_fails e ?h pid")
      case (Some er)
      then show thesis
        using unkilled [OF SelDone] assms(2) SelDone cmd up unfolding await_mysqld_def
        by (auto simp: go_defs record_event_def GetMysqlCmd_def mysqld_cmd_def errors_Wrap_def)
    next
      case None
      show thesis
      proof (cases "serving w \<and> serve_fails e (trace w @ [EvSelect (Some ch), EvKill pid SIGTERM None])")
        case True
        then show thesis
          using fatal [of "[EvSelect (Some ch), EvKill pid SIGTERM None]"] assms(2) SelDone cmd up None unfolding await_mysqld_def
          by (auto simp: go_defs record_event_def GetMysqlCmd_def mysqld_cmd_def errors_Wrap_def)
      next
        case False
        then show thesis
          using stopped [OF SelDone] assms(2) SelDone cmd up None unfolding await_mysqld_def
          by (auto simp: go_defs record_event_def GetMysqlCmd_def mysqld_cmd_def errors_Wrap_def split: option.splits)
      qed
    qed
  next
    case SelNever
    then show thesis
      using assms up unfolding await_mysqld_def owns_def by (auto simp: go_defs)
  qed
qed

declare SIGTERM_def [run_rules] firstTimeDeploy_def [run_rules] readStateFromFile_def [run_rules]
  getCurrentNodeState_def [run_rules] Shutdown_def [run_rules] writeStringToFile_def [run_rules]
  await_mysqld_def [run_rules] bootstrap_procedure_def [run_rules] Execute_def [run_rules]

section \<open>Runs of Execute\<close>

lemma ReadFile_total: "\<exists>c err w'. ReadFile f e w = Some (Ret (c, err), w')"
  by (auto simp: go_defs split: option.splits)

lemma getCurrentNodeState_total: "\<exists>st err w'. getCurrentNodeState m e w = Some (Ret (st, err), w')"
proof -
  obtain b w1 where b: "FileExists (state_file m) e w = Some (Ret b, w1)" by (auto simp: go_defs)
  obtain c err w2 where "ReadFile (state_file m) e w1 = Some (Ret (c, err), w2)"
    using ReadFile_total by blast
  with b show ?thesis
    unfolding getCurrentNodeState_def firstTimeDeploy_def readStateFromFile_def
    by (cases err) (simp_all add: go_basic_defs log_info_def log_at_def Let_def)
qed

lemma Execute_cases:
  assumes "Execute m e w = Some (r, w')"
  obtains (stopped) "preparation m e w = Some (r, w')" "r \<noteq> Ret None"
  | (unknown) w1 w2 st x where "preparation m e w = Some (Ret None, w1)" "files w2 = files w1" "trace w2 = trace w1"
      "serving w2 = serving w1" "getCurrentNodeState m e w2 = Some (Ret (st, Some x), w')" "r = Ret (Some x)"
  | (started) w1 w2 w3 st where "preparation m e w = Some (Ret None, w1)" "files w2 = files w1" "trace w2 = trace w1"
      "serving w2 = serving w1" "getCurrentNodeState m e w2 = Some (Ret (st, None), w3)"
      "start_and_serve m st e w3 = Some (r, w')"
proof -
  obtain q w1 where p: "preparation m e w = Some (q, w1)"
    using assms by (auto simp: Execute_phases bind_eq_Some)
  consider x where "q = Ret (Some x)" | pa where "q = Panic pa" | n where "q = OsExit n" | "q = Ret None"
    by (metis option.exhaust outcome.exhaust)
  then show thesis
  proof cases
    case 4
    let ?w2 = "w1\<lparr>logs := logs w1 @ [(INFO, ''determining-bootstrap-procedure'')]\<rparr>"
    obtain st err w3 where g: "getCurrentNodeState m e ?w2 = Some (Ret (st, err), w3)"
      using getCurrentNodeState_total by blast
    have run: "(case err of Some x \<Rightarrow> ret (Some x) | None \<Rightarrow> start_and_serve m st) e w3 = Some (r, w')"
      using assms p 4 g by (cases err) (simp_all add: Execute_phases bootstrap_procedure_phases go_basic_defs log_info_def log_at_def)
    show thesis
    proof (cases err)
      case None
      then show thesis using run started [of w1 ?w2 st w3] p 4 g by simp
    next
      case (Some x)
      then show thesis using run unknown [of w1 ?w2 st x] p 4 g by (simp add: ret_def)
    qed
  qed (use stopped p assms in \<open>auto simp: Execute_phases bind_go_def ret_def\<close>)
qed

text \<open>What happened since.\<close>

definition new_events :: "world \<Rightarrow> world \<Rightarrow> event list" where
  "new_events w w' = drop (length (trace w)) (trace w')"

lemma new_events_append [simp]: "trace w' = trace w @ evs \<Longrightarrow> new_events w w' = evs"
  by (simp add: new_events_def)

lemma journal_preparation [journal_intros]: "stable journal (preparation m)"
  unfolding preparation_def by (intro journal_intros; simp)+

text \<open>The server is announced exactly by the event.\<close>

lemma journal_serving:
  assumes "stable journal m" and "emits (\<lambda>ev. ev \<noteq> EvServe) m" and "m e w = Some (r, w')"
  shows "serving w' = serving w"
proof -
  obtain evs where "trace w' = trace w @ evs" "\<forall>ev \<in> set evs. ev \<noteq> EvServe" using emitsD [OF assms(2,3)] .
  then show ?thesis using stableD [OF assms(1,3)] unfolding journal_def by auto
qed

lemma await_spares:
  "emits (\<lambda>ev. \<not> touches f ev) (await_mysqld ch)" "emits (\<lambda>ev. ev \<noteq> EvServe) (await_mysqld ch)"
  by (intro emits_intros; simp add: touches_def)+

lemma getCurrentNodeState_spares: "emits (\<lambda>ev. \<not> touches f ev) (getCurrentNodeState m)"
  by (intro emits_intros; simp add: touches_def)

section \<open>Execute comes back\<close>

lemma await_returns:
  assumes "owns args pid ch w" and "\<And>h c. selects e h c \<noteq> SelNever" and "\<And>h pid. awaited e h pid \<noteq> None"
  shows "returns (await_mysqld (Some ch)) e w"
proof (cases "selects e (trace w) (Some ch)")
  case SelDone
  have "awaited e h pid \<noteq> None" for h by (rule assms(3))
  then obtain ex where ex: "awaited e (trace w @ [EvSelect (Some ch), EvKill pid SIGTERM None]) pid = Some ex" by blast
  show ?thesis
    using SelDone assms(1) ex unfolding await_mysqld_def owns_def
    by (cases "signal_fails e (trace w @ [EvSelect (Some ch)]) pid")
       (auto simp: returns_def go_defs record_event_def GetMysqlCmd_def mysqld_cmd_def errors_Wrap_def)
qed (use assms in \<open>auto simp: returns_def await_mysqld_def owns_def go_defs\<close>)

lemma Execute_returns:
  assumes dsn: "ParseDSN (FormatDSN (dbh_config (st_dbHelper (sm_startCaller m)))) = Inr cfg" and ready: "ready_after e N"
    and sel: "\<And>h c. selects e h c \<noteq> SelNever" and aw: "\<And>h pid. awaited e h pid \<noteq> None"
  shows "always_returns e (Execute m)"
proof -
  have prep: "always_returns e (preparation m)"
    unfolding preparation_def Shutdown_def by (intro return_intros Upgrade_returns aw; simp)
  have fin: "returns (start_and_serve m st) e w" for st w
    unfolding start_and_serve_def
  proof (intro returns_bind)
    show "returns (StartNodeFromState (sm_startCaller m) st) e w"
      using return_start [OF dsn ready] by (simp add: always_returns_def)
    fix p w1
    assume p: "StartNodeFromState (sm_startCaller m) st e w = Some (Ret p, w1)"
    obtain ns ch err where [simp]: "p = (ns, ch, err)" by (cases p)
    show "returns (case p of (newNodeState, mysqldChan, err) \<Rightarrow>
       case err of Some x \<Rightarrow> ret (Some x) | None \<Rightarrow>
       bind_go (writeStringToFile m newNodeState) (\<lambda>err.
       case err of Some x \<Rightarrow> ret (Some x) | None \<Rightarrow>
       andthen (log_info ''bootstrap-complete'')
       (andthen (log_info ''waiting-for-mysqld'')
       (andthen (log_info ''status-server-starting'')
       (bind_go (ServiceStatus_Start (sm_galeraInitStatusServer m)) (\<lambda>_.
        andthen (log_info ''status-server-started'')
        (await_mysqld mysqldChan))))))) e w1"
    proof (cases err)
      case None
      obtain c pid args where own: "ch = Some c" "owns args pid c w1" using StartNodeFromState_ok p None by fastforce
      obtain q w2 where w2: "writeStringToFile m ns e w1 = Some (Ret q, w2)" "quiet e w1 w2"
        using writeStringToFile_run by blast
      have own2: "owns args pid c (w2\<lparr>serving := True, trace := tr, files := fi, logs := lo\<rparr>)" for tr fi lo
        using owns_quiet [OF w2(2) own(2)] by (simp add: owns_def)
      show ?thesis
        using None own w2(1) await_returns [OF own2 sel aw] 
        by (cases q) (simp_all add: returns_def go_basic_defs log_info_def log_at_def ServiceStatus_Start_def record_event_def)
    qed (simp add: returns_def ret_def)
  qed
  have "returns (bootstrap_procedure m) e w" for w
    unfolding bootstrap_procedure_phases andthen_def
    by (intro returns_bind)
       (use getCurrentNodeState_total [of m e] fin in
         \<open>fastforce simp: returns_def ret_def log_info_def log_at_def modify_def split: option.splits\<close>)+
  then show ?thesis
    unfolding Execute_phases always_returns_def
    using prep by (auto intro!: returns_bind simp: always_returns_def returns_def ret_def split: option.splits)
qed

lemma start_node_no_bootstrap:
  assumes "st \<noteq> SingleNode" and "st \<noteq> NeedsBootstrap"
  shows "emits (\<lambda>ev. \<not> bootstrap_start ev) (start_node m st)"
proof -
  have "emits (\<lambda>ev. \<not> bootstrap_start ev) (start_switch (sm_startCaller m) st)"
    unfolding start_switch_def using assms
    by (auto intro!: emits_intros emits_mono [OF emits_joinCluster])
  then have "emits (\<lambda>ev. \<not> bootstrap_start ev) (StartNodeFromState (sm_startCaller m) st)"
    unfolding StartNodeFromState_work
    by (intro emits_intros emits_mono [OF emits_serving_work] | simp)+
  then show ?thesis
    unfolding start_node_def
    by (intro emits_intros emits_finish) (simp_all add: bootstrap_start_def)
qed

lemma start_and_serve_no_bootstrap:
  assumes "st \<noteq> SingleNode" and "st \<noteq> NeedsBootstrap"
  shows "emits (\<lambda>ev. \<not> bootstrap_start ev) (start_and_serve m st)"
  unfolding start_and_serve_launched conclude_def
  by (intro emits_intros start_node_no_bootstrap assms) (simp_all add: bootstrap_start_def)

section \<open>The phases before the announcement\<close>

text \<open>Every interaction before the announcement is one of these.\<close>

definition phase_event :: "startManager \<Rightarrow> event \<Rightarrow> bool" where
  "phase_event m ev =
     (prep_event m ev \<or> join_event (sm_startCaller m) ev \<or> bootstrap_event (sm_startCaller m) ev
      \<or> (\<exists>url t st. ev = EvGet url t st) \<or> (\<exists>ch. work_event ch ev) \<or> (\<exists>c b. ev = EvWrite (state_file m) c b))"

lemma emits_phases:
  "emits (phase_event m) (preparation m)" "emits (phase_event m) (getCurrentNodeState m)"
  "emits (phase_event m) (StartNodeFromState (sm_startCaller m) st)" "emits (phase_event m) (writeStringToFile m ns)"
proof -
  show "emits (phase_event m) (preparation m)"
    by (rule emits_mono [OF emits_preparation]) (simp add: phase_event_def)
  have "emits (phase_event m) (start_switch (sm_startCaller m) st)"
    unfolding start_switch_def
    by (intro emits_intros emits_mono [OF emits_joinCluster] emits_mono [OF emits_bootstrapNode]; simp add: phase_event_def)
  then show "emits (phase_event m) (StartNodeFromState (sm_startCaller m) st)"
    unfolding StartNodeFromState_work
    by (intro emits_intros emits_mono [OF emits_serving_work]) (auto simp: phase_event_def)
qed (intro emits_intros; auto simp: phase_event_def prep_event_def)+

lemma phase_event_simps [simp]:
  "\<not> phase_event m EvServe" "\<not> phase_event m (EvKill p s x)" "\<not> phase_event m (EvSelect c)"
  by (auto simp: phase_event_def prep_event_def upgrade_event_def join_event_def bootstrap_event_def work_event_def
      poll_event_def sql_event_def)

lemma served_serves:
  assumes "start_and_serve m st e w = Some (r, w')"
    and "StartNodeFromState (sm_startCaller m) st e w = Some (Ret (ns, Some ch, None), w1)"
    and "writeStringToFile m ns e w1 = Some (Ret None, w2)" and "quiet e w2 w3" and "trace w3 = trace w2 @ [EvServe]"
    and "files w3 = interfere e (trace w3) (files w2)" and "await_mysqld (Some ch) e w3 = Some (r, w')"
  shows "serving w'"
proof -
  obtain xs ys zs where "trace w1 = trace w @ xs" "trace w2 = trace w1 @ ys" "trace w' = trace w3 @ zs"
    using journal_grows [OF journal_start(2) assms(2)] journal_grows [OF journal_manager(2) assms(3)]
      journal_grows [OF journal_manager(4) assms(7)] by blast
  then have "trace w' = trace w @ xs @ ys @ EvServe # zs" using assms(5) by simp
  then show ?thesis using stableD [OF journal_start_and_serve assms(1)] unfolding journal_def by auto
qed

text \<open>A run that does not announce the node consists of such interactions only.\<close>

lemma unserved_phases:
  assumes "Execute m e w = Some (r, w')" and "\<not> serving w'"
  shows "\<exists>evs. trace w' = trace w @ evs \<and> (\<forall>ev \<in> set evs. phase_event m ev)"
  using assms(1)
proof (cases rule: Execute_cases)
  case stopped
  then show ?thesis using emitsD [OF emits_phases(1)] by metis
next
  case (unknown w1 w2 st x)
  obtain xs where xs: "trace w1 = trace w @ xs" "\<forall>ev \<in> set xs. phase_event m ev" using emitsD [OF emits_phases(1) unknown(1)] .
  obtain ys where "trace w' = trace w2 @ ys" "\<forall>ev \<in> set ys. phase_event m ev" using emitsD [OF emits_phases(2) unknown(5)] .
  then show ?thesis using xs unknown(3) by (intro exI [of _ "xs @ ys"]) auto
next
  case (started w1 w2 w3 st)
  obtain xs where xs: "trace w1 = trace w @ xs" "\<forall>ev \<in> set xs. phase_event m ev" using emitsD [OF emits_phases(1) started(1)] .
  obtain ys where ys: "trace w3 = trace w2 @ ys" "\<forall>ev \<in> set ys. phase_event m ev" using emitsD [OF emits_phases(2) started(5)] .
  have "\<exists>zs. trace w' = trace w3 @ zs \<and> (\<forall>ev \<in> set zs. phase_event m ev)"
    using started(6)
  proof (cases rule: start_and_serve_cases)
    case (unstarted ns ch x)
    then show ?thesis using emitsD [OF emits_phases(3)] by metis
  next
    case (aborted q)
    then show ?thesis using emitsD [OF emits_phases(3)] by metis
  next
    case (unwritten ns ch v x)
    obtain us where us: "trace v = trace w3 @ us" "\<forall>ev \<in> set us. phase_event m ev" using emitsD [OF emits_phases(3) unwritten(1)] .
    obtain vs where "trace w' = trace v @ vs" "\<forall>ev \<in> set vs. phase_event m ev" using emitsD [OF emits_phases(4) unwritten(2)] .
    then show ?thesis using us by (intro exI [of _ "us @ vs"]) auto
  next
    case (served ns ch v1 v2 v3)
    have "serving w'" by (rule served_serves [OF started(6) served])
    then show ?thesis using assms(2) by simp
  qed
  then obtain zs where "trace w' = trace w3 @ zs" "\<forall>ev \<in> set zs. phase_event m ev" by blast
  then show ?thesis using xs ys started(3) by (intro exI [of _ "xs @ ys @ zs"]) auto
qed


text \<open>A run that announces the node got past the determination of the state, and its start succeeded.\<close>

lemma Execute_started:
  assumes "Execute m e w = Some (r, w')" and "\<not> serving w" and "serving w'"
  obtains w2 w3 st xs where "getCurrentNodeState m e w2 = Some (Ret (st, None), w3)" "start_and_serve m st e w3 = Some (r, w')"
    "\<not> serving w3" "trace w3 = trace w @ xs" "\<forall>ev \<in> set xs. phase_event m ev"
proof -
  have no_prep: "serving v = serving w" if "preparation m e w = Some (q, v)" for q v
    by (rule journal_serving [OF journal_preparation not_served(1) that])
  have no_state: "serving v = serving u" if "getCurrentNodeState m e u = Some (q, v)" for q u v
    by (rule journal_serving [OF journal_manager(1) not_served(2) that])
  from assms(1) show thesis
  proof (cases rule: Execute_cases)
    case (started u1 u2 u3 st)
    obtain xs where xs: "trace u1 = trace w @ xs" "\<forall>ev \<in> set xs. phase_event m ev" using emitsD [OF emits_phases(1) started(1)] .
    obtain ys where ys: "trace u3 = trace u2 @ ys" "\<forall>ev \<in> set ys. phase_event m ev" using emitsD [OF emits_phases(2) started(5)] .
    show thesis
      using that [of u2 st u3 "xs @ ys"] started xs ys no_prep [OF started(1)] no_state [OF started(5)] assms(2) by auto
  qed (use no_prep no_state assms(2,3) in auto)
qed

lemma start_and_serve_served:
  assumes "start_and_serve m st e w = Some (r, w')" and "\<not> serving w" and "serving w'"
  obtains ns ch w1 w2 w3 where "StartNodeFromState (sm_startCaller m) st e w = Some (Ret (ns, Some ch, None), w1)"
      "writeStringToFile m ns e w1 = Some (Ret None, w2)" "quiet e w2 w3" "trace w3 = trace w2 @ [EvServe]"
      "files w3 = interfere e (trace w3) (files w2)" "await_mysqld (Some ch) e w3 = Some (r, w')"
proof -
  have keep: "serving v = serving w" if "StartNodeFromState (sm_startCaller m) st e w = Some (q, v)" for q v
    by (rule journal_serving [OF journal_start(2) not_served(3) that])
  from assms(1) show thesis
  proof (cases rule: start_and_serve_cases)
    case (served ns ch w1 w2 w3)
    then show thesis by (rule that)
  next
    case (unwritten ns ch v x)
    have "serving w' = serving v" by (rule journal_serving [OF journal_manager(2) not_served(4) unwritten(2)])
    then show thesis using keep [OF unwritten(1)] assms(2,3) by blast
  qed (use keep assms(2,3) in blast)+
qed

text \<open>What the state file holds once the node is announced.\<close>

lemma served_state_file:
  assumes "undisturbed e (state_file m)" and "Execute m e w = Some (r, w')" and "\<not> serving w" and "serving w'"
  shows "\<exists>st. files w' (state_file m) = Some (new_state st) \<and>
     (length (ClusterIps (sm_config m)) > 1 \<longrightarrow> st \<noteq> SingleNode)"
proof -
  obtain w2 w3 st where st: "getCurrentNodeState m e w2 = Some (Ret (st, None), w3)"
    and run: "start_and_serve m st e w3 = Some (r, w')" and un: "\<not> serving w3"
    using Execute_started [OF assms(2-4)] by metis
  obtain ns ch v1 v2 v3 where served: "StartNodeFromState (sm_startCaller m) st e w3 = Some (Ret (ns, Some ch, None), v1)"
      "writeStringToFile m ns e v1 = Some (Ret None, v2)" "files v3 = interfere e (trace v3) (files v2)"
      "await_mysqld (Some ch) e v3 = Some (r, w')"
    using start_and_serve_served [OF run un assms(4)] by metis
  have "files v2 (state_file m) = Some ns"
    using writeStringToFile_run [of m ns e v1] served(2) assms(1) by (auto simp: undisturbed_def)
  then have "files v3 (state_file m) = Some ns" using served(3) assms(1) by (simp add: undisturbed_def)
  moreover have "files w' (state_file m) = files v3 (state_file m)"
    by (rule journal_file [OF journal_manager(4) await_spares(1) assms(1) served(4)])
  moreover have "ns = new_state st" using StartNodeFromState_ok [OF served(1)] by blast
  ultimately show ?thesis using getCurrentNodeState_multi [of m e w2 st None w3] st by auto
qed

text \<open>
  A run that announces the node: the phases, the state written, the announcement, and the
  wait for the server that the run owns.
\<close>

lemma served_trace:
  assumes "Execute m e w = Some (r, w')" and "\<not> serving w" and "serving w'"
  obtains xs ns args pid ch w4 ys where "trace w' = trace w4 @ ys"
    "trace w4 = trace w @ xs @ [EvWrite (state_file m) ns True, EvServe]"
    "\<forall>ev \<in> set xs. phase_event m ev" "ns \<in> {SingleNode, Clustered}" "args \<in> {[mycnf_arg], [mycnf_arg, new_cluster_arg]}"
    "EvStart ''mysqld'' args (Some pid) \<in> set xs" "owns args pid ch w4" "await_mysqld (Some ch) e w4 = Some (r, w')"
proof -
  obtain w3 st xs where run: "start_and_serve m st e w3 = Some (r, w')" and un: "\<not> serving w3"
    and xs: "trace w3 = trace w @ xs" "\<forall>ev \<in> set xs. phase_event m ev"
    using Execute_started [OF assms] by metis
  obtain ns ch v1 v2 v3 where served: "StartNodeFromState (sm_startCaller m) st e w3 = Some (Ret (ns, Some ch, None), v1)"
      "writeStringToFile m ns e v1 = Some (Ret None, v2)" "quiet e v2 v3" "trace v3 = trace v2 @ [EvServe]"
      "await_mysqld (Some ch) e v3 = Some (r, w')"
    using start_and_serve_served [OF run un assms(3)] by metis
  obtain zs where zs: "trace v1 = trace w3 @ zs" "\<forall>ev \<in> set zs. phase_event m ev" using emitsD [OF emits_phases(3) served(1)] .
  obtain pid healthy where own: "owns (mysqld_args st healthy) pid ch v1"
    and start: "EvStart ''mysqld'' (mysqld_args st healthy) (Some pid) \<in> set zs" and ns: "ns = new_state st"
    using StartNodeFromState_ok [OF served(1)] zs(1) by auto
  have wr: "quiet e v1 v2" "trace v2 = trace v1 @ [EvWrite (state_file m) ns True]"
    using writeStringToFile_run [of m ns e v1] served(2) by auto
  have own3: "owns (mysqld_args st healthy) pid ch v3" using own owns_quiet [OF wr(1)] owns_quiet [OF served(3)] by blast
  obtain ts where ts: "trace w' = trace v3 @ ts" using journal_grows [OF journal_manager(4) served(5)] by blast
  have "trace v3 = trace w @ (xs @ zs) @ [EvWrite (state_file m) ns True, EvServe]" "\<forall>ev \<in> set (xs @ zs). phase_event m ev"
    "ns \<in> {SingleNode, Clustered}" "mysqld_args st healthy \<in> {[mycnf_arg], [mycnf_arg, new_cluster_arg]}"
    "EvStart ''mysqld'' (mysqld_args st healthy) (Some pid) \<in> set (xs @ zs)"
    using xs zs wr served(4) ns start by (auto simp: new_state_def mysqld_args_def)
  then show thesis by (rule that [OF ts _ _ _ _ _ own3 served(5)])
qed

lemma unserved_not_ok:
  assumes "Execute m e w = Some (r, w')" and "\<not> serving w'"
  shows "r \<noteq> Ret None"
  using assms(1)
proof (cases rule: Execute_cases)
  case (started w1 w2 w3 st)
  from started(6) show ?thesis
  proof (cases rule: start_and_serve_cases)
    case (served ns ch v1 v2 v3)
    then show ?thesis using served_serves [OF started(6) served] assms(2) by simp
  qed auto
qed auto

lemma failed_keeps_state:
  assumes "separate m" and "undisturbed e (state_file m)" and "Execute m e w = Some (r, w')" and "\<not> serving w'"
    and "\<forall>c. EvWrite (state_file m) c False \<notin> set (new_events w w')"
  shows "files w' (state_file m) = files w (state_file m) \<and> r \<noteq> Ret None"
proof -
  have prep: "files v (state_file m) = files w (state_file m)" if "preparation m e w = Some (q, v)" for q v
    by (rule journal_file [OF journal_preparation preparation_spares [OF assms(1)] assms(2) that])
  have state: "files v (state_file m) = files u (state_file m)" if "getCurrentNodeState m e u = Some (q, v)" for q u v
    by (rule journal_file [OF journal_manager(1) getCurrentNodeState_spares assms(2) that])
  have start: "files v (state_file m) = files u (state_file m)"
    if "StartNodeFromState (sm_startCaller m) st e u = Some (q, v)" for st q u v
    by (rule journal_file [OF journal_start(2) StartNodeFromState_spares [OF assms(1)] assms(2) that])
  have "files w' (state_file m) = files w (state_file m)"
    using assms(3)
  proof (cases rule: Execute_cases)
    case (unknown w1 w2 st x)
    then show ?thesis using prep state by metis
  next
    case (started w1 w2 w3 st)
    have w3: "files w3 (state_file m) = files w (state_file m)" using started prep state by metis
    from started(6) show ?thesis
    proof (cases rule: start_and_serve_cases)
      case (served ns ch v1 v2 v3)
      then show ?thesis using served_serves [OF started(6) served] assms(4) by simp
    next
      case (unwritten ns ch v x)
      have "trace w' = trace v @ [EvWrite (state_file m) ns False]"
        using writeStringToFile_run [of m ns e v] unwritten(2) by auto
      moreover obtain xs ys zs where "trace w1 = trace w @ xs" "trace w3 = trace w2 @ ys" "trace v = trace w3 @ zs"
        using journal_grows [OF journal_preparation started(1)] journal_grows [OF journal_manager(1) started(5)]
          journal_grows [OF journal_start(2) unwritten(1)] by blast
      ultimately have "trace w' = trace w @ xs @ ys @ zs @ [EvWrite (state_file m) ns False]" using started(3) by simp
      then show ?thesis using assms(5) by auto
    qed (use w3 start in metis)+
  qed (use prep in blast)
  then show ?thesis using unserved_not_ok [OF assms(3,4)] by blast
qed

text \<open>A run whose decision is neither of the two states that bootstrap forms no cluster.\<close>

lemma Execute_no_bootstrap:
  assumes "separate m" and "steady e (state_file m)" and "Execute m e w = Some (r, w')"
    and "boot_decision (length (ClusterIps (sm_config m))) (BootstrapNode (sm_config m)) (files w (state_file m)) \<notin> {SingleNode, NeedsBootstrap}"
  shows "\<forall>ev \<in> set (new_events w w'). \<not> bootstrap_start ev"
  using assms(1-3)
proof (cases rule: Execute_steady)
  case stopped
  then show ?thesis using emitsD [OF emits_preparation stopped(1)] prep_event_start(1) by (metis new_events_append)
next
  case (started u1 u2 evs)
  have none: "emits (\<lambda>ev. \<not> bootstrap_start ev) (start_and_serve m (boot_decision (length (ClusterIps (sm_config m)))
      (BootstrapNode (sm_config m)) (files w (state_file m))))"
    using assms(4) by (intro start_and_serve_no_bootstrap) simp_all
  obtain vs where "trace w' = trace u2 @ vs" "\<forall>ev \<in> set vs. \<not> bootstrap_start ev"
    using emitsD [OF none started(4)] .
  then show ?thesis using started(2,3) by auto
qed

lemma trim_Clustered [simp]: "strings_TrimSpace Clustered = Clustered"
  unfolding Clustered_def by code_simp

end
