(* ===== verification/Config_Loader.thy ===== *)
theory Config_Loader
  imports Os_Helper Config_Model
begin

text \<open>
  \<^verbatim>\<open>NewConfig\<close> of \<^verbatim>\<open>config/config.go\<close>: the command line flags (Go's \<^verbatim>\<open>flag\<close> package with the
  flags of \<^verbatim>\<open>lagerflags\<close> and \<^verbatim>\<open>service-config\<close>), where the configuration text is taken from,
  and the defaults merged into it. The YAML decoder, the environment variables and the
  working directory are arguments.
\<close>

record startup =
  getenv :: "string \<Rightarrow> string"
  filepath_Abs :: "string \<Rightarrow> go_error + string"
  yaml_Unmarshal :: "string \<Rightarrow> Config \<times> go_error option"
  help_status :: int

section \<open>Flags\<close>

record flags =
  configFlag :: string
  configPathFlag :: string
  minLogLevel :: string
  redactSecrets :: bool
  timeFormat :: nat

definition default_flags :: flags where
  "default_flags = \<lparr>configFlag = '''', configPathFlag = '''', minLogLevel = ''info'',
     redactSecrets = False, timeFormat = 0\<rparr>"

definition strconv_ParseBool :: "string \<Rightarrow> bool option" where
  "strconv_ParseBool s =
     (if s \<in> set [''1'', ''t'', ''T'', ''TRUE'', ''true'', ''True''] then Some True
      else if s \<in> set [''0'', ''f'', ''F'', ''FALSE'', ''false'', ''False''] then Some False
      else None)"

text \<open>Setting a flag that takes a value: \<open>None\<close> when the value is rejected.\<close>

definition set_flag :: "flags \<Rightarrow> string \<Rightarrow> string \<Rightarrow> flags option" where
  "set_flag fl key v =
     (if key = ''config'' then Some (fl\<lparr>configFlag := v\<rparr>)
      else if key = ''configPath'' then Some (fl\<lparr>configPathFlag := v\<rparr>)
      else if key = ''logLevel'' then Some (fl\<lparr>minLogLevel := v\<rparr>)
      else if key = ''redactSecrets''
      then (case strconv_ParseBool v of None \<Rightarrow> None
            | Some b \<Rightarrow> Some (fl\<lparr>redactSecrets := b\<rparr>))
      else if key = ''timeFormat''
      then (if v = ''unix-epoch'' \<or> v = ''0'' then Some (fl\<lparr>timeFormat := 0\<rparr>)
            else if v = ''rfc3339'' \<or> v = ''1'' then Some (fl\<lparr>timeFormat := 1\<rparr>)
            else None)
      else None)"

definition flag_names :: "string list" where
  "flag_names = [''logLevel'', ''redactSecrets'', ''timeFormat'', ''config'', ''configPath'']"

datatype flag_result = FlagsOk flags | FlagsHelp | FlagsBad

definition split_flag :: "string \<Rightarrow> string \<times> string option" where
  "split_flag name =
     (case name of
        [] \<Rightarrow> ([], None)
      | c # rest \<Rightarrow> (case cut_first (CHR ''='') rest of
                      None \<Rightarrow> (name, None)
                    | Some (a, v) \<Rightarrow> (c # a, Some v)))"

fun flags_Parse :: "flags \<Rightarrow> string list \<Rightarrow> flag_result" where
  "flags_Parse fl [] = FlagsOk fl"
| "flags_Parse fl (s # args) =
     (if length s < 2 \<or> hd s \<noteq> CHR ''-'' then FlagsOk fl
      else if s = ''--'' then FlagsOk fl
      else (let name = (if s ! 1 = CHR ''-'' then drop 2 s else drop 1 s) in
        if name = [] \<or> hd name = CHR ''-'' \<or> hd name = CHR ''='' then FlagsBad
        else (case split_flag name of (key, val) \<Rightarrow>
          if key \<notin> set flag_names
          then (if key = ''help'' \<or> key = ''h'' then FlagsHelp else FlagsBad)
          else if key = ''redactSecrets''
          then (case set_flag fl key (case val of None \<Rightarrow> ''true'' | Some v \<Rightarrow> v) of
                  None \<Rightarrow> FlagsBad | Some fl' \<Rightarrow> flags_Parse fl' args)
          else (case val of
                  Some v \<Rightarrow> (case set_flag fl key v of
                      None \<Rightarrow> FlagsBad | Some fl' \<Rightarrow> flags_Parse fl' args)
                | None \<Rightarrow> (case args of
                      [] \<Rightarrow> FlagsBad
                    | v # rest \<Rightarrow> (case set_flag fl key v of
                        None \<Rightarrow> FlagsBad | Some fl' \<Rightarrow> flags_Parse fl' rest))))))"

section \<open>Where the configuration comes from\<close>

definition NoConfigError :: go_error where
  "NoConfigError = ErrorString ''No Config or Config Path Specified. Please supply one of the following: -config, -configPath, CONFIG, or CONFIG_PATH''"

definition read_config_file :: "startup \<Rightarrow> string \<Rightarrow> (string \<times> go_error option) go" where
  "read_config_file st path =
     (case filepath_Abs st path of
        Inl err \<Rightarrow> ret ('''', Some (ErrorString (sprintf ''Making config file path absolute: %s''
                     [AStr (error_text err)])))
      | Inr absolutePath \<Rightarrow>
          bind_go (ioutil_ReadFile absolutePath) (\<lambda>(bytes, err).
          case err of
            Some x \<Rightarrow> ret ('''', Some (ErrorString (sprintf ''Reading config file: %s''
                        [AStr (error_text x)])))
          | None \<Rightarrow> ret (bytes, None)))"

definition ConfigBytes :: "startup \<Rightarrow> flags \<Rightarrow> (string \<times> go_error option) go" where
  "ConfigBytes st fl =
     (if configFlag fl \<noteq> '''' then ret (configFlag fl, None)
      else if configPathFlag fl \<noteq> '''' then read_config_file st (configPathFlag fl)
      else if getenv st ''CONFIG'' \<noteq> '''' then ret (getenv st ''CONFIG'', None)
      else if getenv st ''CONFIG_PATH'' \<noteq> '''' then read_config_file st (getenv st ''CONFIG_PATH'')
      else ret ('''', Some NoConfigError))"

section \<open>Defaults\<close>

definition zero_DBHelper :: DBHelperConfig where
  "zero_DBHelper = \<lparr>db_Password = '''', db_PostStartSQLFiles = [], db_PreseededDatabases = [],
     db_SeededUsers = [], db_SkipBinlog = False, db_Socket = '''', db_UpgradePath = '''',
     db_User = ''''\<rparr>"

definition zero_StartManager :: StartManagerConfig where
  "zero_StartManager = \<lparr>StateFileLocation = '''', GrastateFileLocation = '''', ClusterIps = [],
     BootstrapNode = False, ClusterProbeTimeout = 0, GaleraInitStatusServerAddress = ''''\<rparr>"

definition zero_Upgrader :: UpgraderConfig where
  "zero_Upgrader = \<lparr>PackageVersionFile = '''', LastUpgradedVersionFile = ''''\<rparr>"

definition zero_Config :: Config where
  "zero_Config = \<lparr>LogFileLocation = '''', Db = zero_DBHelper, Manager = zero_StartManager,
     UpgraderCfg = zero_Upgrader\<rparr>"

definition default_Config :: Config where
  "default_Config = zero_Config
     \<lparr>Db := zero_DBHelper\<lparr>db_User := ''root''\<rparr>,
      Manager := zero_StartManager
        \<lparr>GrastateFileLocation := ''/var/vcap/store/pxc-mysql/grastate.dat''\<rparr>\<rparr>"

text \<open>
  \<^verbatim>\<open>mergo.Merge\<close> without options: a field whose value is empty takes the default's value,
  structs field by field.
\<close>

definition fill :: "'a \<Rightarrow> 'a \<Rightarrow> 'a \<Rightarrow> 'a" where
  "fill zero dst src = (if dst = zero \<and> src \<noteq> zero then src else dst)"

definition merge_DBHelper :: "DBHelperConfig \<Rightarrow> DBHelperConfig \<Rightarrow> DBHelperConfig" where
  "merge_DBHelper d s =
     \<lparr>db_Password = fill '''' (db_Password d) (db_Password s),
      db_PostStartSQLFiles = fill [] (db_PostStartSQLFiles d) (db_PostStartSQLFiles s),
      db_PreseededDatabases = fill [] (db_PreseededDatabases d) (db_PreseededDatabases s),
      db_SeededUsers = fill [] (db_SeededUsers d) (db_SeededUsers s),
      db_SkipBinlog = fill False (db_SkipBinlog d) (db_SkipBinlog s),
      db_Socket = fill '''' (db_Socket d) (db_Socket s),
      db_UpgradePath = fill '''' (db_UpgradePath d) (db_UpgradePath s),
      db_User = fill '''' (db_User d) (db_User s)\<rparr>"

definition merge_StartManager ::
  "StartManagerConfig \<Rightarrow> StartManagerConfig \<Rightarrow> StartManagerConfig" where
  "merge_StartManager d s =
     \<lparr>StateFileLocation = fill '''' (StateFileLocation d) (StateFileLocation s),
      GrastateFileLocation = fill '''' (GrastateFileLocation d) (GrastateFileLocation s),
      ClusterIps = fill [] (ClusterIps d) (ClusterIps s),
      BootstrapNode = fill False (BootstrapNode d) (BootstrapNode s),
      ClusterProbeTimeout = fill 0 (ClusterProbeTimeout d) (ClusterProbeTimeout s),
      GaleraInitStatusServerAddress =
        fill '''' (GaleraInitStatusServerAddress d) (GaleraInitStatusServerAddress s)\<rparr>"

definition merge_Upgrader :: "UpgraderConfig \<Rightarrow> UpgraderConfig \<Rightarrow> UpgraderConfig" where
  "merge_Upgrader d s =
     \<lparr>PackageVersionFile = fill '''' (PackageVersionFile d) (PackageVersionFile s),
      LastUpgradedVersionFile =
        fill '''' (LastUpgradedVersionFile d) (LastUpgradedVersionFile s)\<rparr>"

definition mergo_Merge :: "Config \<Rightarrow> Config \<Rightarrow> Config" where
  "mergo_Merge d s =
     \<lparr>LogFileLocation = fill '''' (LogFileLocation d) (LogFileLocation s),
      Db = merge_DBHelper (Db d) (Db s),
      Manager = merge_StartManager (Manager d) (Manager s),
      UpgraderCfg = merge_Upgrader (UpgraderCfg d) (UpgraderCfg s)\<rparr>"

definition service_config_Read :: "startup \<Rightarrow> flags \<Rightarrow> (Config \<times> go_error option) go" where
  "service_config_Read st fl =
     bind_go (ConfigBytes st fl) (\<lambda>(bytes, err).
     case err of
       Some x \<Rightarrow> ret (zero_Config, Some x)
     | None \<Rightarrow>
         (case yaml_Unmarshal st bytes of
            (c, Some x) \<Rightarrow>
              ret (c, Some (ErrorString (sprintf ''Unmarshaling config: %s''
                [AStr (error_text x)])))
          | (c, None) \<Rightarrow> ret (mergo_Merge c default_Config, None)))"

section \<open>NewConfig\<close>

definition log_levels :: "string list" where
  "log_levels = [''debug'', ''info'', ''error'', ''fatal'']"

definition newLogger :: "string \<Rightarrow> unit go" where
  "newLogger level =
     (if level \<in> set log_levels then ret ()
      else panic_go (Some (ErrorString (sprintf ''unknown log level: %s'' [AStr level]))))"

definition NewConfig :: "startup \<Rightarrow> string list \<Rightarrow> (Config \<times> go_error option) go" where
  "NewConfig st osArgs =
     (case osArgs of
        [] \<Rightarrow> panic_go (Some (ErrorString
               ''runtime error: index out of range [0] with length 0''))
      | binaryName # configurationOptions \<Rightarrow>
          (case flags_Parse default_flags configurationOptions of
             FlagsBad \<Rightarrow> os_Exit 2
           | FlagsHelp \<Rightarrow> os_Exit (help_status st)
           | FlagsOk fl \<Rightarrow>
               bind_go (service_config_Read st fl) (\<lambda>(c, err).
               andthen (newLogger (minLogLevel fl)) (ret (c, err)))))"

section \<open>Properties\<close>

text \<open>Merging the defaults keeps every value the configuration text sets.\<close>

lemma merge_fills_gaps:
  "mergo_Merge c default_Config = c
     \<lparr>Db := (Db c)\<lparr>db_User := (if db_User (Db c) = '''' then ''root'' else db_User (Db c))\<rparr>,
      Manager := (Manager c)\<lparr>GrastateFileLocation :=
        (if GrastateFileLocation (Manager c) = '''' then ''/var/vcap/store/pxc-mysql/grastate.dat'' else GrastateFileLocation (Manager c))\<rparr>\<rparr>"
  by (simp add: mergo_Merge_def merge_DBHelper_def merge_StartManager_def merge_Upgrader_def default_Config_def zero_Config_def
      zero_DBHelper_def zero_StartManager_def zero_Upgrader_def fill_def)

text \<open>The ways of writing the flag.\<close>

lemma config_flag_parses:
  "flags_Parse default_flags [''-config='' @ v] = FlagsOk (default_flags\<lparr>configFlag := v\<rparr>)"
  "flags_Parse default_flags [''--config'', v] = FlagsOk (default_flags\<lparr>configFlag := v\<rparr>)"
  by (simp_all add: split_flag_def flag_names_def set_flag_def)

text \<open>C37. A configuration given on the command line is used whatever files and environment variables there are: no file is
  read, and the result is the decoder's error or the decoded text, in which defaults fill only the database user and the
  location of galera's state file, and only where the text left them empty.\<close>

theorem command_line_config_wins:
  assumes "v \<noteq> ''''"
  shows "NewConfig st [binary, ''-config='' @ v] e w = Some (Ret
     (case yaml_Unmarshal st v of
        (c, Some x) \<Rightarrow> (c, Some (ErrorString (''Unmarshaling config: '' @ error_text x)))
      | (c, None) \<Rightarrow> (c
          \<lparr>Db := (Db c)\<lparr>db_User := (if db_User (Db c) = '''' then ''root'' else db_User (Db c))\<rparr>,
           Manager := (Manager c)\<lparr>GrastateFileLocation :=
             (if GrastateFileLocation (Manager c) = '''' then ''/var/vcap/store/pxc-mysql/grastate.dat''
              else GrastateFileLocation (Manager c))\<rparr>\<rparr>, None)), w)"
proof -
  have "flags_Parse default_flags [''-config='' @ v] = FlagsOk (default_flags\<lparr>configFlag := v\<rparr>)" by (rule config_flag_parses(1))
  then show ?thesis
    using assms by (simp add: NewConfig_def service_config_Read_def ConfigBytes_def newLogger_def default_flags_def log_levels_def
        merge_fills_gaps go_basic_defs split: prod.splits option.splits)
qed

theorem command_line_config_wins_witness:
  "NewConfig \<lparr>getenv = (\<lambda>_. ''ignored''), filepath_Abs = Inr, yaml_Unmarshal = (\<lambda>_. (zero_Config, None)), help_status = 0\<rparr>
     [''start'', ''-config='' @ ''{}''] calm_env blank_world = Some (Ret (zero_Config
       \<lparr>Db := (Db zero_Config)\<lparr>db_User := ''root''\<rparr>,
        Manager := (Manager zero_Config)\<lparr>GrastateFileLocation := ''/var/vcap/store/pxc-mysql/grastate.dat''\<rparr>\<rparr>, None), blank_world)"
  using command_line_config_wins [of "''{}''" "\<lparr>getenv = (\<lambda>_. ''ignored''), filepath_Abs = Inr, yaml_Unmarshal = (\<lambda>_. (zero_Config, None)), help_status = 0\<rparr>"
    "''start''" calm_env blank_world]
  by (simp add: zero_Config_def zero_DBHelper_def zero_StartManager_def)

end
