(* ===== verification/Log_Sink.thy ===== *)
theory Log_Sink
  imports Config_Loader
begin

text \<open>
  What of the program's log reaches the standard output: the levels of \<^verbatim>\<open>lager\<close> as a linear order, the level the flag selects
  in \<^verbatim>\<open>lagerflags\<close>, and the two sinks a message passes, the reconfigurable one and the writer below it.
\<close>

section \<open>Levels\<close>

text \<open>The constants of \<^verbatim>\<open>lager.LogLevel\<close> are numbered from zero, and compared by their numbers.\<close>

fun level_number :: "log_level \<Rightarrow> nat" where
  "level_number DEBUG = 0"
| "level_number INFO = 1"
| "level_number ERROR = 2"
| "level_number FATAL = 3"

lemma level_number_inject [simp]: "level_number a = level_number b \<longleftrightarrow> a = b"
  by (cases a; cases b) simp_all

instantiation log_level :: linorder
begin

definition less_eq_log_level :: "log_level \<Rightarrow> log_level \<Rightarrow> bool" where
  "less_eq_log_level a b \<longleftrightarrow> level_number a \<le> level_number b"

definition less_log_level :: "log_level \<Rightarrow> log_level \<Rightarrow> bool" where
  "less_log_level a b \<longleftrightarrow> level_number a < level_number b"

instance
  by standard (auto simp: less_eq_log_level_def less_log_level_def)

end

fun level_String :: "log_level \<Rightarrow> string" where
  "level_String DEBUG = ''debug''"
| "level_String INFO = ''info''"
| "level_String ERROR = ''error''"
| "level_String FATAL = ''fatal''"

text \<open>The switch of \<^verbatim>\<open>newLogger\<close>; \<open>None\<close> is its default branch, which panics.\<close>

definition level_selected :: "string \<Rightarrow> log_level option" where
  "level_selected s =
     (if s = ''debug'' then Some DEBUG
      else if s = ''info'' then Some INFO
      else if s = ''error'' then Some ERROR
      else if s = ''fatal'' then Some FATAL
      else None)"

lemma level_selected_String [simp]: "level_selected (level_String l) = Some l"
  by (cases l) (simp_all add: level_selected_def)

lemma level_selected_Some: "level_selected s = Some l \<longleftrightarrow> s = level_String l"
  by (cases l) (auto simp: level_selected_def)

text \<open>A logger is made exactly for the levels the switch knows.\<close>

lemma newLogger_selects:
  "newLogger s e w = (case level_selected s of
     Some l \<Rightarrow> Some (Ret (), w)
   | None \<Rightarrow> Some (Panic (Some (ErrorString (sprintf ''unknown log level: %s'' [AStr s]))), w))"
  by (simp add: newLogger_def level_selected_def log_levels_def go_basic_defs)

section \<open>Sinks\<close>

type_synonym log_line = "log_level \<times> string"

text \<open>Each sink takes what it has written so far and a message.\<close>

definition writerSink_Log :: "log_level \<Rightarrow> log_line \<Rightarrow> log_line list \<Rightarrow> log_line list" where
  "writerSink_Log level log out = (if fst log < level then out else out @ [log])"

definition ReconfigurableSink_Log ::
  "log_level \<Rightarrow> (log_line \<Rightarrow> log_line list \<Rightarrow> log_line list) \<Rightarrow> log_line \<Rightarrow> log_line list \<Rightarrow> log_line list" where
  "ReconfigurableSink_Log level sink log out = (if fst log < level then out else sink log out)"

text \<open>
  The sinks \<^verbatim>\<open>NewFromConfig\<close> builds, and all messages of a run sent through them. With the other time format the inner sink
  filters in the same way and only prints differently, and the redacting sink in between only rewrites the data of a message.
\<close>

definition program_sink :: "log_level \<Rightarrow> log_line \<Rightarrow> log_line list \<Rightarrow> log_line list" where
  "program_sink l = ReconfigurableSink_Log l (writerSink_Log DEBUG)"

definition written :: "log_level \<Rightarrow> log_line list \<Rightarrow> log_line list" where
  "written l ls = fold (program_sink l) ls []"

lemma DEBUG_least [simp]: "DEBUG \<le> l" and FATAL_greatest [simp]: "l \<le> FATAL"
  by (cases l; simp add: less_eq_log_level_def)+

text \<open>The output is the messages of at least the selected level, in their order.\<close>

lemma written_filter: "written l ls = filter (\<lambda>log. l \<le> fst log) ls"
proof -
  have "fold (program_sink l) ls out = out @ filter (\<lambda>log. l \<le> fst log) ls" for out
    by (induction ls arbitrary: out)
      (auto simp: program_sink_def ReconfigurableSink_Log_def writerSink_Log_def not_less leD)
  then show ?thesis by (simp add: written_def)
qed

lemma written_mono: "l \<le> l' \<Longrightarrow> set (written l' ls) \<subseteq> set (written l ls)"
  by (auto simp: written_filter)

text \<open>A fatal message, which \<^verbatim>\<open>log_fatal\<close> sends before it panics, is written at every level.\<close>

lemma fatal_written:
  assumes "log_fatal msg err e w = Some (r, w')"
  shows "r = Panic err \<and> written l (logs w') = written l (logs w) @ [(FATAL, msg)]"
  using assms by (simp add: go_defs) (auto simp: written_filter)

end
