(* ===== verification/Main_Program.thy ===== *)
theory Main_Program
  imports Start_Manager Log_Sink
begin

text \<open>
  \<^verbatim>\<open>cmd/start/main.go\<close>: wiring the components together, running the start manager and turning
  its error into the exit status of the process; and the signal handler that cancels the
  context.
\<close>

section \<open>Wiring\<close>

definition managerSetup :: "Config \<Rightarrow> (startManager option \<times> go_error option) go" where
  "managerSetup cfg =
     (let DBHelper = NewDBHelper (Db cfg) (LogFileLocation cfg);
          Upgrader = NewUpgrader (UpgraderCfg cfg) DBHelper;
          Checker = NewClusterHealthChecker (ClusterIps (Manager cfg))
                      (ClusterProbeTimeout (Manager cfg));
          NodeStarter = NewStarter DBHelper (Manager cfg) Checker
      in bind_go (net_Listen (GaleraInitStatusServerAddress (Manager cfg))) (\<lambda>err.
         case err of
           Some x \<Rightarrow> ret (None, Some x)
         | None \<Rightarrow>
             ret (Some (start_manager_New (Manager cfg) DBHelper Upgrader NodeStarter Checker
               (NewGaleraInitStatusServer (GaleraInitStatusServerAddress (Manager cfg)))), None)))"

section \<open>main\<close>

definition exit_with :: "go_error \<Rightarrow> 'a go" where
  "exit_with err =
     (case err of
        ExitError ws \<Rightarrow>
          (if ws_Signaled ws then os_Exit (ws_Signal ws) else os_Exit (ws_ExitStatus ws))
      | _ \<Rightarrow> os_Exit 1)"

definition main :: "startup \<Rightarrow> map_order \<Rightarrow> string list \<Rightarrow> unit go" where
  "main st order osArgs =
     bind_go (NewConfig st osArgs) (\<lambda>(cfg, err).
     case err of Some x \<Rightarrow> log_fatal ''Error creating config'' (Some x) | None \<Rightarrow>
     (case Validate order cfg of Some x \<Rightarrow> log_fatal ''Error validating config'' (Some x) | None \<Rightarrow>
     bind_go (managerSetup cfg) (\<lambda>(startManager, err).
     case err of Some x \<Rightarrow> andthen (log_info ''manage-setup-failure'') (os_Exit 1) | None \<Rightarrow>
     (case startManager of
       None \<Rightarrow> nil_deref
     | Some m \<Rightarrow>
         andthen (log_info ''starting'')
         (bind_go (Execute m) (\<lambda>err.
          case err of
            Some x \<Rightarrow> andthen (log_info ''abnormal-termination'') (exit_with x)
          | None \<Rightarrow> log_info ''exited''))))))"

text \<open>
  The status the parent process sees: 2 for an uncaught panic, and the low byte of the
  argument of \<^verbatim>\<open>os.Exit\<close>.
\<close>

definition process_status :: "unit outcome \<Rightarrow> int" where
  "process_status r =
     (case r of Ret _ \<Rightarrow> 0 | Panic _ \<Rightarrow> 2 | OsExit n \<Rightarrow> n mod 256)"

section \<open>Signals\<close>

text \<open>
  \<^verbatim>\<open>setupSignals\<close>: a channel with room for one signal, to which the runtime delivers without
  blocking, and a goroutine that takes a signal and then cancels the context.
\<close>

record sig_state =
  sig_pending :: nat
  sig_handling :: bool
  sig_cancelled :: bool
  sig_delivered :: nat

definition sig_init :: "sig_state \<Rightarrow> bool" where
  "sig_init s = (s = \<lparr>sig_pending = 0, sig_handling = False, sig_cancelled = False,
                      sig_delivered = 0\<rparr>)"

inductive sig_step :: "sig_state \<Rightarrow> sig_state \<Rightarrow> bool" where
  sig_queue: "sig_pending s = 0 \<Longrightarrow>
    sig_step s (s\<lparr>sig_pending := 1, sig_delivered := Suc (sig_delivered s)\<rparr>)"
| sig_drop: "sig_pending s = 1 \<Longrightarrow> sig_step s (s\<lparr>sig_delivered := Suc (sig_delivered s)\<rparr>)"
| sig_receive: "sig_pending s = 1 \<Longrightarrow> \<not> sig_handling s \<Longrightarrow>
    sig_step s (s\<lparr>sig_pending := 0, sig_handling := True\<rparr>)"
| sig_cancel: "sig_handling s \<Longrightarrow>
    sig_step s (s\<lparr>sig_handling := False, sig_cancelled := True\<rparr>)"

section \<open>The wired program\<close>

definition wired_manager :: "Config \<Rightarrow> startManager" where
  "wired_manager cfg =
     (let DBHelper = NewDBHelper (Db cfg) (LogFileLocation cfg);
          Checker = NewClusterHealthChecker (ClusterIps (Manager cfg)) (ClusterProbeTimeout (Manager cfg)) in
      start_manager_New (Manager cfg) DBHelper (NewUpgrader (UpgraderCfg cfg) DBHelper)
        (NewStarter DBHelper (Manager cfg) Checker) Checker
        (NewGaleraInitStatusServer (GaleraInitStatusServerAddress (Manager cfg))))"



lemma wired_manager_simps [simp]:
  "sm_config (wired_manager c) = Manager c" "sm_dbHelper (wired_manager c) = NewDBHelper (Db c) (LogFileLocation c)"
  "up_config (sm_upgrader (wired_manager c)) = UpgraderCfg c"
  "up_dbHelper (sm_upgrader (wired_manager c)) = NewDBHelper (Db c) (LogFileLocation c)"
  "st_dbHelper (sm_startCaller (wired_manager c)) = NewDBHelper (Db c) (LogFileLocation c)"
  "st_config (sm_startCaller (wired_manager c)) = Manager c"
  "clusterIps (st_healthChecker (sm_startCaller (wired_manager c))) = ClusterIps (Manager c)"
  "clusterProbeTimeout (st_healthChecker (sm_startCaller (wired_manager c))) = ClusterProbeTimeout (Manager c)"
  by (simp_all add: wired_manager_def Let_def start_manager_New_def NewUpgrader_def NewStarter_def NewClusterHealthChecker_def)


lemma managerSetup_wires:
  "managerSetup cfg e w = Some (Ret (Some m, None), w') \<Longrightarrow> m = wired_manager cfg"
  by (auto simp: managerSetup_def wired_manager_def net_Listen_def go_basic_defs Let_def split: option.splits)

section \<open>No signal is lost\<close>

inductive_cases sig_stepE: "sig_step s t"

inductive_simps sig_step_iff: "sig_step s t"

text \<open>Room for one signal, and a signal that came is pending, being handled or has cancelled the context.\<close>

definition sig_inv :: "sig_state \<Rightarrow> bool" where
  "sig_inv s = (sig_pending s \<le> 1 \<and>
     (0 < sig_delivered s \<longleftrightarrow> sig_pending s = 1 \<or> sig_handling s \<or> sig_cancelled s))"

interpretation sg: invariant_system sig_init sig_step sig_inv
proof unfold_locales
  show "sig_init s \<Longrightarrow> sig_inv s" for s by (simp add: sig_init_def sig_inv_def)
  show "sig_inv s \<Longrightarrow> sig_step s t \<Longrightarrow> sig_inv t" for s t by (auto simp: sig_inv_def elim: sig_stepE)
qed

lemma sig_can_cancel:
  assumes "sig_inv s" and "0 < sig_delivered s"
  shows "\<exists>t. sig_step\<^sup>*\<^sup>* s t \<and> sig_cancelled t \<and> sig_delivered t = sig_delivered s"
proof -
  have one: "\<exists>t. sig_step\<^sup>*\<^sup>* u t \<and> sig_cancelled t \<and> sig_delivered t = sig_delivered u" if "sig_handling u" for u
    using sig_cancel [OF that] by (intro exI [of _ "u\<lparr>sig_handling := False, sig_cancelled := True\<rparr>"]) auto
  consider "sig_handling s" | "sig_cancelled s" | "sig_pending s = 1" "\<not> sig_handling s"
    using assms by (auto simp: sig_inv_def)
  then show ?thesis
  proof cases
    case 3
    let ?u = "s\<lparr>sig_pending := 0, sig_handling := True\<rparr>"
    have "sig_step s ?u" using 3 by (rule sig_receive)
    then show ?thesis using one [of ?u] by (auto intro: converse_rtranclp_into_rtranclp)
  qed (use one in auto)
qed

text \<open>C34. In every reachable state of the signal handling the queue holds at most one signal, and a termination signal has
  been delivered exactly if one is queued, is being handled or has cancelled the context; and then the handler can
  always go on to cancel the context without waiting for another signal.\<close>

theorem termination_signal_is_never_lost:
  assumes "reach sig_init sig_step s"
  shows "sig_pending s \<le> 1 \<and> (0 < sig_delivered s \<longleftrightarrow> sig_pending s = 1 \<or> sig_handling s \<or> sig_cancelled s) \<and>
     (0 < sig_delivered s \<longrightarrow> (\<exists>t. sig_step\<^sup>*\<^sup>* s t \<and> sig_cancelled t \<and> sig_delivered t = sig_delivered s))"
  using sg.inv_reach [OF assms] sig_can_cancel [of s] by (auto simp: sig_inv_def)

theorem termination_signal_is_never_lost_witness:
  "\<exists>t. sig_step\<^sup>*\<^sup>* \<lparr>sig_pending = 1, sig_handling = False, sig_cancelled = False, sig_delivered = 1\<rparr> t \<and> sig_cancelled t"
proof -
  let ?i = "\<lparr>sig_pending = 0, sig_handling = False, sig_cancelled = False, sig_delivered = 0\<rparr>"
  have "reach sig_init sig_step ?i" by (rule reach_init) (simp add: sig_init_def)
  moreover have "sig_step ?i \<lparr>sig_pending = 1, sig_handling = False, sig_cancelled = False, sig_delivered = 1\<rparr>"
    using sig_queue [of ?i] by simp
  ultimately have "reach sig_init sig_step \<lparr>sig_pending = 1, sig_handling = False, sig_cancelled = False, sig_delivered = 1\<rparr>"
    by (rule reach_step)
  from termination_signal_is_never_lost [OF this] show ?thesis by auto
qed

section \<open>The exit status\<close>

lemma exit_with_run:
  "exit_with err e w = Some (OsExit (case err of
      ExitError ws \<Rightarrow> (if ws_Signaled ws then ws_Signal ws else ws_ExitStatus ws) | _ \<Rightarrow> 1), w)"
  by (cases err) (simp_all add: exit_with_def os_Exit_def)

text \<open>The status the parent sees of mysqld's end, and its range.\<close>

definition mysqld_status :: "wait_status \<Rightarrow> int" where
  "mysqld_status ws = (if ws_Signaled ws then ws_Signal ws else if ws_Exited ws then ws_ExitStatus ws else 255)"

lemma mysqld_status_range: "0 \<le> mysqld_status ws \<and> mysqld_status ws \<le> 255"
  using ws_Signal_range [of ws] ws_ExitStatus_range [of ws] by (auto simp: mysqld_status_def)

lemma mysqld_status_zero: "mysqld_status ws = 0 \<longleftrightarrow> ws_Exited ws \<and> ws_ExitStatus ws = 0"
  using ws_Signal_range [of ws] ws_Exited_not_Signaled [of ws] by (auto simp: mysqld_status_def)

lemma exit_with_status:
  "exit_with err e w = Some (OsExit n, w') \<Longrightarrow>
   process_status (OsExit n) = (case err of ExitError ws \<Rightarrow> mysqld_status ws | _ \<Rightarrow> 1)"
proof -
  have "ws_Signal ws mod 256 = ws_Signal ws" if "ws_Signaled ws" for ws using ws_Signal_range [OF that] by simp
  moreover have "ws_ExitStatus ws mod 256 = (if ws_Exited ws then ws_ExitStatus ws else 255)" for ws
    using ws_ExitStatus_range [of ws] by (cases "ws_Exited ws") (simp_all, simp add: ws_ExitStatus_def)
  ultimately show "exit_with err e w = Some (OsExit n, w') \<Longrightarrow> ?thesis"
    by (cases err) (auto simp: exit_with_run process_status_def mysqld_status_def)
qed

text \<open>C36. A configuration that cannot be loaded or is not valid ends the process with the status of a panic before anything was
  touched: no interaction follows those of loading it, and whatever the log level, the last line written says what was wrong.\<close>

theorem invalid_config_starts_nothing:
  assumes "NewConfig st osArgs e w = Some (Ret (cfg, err), w1)" and "err \<noteq> None \<or> Validate order cfg \<noteq> None"
  shows "\<exists>p w'. main st order osArgs e w = Some (Panic p, w') \<and> process_status (Panic p) = 2 \<and>
     trace w' = trace w1 \<and> files w' = files w1 \<and> next_pid w' = next_pid w1 \<and> serving w' = serving w1 \<and>
     (\<forall>l. written l (logs w') = written l (logs w1) @
        [(FATAL, if err = None then ''Error validating config'' else ''Error creating config'')])"
proof (cases err)
  case None
  then obtain x where "Validate order cfg = Some x" using assms(2) by auto
  then show ?thesis using assms(1) None by (simp add: main_def go_defs process_status_def written_filter)
next
  case (Some x)
  then show ?thesis using assms(1) by (simp add: main_def go_defs process_status_def written_filter)
qed

definition example_startup :: "Config \<Rightarrow> startup" where
  "example_startup c = \<lparr>getenv = (\<lambda>_. ''''), filepath_Abs = Inr, yaml_Unmarshal = (\<lambda>_. (c, None)), help_status = 0\<rparr>"

lemma example_NewConfig:
  "NewConfig (example_startup c) [''start'', ''-config={}''] e w = Some (Ret (mergo_Merge c default_Config, None), w)"
  by (simp add: NewConfig_def flags_Parse.simps split_flag_def flag_names_def set_flag_def default_flags_def service_config_Read_def
      ConfigBytes_def newLogger_def log_levels_def example_startup_def go_basic_defs)

theorem invalid_config_starts_nothing_witness:
  "\<exists>p w'. main (example_startup zero_Config) (\<lambda>p m. m) [''start'', ''-config={}''] calm_env blank_world = Some (Panic p, w') \<and>
     process_status (Panic p) = 2 \<and> trace w' = []"
proof -
  have "Validate (\<lambda>p m. m) (mergo_Merge zero_Config default_Config) \<noteq> None"
  proof -
    have "''LogFileLocation'' \<in> missing_fields (mergo_Merge zero_Config default_Config)"
      by (simp add: missing_fields_def mergo_Merge_def zero_Config_def default_Config_def fill_def required_def)
    moreover have "fair_order (\<lambda>p m. m)" by (simp add: fair_order_def)
    ultimately show ?thesis using Validate_None by blast
  qed
  then show ?thesis
    using invalid_config_starts_nothing [OF example_NewConfig, of "\<lambda>p m. m" zero_Config calm_env blank_world] by (auto simp: blank_world_def)
qed

end
