(* ===== verification/Process_Table.thy ===== *)
theory Process_Table
  imports Main_Program
begin

text \<open>
  An invariant of the whole program on the processes it starts: the preservation lemma of each operation, from the
  operating system's up to \<^verbatim>\<open>main\<close>. An operation that waits for a command or signals it keeps the invariant only for a command
  whose process was started, so the relation that is kept carries the command at hand.
\<close>

section \<open>The process table\<close>

text \<open>The processes the history says were started and signalled, in order.\<close>

definition started_pids :: "event list \<Rightarrow> nat list" where
  "started_pids tr = List.map_filter (\<lambda>ev. case ev of EvStart x args p \<Rightarrow> p | _ \<Rightarrow> None) tr"

definition signalled_pids :: "event list \<Rightarrow> nat list" where
  "signalled_pids tr = List.map_filter (\<lambda>ev. case ev of EvKill p s x \<Rightarrow> Some p | _ \<Rightarrow> None) tr"

lemma pids_append [simp]:
  "started_pids (xs @ ys) = started_pids xs @ started_pids ys" "signalled_pids (xs @ ys) = signalled_pids xs @ signalled_pids ys"
  by (simp_all add: started_pids_def signalled_pids_def List.map_filter_def)

lemma started_pids_simps [simp]:
  "started_pids [] = []" "started_pids (EvStart x args (Some p) # evs) = p # started_pids evs"
  "(\<And>x args p. ev \<noteq> EvStart x args (Some p)) \<Longrightarrow> started_pids (ev # evs) = started_pids evs"
  by (cases ev; auto simp: started_pids_def List.map_filter_def)+

lemma signalled_pids_simps [simp]:
  "signalled_pids [] = []" "signalled_pids (EvKill p s x # evs) = p # signalled_pids evs"
  "(\<And>p s x. ev \<noteq> EvKill p s x) \<Longrightarrow> signalled_pids (ev # evs) = signalled_pids evs"
  by (cases ev; auto simp: signalled_pids_def List.map_filter_def)+

text \<open>A command whose process, if it has one, was started; a channel that waits for a started process, if it waits.\<close>

definition known :: "cmd option \<Rightarrow> event list \<Rightarrow> bool" where
  "known c tr = (case c of None \<Rightarrow> True | Some x \<Rightarrow> set_option (cmd_process x) \<subseteq> set (started_pids tr))"

fun chan_known :: "event list \<Rightarrow> chan_state \<Rightarrow> bool" where
  "chan_known tr (ChWaiting p) = (p \<in> set (started_pids tr))"
| "chan_known tr (ChReady x) = True"
| "chan_known tr ChDrained = True"

text \<open>
  The invariant: no two processes have the same number, the next number is free, every channel and the starter's command
  belong to processes that were started, only started processes are signalled, and the status server serves exactly if
  that was announced.
\<close>

definition process_table :: "world \<Rightarrow> bool" where
  "process_table w =
     (distinct (started_pids (trace w)) \<and> (\<forall>p \<in> set (started_pids (trace w)). p < next_pid w) \<and>
      list_all (chan_known (trace w)) (chans w) \<and> known (starter_mysqlCmd w) (trace w) \<and>
      set (signalled_pids (trace w)) \<subseteq> set (started_pids (trace w)) \<and>
      (serving w \<longleftrightarrow> EvServe \<in> set (trace w)))"

text \<open>What a computation keeps while it holds the command \<open>c\<close>.\<close>

definition table :: "cmd option \<Rightarrow> world_rel" where
  "table c e w w' = (process_table w \<and> known c (trace w) \<longrightarrow> process_table w' \<and> known c (trace w'))"

interpretation tb: world_preorder "table c" for c
  by unfold_locales (auto simp: table_def)

declare tb.stable_intros [table_intros]

lemma known_append [simp]: "known c tr \<Longrightarrow> known c (tr @ evs)"
  by (auto simp: known_def split: option.splits)

lemma chan_known_append: "chan_known tr ch \<Longrightarrow> chan_known (tr @ evs) ch"
  by (cases ch) simp_all

lemma chans_known_append [simp]: "list_all (chan_known tr) chs \<Longrightarrow> list_all (chan_known (tr @ evs)) chs"
  by (auto simp: list_all_iff intro: chan_known_append)

text \<open>Interactions that start, signal and announce nothing.\<close>

definition plain :: "event \<Rightarrow> bool" where
  "plain ev = ((\<forall>x args p. ev \<noteq> EvStart x args (Some p)) \<and> (\<forall>p s x. ev \<noteq> EvKill p s x) \<and> ev \<noteq> EvServe)"

lemma plain_simps [simp]:
  "plain (EvRun y args x)" "plain (EvStart y args None)" "plain (EvStat f b)" "plain (EvRead f b)" "plain (EvOpenAppend f b)"
  "plain (EvWrite f s b)" "plain (EvSleep d)" "plain (EvGet u d r)" "plain (EvOpenDB n b)" "plain EvCloseDB" "plain (EvExec q x)"
  "plain (EvQuery q x)" "plain (EvQueryRow q x)" "plain (EvPoll ch b)" "plain (EvRecv ch)" "plain (EvSelect ch)" "plain (EvListen a b)"
  by (simp_all add: plain_def)

lemma plain_sql [simp]: "sql_event ev \<Longrightarrow> plain ev"
  by (cases ev) (simp_all add: sql_event_def plain_def)

lemma pids_plain [simp]:
  "\<forall>ev \<in> set evs. plain ev \<Longrightarrow> started_pids evs = []" "\<forall>ev \<in> set evs. plain ev \<Longrightarrow> signalled_pids evs = []"
  by (induction evs; auto simp: plain_def)+

lemma table_plain:
  assumes "trace w' = trace w @ evs" and "\<forall>ev \<in> set evs. plain ev" and "quiet e w w'" and "serving w' = serving w"
  shows "table c e w w'"
proof -
  have "EvServe \<notin> set evs" using assms(2) by (auto simp: plain_def)
  then show ?thesis using assms unfolding table_def process_table_def quiet_def by simp
qed

lemma table_emit [table_intros]: "plain ev \<Longrightarrow> stable (table c) (emit ev)"
  unfolding stable_def wp_emit by (auto simp: record_event_def quiet_def intro!: table_plain [where evs = "[ev]"])

lemma table_modify [table_intros]:
  assumes "\<And>w. trace (f w) = trace w" and "\<And>w. starter_mysqlCmd (f w) = starter_mysqlCmd w" and "\<And>w. chans (f w) = chans w"
    and "\<And>w. next_pid (f w) = next_pid w" and "\<And>w. serving (f w) = serving w"
  shows "stable (table c) (modify f)"
  unfolding stable_def wp_modify using assms by (auto simp: quiet_def intro!: table_plain [where evs = "[]"])

lemma table_quiet:
  assumes "stable quiet m" and "emits plain m" and "stable journal m"
  shows "stable (table c) m"
  unfolding stable_def
proof (intro allI wpI)
  fix e w r w'
  assume run: "m e w = Some (r, w')"
  obtain evs where evs: "trace w' = trace w @ evs" "\<forall>ev \<in> set evs. plain ev" using emitsD [OF assms(2) run] .
  have "serving w' = (serving w \<or> EvServe \<in> set evs)"
    using stableD [OF assms(3) run] evs(1) unfolding journal_def by auto
  then have "serving w' = serving w" using evs(2) by (auto simp: plain_def)
  then show "table c e w w'" using table_plain [OF evs stableD [OF assms(1) run]] by blast
qed

lemma table_log [table_intros]:
  "stable (table c) (log_at l s)" "stable (table c) (log_info s)" "stable (table c) (log_debug s)"
  "stable (table c) (log_error s x)" "stable (table c) (log_fatal s x)"
  by (intro table_quiet quiet_intros emits_intros journal_intros)+

section \<open>The operating system's operations\<close>

lemma table_files [table_intros]:
  "stable (table c) (os_Stat f)" "stable (table c) (FileExists f)" "stable (table c) (ioutil_ReadFile f)" "stable (table c) (ReadFile f)"
  "stable (table c) (ioutil_WriteFile f s)" "stable (table c) (WriteStringToFile f s)" "stable (table c) (RunCommand x args)"
  "stable (table c) (Sleep d)" "stable (table c) nil_deref" "stable (table c) (chan_peek ch)"
  by (intro table_quiet quiet_intros emits_intros journal_intros; simp)+

lemma table_chan_take [table_intros]: "stable (table c) (chan_take ch)"
proof -
  have "list_all P (xs[i := ChDrained])" if "list_all P xs" "P ChDrained" for P i and xs :: "chan_state list"
    using that by (auto simp: list_all_iff dest!: set_update_subset_insert [THEN subsetD])
  then show ?thesis
    unfolding chan_take_def stable_def
    by (auto simp: wp_rules table_def process_table_def split: option.splits)
qed

lemma table_chan [table_intros]:
  "stable (table c) (chan_poll ch)" "stable (table c) (chan_recv ch)" "stable (table c) (chan_select ch)"
  by (unfold chan_poll_def chan_recv_def chan_select_def, (intro table_intros; simp)+)

lemma table_open_append [table_intros]: "stable (table c) (open_append f)"
  unfolding open_append_def by (intro table_intros; simp)+

lemma table_cmd_Start [table_intros]: "stable (table c) (cmd_Start x)"
  unfolding cmd_Start_def stable_def table_def process_table_def
  by (auto simp: wp_rules record_event_def less_Suc_eq split: option.splits)

lemma table_StartCommand [table_intros]: "stable (table c) (StartCommand l x args)"
  unfolding StartCommand_def by (intro table_intros; simp)+

text \<open>Only with a command that is known may one be waited for, signalled or remembered.\<close>

lemma table_WaitForCommand [table_intros]: "stable (table c) (WaitForCommand c)"
  unfolding WaitForCommand_def stable_def table_def process_table_def
  by (auto simp: wp_rules nil_deref_def known_def split: option.splits)

lemma table_KillCommand [table_intros]: "stable (table c) (KillCommand c s)"
  unfolding KillCommand_def stable_def table_def process_table_def
  by (auto simp: wp_rules known_def record_event_def split: option.splits)

lemma StartCommand_known: "StartCommand l x args e w = Some (Ret (c, err), w') \<Longrightarrow> known c (trace w')"
  by (auto simp: go_defs record_event_def known_def split: option.splits if_splits)

text \<open>A command that a step hands over as known is known to what follows.\<close>

lemma table_hand_over:
  assumes "stable (table None) m" and "\<And>e w a w'. m e w = Some (Ret a, w') \<Longrightarrow> process_table w' \<Longrightarrow> known (f a) (trace w')"
    and "\<And>a. stable (table (f a)) (k a)"
  shows "stable (table None) (bind_go m k)"
  unfolding stable_def
proof (intro allI wpI)
  fix e w r w'
  assume run: "bind_go m k e w = Some (r, w')"
  obtain q w1 where q: "m e w = Some (q, w1)" using run by (auto simp: bind_go_def split: option.splits)
  have one: "process_table w \<Longrightarrow> process_table w1" using stableD [OF assms(1) q] by (simp add: table_def known_def)
  show "table None e w w'"
  proof (cases q)
    case (Ret a)
    then have "k a e w1 = Some (r, w')" using run q by (simp add: bind_go_def)
    then have "table (f a) e w1 w'" using stableD [OF assms(3)] by blast
    then show ?thesis using one assms(2) q Ret by (auto simp: table_def known_def)
  qed (use run q one in \<open>auto simp: bind_go_def table_def known_def\<close>)
qed


section \<open>The components\<close>

lemma table_db_helper [table_intros]:
  "stable (table c) (Seed m)" "stable (table c) (SeedUsers m)" "stable (table c) (RunPostStartSQL m)" "stable (table c) (IsDatabaseReachable m)"
  "stable (table c) (IsProcessRunning m)" "stable (table c) (StopMysqld m)" "stable (table c) (dbh_Upgrade m)"
  by (intro table_quiet quiet_intros emits_intros journal_intros; simp)+

lemma table_starts [table_intros]:
  "stable (table c) (StartMysqldForUpgrade m)" "stable (table c) (StartMysqldInJoin m)" "stable (table c) (StartMysqldInBootstrap m)"
  by (unfold StartMysqldForUpgrade_def StartMysqldInJoin_def StartMysqldInBootstrap_def startMysqldAsChildProcess_def,
      (intro table_intros; simp)+)

lemma starts_known:
  "StartMysqldForUpgrade m e w = Some (Ret a, w') \<Longrightarrow> known (fst a) (trace w')"
  "StartMysqldInJoin m e w = Some (Ret a, w') \<Longrightarrow> known (fst a) (trace w')"
  "StartMysqldInBootstrap m e w = Some (Ret a, w') \<Longrightarrow> known (fst a) (trace w')"
  unfolding StartMysqldForUpgrade_def StartMysqldInJoin_def StartMysqldInBootstrap_def startMysqldAsChildProcess_def andthen_def
  by (auto simp: bind_eq_Some ret_def log_info_def log_at_def modify_def known_def [of None] split: option.splits prod.splits
      dest!: StartCommand_known)

lemma table_wait_tries [table_intros]: "stable (table c) (wait_tries u n)"
  by (induction n) (auto intro!: table_intros)

lemma table_NeedsUpgrade [table_intros]: "stable (table c) (NeedsUpgrade u)"
  unfolding NeedsUpgrade_def by (intro table_intros; simp)+

lemma table_Upgrade [table_intros]: "stable (table None) (Upgrade u)"
  unfolding Upgrade_def waitUntilMySQLReachable_def stopStandaloneDatabaseSynchronously_def upgrade_result_def
  by (rule tb.stable_andthen, rule table_intros, rule table_hand_over [where f = fst], rule table_intros, erule starts_known)
    ((intro table_intros; simp add: split_beta)+)

lemma table_HealthyCluster [table_intros]: "stable (table c) (HealthyCluster h)"
proof -
  have "stable (table c) (probe_ips h ips)" for ips
    by (induction ips) (auto simp: MakeRequest_def intro!: table_intros)
  then show ?thesis unfolding HealthyCluster_def by (intro table_intros)
qed

lemma table_set_mysqlCmd [table_intros]: "stable (table c) (set_mysqlCmd c)"
  unfolding set_mysqlCmd_def stable_def by (auto simp: wp_rules table_def process_table_def)

lemma table_watch:
  fixes t :: string
  defines "watch \<equiv> \<lambda>(cmd, err). case err of Some x \<Rightarrow> ret (None, Some x) | None \<Rightarrow>
     andthen (set_mysqlCmd cmd) (andthen (log_info t) (bind_go (WaitForCommand cmd) (\<lambda>ch. ret (Some ch, None :: go_error option))))"
  shows "stable (table None) (bind_go (StartMysqldInBootstrap m) watch)" "stable (table None) (bind_go (StartMysqldInJoin m) watch)"
proof -
  have w: "stable (table (fst a)) (watch a)" for a
    unfolding watch_def split_beta by (intro table_intros)
  show "stable (table None) (bind_go (StartMysqldInBootstrap m) watch)"
    by (rule table_hand_over [OF table_starts(3) _ w]) (rule starts_known)
  show "stable (table None) (bind_go (StartMysqldInJoin m) watch)"
    by (rule table_hand_over [OF table_starts(2) _ w]) (rule starts_known)
qed

lemma table_update_grastate: "stable (table c) (update_grastate s)"
  unfolding update_grastate_def by (intro table_intros)

lemma table_node_start [table_intros]: "stable (table None) (bootstrapNode s)" "stable (table None) (joinCluster s)"
  unfolding bootstrapNode_def joinCluster_def
  by (intro tb.stable_andthen table_log tb.stable_bind [OF table_update_grastate] stable_case_option tb.stable_ret table_watch)+

lemma table_wait [table_intros]: "stable (table c) (waitForDatabaseToAcceptConnections s ch)"
proof -
  have "stable (table c) (poll_database s ch n)" for n
    unfolding poll_database_def by (intro table_intros; simp)+
  then have "stable (table c) (poll_loop s ch 0)" by (intro stable_poll_loop) unfold_locales
  then show ?thesis unfolding waitForDatabaseToAcceptConnections_def by (intro table_intros)
qed

lemma table_seeding [table_intros]:
  "stable (table c) (seedDatabases s)" "stable (table c) (seedUsers s)" "stable (table c) (runPostStartSQL s)"
  by (unfold seedDatabases_def seedUsers_def runPostStartSQL_def, (intro table_intros)+)

lemma table_StartNodeFromState [table_intros]: "stable (table None) (StartNodeFromState s state)"
  unfolding StartNodeFromState_def start_switch_def by (intro table_intros)

text \<open>The starter hands its own command to the termination signal.\<close>

lemma table_await [table_intros]: "stable (table None) (await_mysqld ch)"
proof -
  have own: "stable (table None) (bind_go GetMysqlCmd k)" if "\<And>cmd. stable (table cmd) (k cmd)" for k :: "cmd option \<Rightarrow> go_error option go"
    by (rule table_hand_over [where f = id]) (auto simp: GetMysqlCmd_def ask_def process_table_def that intro!: table_intros [unfolded ask_def])
  have server: "stable (table c) server_goroutine" for c
    unfolding server_goroutine_def by (intro table_intros)
  show ?thesis
    unfolding await_mysqld_def
    by (intro tb.stable_bind [OF table_chan(3)] stable_case_option tb.stable_andthen table_log tb.stable_ret server own)
      (intro table_intros server)
qed

lemma table_serve [table_intros]: "stable (table c) (ServiceStatus_Start s)"
  unfolding ServiceStatus_Start_def stable_def by (auto simp: wp_rules record_event_def table_def process_table_def)

lemma table_Execute [table_intros]: "stable (table None) (Execute m)"
  unfolding Execute_def bootstrap_procedure_def getCurrentNodeState_def firstTimeDeploy_def readStateFromFile_def writeStringToFile_def
    Shutdown_def
  by (intro table_intros)

lemma table_main: "stable (table None) (main st order osArgs)"
proof -
  have "stable (table None) (NewConfig st osArgs)"
    unfolding NewConfig_def service_config_Read_def ConfigBytes_def read_config_file_def newLogger_def
    by (auto intro!: table_intros split: list.splits flag_result.splits sum.splits)
  moreover have "stable (table None) (managerSetup cfg)" for cfg
    unfolding managerSetup_def net_Listen_def by (intro table_intros; simp)+
  moreover have "stable (table None) (exit_with err :: unit go)" for err
    unfolding exit_with_def by (auto intro!: table_intros split: go_error.splits)
  ultimately show ?thesis unfolding main_def by (intro table_intros)
qed

end
