(* ===== verification/Restarts.thy ===== *)
theory Restarts
  imports Start_Manager
begin

text \<open>
  One node over any number of runs of the start manager: a step relation on the worlds between the runs, with the invariant
  that a node without a mandate to bootstrap never gets one.
\<close>

section \<open>A node over many runs\<close>

text \<open>
  What is left when the process ends and is started again: the files, the numbering of processes and the history.
\<close>

definition reboot :: "world \<Rightarrow> world" where
  "reboot w = w\<lparr>logs := [], chans := [], open_rows := 0, serving := False, starter_mysqlCmd := None\<rparr>"

text \<open>
  A node is run again and again, each time in an environment of its own that leaves the state file to the program and in
  which writing it does not fail; between the runs anything may happen to the other files.
\<close>

inductive restart :: "startManager \<Rightarrow> world \<Rightarrow> world \<Rightarrow> bool" for m :: startManager where
  restart_run: "steady e (state_file m) \<Longrightarrow> Execute m e (reboot w) = Some (r, w') \<Longrightarrow>
    \<forall>c. EvWrite (state_file m) c False \<notin> set (new_events w w') \<Longrightarrow> restart m w w'"
| restart_between: "fs (state_file m) = files w (state_file m) \<Longrightarrow> restart m w (w\<lparr>files := fs\<rparr>)"

inductive_cases restartE: "restart m w w'"

text \<open>A node without a mandate: recorded as clustered, or not yet recorded and not chosen to bootstrap.\<close>

definition no_mandate :: "startManager \<Rightarrow> world \<Rightarrow> bool" where
  "no_mandate m w = (files w (state_file m) = Some Clustered \<or>
     files w (state_file m) = None \<and> \<not> BootstrapNode (sm_config m))"

definition first_boot :: "startManager \<Rightarrow> world \<Rightarrow> bool" where
  "first_boot m w = (trace w = [] \<and> no_mandate m w)"

definition restart_inv :: "startManager \<Rightarrow> world \<Rightarrow> bool" where
  "restart_inv m w = (separate m \<and> length (ClusterIps (sm_config m)) > 1 \<longrightarrow>
     no_mandate m w \<and> (\<forall>ev \<in> set (trace w). \<not> bootstrap_start ev))"

lemma reboot_simps [simp]:
  "trace (reboot w) = trace w" "files (reboot w) = files w" "serving (reboot w) = False" "new_events (reboot w) w' = new_events w w'"
  by (simp_all add: reboot_def new_events_def)

lemma no_mandate_decision:
  assumes "no_mandate m w" and "length (ClusterIps (sm_config m)) > 1"
  shows "boot_decision (length (ClusterIps (sm_config m))) (BootstrapNode (sm_config m)) (files w (state_file m)) \<notin> {SingleNode, NeedsBootstrap}"
proof -
  have "Clustered \<notin> {SingleNode, NeedsBootstrap}" by (simp add: Clustered_def SingleNode_def NeedsBootstrap_def)
  then show ?thesis using assms by (auto simp: no_mandate_def boot_decision_def)
qed

lemma run_keeps_restart_inv:
  assumes "steady e (state_file m)" and "Execute m e (reboot w) = Some (r, w')"
    and "\<forall>c. EvWrite (state_file m) c False \<notin> set (new_events w w')" and "restart_inv m w"
  shows "restart_inv m w'"
  unfolding restart_inv_def
proof (intro impI)
  assume m: "separate m \<and> length (ClusterIps (sm_config m)) > 1"
  then have inv: "no_mandate m w" "\<forall>ev \<in> set (trace w). \<not> bootstrap_start ev" using assms(4) by (simp_all add: restart_inv_def)
  have un: "undisturbed e (state_file m)" using assms(1) by (rule steady_undisturbed)
  have "boot_decision (length (ClusterIps (sm_config m))) (BootstrapNode (sm_config m)) (files (reboot w) (state_file m)) \<notin> {SingleNode, NeedsBootstrap}"
    using no_mandate_decision [OF inv(1)] m by simp
  then have new: "\<forall>ev \<in> set (new_events w w'). \<not> bootstrap_start ev"
    using Execute_no_bootstrap [OF _ assms(1,2)] m by simp
  have kept: "files w' (state_file m) = Some Clustered \<or> files w' (state_file m) = files w (state_file m)"
  proof (cases "serving w'")
    case True
    then show ?thesis using served_state_file [OF un assms(2) _ True] m by (auto simp: new_state_def)
  next
    case False
    then show ?thesis using failed_keeps_state [OF _ un assms(2) False] m assms(3) by simp
  qed
  have "stable journal (Execute m)" by (intro journal_intros)
  from journal_grows [OF this assms(2)] obtain evs where "trace w' = trace w @ evs" by auto
  then have "\<forall>ev \<in> set (trace w'). \<not> bootstrap_start ev" using inv(2) new by auto
  then show "no_mandate m w' \<and> (\<forall>ev \<in> set (trace w'). \<not> bootstrap_start ev)"
    using kept inv(1) by (auto simp: no_mandate_def)
qed

interpretation rs: invariant_system "first_boot m" "restart m" "restart_inv m" for m
proof unfold_locales
  show "first_boot m w \<Longrightarrow> restart_inv m w" for w by (simp add: first_boot_def restart_inv_def)
  show "restart m w w' \<Longrightarrow> restart_inv m w'" if "restart_inv m w" for w w'
    using that by (elim restartE) (erule (3) run_keeps_restart_inv, simp add: restart_inv_def no_mandate_def)
qed

end
