(* ===== verification/Deployment.thy ===== *)
theory Deployment
  imports Restarts Main_Program
begin

text \<open>
  Several nodes together. Each node of a deployment is started, announced, ended and started again, in any interleaving with the
  others, several of them starting at the same time; a node that is up answers the probes of the others. The runs of the start manager are taken in two parts, since
  \<^verbatim>\<open>Execute\<close> only comes back when its mysqld has ended: \<open>launch\<close> is everything up to the announcement, and the wait for
  mysqld is the rest. The theory shows that a cluster is only ever formed by the node chosen for it, and never beside a node that was
  up all the time it started.
\<close>

section \<open>What a launch does\<close>

lemma journal_launch [journal_intros]: "stable journal (start_node m st)" "stable journal (launch m)"
  by (unfold launch_def start_node_def, (intro journal_intros; simp)+)

text \<open>With a steady state file a launch stops in the preparation, or goes on with the state the decision gives.\<close>

lemma launch_steady:
  assumes "separate m" and "steady e (state_file m)" and "launch m e w = Some (r, w')"
  obtains (stopped) q where "preparation m e w = Some (q, w')" "\<forall>ch. r \<noteq> Ret (Inr ch)"
  | (started) w2 evs where "trace w2 = trace w @ evs" "\<forall>ev \<in> set evs. \<not> bootstrap_start ev"
      "start_node m (boot_decision (length (ClusterIps (sm_config m))) (BootstrapNode (sm_config m))
         (files w (state_file m))) e w2 = Some (r, w')"
      "files w2 (state_file m) = files w (state_file m)"
proof -
  obtain q w1 where p: "preparation m e w = Some (q, w1)"
    using assms(3) by (auto simp: launch_def bind_eq_Some)
  show thesis
  proof (cases "q = Ret None")
    case True
    let ?w = "w1\<lparr>logs := logs w1 @ [(INFO, ''determining-bootstrap-procedure'')]\<rparr>"
    have keep: "files w1 (state_file m) = files w (state_file m)" by (rule preparation_keeps_state [OF assms(1,2) p])
    obtain w2 where g: "getCurrentNodeState m e ?w = Some (Ret (boot_decision (length (ClusterIps (sm_config m)))
        (BootstrapNode (sm_config m)) (files ?w (state_file m)), None), w2)" "same_files e ?w w2"
      using getCurrentNodeState_refines [OF assms(2), of ?w] by blast
    obtain xs where xs: "trace w1 = trace w @ xs" "\<forall>ev \<in> set xs. prep_event m ev"
      using emitsD [OF emits_preparation p] .
    have "emits (\<lambda>ev. \<not> bootstrap_start ev) (getCurrentNodeState m)"
      by (intro emits_intros; simp add: bootstrap_start_def)
    from emitsD [OF this g(1)] obtain ys where "trace w2 = trace w1 @ ys" "\<forall>ev \<in> set ys. \<not> bootstrap_start ev"
      by auto
    moreover from this have "\<forall>ev \<in> set (xs @ ys). \<not> bootstrap_start ev" using xs(2) prep_event_start(1) by auto
    ultimately show thesis
      using started [of w2 "xs @ ys"] xs(1) p True g keep assms(2,3)
      by (auto simp: launch_def go_basic_defs log_info_def log_at_def same_files_def steady_def undisturbed_def)
  next
    case False
    then consider x where "q = Ret (Some x)" | pa where "q = Panic pa" | n where "q = OsExit n"
      by (metis option.exhaust outcome.exhaust)
    then have "w1 = w' \<and> (\<forall>ch. r \<noteq> Ret (Inr ch))"
      using p assms(3) by cases (auto simp: launch_def bind_go_def ret_def)
    then show thesis using stopped p by blast
  qed
qed

lemma launch_no_bootstrap:
  assumes "separate m" and "steady e (state_file m)" and "launch m e w = Some (r, w')"
    and "boot_decision (length (ClusterIps (sm_config m))) (BootstrapNode (sm_config m)) (files w (state_file m)) \<notin> {SingleNode, NeedsBootstrap}"
  shows "\<forall>ev \<in> set (new_events w w'). \<not> bootstrap_start ev"
  using assms(1-3)
proof (cases rule: launch_steady)
  case (stopped q)
  then show ?thesis using emitsD [OF emits_preparation stopped(1)] prep_event_start(1) by (metis new_events_append)
next
  case (started w2 evs)
  obtain vs where "trace w' = trace w2 @ vs" "\<forall>ev \<in> set vs. \<not> bootstrap_start ev"
    using emitsD [OF start_node_no_bootstrap started(3)] assms(4) by blast
  then show ?thesis using started(1,2) by auto
qed

text \<open>What becomes of the state file.\<close>

lemma start_node_state_file:
  assumes "separate m" and "undisturbed e (state_file m)" and "start_node m st e w = Some (r, w')"
    and "\<forall>c. EvWrite (state_file m) c False \<notin> set (new_events w w')"
  shows "files w' (state_file m) = (if \<exists>ch. r = Ret (Inr ch) then Some (new_state st) else files w (state_file m))"
proof -
  have keep: "files v (state_file m) = files w (state_file m)" if "StartNodeFromState (sm_startCaller m) st e w = Some (q, v)" for q v
    by (rule journal_file [OF journal_start(2) StartNodeFromState_spares [OF assms(1)] assms(2) that])
  consider (bad) q where "StartNodeFromState (sm_startCaller m) st e w = Some (q, w')" "\<forall>ch. r \<noteq> Ret (Inr ch)"
    | (ok) ns ch w1 where "StartNodeFromState (sm_startCaller m) st e w = Some (Ret (ns, ch, None), w1)"
    using assms(3) unfolding start_node_def bind_eq_Some by (fastforce simp: ret_def split: option.splits)
  then show ?thesis
  proof cases
    case ok
    obtain q w2 where q: "writeStringToFile m ns e w1 = Some (Ret q, w2)"
      "trace w2 = trace w1 @ [EvWrite (state_file m) ns (q = None)]"
      "q = None \<longrightarrow> files w2 = interfere e (trace w2) ((files w1)(state_file m \<mapsto> ns))"
      using writeStringToFile_run by blast
    have ns: "ns = new_state st" using StartNodeFromState_ok ok by blast
    show ?thesis
    proof (cases q)
      case None
      then show ?thesis
        using assms(2,3) ok q ns by (auto simp: start_node_def go_basic_defs log_info_def log_at_def ServiceStatus_Start_def
            record_event_def undisturbed_def)
    next
      case (Some x)
      then have "w' = w2" using assms(3) ok q(1) by (simp add: start_node_def bind_Some ret_def)
      moreover obtain xs where "trace w1 = trace w @ xs" using journal_grows [OF journal_start(2) ok] by blast
      ultimately show ?thesis using q(2) Some assms(4) by auto
    qed
  qed (use keep in auto)
qed

lemma launch_state_file:
  assumes "separate m" and "steady e (state_file m)" and "launch m e w = Some (r, w')"
    and "\<forall>c. EvWrite (state_file m) c False \<notin> set (new_events w w')" and "length (ClusterIps (sm_config m)) > 1"
  shows "files w' (state_file m) = (if \<exists>ch. r = Ret (Inr ch) then Some Clustered else files w (state_file m))"
  using assms(1-3)
proof (cases rule: launch_steady)
  case (stopped q)
  then show ?thesis using preparation_keeps_state [OF assms(1,2)] by auto
next
  case (started w2 evs)
  let ?st = "boot_decision (length (ClusterIps (sm_config m))) (BootstrapNode (sm_config m)) (files w (state_file m))"
  obtain xs where "trace w' = trace w2 @ xs" using journal_grows [OF journal_launch(1) started(3)] by blast
  then have "\<forall>c. EvWrite (state_file m) c False \<notin> set (new_events w2 w')" using assms(4) started(1) by auto
  from start_node_state_file [OF assms(1) steady_undisturbed [OF assms(2)] started(3) this] started(4)
  have "files w' (state_file m) = (if \<exists>ch. r = Ret (Inr ch) then Some (new_state ?st) else files w (state_file m))" by simp
  moreover have "?st \<noteq> SingleNode"
    using assms(5) by (auto simp: boot_decision_def SingleNode_def NeedsBootstrap_def Clustered_def split: option.splits)
  ultimately show ?thesis by (simp add: new_state_def)
qed

section \<open>A deployment\<close>

text \<open>
  The worlds of the nodes, numbered by their place in the list of addresses; the nodes that are up, each with the environment
  and the channel of its wait for mysqld; the nodes that are starting, each with the nodes that have been up ever since it began;
  and, for the record, who formed a cluster and which nodes had been up all the time.
\<close>

record deployment =
  dp_world :: "nat \<Rightarrow> world"
  dp_up :: "nat \<rightharpoonup> env \<times> nat option"
  dp_starting :: "nat \<rightharpoonup> nat set"
  dp_formed :: "(nat \<times> nat set) list"

abbreviation node :: "(nat \<Rightarrow> Config) \<Rightarrow> nat \<Rightarrow> startManager" where
  "node cfg i \<equiv> wired_manager (cfg i)"

text \<open>
  Node \<open>i\<close> has run on to the world \<open>w'\<close> while the nodes \<open>seen\<close> were up; if it started mysqld in bootstrap mode on the way, it
  has formed a cluster. A node that is no longer up has not been up all the time of any start.
\<close>

definition advance :: "nat \<Rightarrow> nat set \<Rightarrow> world \<Rightarrow> deployment \<Rightarrow> deployment" where
  "advance i seen w' d = d
     \<lparr>dp_world := (dp_world d)(i := w'),
      dp_formed := dp_formed d @
        (if \<exists>ev \<in> set (new_events (dp_world d i) w'). bootstrap_start ev then [(i, seen)] else [])\<rparr>"

definition down :: "nat \<Rightarrow> deployment \<Rightarrow> deployment" where
  "down i d = d\<lparr>dp_up := (dp_up d)(i := None), dp_starting := (\<lambda>k. map_option (\<lambda>seen. seen - {i}) (dp_starting d k))\<rparr>"

text \<open>
  A node that is neither up nor starting begins to start; when it is through, it has run in an environment that leaves the state
  file to the program and in which writing it does not fail, and a probe of a node that was up all the time found it healthy.
  In between any of the other steps may happen. A node that is up may see its mysqld end, or be lost at any moment. Anything
  may happen to the other files of a node.
\<close>

inductive deploy :: "(nat \<Rightarrow> Config) \<Rightarrow> string list \<Rightarrow> deployment \<Rightarrow> deployment \<Rightarrow> bool"
  for cfg :: "nat \<Rightarrow> Config" and ips :: "string list" where
  dp_begin: "i < length ips \<Longrightarrow> dp_up d i = None \<Longrightarrow> dp_starting d i = None \<Longrightarrow>
    deploy cfg ips d (d\<lparr>dp_starting := (dp_starting d)(i \<mapsto> dom (dp_up d))\<rparr>)"
| dp_launch: "dp_starting d i = Some seen \<Longrightarrow> steady e (state_file (node cfg i)) \<Longrightarrow>
    launch (node cfg i) e (reboot (dp_world d i)) = Some (r, w') \<Longrightarrow>
    \<forall>c. EvWrite (state_file (node cfg i)) c False \<notin> set (new_events (dp_world d i) w') \<Longrightarrow>
    \<forall>j \<in> seen. \<forall>t st. EvGet (probe_url (ips ! j)) t st \<in> set (new_events (dp_world d i) w') \<longrightarrow> st = Some 200 \<Longrightarrow>
    up' = (case r of Ret (Inr ch) \<Rightarrow> (dp_up d)(i \<mapsto> (e, ch)) | _ \<Rightarrow> dp_up d) \<Longrightarrow>
    deploy cfg ips d ((advance i seen w' d)\<lparr>dp_up := up', dp_starting := (dp_starting d)(i := None)\<rparr>)"
| dp_end: "dp_up d i = Some (e, ch) \<Longrightarrow> await_mysqld ch e (dp_world d i) = Some (r, w') \<Longrightarrow>
    deploy cfg ips d (down i (advance i (dom (dp_up d) - {i}) w' d))"
| dp_lost: "deploy cfg ips d (down i d)"
| dp_between: "fs (state_file (node cfg i)) = files (dp_world d i) (state_file (node cfg i)) \<Longrightarrow>
    deploy cfg ips d (d\<lparr>dp_world := (dp_world d)(i := (dp_world d i)\<lparr>files := fs\<rparr>)\<rparr>)"

text \<open>A new deployment: nothing is up, and no node has a state file.\<close>

definition new_deployment :: "(nat \<Rightarrow> Config) \<Rightarrow> deployment \<Rightarrow> bool" where
  "new_deployment cfg d \<longleftrightarrow>
     dp_up d = Map.empty \<and> dp_starting d = Map.empty \<and> dp_formed d = [] \<and> (\<forall>i. files (dp_world d i) (state_file (node cfg i)) = None)"

text \<open>The nodes agree on the addresses, and at most the chosen one is told to bootstrap.\<close>

definition agreed :: "(nat \<Rightarrow> Config) \<Rightarrow> string list \<Rightarrow> nat \<Rightarrow> bool" where
  "agreed cfg ips chosen \<longleftrightarrow> length ips > 1 \<and>
     (\<forall>i. separate (node cfg i) \<and> ClusterIps (Manager (cfg i)) = ips \<and> (BootstrapNode (Manager (cfg i)) \<longrightarrow> i = chosen))"

definition deploy_inv :: "(nat \<Rightarrow> Config) \<Rightarrow> string list \<Rightarrow> nat \<Rightarrow> deployment \<Rightarrow> bool" where
  "deploy_inv cfg ips chosen d \<longleftrightarrow> agreed cfg ips chosen \<longrightarrow>
     (\<forall>i e ch. dp_up d i = Some (e, ch) \<longrightarrow> i < length ips \<and> steady e (state_file (node cfg i))) \<and>
     (\<forall>i seen. dp_starting d i = Some seen \<longrightarrow> i < length ips \<and> seen \<subseteq> {..<length ips}) \<and>
     (\<forall>i. files (dp_world d i) (state_file (node cfg i)) \<in> {None, Some Clustered}) \<and>
     set (dp_formed d) \<subseteq> {(chosen, {})}"

text \<open>A launch that forms a cluster was made by the chosen node, with no other node up.\<close>

lemma launch_forms:
  assumes "agreed cfg ips chosen" and "steady e (state_file (node cfg i))" and "up \<subseteq> {..<length ips}"
    and "launch (node cfg i) e (reboot w) = Some (r, w')"
    and "\<forall>j \<in> up. \<forall>t st. EvGet (probe_url (ips ! j)) t st \<in> set (new_events w w') \<longrightarrow> st = Some 200"
    and "files w (state_file (node cfg i)) \<in> {None, Some Clustered}"
    and "ev \<in> set (new_events w w')" and "bootstrap_start ev"
  shows "i = chosen \<and> up = {}"
proof
  have agree: "separate (node cfg i)" "ClusterIps (Manager (cfg i)) = ips" "length ips > 1"
    "BootstrapNode (Manager (cfg i)) \<longrightarrow> i = chosen" using assms(1) by (simp_all add: agreed_def)
  show "i = chosen"
  proof (rule ccontr)
    assume "i \<noteq> chosen"
    then have "no_mandate (node cfg i) (reboot w)" using assms(6) agree(4) by (auto simp: no_mandate_def)
    then have "boot_decision (length (ClusterIps (sm_config (node cfg i)))) (BootstrapNode (sm_config (node cfg i)))
        (files (reboot w) (state_file (node cfg i))) \<notin> {SingleNode, NeedsBootstrap}"
      using agree(2,3) by (intro no_mandate_decision) simp_all
    from launch_no_bootstrap [OF agree(1) assms(2,4) this] assms(7,8) show False by auto
  qed
  show "up = {}"
  proof (rule ccontr)
    let ?h = "st_healthChecker (sm_startCaller (node cfg i))"
    assume "up \<noteq> {}"
    then obtain j where j: "j \<in> up" "j < length ips" using assms(3) by blast
    have ord: "stable (preceded bootstrap_start (found_down ?h ` set ips)) (launch (node cfg i))"
      using launch_order [of "node cfg i"] agree by simp
    obtain evs where evs: "trace w' = trace w @ evs" using journal_grows [OF journal_launch(2) assms(4)] by auto
    then obtain xs ys where split: "evs = xs @ ev # ys" using assms(7) split_list [of ev evs] by auto
    then have "trace w' = trace (reboot w) @ xs @ ev # ys" using evs by simp
    from precededD [OF stableD [OF ord assms(4)] this assms(8)]
    have "\<exists>x \<in> set xs. found_down ?h (ips ! j) x" by (rule bspec) (rule imageI, rule nth_mem, rule j(2))
    then obtain st t where "EvGet (probe_url (ips ! j)) t st \<in> set xs" "st \<noteq> Some 200"
      unfolding found_down_iff by blast
    then show False using assms(5) j(1) split evs by auto
  qed
qed

lemma advance_simps [simp]:
  "dp_world (advance i seen w' d) = (dp_world d)(i := w')" "dp_up (advance i seen w' d) = dp_up d"
  "dp_starting (advance i seen w' d) = dp_starting d"
  by (simp_all add: advance_def)

lemma advance_formed:
  "set (dp_formed (advance i seen w' d)) \<subseteq> F \<longleftrightarrow> set (dp_formed d) \<subseteq> F \<and>
     ((\<exists>ev \<in> set (new_events (dp_world d i) w'). bootstrap_start ev) \<longrightarrow> (i, seen) \<in> F)"
  by (auto simp: advance_def)

lemma deploy_invD:
  assumes "deploy_inv cfg ips chosen d" and "agreed cfg ips chosen"
  shows "dp_up d i = Some (e, ch) \<Longrightarrow> i < length ips \<and> steady e (state_file (node cfg i))"
    and "dp_starting d i = Some seen \<Longrightarrow> i < length ips \<and> seen \<subseteq> {..<length ips}"
    and "files (dp_world d i) (state_file (node cfg i)) \<in> {None, Some Clustered}"
    and "set (dp_formed d) \<subseteq> {(chosen, {})}"
  using assms by (auto simp: deploy_inv_def)

lemma deploy_inv_begin:
  assumes "deploy_inv cfg ips chosen d" and "i < length ips"
  shows "deploy_inv cfg ips chosen (d\<lparr>dp_starting := (dp_starting d)(i \<mapsto> dom (dp_up d))\<rparr>)"
  using assms unfolding deploy_inv_def by auto

lemma deploy_inv_down: "deploy_inv cfg ips chosen d \<Longrightarrow> deploy_inv cfg ips chosen (down i d)"
  unfolding deploy_inv_def down_def by auto (meson lessThan_iff subsetD)

lemma deploy_inv_launch:
  assumes "deploy_inv cfg ips chosen d" and "dp_starting d i = Some seen" and "steady e (state_file (node cfg i))"
    and "launch (node cfg i) e (reboot (dp_world d i)) = Some (r, w')"
    and "\<forall>c. EvWrite (state_file (node cfg i)) c False \<notin> set (new_events (dp_world d i) w')"
    and "\<forall>j \<in> seen. \<forall>t st. EvGet (probe_url (ips ! j)) t st \<in> set (new_events (dp_world d i) w') \<longrightarrow> st = Some 200"
    and "up' = (case r of Ret (Inr ch) \<Rightarrow> (dp_up d)(i \<mapsto> (e, ch)) | _ \<Rightarrow> dp_up d)"
  shows "deploy_inv cfg ips chosen ((advance i seen w' d)\<lparr>dp_up := up', dp_starting := (dp_starting d)(i := None)\<rparr>)"
  unfolding deploy_inv_def
proof (intro impI conjI)
  let ?d = "(advance i seen w' d)\<lparr>dp_up := up', dp_starting := (dp_starting d)(i := None)\<rparr>"
  assume agreed: "agreed cfg ips chosen"
  note inv = deploy_invD [OF assms(1) agreed]
  have up: "up' = dp_up d \<or> (\<exists>ch. up' = (dp_up d)(i \<mapsto> (e, ch)))"
    using assms(7) by (auto split: outcome.splits sum.splits)
  show "\<forall>j e' ch. dp_up ?d j = Some (e', ch) \<longrightarrow> j < length ips \<and> steady e' (state_file (node cfg j))"
    using up inv(1) inv(2) [OF assms(2)] assms(3) by (auto split: if_splits)
  show "\<forall>j seen. dp_starting ?d j = Some seen \<longrightarrow> j < length ips \<and> seen \<subseteq> {..<length ips}"
    using inv(2) by simp
  have m: "separate (node cfg i)" "length (ClusterIps (sm_config (node cfg i))) > 1"
    using agreed by (simp_all add: agreed_def)
  have "files w' (state_file (node cfg i)) \<in> {None, Some Clustered}"
    using launch_state_file [OF m(1) assms(3,4) _ m(2)] assms(5) inv(3) [of i] by simp
  then show "\<forall>j. files (dp_world ?d j) (state_file (node cfg j)) \<in> {None, Some Clustered}"
    using inv(3) by simp
  have "i = chosen \<and> seen = {}" if "ev \<in> set (new_events (dp_world d i) w')" "bootstrap_start ev" for ev
    using launch_forms [OF agreed assms(3) conjunct2 [OF inv(2) [OF assms(2)]] assms(4,6) inv(3) that] .
  then show "set (dp_formed ?d) \<subseteq> {(chosen, {})}"
    using inv(4) advance_formed [of i seen w' d "{(chosen, {})}"] by auto
qed

lemma deploy_inv_end:
  assumes "deploy_inv cfg ips chosen d" and "dp_up d i = Some (e, ch)" and "await_mysqld ch e (dp_world d i) = Some (r, w')"
  shows "deploy_inv cfg ips chosen (advance i seen w' d)"
  unfolding deploy_inv_def
proof (intro impI conjI)
  let ?d = "advance i seen w' d"
  assume agreed: "agreed cfg ips chosen"
  note inv = deploy_invD [OF assms(1) agreed]
  show "\<forall>j e' ch. dp_up ?d j = Some (e', ch) \<longrightarrow> j < length ips \<and> steady e' (state_file (node cfg j))"
    and "\<forall>j seen. dp_starting ?d j = Some seen \<longrightarrow> j < length ips \<and> seen \<subseteq> {..<length ips}"
    using inv(1,2) by simp_all
  have "undisturbed e (state_file (node cfg i))" using inv(1) [OF assms(2)] by (blast intro: steady_undisturbed)
  then have "files w' (state_file (node cfg i)) = files (dp_world d i) (state_file (node cfg i))"
    by (rule journal_file [OF journal_manager(4) await_spares(1) _ assms(3)])
  then show "\<forall>j. files (dp_world ?d j) (state_file (node cfg j)) \<in> {None, Some Clustered}"
    using inv(3) by (simp del: insert_iff)
  have "emits (\<lambda>ev. \<not> bootstrap_start ev) (await_mysqld ch)" by (intro emits_intros) (simp_all add: bootstrap_start_def)
  from emitsD [OF this assms(3)] have "\<forall>ev \<in> set (new_events (dp_world d i) w'). \<not> bootstrap_start ev"
    by (metis new_events_append)
  then show "set (dp_formed ?d) \<subseteq> {(chosen, {})}"
    using inv(4) advance_formed [of i seen w' d "{(chosen, {})}"] by simp
qed

interpretation dp: invariant_system "new_deployment cfg" "deploy cfg ips" "deploy_inv cfg ips chosen" for cfg ips chosen
proof unfold_locales
  show "new_deployment cfg d \<Longrightarrow> deploy_inv cfg ips chosen d" for d
    by (simp add: new_deployment_def deploy_inv_def)
  show "deploy_inv cfg ips chosen d'" if inv: "deploy_inv cfg ips chosen d" and "deploy cfg ips d d'" for d d'
    using that(2)
  proof cases
    case (dp_begin i)
    then show ?thesis using deploy_inv_begin [OF inv] by simp
  next
    case (dp_launch i seen e r w' up')
    show ?thesis unfolding dp_launch(1) by (rule deploy_inv_launch [OF inv dp_launch(2-7)])
  next
    case (dp_end i e ch r w')
    show ?thesis unfolding dp_end(1) by (rule deploy_inv_down [OF deploy_inv_end [OF inv dp_end(2,3)]])
  next
    case (dp_lost i)
    then show ?thesis using deploy_inv_down [OF inv] by simp
  qed (use inv in \<open>auto simp: deploy_inv_def split: if_splits\<close>)
qed


text \<open>Two nodes: the first one forms the cluster, the second one joins it.\<close>

definition two_nodes :: "nat \<Rightarrow> Config" where
  "two_nodes i = example_config\<lparr>Manager := (Manager example_config)\<lparr>BootstrapNode := (i = 0)\<rparr>\<rparr>"

lemma two_nodes_facts [simp]:
  "LogFileLocation (two_nodes i) = ''/log''" "Db (two_nodes i) = example_db"
  "StateFileLocation (Manager (two_nodes i)) = ''/state''" "GrastateFileLocation (Manager (two_nodes i)) = ''/grastate''"
  "ClusterIps (Manager (two_nodes i)) = [''10.0.0.1'', ''10.0.0.2'']" "BootstrapNode (Manager (two_nodes i)) \<longleftrightarrow> i = 0"
  "ClusterProbeTimeout (Manager (two_nodes i)) = 10" "UpgraderCfg (two_nodes i) = UpgraderCfg example_config"
  by (simp_all add: two_nodes_def)

lemma two_nodes_agree: "agreed two_nodes [''10.0.0.1'', ''10.0.0.2''] 0"
  by (simp add: agreed_def separate_def)

lemma first_node_launch:
  "\<exists>ch w'. launch (node two_nodes 0) calm_env (reboot blank_world) = Some (Ret (Inr ch), w') \<and>
     (\<exists>ev \<in> set (new_events blank_world w'). bootstrap_start ev) \<and> (\<forall>c. EvWrite ''/state'' c False \<notin> set (new_events blank_world w'))"
  by (simp add: run_rules launch_def preparation_def start_node_def reboot_def blank_world_def new_events_def bootstrap_start_def
      cong: run_cong)

lemma second_node_launch:
  "\<exists>ch w'. launch (node two_nodes 1) calm_env (reboot blank_world) = Some (Ret (Inr ch), w') \<and>
     (\<forall>ev \<in> set (new_events blank_world w'). \<not> bootstrap_start ev \<and> (\<forall>url t st. ev \<noteq> EvGet url t st)) \<and>
     (\<forall>c. EvWrite ''/state'' c False \<notin> set (new_events blank_world w'))"
  by (simp add: run_rules launch_def preparation_def start_node_def reboot_def blank_world_def new_events_def bootstrap_start_def
      cong: run_cong)


end
