(* ===== verification/Container_Helpers.thy ===== *)
theory Container_Helpers
  imports Sql_Db
begin

text \<open>
  \<^verbatim>\<open>integration_test/test_helpers/docker.go\<close>: the containers the integration tests run the program
  in. The Docker client (\<^verbatim>\<open>github.com/fsouza/go-dockerclient\<close>) and the daemon behind it are a
  parameter, the record \<open>docker_client\<close> of answers to each request; the helpers are modelled with
  the requests they make, in order, and each of their error returns.
\<close>

section \<open>Docker's types\<close>

text \<open>
  The options of a container, flattened: \<^verbatim>\<open>Config\<close> and \<^verbatim>\<open>HostConfig\<close> are always allocated by
  \<^verbatim>\<open>RunContainer\<close>, \<^verbatim>\<open>NetworkingConfig\<close> may be missing. Exposed ports are the keys of a map.
\<close>

record CreateContainerOptions =
  co_Name :: string
  co_ExposedPorts :: "string set"
  co_Env :: "string list"
  co_Cmd :: "string list"
  co_Entrypoint :: "string list"
  co_Image :: string
  co_PublishAllPorts :: bool
  co_Binds :: "string list"
  co_EndpointsConfig :: "(string \<rightharpoonup> string) option"

record container =
  c_ID :: string
  c_NetworkSettings :: "(string \<rightharpoonup> string list) option"

record network =
  n_ID :: string
  n_Name :: string

record ExecResult =
  ExitCode :: int
  Stdout :: string
  Stderr :: string

datatype docker_request =
    ReqCreateNetwork string
  | ReqRemoveNetwork string
  | ReqPullImage string
  | ReqCreateContainer CreateContainerOptions
  | ReqStartContainer string
  | ReqInspectContainer string
  | ReqRemoveContainer string
  | ReqDownload string string
  | ReqCreateExec string "string list"
  | ReqStartExec string
  | ReqInspectExec string

text \<open>The daemon: its answer to each request, given the requests before it. A missing container is an error of its own.\<close>

datatype docker_error = NoSuchContainer string | DockerError string

record docker_client =
  dk_CreateNetwork :: "docker_request list \<Rightarrow> string \<Rightarrow> docker_error + network"
  dk_RemoveNetwork :: "docker_request list \<Rightarrow> string \<Rightarrow> docker_error option"
  dk_PullImage :: "docker_request list \<Rightarrow> string \<Rightarrow> docker_error option"
  dk_CreateContainer :: "docker_request list \<Rightarrow> CreateContainerOptions \<Rightarrow> docker_error + container"
  dk_StartContainer :: "docker_request list \<Rightarrow> string \<Rightarrow> docker_error option"
  dk_InspectContainer :: "docker_request list \<Rightarrow> string \<Rightarrow> docker_error + container"
  dk_RemoveContainer :: "docker_request list \<Rightarrow> string \<Rightarrow> docker_error option"
  dk_Download :: "docker_request list \<Rightarrow> string \<Rightarrow> string \<Rightarrow> docker_error + string"
  dk_CreateExec :: "docker_request list \<Rightarrow> string \<Rightarrow> string list \<Rightarrow> docker_error + string"
  dk_StartExec :: "docker_request list \<Rightarrow> string \<Rightarrow> docker_error + (string \<times> string)"
  dk_InspectExec :: "docker_request list \<Rightarrow> string \<Rightarrow> docker_error + int"

text \<open>A helper takes the daemon and the requests so far, and returns its result and the requests after it.\<close>

type_synonym 'a docker = "docker_client \<Rightarrow> docker_request list \<Rightarrow> 'a \<times> docker_request list"

definition ask_docker :: "(docker_client \<Rightarrow> docker_request list \<Rightarrow> 'a) \<Rightarrow> docker_request \<Rightarrow> 'a docker" where
  "ask_docker f req = (\<lambda>dc h. (f dc h, h @ [req]))"

definition bind_docker :: "'a docker \<Rightarrow> ('a \<Rightarrow> 'b docker) \<Rightarrow> 'b docker" where
  "bind_docker m k = (\<lambda>dc h. case m dc h of (a, h') \<Rightarrow> k a dc h')"

definition ret_docker :: "'a \<Rightarrow> 'a docker" where
  "ret_docker a = (\<lambda>dc h. (a, h))"

lemmas docker_defs = ask_docker_def bind_docker_def ret_docker_def

section \<open>The options of a container\<close>

type_synonym ContainerOption = "CreateContainerOptions \<Rightarrow> CreateContainerOptions"

definition AddBinds :: "string list \<Rightarrow> ContainerOption" where
  "AddBinds binds = (\<lambda>opts. opts\<lparr>co_Binds := co_Binds opts @ binds\<rparr>)"

definition AddEnvVars :: "string list \<Rightarrow> ContainerOption" where
  "AddEnvVars envVars = (\<lambda>opts. opts\<lparr>co_Env := co_Env opts @ envVars\<rparr>)"

definition AddExposedPorts :: "string list \<Rightarrow> ContainerOption" where
  "AddExposedPorts ports = (\<lambda>opts. fold (\<lambda>port acc. acc\<lparr>co_ExposedPorts := insert port (co_ExposedPorts acc)\<rparr>) ports opts)"

definition WithCmd :: "string list \<Rightarrow> ContainerOption" where
  "WithCmd cmd = (\<lambda>opts. opts\<lparr>co_Cmd := cmd\<rparr>)"

definition WithEntrypoint :: "string \<Rightarrow> ContainerOption" where
  "WithEntrypoint cmd = (\<lambda>opts. opts\<lparr>co_Entrypoint := [cmd]\<rparr>)"

definition WithImage :: "string \<Rightarrow> ContainerOption" where
  "WithImage imageID = (\<lambda>opts. opts\<lparr>co_Image := imageID\<rparr>)"

definition WithNetwork :: "network \<Rightarrow> ContainerOption" where
  "WithNetwork network = (\<lambda>opts. opts\<lparr>co_EndpointsConfig := Some [n_Name network \<mapsto> n_ID network]\<rparr>)"

section \<open>Containers\<close>

definition base_options :: "string \<Rightarrow> CreateContainerOptions" where
  "base_options containerName =
     \<lparr>co_Name = containerName, co_ExposedPorts = {}, co_Env = [], co_Cmd = [], co_Entrypoint = [],
      co_Image = '''', co_PublishAllPorts = True, co_Binds = [], co_EndpointsConfig = None\<rparr>"

definition RunContainer ::
  "string \<Rightarrow> ContainerOption list \<Rightarrow> (container option \<times> docker_error option) docker" where
  "RunContainer containerName options =
     (let createContainerOptions = fold (\<lambda>opt opts. opt opts) options (base_options containerName) in
      bind_docker (ask_docker (\<lambda>dc h. dk_CreateContainer dc h createContainerOptions)
        (ReqCreateContainer createContainerOptions)) (\<lambda>created.
      case created of
        Inl err \<Rightarrow> ret_docker (None, Some err)
      | Inr container \<Rightarrow>
      bind_docker (ask_docker (\<lambda>dc h. dk_StartContainer dc h (c_ID container))
        (ReqStartContainer (c_ID container))) (\<lambda>err.
      case err of
        Some x \<Rightarrow> ret_docker (Some container, Some x)
      | None \<Rightarrow>
      bind_docker (ask_docker (\<lambda>dc h. dk_InspectContainer dc h (c_ID container))
        (ReqInspectContainer (c_ID container))) (\<lambda>inspected.
      case inspected of
        Inl err \<Rightarrow> ret_docker (Some container, Some err)
      | Inr inspectedContainer \<Rightarrow> ret_docker (Some inspectedContainer, None)))))"

definition RemoveContainer :: "container \<Rightarrow> docker_error option docker" where
  "RemoveContainer container =
     bind_docker (ask_docker (\<lambda>dc h. dk_RemoveContainer dc h (c_ID container))
       (ReqRemoveContainer (c_ID container))) (\<lambda>err.
     case err of
       Some (NoSuchContainer _) \<Rightarrow> ret_docker None
     | _ \<Rightarrow> ret_docker err)"

definition CreateNetwork :: "string \<Rightarrow> (docker_error + network) docker" where
  "CreateNetwork name = ask_docker (\<lambda>dc h. dk_CreateNetwork dc h name) (ReqCreateNetwork name)"

definition RemoveNetwork :: "network \<Rightarrow> docker_error option docker" where
  "RemoveNetwork network = ask_docker (\<lambda>dc h. dk_RemoveNetwork dc h (n_ID network)) (ReqRemoveNetwork (n_ID network))"

definition PullImage :: "string \<Rightarrow> docker_error option docker" where
  "PullImage repository = ask_docker (\<lambda>dc h. dk_PullImage dc h repository) (ReqPullImage repository)"

section \<open>Commands in a container\<close>

definition RunExec :: "string \<Rightarrow> (docker_error + ExecResult) docker" where
  "RunExec execID =
     bind_docker (ask_docker (\<lambda>dc h. dk_StartExec dc h execID) (ReqStartExec execID)) (\<lambda>started.
     case started of
       Inl err \<Rightarrow> ret_docker (Inl err)
     | Inr (stdout, stderr) \<Rightarrow>
         bind_docker (ask_docker (\<lambda>dc h. dk_InspectExec dc h execID) (ReqInspectExec execID)) (\<lambda>inspected.
         case inspected of
           Inl err \<Rightarrow> ret_docker (Inl err)
         | Inr exitCode \<Rightarrow> ret_docker (Inr \<lparr>ExitCode = exitCode, Stdout = stdout, Stderr = stderr\<rparr>)))"

definition HardKillMySQL :: "container \<Rightarrow> (docker_error + ExecResult) docker" where
  "HardKillMySQL container =
     bind_docker (ask_docker (\<lambda>dc h. dk_CreateExec dc h (c_ID container) [''bash'', ''-c'', ''pkill --signal 9 mysqld''])
       (ReqCreateExec (c_ID container) [''bash'', ''-c'', ''pkill --signal 9 mysqld''])) (\<lambda>created.
     case created of
       Inl err \<Rightarrow> ret_docker (Inl err)
     | Inr execID \<Rightarrow> RunExec execID)"

definition strings_Trim_nul :: "string \<Rightarrow> string" where
  "strings_Trim_nul s = rev (dropWhile (\<lambda>c. c = CHR 0x00) (rev (dropWhile (\<lambda>c. c = CHR 0x00) s)))"

definition FetchContainerFileContents :: "container \<Rightarrow> string \<Rightarrow> (docker_error + string) docker" where
  "FetchContainerFileContents container filePath =
     bind_docker (ask_docker (\<lambda>dc h. dk_Download dc h (c_ID container) filePath)
       (ReqDownload (c_ID container) filePath)) (\<lambda>downloaded.
     case downloaded of
       Inl err \<Rightarrow> ret_docker (Inl err)
     | Inr logContents \<Rightarrow> ret_docker (Inr (strings_TrimSpace (strings_Trim_nul logContents))))"

section \<open>The database of a container\<close>

text \<open>The published port: the source indexes without checking, which panics where nothing is published.\<close>

definition HostPort :: "string \<Rightarrow> container \<Rightarrow> string outcome" where
  "HostPort containerPort container =
     (case c_NetworkSettings container of
        None \<Rightarrow> Panic (Some (ErrorString ''runtime error: invalid memory address or nil pointer dereference''))
      | Some ports \<Rightarrow>
          (case ports containerPort of
             Some (hostPort # _) \<Rightarrow> Ret hostPort
           | _ \<Rightarrow> Panic (Some (ErrorString ''runtime error: index out of range [0] with length 0''))))"

definition container_uri :: "string \<Rightarrow> string" where
  "container_uri hostPort = sprintf ''root@tcp(localhost:%s)/'' [AStr hostPort]"

definition ContainerDBConnection :: "container \<Rightarrow> string \<Rightarrow> (go_error + dsn) outcome" where
  "ContainerDBConnection container port =
     (case HostPort port container of
        Ret hostPort \<Rightarrow> Ret (ParseDSN (container_uri hostPort))
      | Panic p \<Rightarrow> Panic p
      | OsExit n \<Rightarrow> OsExit n)"

section \<open>What the options come to\<close>

text \<open>
  A reference for the options: each option as data, and the settings a list of them asks for, field by field.
\<close>

datatype setting = Bind "string list" | Env "string list" | Expose "string list" | Cmd "string list"
  | Entrypoint string | Image string | Net network

fun option_of :: "setting \<Rightarrow> ContainerOption" where
  "option_of (Bind bs) = AddBinds bs"
| "option_of (Env vs) = AddEnvVars vs"
| "option_of (Expose ps) = AddExposedPorts ps"
| "option_of (Cmd c) = WithCmd c"
| "option_of (Entrypoint c) = WithEntrypoint c"
| "option_of (Image i) = WithImage i"
| "option_of (Net n) = WithNetwork n"

definition gathered :: "(setting \<Rightarrow> 'a list) \<Rightarrow> setting list \<Rightarrow> 'a list" where
  "gathered f ss = concat (map f ss)"

definition latest :: "(setting \<Rightarrow> 'a option) \<Rightarrow> 'a \<Rightarrow> setting list \<Rightarrow> 'a" where
  "latest f d ss = last (d # List.map_filter f ss)"

definition requested :: "string \<Rightarrow> setting list \<Rightarrow> CreateContainerOptions" where
  "requested name ss =
     \<lparr>co_Name = name,
      co_ExposedPorts = set (gathered (\<lambda>s. case s of Expose ps \<Rightarrow> ps | _ \<Rightarrow> []) ss),
      co_Env = gathered (\<lambda>s. case s of Env vs \<Rightarrow> vs | _ \<Rightarrow> []) ss,
      co_Cmd = latest (\<lambda>s. case s of Cmd c \<Rightarrow> Some c | _ \<Rightarrow> None) [] ss,
      co_Entrypoint = latest (\<lambda>s. case s of Entrypoint c \<Rightarrow> Some [c] | _ \<Rightarrow> None) [] ss,
      co_Image = latest (\<lambda>s. case s of Image i \<Rightarrow> Some i | _ \<Rightarrow> None) '''' ss,
      co_PublishAllPorts = True,
      co_Binds = gathered (\<lambda>s. case s of Bind bs \<Rightarrow> bs | _ \<Rightarrow> []) ss,
      co_EndpointsConfig = latest (\<lambda>s. case s of Net n \<Rightarrow> Some (Some [n_Name n \<mapsto> n_ID n]) | _ \<Rightarrow> None) None ss\<rparr>"

lemma gathered_snoc [simp]: "gathered f [] = []" "gathered f (ss @ [s]) = gathered f ss @ f s"
  by (simp_all add: gathered_def)

lemma latest_snoc [simp]:
  "latest f d [] = d" "latest f d (ss @ [s]) = (case f s of None \<Rightarrow> latest f d ss | Some x \<Rightarrow> x)"
  by (auto simp: latest_def List.map_filter_def split: option.splits)

lemma AddExposedPorts_set: "AddExposedPorts ps o1 = o1\<lparr>co_ExposedPorts := set ps \<union> co_ExposedPorts o1\<rparr>"
  unfolding AddExposedPorts_def by (induction ps arbitrary: o1) simp_all

lemma options_requested: "fold (\<lambda>opt opts. opt opts) (map option_of ss) (base_options name) = requested name ss"
proof (induction ss rule: rev_induct)
  case Nil
  then show ?case by (simp add: base_options_def requested_def)
next
  case (snoc s ss)
  then show ?case
    by (cases s) (simp_all add: requested_def AddBinds_def AddEnvVars_def AddExposedPorts_set WithCmd_def WithEntrypoint_def
        WithImage_def WithNetwork_def Un_commute)
qed


lemma ParseDSN_container_uri:
  assumes "CHR '':'' \<notin> set port" and "CHR ''@'' \<notin> set port" and "CHR ''['' \<notin> set port" and "CHR '']'' \<notin> set port"
  shows "ParseDSN (container_uri port) = Inr \<lparr>dsn_User = ''root'', dsn_Passwd = '''', dsn_Net = ''tcp'',
     dsn_Addr = ''localhost:'' @ port, dsn_DBName = '''', dsn_query = None\<rparr>"
proof -
  have "cut_last (CHR ''/'') ((''root@tcp(localhost:'' @ port @ '')'') @ CHR ''/'' # []) = Some (''root@tcp(localhost:'' @ port @ '')'', [])"
    by (rule cut_last_Some) simp
  moreover have "cut_last (CHR ''@'') (''root'' @ CHR ''@'' # ''tcp(localhost:'' @ port @ '')'') = Some (''root'', ''tcp(localhost:'' @ port @ '')'')"
    by (rule cut_last_Some) (use assms in simp)
  moreover have "cut_last (CHR '':'') (''localhost'' @ CHR '':'' # port) = Some (''localhost'', port)"
    by (rule cut_last_Some) (use assms in simp)
  ultimately show ?thesis
    using assms by (simp add: ParseDSN_def container_uri_def parse_credentials_def parse_address_def normalize_def ensureHavePort_def
        has_host_port_def butlast_append)
qed

text \<open>Opening the database of a container gives the driver the user root without a password at the port the local host
  publishes for it, the first one if there are several; asking for a port that is not published panics.\<close>

lemma container_database_address:
  assumes "c_NetworkSettings container = Some ports"
    and "\<forall>p ps. ports port = Some (p # ps) \<longrightarrow> (\<forall>ch \<in> set p. ch \<in> set ''0123456789'')"
  shows "case ports port of
       Some (p # ps) \<Rightarrow> ContainerDBConnection container port = Ret (Inr \<lparr>dsn_User = ''root'', dsn_Passwd = '''', dsn_Net = ''tcp'',
          dsn_Addr = ''localhost:'' @ p, dsn_DBName = '''', dsn_query = None\<rparr>)
     | _ \<Rightarrow> \<exists>err. ContainerDBConnection container port = Panic err"
proof (cases "ports port")
  case (Some l)
  show ?thesis
  proof (cases l)
    case (Cons p ps)
    then have "\<forall>ch \<in> set p. ch \<in> set ''0123456789''" using assms(2) Some by blast
    then have "CHR '':'' \<notin> set p \<and> CHR ''@'' \<notin> set p \<and> CHR ''['' \<notin> set p \<and> CHR '']'' \<notin> set p"
      by (intro conjI notI) (drule (1) bspec, simp)+
    then show ?thesis
      using ParseDSN_container_uri [of p] Some Cons assms(1) by (simp add: ContainerDBConnection_def HostPort_def)
  qed (use Some assms(1) in \<open>simp add: ContainerDBConnection_def HostPort_def\<close>)
qed (use assms(1) in \<open>simp add: ContainerDBConnection_def HostPort_def\<close>)

lemma container_database_address_witness:
  "ContainerDBConnection \<lparr>c_ID = ''c1'', c_NetworkSettings = Some [''3306/tcp'' \<mapsto> [''32768'', ''32769'']]\<rparr> ''3306/tcp'' =
     Ret (Inr \<lparr>dsn_User = ''root'', dsn_Passwd = '''', dsn_Net = ''tcp'', dsn_Addr = ''localhost:32768'', dsn_DBName = '''', dsn_query = None\<rparr>)"
  using container_database_address [of "\<lparr>c_ID = ''c1'', c_NetworkSettings = Some [''3306/tcp'' \<mapsto> [''32768'', ''32769'']]\<rparr>"
    "[''3306/tcp'' \<mapsto> [''32768'', ''32769'']]" "''3306/tcp''"] by simp

end
