(* ===== verification/Test_Double.thy ===== *)
theory Test_Double
  imports Go_Runtime
begin

text \<open>
  The shape of the repository's generated test doubles (\<^verbatim>\<open>*fakes/fake_*.go\<close>). For every method
  of an interface a double keeps an optional stub, the arguments of the calls so far and, for a
  method with results, a fixed answer and answers for single calls; it also keeps a log of all
  its invocations by method name. This theory holds what the doubles share: the fields of one
  method as a record, the steps their generated bodies are made of, and three contracts with the
  facts a test relies on, which the theories of the single doubles interpret for each method.

  A stub is a Go closure. It runs on a state of the test's own and may return, panic or never
  come back; a method of the program, at a given environment, is such a closure on the world.
  All changes a call makes to the double happen in one critical section, before the stub runs
  (\<open>Double_Locks\<close> has the mutexes), so that a list of calls is any order in which concurrent
  callers got hold of the mutex. A
  stub that calls back into its own double is not in the model.
\<close>

section \<open>The fields of one method\<close>

type_synonym ('r, 's) closure = "'s \<Rightarrow> ('r outcome \<times> 's) option"

definition answer :: "'r \<Rightarrow> ('r, 's) closure" where
  "answer r = (\<lambda>s. Some (Ret r, s))"

record ('a, 'r, 's) spied =
  Stub :: "('a \<Rightarrow> ('r, 's) closure) option"
  ArgsForCall :: "'a list"

record ('a, 'r, 's) double = "('a, 'r, 's) spied" +
  Returns :: 'r
  ReturnsOnCall :: "int \<rightharpoonup> 'r"

definition new_spied :: "('a, 'r, 's) spied" where
  "new_spied = \<lparr>Stub = None, ArgsForCall = []\<rparr>"

definition new_double :: "'r \<Rightarrow> ('a, 'r, 's) double" where
  "new_double zero = \<lparr>Stub = None, ArgsForCall = [], Returns = zero, ReturnsOnCall = Map.empty\<rparr>"

text \<open>
  The steps of the generated bodies: the lookup of the answer for the call about to be
  recorded, the append, the choice of the answer, and the panic of a slice index.
\<close>

definition callCount :: "('a, 'r, 's, 'z) spied_scheme \<Rightarrow> int" where
  "callCount d = int (length (ArgsForCall d))"

definition specificReturn :: "('a, 'r, 's, 'z) double_scheme \<Rightarrow> 'r option" where
  "specificReturn d = ReturnsOnCall d (callCount d)"

definition appendArgs ::
  "'a \<Rightarrow> ('a, 'r, 's, 'z) spied_scheme \<Rightarrow> ('a, 'r, 's, 'z) spied_scheme" where
  "appendArgs a d = d\<lparr>ArgsForCall := ArgsForCall d @ [a]\<rparr>"

definition answerWith ::
  "'a \<Rightarrow> 'r option \<Rightarrow> ('a, 'r, 's, 'z) double_scheme \<Rightarrow> ('r, 's) closure" where
  "answerWith a specific d =
     (case Stub d of
        Some stub \<Rightarrow> stub a
      | None \<Rightarrow> (case specific of Some r \<Rightarrow> answer r | None \<Rightarrow> answer (Returns d)))"

definition runStub :: "'a \<Rightarrow> ('a, unit, 's, 'z) spied_scheme \<Rightarrow> (unit, 's) closure" where
  "runStub a d = (case Stub d of Some stub \<Rightarrow> stub a | None \<Rightarrow> answer ())"

definition indexArgs :: "int \<Rightarrow> 'a list \<Rightarrow> 'a outcome" where
  "indexArgs i xs =
     (if 0 \<le> i \<and> i < int (length xs) then Ret (xs ! nat i)
      else Panic (Some (ErrorString (''runtime error: index out of range ['' @ itoa i @ '']'' @
        (if i < 0 then '''' else '' with length '' @ itoa (int (length xs)))))))"

named_theorems double_simps \<open>the steps and the methods of the test doubles, unfolded\<close>

declare new_spied_def [double_simps] new_double_def [double_simps] callCount_def [double_simps]
  specificReturn_def [double_simps] appendArgs_def [double_simps] answerWith_def [double_simps]
  runStub_def [double_simps] Let_def [double_simps] split_beta [double_simps]

text \<open>Boxed arguments, the values of the \<^verbatim>\<open>[]interface{}\<close> of the log of invocations.\<close>

datatype boxed =
    BString string
  | BStrings "string list"
  | BCmd "cmd option"
  | BSignal int
  | BDuration duration
  | BContext nat

type_synonym invocations = "string \<rightharpoonup> boxed list list"

text \<open>The type of a boxed value, and a log whose entries are calls with arguments of the types a signature gives.\<close>

datatype box_type = TString | TStrings | TCmd | TSignal | TDuration | TContext

fun type_of_box :: "boxed \<Rightarrow> box_type" where
  "type_of_box (BString s) = TString"
| "type_of_box (BStrings ss) = TStrings"
| "type_of_box (BCmd c) = TCmd"
| "type_of_box (BSignal n) = TSignal"
| "type_of_box (BDuration d) = TDuration"
| "type_of_box (BContext c) = TContext"

definition well_typed :: "(string \<rightharpoonup> box_type list) \<Rightarrow> invocations \<Rightarrow> bool" where
  "well_typed sig m \<longleftrightarrow>
     (\<forall>k calls. m k = Some calls \<longrightarrow> (\<exists>ts. sig k = Some ts \<and> (\<forall>args \<in> set calls. map type_of_box args = ts)))"

text \<open>\<^verbatim>\<open>recordInvocation\<close>: a missing entry is an empty slice before the append.\<close>

definition logged :: "string \<Rightarrow> boxed list \<Rightarrow> invocations \<Rightarrow> invocations" where
  "logged key args m =
     (let old = (case m key of None \<Rightarrow> [] | Some calls \<Rightarrow> calls) in m(key \<mapsto> old @ [args]))"

section \<open>Sequences of calls\<close>

text \<open>
  A list of calls made one after the other, and the answers it got. A call that panics ends the
  sequence, and so does one that never comes back.
\<close>

fun call_all ::
  "('c \<Rightarrow> 'f \<Rightarrow> ('r, 's) closure \<times> 'f) \<Rightarrow> 'c list \<Rightarrow> 'f \<Rightarrow> 's \<Rightarrow>
   ('r list outcome \<times> 'f \<times> 's) option" where
  "call_all call [] f s = Some (Ret [], f, s)"
| "call_all call (c # cs) f s =
     (let (reply, f') = call c f in
      case reply s of
        None \<Rightarrow> None
      | Some (Panic p, s') \<Rightarrow> Some (Panic p, f', s')
      | Some (OsExit n, s') \<Rightarrow> Some (OsExit n, f', s')
      | Some (Ret r, s') \<Rightarrow>
          (case call_all call cs f' s' of
             None \<Rightarrow> None
           | Some (Ret rs, f'', s'') \<Rightarrow> Some (Ret (r # rs), f'', s'')
           | Some (Panic p, f'', s'') \<Rightarrow> Some (Panic p, f'', s'')
           | Some (OsExit n, f'', s'') \<Rightarrow> Some (OsExit n, f'', s'')))"

text \<open>What a call does to the double does not depend on the answers, so it can be told apart.\<close>

fun after_calls :: "('c \<Rightarrow> 'f \<Rightarrow> 'x \<times> 'f) \<Rightarrow> 'c list \<Rightarrow> 'f \<Rightarrow> 'f" where
  "after_calls call [] f = f"
| "after_calls call (c # cs) f = after_calls call cs (snd (call c f))"

lemma after_calls_append:
  "after_calls call (cs @ ds) f = after_calls call ds (after_calls call cs f)"
  by (induction cs arbitrary: f) simp_all

text \<open>Every call made is recorded: all of them if the sequence returns, else a first part.\<close>

lemma call_all_after:
  assumes "call_all call cs f s = Some (r, f', s')"
  shows "\<exists>n \<le> length cs. f' = after_calls call (take n cs) f \<and>
           ((\<exists>rs. r = Ret rs) \<longrightarrow> n = length cs)"
  using assms
proof (induction cs arbitrary: f s r f' s')
  case (Cons c cs)
  obtain reply g where g: "call c f = (reply, g)" by fastforce
  show ?case
  proof (cases "reply s")
    case (Some p)
    obtain o1 s1 where p: "p = (o1, s1)" by fastforce
    show ?thesis
    proof (cases o1)
      case (Ret x)
      then obtain r2 where r2: "call_all call cs g s1 = Some (r2, f', s')"
        "(\<exists>rs. r = Ret rs) \<longrightarrow> (\<exists>rs. r2 = Ret rs)"
        using Cons.prems g Some p by (auto split: option.splits outcome.splits)
      obtain n where "n \<le> length cs" "f' = after_calls call (take n cs) g"
        "(\<exists>rs. r2 = Ret rs) \<longrightarrow> n = length cs"
        using Cons.IH [OF r2(1)] by blast
      with g r2(2) show ?thesis by (intro exI [of _ "Suc n"]) auto
    qed (use Cons.prems g Some p in \<open>auto intro!: exI [of _ "Suc 0"]\<close>)
  qed (use Cons.prems g in simp)
qed simp

text \<open>The same sequence on an implementation of the interface that is no double.\<close>

fun in_order :: "('c \<Rightarrow> ('r, 's) closure) \<Rightarrow> 'c list \<Rightarrow> ('r list, 's) closure" where
  "in_order real [] s = Some (Ret [], s)"
| "in_order real (c # cs) s =
     (case real c s of
        None \<Rightarrow> None
      | Some (Panic p, s') \<Rightarrow> Some (Panic p, s')
      | Some (OsExit n, s') \<Rightarrow> Some (OsExit n, s')
      | Some (Ret r, s') \<Rightarrow> map_option (map_prod (map_outcome (Cons r)) id) (in_order real cs s'))"

text \<open>
  The values a method of an interface answers with, so that the calls of one interface have one
  type; \<open>through\<close> puts an answer into it.
\<close>

datatype reply =
    ReplyUnit unit
  | ReplyBool bool
  | ReplyError "go_error option"
  | ReplyCmd "cmd option"
  | ReplyChan "nat option"
  | ReplyBoolError "bool \<times> go_error option"
  | ReplyStringError "string \<times> go_error option"
  | ReplyCmdError "cmd option \<times> go_error option"
  | ReplyStart "string \<times> nat option \<times> go_error option"

definition through :: "('r \<Rightarrow> 'q) \<Rightarrow> ('r, 's) closure \<Rightarrow> ('q, 's) closure" where
  "through f m = (\<lambda>s. map_option (map_prod (map_outcome f) id) (m s))"

section \<open>Contracts\<close>

text \<open>
  What every method of a double promises: it records the calls it got, and a stub, once set,
  answers them.
\<close>

locale spying =
  fixes call :: "'a \<Rightarrow> 'f \<Rightarrow> ('r, 's) closure \<times> 'f"
    and callCount :: "'f \<Rightarrow> int"
    and calls :: "('a \<Rightarrow> ('r, 's) closure) option \<Rightarrow> 'f \<Rightarrow> 'f"
    and args :: "'f \<Rightarrow> 'a list"
    and stub :: "'f \<Rightarrow> ('a \<Rightarrow> ('r, 's) closure) option"
  assumes count: "callCount f = int (length (args f))"
    and call_args: "args (snd (call a f)) = args f @ [a]"
    and call_stub: "stub (snd (call a f)) = stub f"
    and calls_args: "args (calls st f) = args f"
    and calls_stub: "stub (calls st f) = st"
    and stub_answers: "stub f = Some g \<Longrightarrow> fst (call a f) = g a"
begin

lemma args_after: "args (after_calls call xs f) = args f @ xs"
  by (induction xs arbitrary: f) (simp_all add: call_args)

lemma stub_after: "stub (after_calls call xs f) = stub f"
  by (induction xs arbitrary: f) (simp_all add: call_stub)

lemma count_after: "callCount (after_calls call xs f) = callCount f + int (length xs)"
  by (simp add: count args_after)

lemma call_once: "stub f = Some g \<Longrightarrow> call a f = (g a, snd (call a f))"
  by (rule prod_eqI) (simp_all add: stub_answers)

end

text \<open>A method with arguments hands out the arguments of each recorded call.\<close>

locale inspecting = spying +
  fixes argsForCall :: "int \<Rightarrow> 'b \<Rightarrow> 'a outcome"
  assumes argsForCall: "argsForCall i f = indexArgs i (args f)"
begin

lemma inspect_after:
  assumes "args f = []"
  shows "argsForCall i (after_calls call xs f) = indexArgs i xs"
  using assms by (simp add: argsForCall args_after)

lemma inspect_new:
  assumes "0 \<le> i" and "i < callCount f"
  shows "\<exists>a. argsForCall i f = Ret a \<and> argsForCall i (snd (call b f)) = Ret a"
  using assms by (simp add: argsForCall call_args count indexArgs_def nth_append nat_less_iff)

end

text \<open>
  A method with results answers without a stub: from the answers for single calls by the number
  of calls before, or else with the fixed answer. Setting an answer removes the stub.
\<close>

locale canned = spying +
  fixes rets :: "'c \<Rightarrow> 'b \<Rightarrow> 'b"
    and retsOnCall :: "int \<Rightarrow> 'c \<Rightarrow> 'b \<Rightarrow> 'b"
    and fixed :: "'b \<Rightarrow> 'c"
    and script :: "'b \<Rightarrow> int \<rightharpoonup> 'c"
  assumes canned_answers:
      "stub f = None \<Longrightarrow>
       fst (call a f) = answer (case script f (callCount f) of Some r \<Rightarrow> r | None \<Rightarrow> fixed f)"
    and call_canned: "fixed (snd (call a f)) = fixed f" "script (snd (call a f)) = script f"
    and calls_canned: "fixed (calls st f) = fixed f" "script (calls st f) = script f"
    and rets: "stub (rets r f) = None" "args (rets r f) = args f" "fixed (rets r f) = r"
      "script (rets r f) = script f"
    and retsOnCall: "stub (retsOnCall i r f) = None" "args (retsOnCall i r f) = args f"
      "fixed (retsOnCall i r f) = fixed f" "script (retsOnCall i r f) = (script f)(i \<mapsto> r)"
begin

lemma fixed_script_after:
  "fixed (after_calls call xs f) = fixed f" "script (after_calls call xs f) = script f"
  by (induction xs arbitrary: f) (simp_all add: call_canned)

definition reply_at :: "'b \<Rightarrow> nat \<Rightarrow> 'c" where
  "reply_at f k = (case script f (callCount f + int k) of Some r \<Rightarrow> r | None \<Rightarrow> fixed f)"

lemma reply_at_Suc: "reply_at f (Suc k) = reply_at (snd (call a f)) k"
  by (simp add: reply_at_def call_canned count call_args algebra_simps split: option.splits)

text \<open>The answers of a sequence of calls follow the script, and the test's state is untouched.\<close>

lemma script_followed:
  assumes "stub f = None"
  shows "call_all call xs f s = Some (Ret (map (reply_at f) [0..<length xs]), after_calls call xs f, s)"
  using assms
proof (induction xs arbitrary: f)
  case (Cons a xs)
  let ?f = "snd (call a f)"
  have c: "call a f = (answer (reply_at f 0), ?f)"
    using canned_answers [OF Cons.prems] by (intro prod_eqI) (simp_all add: reply_at_def)
  have IH: "call_all call xs ?f s =
      Some (Ret (map (reply_at ?f) [0..<length xs]), after_calls call xs ?f, s)"
    using Cons by (simp add: call_stub)
  have "map (reply_at f) [0..<Suc (length xs)] = reply_at f 0 # map (reply_at ?f) [0..<length xs]"
    by (simp add: map_upt_Suc reply_at_Suc [of f _ a, symmetric] del: upt_Suc)
  then show ?case
    by (subst call_all.simps, subst c) (simp add: IH answer_def del: upt_Suc)
qed simp

lemma answers_after_setting:
  "call_all call xs (retsOnCall i r f) s =
     Some (Ret (map (\<lambda>k. if int (length (args f)) + int k = i then r else
        (case script f (int (length (args f)) + int k) of Some r' \<Rightarrow> r' | None \<Rightarrow> fixed f))
        [0..<length xs]), after_calls call xs (retsOnCall i r f), s)"
  by (subst script_followed) (auto simp: reply_at_def rets retsOnCall count split: option.splits)

end

text \<open>
  The double as a whole: which method a call of the interface names, what it boxes, and that
  every call is logged under its name.
\<close>

locale logging =
  fixes call :: "'c \<Rightarrow> 'f \<Rightarrow> ('r, 's) closure \<times> 'f"
    and invs :: "'f \<Rightarrow> invocations"
    and key :: "'c \<Rightarrow> string"
    and boxes :: "'c \<Rightarrow> boxed list"
  assumes call_logged: "invs (snd (call c f)) = logged (key c) (boxes c) (invs f)"
begin

definition calls_of :: "string \<Rightarrow> 'c list \<Rightarrow> boxed list list" where
  "calls_of k cs = map boxes (filter (\<lambda>c. key c = k) cs)"

lemma invs_after:
  "invs (after_calls call cs f) k =
     (if calls_of k cs = [] then invs f k
      else Some ((case invs f k of None \<Rightarrow> [] | Some old \<Rightarrow> old) @ calls_of k cs))"
  by (induction cs arbitrary: f)
    (auto simp: calls_of_def call_logged logged_def Let_def split: option.splits)

lemma invs_of_new:
  assumes "invs f = Map.empty"
  shows "invs (after_calls call cs f) k =
    (if k \<in> key ` set cs then Some (map boxes (filter (\<lambda>c. key c = k) cs)) else None)"
  using assms by (auto simp: invs_after calls_of_def filter_empty_conv)

end

text \<open>
  A double whose stubs are the methods of an implementation stands in for it: every sequence of
  calls is answered, and changes the world, as if it had been made on the implementation.
\<close>

locale wrapping =
  fixes call :: "'c \<Rightarrow> 'f \<Rightarrow> ('r, 's) closure \<times> 'f"
    and real :: "'c \<Rightarrow> ('r, 's) closure"
    and wraps :: "'f \<Rightarrow> bool"
  assumes wraps_answers: "wraps f \<Longrightarrow> fst (call c f) = real c"
    and wraps_call: "wraps f \<Longrightarrow> wraps (snd (call c f))"
begin

lemma transparent:
  "wraps f \<Longrightarrow> map_option (\<lambda>(r, f', s'). (r, s')) (call_all call cs f s) = in_order real cs s"
proof (induction cs arbitrary: f s)
  case (Cons c cs)
  let ?g = "snd (call c f)"
  have c: "call c f = (real c, ?g)"
    using wraps_answers [OF Cons.prems] by (intro prod_eqI) simp_all
  have IH: "in_order real cs t = map_option (\<lambda>(r, f', s'). (r, s')) (call_all call cs ?g t)" for t
    using Cons wraps_call by simp
  show ?case
    by (subst call_all.simps, subst c)
      (auto simp: IH split: option.splits outcome.splits)
qed simp

end

text \<open>
  The log of invocations and the recorded arguments tell the same story: \<open>recorded\<close> lists the
  methods with the boxed arguments of their calls.
\<close>

type_synonym recorded = "(string \<times> boxed list list) list"

definition consistent :: "recorded \<Rightarrow> invocations \<Rightarrow> bool" where
  "consistent rec m \<longleftrightarrow> m = map_of (filter (\<lambda>p. snd p \<noteq> []) rec)"

definition add_call :: "string \<Rightarrow> boxed list \<Rightarrow> recorded \<Rightarrow> recorded" where
  "add_call key args rec = map (\<lambda>(k, as). (k, if k = key then as @ [args] else as)) rec"

lemma map_of_nonempty:
  assumes "distinct (map fst rec)"
  shows "map_of (filter (\<lambda>p. snd p \<noteq> []) rec) k =
    (case map_of rec k of Some as \<Rightarrow> if as = [] then None else Some as | None \<Rightarrow> None)"
  using assms by (induction rec) (auto split: option.splits intro: rev_image_eqI)

lemma consistent_at:
  assumes "distinct (map fst rec)" and "consistent rec m" and "map_of rec k = Some as"
  shows "m k = (if as = [] then None else Some as)"
  using assms by (simp add: consistent_def map_of_nonempty)

lemma map_of_add_call:
  "map_of (add_call key args rec) k =
     map_option (\<lambda>as. if k = key then as @ [args] else as) (map_of rec k)"
  by (induction rec) (auto simp: add_call_def)

lemma consistent_logged:
  assumes "distinct (map fst rec)" and "consistent rec m" and "key \<in> set (map fst rec)"
  shows "consistent (add_call key args rec) (logged key args m)"
proof -
  have keys: "map fst (add_call key args rec) = map fst rec"
    by (induction rec) (auto simp: add_call_def)
  have "logged key args m k = map_of (filter (\<lambda>p. snd p \<noteq> []) (add_call key args rec)) k" for k
    using assms keys
    by (auto simp: map_of_nonempty consistent_def logged_def map_of_add_call split: option.splits intro: rev_image_eqI)
  then show ?thesis by (auto simp: consistent_def)
qed

lemma well_typed_recorded:
  assumes "consistent rec m"
    and "\<forall>p \<in> set rec. case sig (fst p) of None \<Rightarrow> False | Some ts \<Rightarrow> \<forall>args \<in> set (snd p). map type_of_box args = ts"
  shows "well_typed sig m"
  using assms unfolding consistent_def well_typed_def by (fastforce dest!: map_of_SomeD split: option.splits)

end
