(* ===== verification/Fake_Os_Helper.thy ===== *)
theory Fake_Os_Helper
  imports Test_Double Os_Helper
begin

text \<open>
  \<^verbatim>\<open>os_helper/os_helperfakes/fake_os_helper.go\<close>, the double of \<^verbatim>\<open>OsHelper\<close>: one definition per
  generated method. The interpretations at the end show that each method keeps the contracts of
  \<open>Test_Double\<close>, that the log of invocations and the recorded arguments agree, and that a double
  with the methods of \<open>OsHelperImpl\<close> as stubs stands in for it.
\<close>

section \<open>FakeOsHelper\<close>

subsection \<open>The struct and its methods\<close>

record 's FakeOsHelper =
  os_fileExists :: "(string, bool, 's) double"
  os_killCommand :: "(cmd option \<times> int, go_error option, 's) double"
  os_readFile :: "(string, string \<times> go_error option, 's) double"
  os_runCommand :: "(string \<times> string list, string \<times> go_error option, 's) double"
  os_sleep :: "(duration, unit, 's) spied"
  os_startCommand :: "(string \<times> string \<times> string list, cmd option \<times> go_error option, 's) double"
  os_waitForCommand :: "(cmd option, nat option, 's) double"
  os_writeStringToFile :: "(string \<times> string, go_error option, 's) double"
  os_invocations :: invocations

definition new_FakeOsHelper :: "'s FakeOsHelper" where
  "new_FakeOsHelper =
     \<lparr>os_fileExists = new_double False,
      os_killCommand = new_double None,
      os_readFile = new_double ('''', None),
      os_runCommand = new_double ('''', None),
      os_sleep = new_spied,
      os_startCommand = new_double (None, None),
      os_waitForCommand = new_double None,
      os_writeStringToFile = new_double None,
      os_invocations = Map.empty\<rparr>"

definition FakeOsHelper_Invocations :: "'s FakeOsHelper \<Rightarrow> invocations" where
  "FakeOsHelper_Invocations fake = os_invocations fake"

definition FakeOsHelper_recordInvocation ::
  "string \<Rightarrow> boxed list \<Rightarrow> 's FakeOsHelper \<Rightarrow> 's FakeOsHelper" where
  "FakeOsHelper_recordInvocation key args fake =
     fake\<lparr>os_invocations := logged key args (os_invocations fake)\<rparr>"

definition FakeOsHelper_FileExists ::
  "string \<Rightarrow> 's FakeOsHelper \<Rightarrow> (bool, 's) closure \<times> 's FakeOsHelper" where
  "FakeOsHelper_FileExists arg1 fake =
     (let specific = specificReturn (os_fileExists fake);
          fake = fake\<lparr>os_fileExists := appendArgs arg1 (os_fileExists fake)\<rparr>;
          fake = FakeOsHelper_recordInvocation ''FileExists'' [BString arg1] fake
      in (answerWith arg1 specific (os_fileExists fake), fake))"

definition FakeOsHelper_FileExistsCallCount ::
  "'s FakeOsHelper \<Rightarrow> int" where
  "FakeOsHelper_FileExistsCallCount fake = callCount (os_fileExists fake)"

definition FakeOsHelper_FileExistsCalls ::
  "(string \<Rightarrow> (bool, 's) closure) option \<Rightarrow> 's FakeOsHelper \<Rightarrow> 's FakeOsHelper" where
  "FakeOsHelper_FileExistsCalls stub fake = fake\<lparr>os_fileExists := (os_fileExists fake)\<lparr>Stub := stub\<rparr>\<rparr>"

definition FakeOsHelper_FileExistsArgsForCall ::
  "int \<Rightarrow> 's FakeOsHelper \<Rightarrow> string outcome" where
  "FakeOsHelper_FileExistsArgsForCall i fake = indexArgs i (ArgsForCall (os_fileExists fake))"

definition FakeOsHelper_FileExistsReturns ::
  "bool \<Rightarrow> 's FakeOsHelper \<Rightarrow> 's FakeOsHelper" where
  "FakeOsHelper_FileExistsReturns result1 fake =
     fake\<lparr>os_fileExists := (os_fileExists fake)\<lparr>Stub := None, Returns := result1\<rparr>\<rparr>"

definition FakeOsHelper_FileExistsReturnsOnCall ::
  "int \<Rightarrow> bool \<Rightarrow> 's FakeOsHelper \<Rightarrow> 's FakeOsHelper" where
  "FakeOsHelper_FileExistsReturnsOnCall i result1 fake =
     fake\<lparr>os_fileExists := (os_fileExists fake)\<lparr>Stub := None,
       ReturnsOnCall := (ReturnsOnCall (os_fileExists fake))(i \<mapsto> result1)\<rparr>\<rparr>"

definition FakeOsHelper_KillCommand ::
  "cmd option \<Rightarrow> int \<Rightarrow> 's FakeOsHelper \<Rightarrow> (go_error option, 's) closure \<times> 's FakeOsHelper" where
  "FakeOsHelper_KillCommand arg1 arg2 fake =
     (let specific = specificReturn (os_killCommand fake);
          fake = fake\<lparr>os_killCommand := appendArgs (arg1, arg2) (os_killCommand fake)\<rparr>;
          fake = FakeOsHelper_recordInvocation ''KillCommand'' [BCmd arg1, BSignal arg2] fake
      in (answerWith (arg1, arg2) specific (os_killCommand fake), fake))"

definition FakeOsHelper_KillCommandCallCount ::
  "'s FakeOsHelper \<Rightarrow> int" where
  "FakeOsHelper_KillCommandCallCount fake = callCount (os_killCommand fake)"

definition FakeOsHelper_KillCommandCalls ::
  "(cmd option \<times> int \<Rightarrow> (go_error option, 's) closure) option \<Rightarrow> 's FakeOsHelper \<Rightarrow> 's FakeOsHelper" where
  "FakeOsHelper_KillCommandCalls stub fake = fake\<lparr>os_killCommand := (os_killCommand fake)\<lparr>Stub := stub\<rparr>\<rparr>"

definition FakeOsHelper_KillCommandArgsForCall ::
  "int \<Rightarrow> 's FakeOsHelper \<Rightarrow> (cmd option \<times> int) outcome" where
  "FakeOsHelper_KillCommandArgsForCall i fake = indexArgs i (ArgsForCall (os_killCommand fake))"

definition FakeOsHelper_KillCommandReturns ::
  "go_error option \<Rightarrow> 's FakeOsHelper \<Rightarrow> 's FakeOsHelper" where
  "FakeOsHelper_KillCommandReturns result1 fake =
     fake\<lparr>os_killCommand := (os_killCommand fake)\<lparr>Stub := None, Returns := result1\<rparr>\<rparr>"

definition FakeOsHelper_KillCommandReturnsOnCall ::
  "int \<Rightarrow> go_error option \<Rightarrow> 's FakeOsHelper \<Rightarrow> 's FakeOsHelper" where
  "FakeOsHelper_KillCommandReturnsOnCall i result1 fake =
     fake\<lparr>os_killCommand := (os_killCommand fake)\<lparr>Stub := None,
       ReturnsOnCall := (ReturnsOnCall (os_killCommand fake))(i \<mapsto> result1)\<rparr>\<rparr>"

definition FakeOsHelper_ReadFile ::
  "string \<Rightarrow> 's FakeOsHelper \<Rightarrow> (string \<times> go_error option, 's) closure \<times> 's FakeOsHelper" where
  "FakeOsHelper_ReadFile arg1 fake =
     (let specific = specificReturn (os_readFile fake);
          fake = fake\<lparr>os_readFile := appendArgs arg1 (os_readFile fake)\<rparr>;
          fake = FakeOsHelper_recordInvocation ''ReadFile'' [BString arg1] fake
      in (answerWith arg1 specific (os_readFile fake), fake))"

definition FakeOsHelper_ReadFileCallCount ::
  "'s FakeOsHelper \<Rightarrow> int" where
  "FakeOsHelper_ReadFileCallCount fake = callCount (os_readFile fake)"

definition FakeOsHelper_ReadFileCalls ::
  "(string \<Rightarrow> (string \<times> go_error option, 's) closure) option \<Rightarrow> 's FakeOsHelper \<Rightarrow> 's FakeOsHelper" where
  "FakeOsHelper_ReadFileCalls stub fake = fake\<lparr>os_readFile := (os_readFile fake)\<lparr>Stub := stub\<rparr>\<rparr>"

definition FakeOsHelper_ReadFileArgsForCall ::
  "int \<Rightarrow> 's FakeOsHelper \<Rightarrow> string outcome" where
  "FakeOsHelper_ReadFileArgsForCall i fake = indexArgs i (ArgsForCall (os_readFile fake))"

definition FakeOsHelper_ReadFileReturns ::
  "string \<Rightarrow> go_error option \<Rightarrow> 's FakeOsHelper \<Rightarrow> 's FakeOsHelper" where
  "FakeOsHelper_ReadFileReturns result1 result2 fake =
     fake\<lparr>os_readFile := (os_readFile fake)\<lparr>Stub := None, Returns := (result1, result2)\<rparr>\<rparr>"

definition FakeOsHelper_ReadFileReturnsOnCall ::
  "int \<Rightarrow> string \<Rightarrow> go_error option \<Rightarrow> 's FakeOsHelper \<Rightarrow> 's FakeOsHelper" where
  "FakeOsHelper_ReadFileReturnsOnCall i result1 result2 fake =
     fake\<lparr>os_readFile := (os_readFile fake)\<lparr>Stub := None,
       ReturnsOnCall := (ReturnsOnCall (os_readFile fake))(i \<mapsto> (result1, result2))\<rparr>\<rparr>"

definition FakeOsHelper_RunCommand ::
  "string \<Rightarrow> string list \<Rightarrow> 's FakeOsHelper \<Rightarrow> (string \<times> go_error option, 's) closure \<times> 's FakeOsHelper" where
  "FakeOsHelper_RunCommand arg1 arg2 fake =
     (let specific = specificReturn (os_runCommand fake);
          fake = fake\<lparr>os_runCommand := appendArgs (arg1, arg2) (os_runCommand fake)\<rparr>;
          fake = FakeOsHelper_recordInvocation ''RunCommand'' [BString arg1, BStrings arg2] fake
      in (answerWith (arg1, arg2) specific (os_runCommand fake), fake))"

definition FakeOsHelper_RunCommandCallCount ::
  "'s FakeOsHelper \<Rightarrow> int" where
  "FakeOsHelper_RunCommandCallCount fake = callCount (os_runCommand fake)"

definition FakeOsHelper_RunCommandCalls ::
  "(string \<times> string list \<Rightarrow> (string \<times> go_error option, 's) closure) option \<Rightarrow> 's FakeOsHelper \<Rightarrow> 's FakeOsHelper" where
  "FakeOsHelper_RunCommandCalls stub fake = fake\<lparr>os_runCommand := (os_runCommand fake)\<lparr>Stub := stub\<rparr>\<rparr>"

definition FakeOsHelper_RunCommandArgsForCall ::
  "int \<Rightarrow> 's FakeOsHelper \<Rightarrow> (string \<times> string list) outcome" where
  "FakeOsHelper_RunCommandArgsForCall i fake = indexArgs i (ArgsForCall (os_runCommand fake))"

definition FakeOsHelper_RunCommandReturns ::
  "string \<Rightarrow> go_error option \<Rightarrow> 's FakeOsHelper \<Rightarrow> 's FakeOsHelper" where
  "FakeOsHelper_RunCommandReturns result1 result2 fake =
     fake\<lparr>os_runCommand := (os_runCommand fake)\<lparr>Stub := None, Returns := (result1, result2)\<rparr>\<rparr>"

definition FakeOsHelper_RunCommandReturnsOnCall ::
  "int \<Rightarrow> string \<Rightarrow> go_error option \<Rightarrow> 's FakeOsHelper \<Rightarrow> 's FakeOsHelper" where
  "FakeOsHelper_RunCommandReturnsOnCall i result1 result2 fake =
     fake\<lparr>os_runCommand := (os_runCommand fake)\<lparr>Stub := None,
       ReturnsOnCall := (ReturnsOnCall (os_runCommand fake))(i \<mapsto> (result1, result2))\<rparr>\<rparr>"

definition FakeOsHelper_Sleep ::
  "duration \<Rightarrow> 's FakeOsHelper \<Rightarrow> (unit, 's) closure \<times> 's FakeOsHelper" where
  "FakeOsHelper_Sleep arg1 fake =
     (let fake = fake\<lparr>os_sleep := appendArgs arg1 (os_sleep fake)\<rparr>;
          fake = FakeOsHelper_recordInvocation ''Sleep'' [BDuration arg1] fake
      in (runStub arg1 (os_sleep fake), fake))"

definition FakeOsHelper_SleepCallCount ::
  "'s FakeOsHelper \<Rightarrow> int" where
  "FakeOsHelper_SleepCallCount fake = callCount (os_sleep fake)"

definition FakeOsHelper_SleepCalls ::
  "(duration \<Rightarrow> (unit, 's) closure) option \<Rightarrow> 's FakeOsHelper \<Rightarrow> 's FakeOsHelper" where
  "FakeOsHelper_SleepCalls stub fake = fake\<lparr>os_sleep := (os_sleep fake)\<lparr>Stub := stub\<rparr>\<rparr>"

definition FakeOsHelper_SleepArgsForCall ::
  "int \<Rightarrow> 's FakeOsHelper \<Rightarrow> duration outcome" where
  "FakeOsHelper_SleepArgsForCall i fake = indexArgs i (ArgsForCall (os_sleep fake))"

definition FakeOsHelper_StartCommand ::
  "string \<Rightarrow> string \<Rightarrow> string list \<Rightarrow> 's FakeOsHelper \<Rightarrow> (cmd option \<times> go_error option, 's) closure \<times> 's FakeOsHelper" where
  "FakeOsHelper_StartCommand arg1 arg2 arg3 fake =
     (let specific = specificReturn (os_startCommand fake);
          fake = fake\<lparr>os_startCommand := appendArgs (arg1, arg2, arg3) (os_startCommand fake)\<rparr>;
          fake = FakeOsHelper_recordInvocation ''StartCommand'' [BString arg1, BString arg2, BStrings arg3] fake
      in (answerWith (arg1, arg2, arg3) specific (os_startCommand fake), fake))"

definition FakeOsHelper_StartCommandCallCount ::
  "'s FakeOsHelper \<Rightarrow> int" where
  "FakeOsHelper_StartCommandCallCount fake = callCount (os_startCommand fake)"

definition FakeOsHelper_StartCommandCalls ::
  "(string \<times> string \<times> string list \<Rightarrow> (cmd option \<times> go_error option, 's) closure) option \<Rightarrow> 's FakeOsHelper \<Rightarrow> 's FakeOsHelper" where
  "FakeOsHelper_StartCommandCalls stub fake = fake\<lparr>os_startCommand := (os_startCommand fake)\<lparr>Stub := stub\<rparr>\<rparr>"

definition FakeOsHelper_StartCommandArgsForCall ::
  "int \<Rightarrow> 's FakeOsHelper \<Rightarrow> (string \<times> string \<times> string list) outcome" where
  "FakeOsHelper_StartCommandArgsForCall i fake = indexArgs i (ArgsForCall (os_startCommand fake))"

definition FakeOsHelper_StartCommandReturns ::
  "cmd option \<Rightarrow> go_error option \<Rightarrow> 's FakeOsHelper \<Rightarrow> 's FakeOsHelper" where
  "FakeOsHelper_StartCommandReturns result1 result2 fake =
     fake\<lparr>os_startCommand := (os_startCommand fake)\<lparr>Stub := None, Returns := (result1, result2)\<rparr>\<rparr>"

definition FakeOsHelper_StartCommandReturnsOnCall ::
  "int \<Rightarrow> cmd option \<Rightarrow> go_error option \<Rightarrow> 's FakeOsHelper \<Rightarrow> 's FakeOsHelper" where
  "FakeOsHelper_StartCommandReturnsOnCall i result1 result2 fake =
     fake\<lparr>os_startCommand := (os_startCommand fake)\<lparr>Stub := None,
       ReturnsOnCall := (ReturnsOnCall (os_startCommand fake))(i \<mapsto> (result1, result2))\<rparr>\<rparr>"

definition FakeOsHelper_WaitForCommand ::
  "cmd option \<Rightarrow> 's FakeOsHelper \<Rightarrow> (nat option, 's) closure \<times> 's FakeOsHelper" where
  "FakeOsHelper_WaitForCommand arg1 fake =
     (let specific = specificReturn (os_waitForCommand fake);
          fake = fake\<lparr>os_waitForCommand := appendArgs arg1 (os_waitForCommand fake)\<rparr>;
          fake = FakeOsHelper_recordInvocation ''WaitForCommand'' [BCmd arg1] fake
      in (answerWith arg1 specific (os_waitForCommand fake), fake))"

definition FakeOsHelper_WaitForCommandCallCount ::
  "'s FakeOsHelper \<Rightarrow> int" where
  "FakeOsHelper_WaitForCommandCallCount fake = callCount (os_waitForCommand fake)"

definition FakeOsHelper_WaitForCommandCalls ::
  "(cmd option \<Rightarrow> (nat option, 's) closure) option \<Rightarrow> 's FakeOsHelper \<Rightarrow> 's FakeOsHelper" where
  "FakeOsHelper_WaitForCommandCalls stub fake = fake\<lparr>os_waitForCommand := (os_waitForCommand fake)\<lparr>Stub := stub\<rparr>\<rparr>"

definition FakeOsHelper_WaitForCommandArgsForCall ::
  "int \<Rightarrow> 's FakeOsHelper \<Rightarrow> (cmd option) outcome" where
  "FakeOsHelper_WaitForCommandArgsForCall i fake = indexArgs i (ArgsForCall (os_waitForCommand fake))"

definition FakeOsHelper_WaitForCommandReturns ::
  "nat option \<Rightarrow> 's FakeOsHelper \<Rightarrow> 's FakeOsHelper" where
  "FakeOsHelper_WaitForCommandReturns result1 fake =
     fake\<lparr>os_waitForCommand := (os_waitForCommand fake)\<lparr>Stub := None, Returns := result1\<rparr>\<rparr>"

definition FakeOsHelper_WaitForCommandReturnsOnCall ::
  "int \<Rightarrow> nat option \<Rightarrow> 's FakeOsHelper \<Rightarrow> 's FakeOsHelper" where
  "FakeOsHelper_WaitForCommandReturnsOnCall i result1 fake =
     fake\<lparr>os_waitForCommand := (os_waitForCommand fake)\<lparr>Stub := None,
       ReturnsOnCall := (ReturnsOnCall (os_waitForCommand fake))(i \<mapsto> result1)\<rparr>\<rparr>"

definition FakeOsHelper_WriteStringToFile ::
  "string \<Rightarrow> string \<Rightarrow> 's FakeOsHelper \<Rightarrow> (go_error option, 's) closure \<times> 's FakeOsHelper" where
  "FakeOsHelper_WriteStringToFile arg1 arg2 fake =
     (let specific = specificReturn (os_writeStringToFile fake);
          fake = fake\<lparr>os_writeStringToFile := appendArgs (arg1, arg2) (os_writeStringToFile fake)\<rparr>;
          fake = FakeOsHelper_recordInvocation ''WriteStringToFile'' [BString arg1, BString arg2] fake
      in (answerWith (arg1, arg2) specific (os_writeStringToFile fake), fake))"

definition FakeOsHelper_WriteStringToFileCallCount ::
  "'s FakeOsHelper \<Rightarrow> int" where
  "FakeOsHelper_WriteStringToFileCallCount fake = callCount (os_writeStringToFile fake)"

definition FakeOsHelper_WriteStringToFileCalls ::
  "(string \<times> string \<Rightarrow> (go_error option, 's) closure) option \<Rightarrow> 's FakeOsHelper \<Rightarrow> 's FakeOsHelper" where
  "FakeOsHelper_WriteStringToFileCalls stub fake = fake\<lparr>os_writeStringToFile := (os_writeStringToFile fake)\<lparr>Stub := stub\<rparr>\<rparr>"

definition FakeOsHelper_WriteStringToFileArgsForCall ::
  "int \<Rightarrow> 's FakeOsHelper \<Rightarrow> (string \<times> string) outcome" where
  "FakeOsHelper_WriteStringToFileArgsForCall i fake = indexArgs i (ArgsForCall (os_writeStringToFile fake))"

definition FakeOsHelper_WriteStringToFileReturns ::
  "go_error option \<Rightarrow> 's FakeOsHelper \<Rightarrow> 's FakeOsHelper" where
  "FakeOsHelper_WriteStringToFileReturns result1 fake =
     fake\<lparr>os_writeStringToFile := (os_writeStringToFile fake)\<lparr>Stub := None, Returns := result1\<rparr>\<rparr>"

definition FakeOsHelper_WriteStringToFileReturnsOnCall ::
  "int \<Rightarrow> go_error option \<Rightarrow> 's FakeOsHelper \<Rightarrow> 's FakeOsHelper" where
  "FakeOsHelper_WriteStringToFileReturnsOnCall i result1 fake =
     fake\<lparr>os_writeStringToFile := (os_writeStringToFile fake)\<lparr>Stub := None,
       ReturnsOnCall := (ReturnsOnCall (os_writeStringToFile fake))(i \<mapsto> result1)\<rparr>\<rparr>"

lemmas FakeOsHelper_defs [double_simps] =
  FakeOsHelper_recordInvocation_def FakeOsHelper_FileExists_def FakeOsHelper_FileExistsCallCount_def FakeOsHelper_FileExistsCalls_def FakeOsHelper_FileExistsArgsForCall_def FakeOsHelper_FileExistsReturns_def FakeOsHelper_FileExistsReturnsOnCall_def FakeOsHelper_KillCommand_def FakeOsHelper_KillCommandCallCount_def FakeOsHelper_KillCommandCalls_def FakeOsHelper_KillCommandArgsForCall_def FakeOsHelper_KillCommandReturns_def FakeOsHelper_KillCommandReturnsOnCall_def FakeOsHelper_ReadFile_def FakeOsHelper_ReadFileCallCount_def FakeOsHelper_ReadFileCalls_def FakeOsHelper_ReadFileArgsForCall_def FakeOsHelper_ReadFileReturns_def FakeOsHelper_ReadFileReturnsOnCall_def FakeOsHelper_RunCommand_def FakeOsHelper_RunCommandCallCount_def FakeOsHelper_RunCommandCalls_def FakeOsHelper_RunCommandArgsForCall_def FakeOsHelper_RunCommandReturns_def FakeOsHelper_RunCommandReturnsOnCall_def FakeOsHelper_Sleep_def FakeOsHelper_SleepCallCount_def FakeOsHelper_SleepCalls_def FakeOsHelper_SleepArgsForCall_def FakeOsHelper_StartCommand_def FakeOsHelper_StartCommandCallCount_def FakeOsHelper_StartCommandCalls_def FakeOsHelper_StartCommandArgsForCall_def FakeOsHelper_StartCommandReturns_def FakeOsHelper_StartCommandReturnsOnCall_def FakeOsHelper_WaitForCommand_def FakeOsHelper_WaitForCommandCallCount_def FakeOsHelper_WaitForCommandCalls_def FakeOsHelper_WaitForCommandArgsForCall_def FakeOsHelper_WaitForCommandReturns_def FakeOsHelper_WaitForCommandReturnsOnCall_def FakeOsHelper_WriteStringToFile_def FakeOsHelper_WriteStringToFileCallCount_def FakeOsHelper_WriteStringToFileCalls_def FakeOsHelper_WriteStringToFileArgsForCall_def FakeOsHelper_WriteStringToFileReturns_def FakeOsHelper_WriteStringToFileReturnsOnCall_def

subsection \<open>The interface\<close>

text \<open>The calls of \<^verbatim>\<open>OsHelper\<close>, and the double as a receiver of them.\<close>

datatype OsHelper_call =
    Os_FileExists string
  | Os_KillCommand "cmd option" int
  | Os_ReadFile string
  | Os_RunCommand string "string list"
  | Os_Sleep duration
  | Os_StartCommand string string "string list"
  | Os_WaitForCommand "cmd option"
  | Os_WriteStringToFile string string

fun FakeOsHelper_call :: "OsHelper_call \<Rightarrow> 's FakeOsHelper \<Rightarrow> (reply, 's) closure \<times> 's FakeOsHelper" where
  "FakeOsHelper_call (Os_FileExists arg1) fake =
     map_prod (through ReplyBool) id (FakeOsHelper_FileExists arg1 fake)"
| "FakeOsHelper_call (Os_KillCommand arg1 arg2) fake =
     map_prod (through ReplyError) id (FakeOsHelper_KillCommand arg1 arg2 fake)"
| "FakeOsHelper_call (Os_ReadFile arg1) fake =
     map_prod (through ReplyStringError) id (FakeOsHelper_ReadFile arg1 fake)"
| "FakeOsHelper_call (Os_RunCommand arg1 arg2) fake =
     map_prod (through ReplyStringError) id (FakeOsHelper_RunCommand arg1 arg2 fake)"
| "FakeOsHelper_call (Os_Sleep arg1) fake =
     map_prod (through ReplyUnit) id (FakeOsHelper_Sleep arg1 fake)"
| "FakeOsHelper_call (Os_StartCommand arg1 arg2 arg3) fake =
     map_prod (through ReplyCmdError) id (FakeOsHelper_StartCommand arg1 arg2 arg3 fake)"
| "FakeOsHelper_call (Os_WaitForCommand arg1) fake =
     map_prod (through ReplyChan) id (FakeOsHelper_WaitForCommand arg1 fake)"
| "FakeOsHelper_call (Os_WriteStringToFile arg1 arg2) fake =
     map_prod (through ReplyError) id (FakeOsHelper_WriteStringToFile arg1 arg2 fake)"

fun OsHelper_name :: "OsHelper_call \<Rightarrow> string" where
  "OsHelper_name (Os_FileExists arg1) = ''FileExists''"
| "OsHelper_name (Os_KillCommand arg1 arg2) = ''KillCommand''"
| "OsHelper_name (Os_ReadFile arg1) = ''ReadFile''"
| "OsHelper_name (Os_RunCommand arg1 arg2) = ''RunCommand''"
| "OsHelper_name (Os_Sleep arg1) = ''Sleep''"
| "OsHelper_name (Os_StartCommand arg1 arg2 arg3) = ''StartCommand''"
| "OsHelper_name (Os_WaitForCommand arg1) = ''WaitForCommand''"
| "OsHelper_name (Os_WriteStringToFile arg1 arg2) = ''WriteStringToFile''"

fun OsHelper_boxes :: "OsHelper_call \<Rightarrow> boxed list" where
  "OsHelper_boxes (Os_FileExists arg1) = [BString arg1]"
| "OsHelper_boxes (Os_KillCommand arg1 arg2) = [BCmd arg1, BSignal arg2]"
| "OsHelper_boxes (Os_ReadFile arg1) = [BString arg1]"
| "OsHelper_boxes (Os_RunCommand arg1 arg2) = [BString arg1, BStrings arg2]"
| "OsHelper_boxes (Os_Sleep arg1) = [BDuration arg1]"
| "OsHelper_boxes (Os_StartCommand arg1 arg2 arg3) = [BString arg1, BString arg2, BStrings arg3]"
| "OsHelper_boxes (Os_WaitForCommand arg1) = [BCmd arg1]"
| "OsHelper_boxes (Os_WriteStringToFile arg1 arg2) = [BString arg1, BString arg2]"

text \<open>The types of the arguments the interface declares.\<close>

definition OsHelper_signature :: "string \<rightharpoonup> box_type list" where
  "OsHelper_signature =
     [''FileExists'' \<mapsto> [TString],
      ''KillCommand'' \<mapsto> [TCmd, TSignal],
      ''ReadFile'' \<mapsto> [TString],
      ''RunCommand'' \<mapsto> [TString, TStrings],
      ''Sleep'' \<mapsto> [TDuration],
      ''StartCommand'' \<mapsto> [TString, TString, TStrings],
      ''WaitForCommand'' \<mapsto> [TCmd],
      ''WriteStringToFile'' \<mapsto> [TString, TString]]"

text \<open>What is recorded of the calls of each method, boxed as in the log.\<close>

definition FakeOsHelper_recorded :: "'s FakeOsHelper \<Rightarrow> recorded" where
  "FakeOsHelper_recorded fake =
     [(''FileExists'', map (\<lambda>arg1. [BString arg1]) (ArgsForCall (os_fileExists fake))),
      (''KillCommand'', map (\<lambda>(arg1, arg2). [BCmd arg1, BSignal arg2]) (ArgsForCall (os_killCommand fake))),
      (''ReadFile'', map (\<lambda>arg1. [BString arg1]) (ArgsForCall (os_readFile fake))),
      (''RunCommand'', map (\<lambda>(arg1, arg2). [BString arg1, BStrings arg2]) (ArgsForCall (os_runCommand fake))),
      (''Sleep'', map (\<lambda>arg1. [BDuration arg1]) (ArgsForCall (os_sleep fake))),
      (''StartCommand'', map (\<lambda>(arg1, arg2, arg3). [BString arg1, BString arg2, BStrings arg3]) (ArgsForCall (os_startCommand fake))),
      (''WaitForCommand'', map (\<lambda>arg1. [BCmd arg1]) (ArgsForCall (os_waitForCommand fake))),
      (''WriteStringToFile'', map (\<lambda>(arg1, arg2). [BString arg1, BString arg2]) (ArgsForCall (os_writeStringToFile fake)))]"

text \<open>Everything a test can do to the double: calls of the interface, and its setters.\<close>

inductive FakeOsHelper_step :: "'s FakeOsHelper \<Rightarrow> 's FakeOsHelper \<Rightarrow> bool" where
  FakeOsHelper_step_call: "FakeOsHelper_step fake (snd (FakeOsHelper_call c fake))"
| FakeOsHelper_FileExistsCalls_step: "FakeOsHelper_step fake (FakeOsHelper_FileExistsCalls stub fake)"
| FakeOsHelper_FileExistsReturns_step: "FakeOsHelper_step fake (FakeOsHelper_FileExistsReturns result1 fake)"
| FakeOsHelper_FileExistsReturnsOnCall_step: "FakeOsHelper_step fake (FakeOsHelper_FileExistsReturnsOnCall i result1 fake)"
| FakeOsHelper_KillCommandCalls_step: "FakeOsHelper_step fake (FakeOsHelper_KillCommandCalls stub fake)"
| FakeOsHelper_KillCommandReturns_step: "FakeOsHelper_step fake (FakeOsHelper_KillCommandReturns result1 fake)"
| FakeOsHelper_KillCommandReturnsOnCall_step: "FakeOsHelper_step fake (FakeOsHelper_KillCommandReturnsOnCall i result1 fake)"
| FakeOsHelper_ReadFileCalls_step: "FakeOsHelper_step fake (FakeOsHelper_ReadFileCalls stub fake)"
| FakeOsHelper_ReadFileReturns_step: "FakeOsHelper_step fake (FakeOsHelper_ReadFileReturns result1 result2 fake)"
| FakeOsHelper_ReadFileReturnsOnCall_step: "FakeOsHelper_step fake (FakeOsHelper_ReadFileReturnsOnCall i result1 result2 fake)"
| FakeOsHelper_RunCommandCalls_step: "FakeOsHelper_step fake (FakeOsHelper_RunCommandCalls stub fake)"
| FakeOsHelper_RunCommandReturns_step: "FakeOsHelper_step fake (FakeOsHelper_RunCommandReturns result1 result2 fake)"
| FakeOsHelper_RunCommandReturnsOnCall_step: "FakeOsHelper_step fake (FakeOsHelper_RunCommandReturnsOnCall i result1 result2 fake)"
| FakeOsHelper_SleepCalls_step: "FakeOsHelper_step fake (FakeOsHelper_SleepCalls stub fake)"
| FakeOsHelper_StartCommandCalls_step: "FakeOsHelper_step fake (FakeOsHelper_StartCommandCalls stub fake)"
| FakeOsHelper_StartCommandReturns_step: "FakeOsHelper_step fake (FakeOsHelper_StartCommandReturns result1 result2 fake)"
| FakeOsHelper_StartCommandReturnsOnCall_step: "FakeOsHelper_step fake (FakeOsHelper_StartCommandReturnsOnCall i result1 result2 fake)"
| FakeOsHelper_WaitForCommandCalls_step: "FakeOsHelper_step fake (FakeOsHelper_WaitForCommandCalls stub fake)"
| FakeOsHelper_WaitForCommandReturns_step: "FakeOsHelper_step fake (FakeOsHelper_WaitForCommandReturns result1 fake)"
| FakeOsHelper_WaitForCommandReturnsOnCall_step: "FakeOsHelper_step fake (FakeOsHelper_WaitForCommandReturnsOnCall i result1 fake)"
| FakeOsHelper_WriteStringToFileCalls_step: "FakeOsHelper_step fake (FakeOsHelper_WriteStringToFileCalls stub fake)"
| FakeOsHelper_WriteStringToFileReturns_step: "FakeOsHelper_step fake (FakeOsHelper_WriteStringToFileReturns result1 fake)"
| FakeOsHelper_WriteStringToFileReturnsOnCall_step: "FakeOsHelper_step fake (FakeOsHelper_WriteStringToFileReturnsOnCall i result1 fake)"

subsection \<open>Contracts\<close>

text \<open>Each method keeps the contracts of a double.\<close>

interpretation os_fileExists: canned FakeOsHelper_FileExists FakeOsHelper_FileExistsCallCount FakeOsHelper_FileExistsCalls
  "\<lambda>fake. ArgsForCall (os_fileExists fake)" "\<lambda>fake. Stub (os_fileExists fake)"
  FakeOsHelper_FileExistsReturns
  FakeOsHelper_FileExistsReturnsOnCall
  "\<lambda>fake. Returns (os_fileExists fake)" "\<lambda>fake. ReturnsOnCall (os_fileExists fake)"
  by unfold_locales (simp_all add: double_simps split: option.splits)

interpretation os_fileExists_args: inspecting FakeOsHelper_FileExists FakeOsHelper_FileExistsCallCount FakeOsHelper_FileExistsCalls
  "\<lambda>fake. ArgsForCall (os_fileExists fake)" "\<lambda>fake. Stub (os_fileExists fake)"
  FakeOsHelper_FileExistsArgsForCall
  by unfold_locales (simp_all add: double_simps split: option.splits)

interpretation os_killCommand: canned "\<lambda>(arg1, arg2). FakeOsHelper_KillCommand arg1 arg2" FakeOsHelper_KillCommandCallCount FakeOsHelper_KillCommandCalls
  "\<lambda>fake. ArgsForCall (os_killCommand fake)" "\<lambda>fake. Stub (os_killCommand fake)"
  FakeOsHelper_KillCommandReturns
  FakeOsHelper_KillCommandReturnsOnCall
  "\<lambda>fake. Returns (os_killCommand fake)" "\<lambda>fake. ReturnsOnCall (os_killCommand fake)"
  by unfold_locales (simp_all add: double_simps split: option.splits)

interpretation os_killCommand_args: inspecting "\<lambda>(arg1, arg2). FakeOsHelper_KillCommand arg1 arg2" FakeOsHelper_KillCommandCallCount FakeOsHelper_KillCommandCalls
  "\<lambda>fake. ArgsForCall (os_killCommand fake)" "\<lambda>fake. Stub (os_killCommand fake)"
  FakeOsHelper_KillCommandArgsForCall
  by unfold_locales (simp_all add: double_simps split: option.splits)

interpretation os_readFile: canned FakeOsHelper_ReadFile FakeOsHelper_ReadFileCallCount FakeOsHelper_ReadFileCalls
  "\<lambda>fake. ArgsForCall (os_readFile fake)" "\<lambda>fake. Stub (os_readFile fake)"
  "\<lambda>(r1, r2). FakeOsHelper_ReadFileReturns r1 r2"
  "\<lambda>i (r1, r2). FakeOsHelper_ReadFileReturnsOnCall i r1 r2"
  "\<lambda>fake. Returns (os_readFile fake)" "\<lambda>fake. ReturnsOnCall (os_readFile fake)"
  by unfold_locales (simp_all add: double_simps split: option.splits)

interpretation os_readFile_args: inspecting FakeOsHelper_ReadFile FakeOsHelper_ReadFileCallCount FakeOsHelper_ReadFileCalls
  "\<lambda>fake. ArgsForCall (os_readFile fake)" "\<lambda>fake. Stub (os_readFile fake)"
  FakeOsHelper_ReadFileArgsForCall
  by unfold_locales (simp_all add: double_simps split: option.splits)

interpretation os_runCommand: canned "\<lambda>(arg1, arg2). FakeOsHelper_RunCommand arg1 arg2" FakeOsHelper_RunCommandCallCount FakeOsHelper_RunCommandCalls
  "\<lambda>fake. ArgsForCall (os_runCommand fake)" "\<lambda>fake. Stub (os_runCommand fake)"
  "\<lambda>(r1, r2). FakeOsHelper_RunCommandReturns r1 r2"
  "\<lambda>i (r1, r2). FakeOsHelper_RunCommandReturnsOnCall i r1 r2"
  "\<lambda>fake. Returns (os_runCommand fake)" "\<lambda>fake. ReturnsOnCall (os_runCommand fake)"
  by unfold_locales (simp_all add: double_simps split: option.splits)

interpretation os_runCommand_args: inspecting "\<lambda>(arg1, arg2). FakeOsHelper_RunCommand arg1 arg2" FakeOsHelper_RunCommandCallCount FakeOsHelper_RunCommandCalls
  "\<lambda>fake. ArgsForCall (os_runCommand fake)" "\<lambda>fake. Stub (os_runCommand fake)"
  FakeOsHelper_RunCommandArgsForCall
  by unfold_locales (simp_all add: double_simps split: option.splits)

interpretation os_sleep: spying FakeOsHelper_Sleep FakeOsHelper_SleepCallCount FakeOsHelper_SleepCalls
  "\<lambda>fake. ArgsForCall (os_sleep fake)" "\<lambda>fake. Stub (os_sleep fake)"
  by unfold_locales (simp_all add: double_simps split: option.splits)

interpretation os_sleep_args: inspecting FakeOsHelper_Sleep FakeOsHelper_SleepCallCount FakeOsHelper_SleepCalls
  "\<lambda>fake. ArgsForCall (os_sleep fake)" "\<lambda>fake. Stub (os_sleep fake)"
  FakeOsHelper_SleepArgsForCall
  by unfold_locales (simp_all add: double_simps split: option.splits)

interpretation os_startCommand: canned "\<lambda>(arg1, arg2, arg3). FakeOsHelper_StartCommand arg1 arg2 arg3" FakeOsHelper_StartCommandCallCount FakeOsHelper_StartCommandCalls
  "\<lambda>fake. ArgsForCall (os_startCommand fake)" "\<lambda>fake. Stub (os_startCommand fake)"
  "\<lambda>(r1, r2). FakeOsHelper_StartCommandReturns r1 r2"
  "\<lambda>i (r1, r2). FakeOsHelper_StartCommandReturnsOnCall i r1 r2"
  "\<lambda>fake. Returns (os_startCommand fake)" "\<lambda>fake. ReturnsOnCall (os_startCommand fake)"
  by unfold_locales (simp_all add: double_simps split: option.splits)

interpretation os_startCommand_args: inspecting "\<lambda>(arg1, arg2, arg3). FakeOsHelper_StartCommand arg1 arg2 arg3" FakeOsHelper_StartCommandCallCount FakeOsHelper_StartCommandCalls
  "\<lambda>fake. ArgsForCall (os_startCommand fake)" "\<lambda>fake. Stub (os_startCommand fake)"
  FakeOsHelper_StartCommandArgsForCall
  by unfold_locales (simp_all add: double_simps split: option.splits)

interpretation os_waitForCommand: canned FakeOsHelper_WaitForCommand FakeOsHelper_WaitForCommandCallCount FakeOsHelper_WaitForCommandCalls
  "\<lambda>fake. ArgsForCall (os_waitForCommand fake)" "\<lambda>fake. Stub (os_waitForCommand fake)"
  FakeOsHelper_WaitForCommandReturns
  FakeOsHelper_WaitForCommandReturnsOnCall
  "\<lambda>fake. Returns (os_waitForCommand fake)" "\<lambda>fake. ReturnsOnCall (os_waitForCommand fake)"
  by unfold_locales (simp_all add: double_simps split: option.splits)

interpretation os_waitForCommand_args: inspecting FakeOsHelper_WaitForCommand FakeOsHelper_WaitForCommandCallCount FakeOsHelper_WaitForCommandCalls
  "\<lambda>fake. ArgsForCall (os_waitForCommand fake)" "\<lambda>fake. Stub (os_waitForCommand fake)"
  FakeOsHelper_WaitForCommandArgsForCall
  by unfold_locales (simp_all add: double_simps split: option.splits)

interpretation os_writeStringToFile: canned "\<lambda>(arg1, arg2). FakeOsHelper_WriteStringToFile arg1 arg2" FakeOsHelper_WriteStringToFileCallCount FakeOsHelper_WriteStringToFileCalls
  "\<lambda>fake. ArgsForCall (os_writeStringToFile fake)" "\<lambda>fake. Stub (os_writeStringToFile fake)"
  FakeOsHelper_WriteStringToFileReturns
  FakeOsHelper_WriteStringToFileReturnsOnCall
  "\<lambda>fake. Returns (os_writeStringToFile fake)" "\<lambda>fake. ReturnsOnCall (os_writeStringToFile fake)"
  by unfold_locales (simp_all add: double_simps split: option.splits)

interpretation os_writeStringToFile_args: inspecting "\<lambda>(arg1, arg2). FakeOsHelper_WriteStringToFile arg1 arg2" FakeOsHelper_WriteStringToFileCallCount FakeOsHelper_WriteStringToFileCalls
  "\<lambda>fake. ArgsForCall (os_writeStringToFile fake)" "\<lambda>fake. Stub (os_writeStringToFile fake)"
  FakeOsHelper_WriteStringToFileArgsForCall
  by unfold_locales (simp_all add: double_simps split: option.splits)

interpretation os_log: logging FakeOsHelper_call FakeOsHelper_Invocations OsHelper_name OsHelper_boxes
proof unfold_locales
  fix c :: OsHelper_call and fake :: "'s FakeOsHelper"
  show "FakeOsHelper_Invocations (snd (FakeOsHelper_call c fake)) =
    logged (OsHelper_name c) (OsHelper_boxes c) (FakeOsHelper_Invocations fake)"
    by (cases c) (simp_all add: double_simps FakeOsHelper_Invocations_def)
qed

lemma FakeOsHelper_recorded_call:
  "FakeOsHelper_recorded (snd (FakeOsHelper_call c fake)) =
     add_call (OsHelper_name c) (OsHelper_boxes c) (FakeOsHelper_recorded fake)"
  by (cases c)
    (simp_all add: FakeOsHelper_recorded_def double_simps add_call_def)

lemma FakeOsHelper_recorded_names:
  "distinct (map fst (FakeOsHelper_recorded fake))"
  "OsHelper_name c \<in> set (map fst (FakeOsHelper_recorded fake))"
  by (simp_all add: FakeOsHelper_recorded_def) (cases c; simp)

interpretation os_inv: invariant_system "\<lambda>fake. fake = new_FakeOsHelper" FakeOsHelper_step
  "\<lambda>fake. consistent (FakeOsHelper_recorded fake) (FakeOsHelper_Invocations fake)"
proof unfold_locales
  fix fake :: "'s FakeOsHelper" assume "fake = new_FakeOsHelper"
  then show "consistent (FakeOsHelper_recorded fake) (FakeOsHelper_Invocations fake)"
    by (simp add: new_FakeOsHelper_def FakeOsHelper_recorded_def FakeOsHelper_Invocations_def double_simps consistent_def)
next
  fix fake fake' :: "'s FakeOsHelper"
  assume inv: "consistent (FakeOsHelper_recorded fake) (FakeOsHelper_Invocations fake)" and "FakeOsHelper_step fake fake'"
  from this(2) show "consistent (FakeOsHelper_recorded fake') (FakeOsHelper_Invocations fake')"
  proof cases
    case (FakeOsHelper_step_call c)
    then show ?thesis
      using consistent_logged [OF FakeOsHelper_recorded_names(1) inv FakeOsHelper_recorded_names(2)]
      by (simp add: FakeOsHelper_recorded_call os_log.call_logged)
  qed (use inv in \<open>simp_all add: FakeOsHelper_recorded_def FakeOsHelper_Invocations_def double_simps\<close>)
qed

lemma FakeOsHelper_well_typed:
  "consistent (FakeOsHelper_recorded fake) (FakeOsHelper_Invocations fake) \<Longrightarrow> well_typed OsHelper_signature (FakeOsHelper_Invocations fake)"
  by (erule well_typed_recorded) (simp add: FakeOsHelper_recorded_def OsHelper_signature_def split_beta)

subsection \<open>Wrapping the implementation\<close>

text \<open>The implementation as a receiver of the same calls, and a double with its methods as stubs.\<close>

fun OsHelperImpl_call :: "OsHelper_call \<Rightarrow> reply go" where
  "OsHelperImpl_call (Os_FileExists arg1) = (\<lambda>e. through ReplyBool (FileExists arg1 e))"
| "OsHelperImpl_call (Os_KillCommand arg1 arg2) = (\<lambda>e. through ReplyError (KillCommand arg1 arg2 e))"
| "OsHelperImpl_call (Os_ReadFile arg1) = (\<lambda>e. through ReplyStringError (ReadFile arg1 e))"
| "OsHelperImpl_call (Os_RunCommand arg1 arg2) = (\<lambda>e. through ReplyStringError (RunCommand arg1 arg2 e))"
| "OsHelperImpl_call (Os_Sleep arg1) = (\<lambda>e. through ReplyUnit (Sleep arg1 e))"
| "OsHelperImpl_call (Os_StartCommand arg1 arg2 arg3) = (\<lambda>e. through ReplyCmdError (StartCommand arg1 arg2 arg3 e))"
| "OsHelperImpl_call (Os_WaitForCommand arg1) = (\<lambda>e. through ReplyChan (through Some (WaitForCommand arg1 e)))"
| "OsHelperImpl_call (Os_WriteStringToFile arg1 arg2) = (\<lambda>e. through ReplyError (WriteStringToFile arg1 arg2 e))"

definition FakeOsHelper_wrapping :: "env \<Rightarrow> world FakeOsHelper \<Rightarrow> world FakeOsHelper" where
  "FakeOsHelper_wrapping e fake =
     (FakeOsHelper_FileExistsCalls (Some (\<lambda>arg1. FileExists arg1 e)) \<circ>
      FakeOsHelper_KillCommandCalls (Some (\<lambda>(arg1, arg2). KillCommand arg1 arg2 e)) \<circ>
      FakeOsHelper_ReadFileCalls (Some (\<lambda>arg1. ReadFile arg1 e)) \<circ>
      FakeOsHelper_RunCommandCalls (Some (\<lambda>(arg1, arg2). RunCommand arg1 arg2 e)) \<circ>
      FakeOsHelper_SleepCalls (Some (\<lambda>arg1. Sleep arg1 e)) \<circ>
      FakeOsHelper_StartCommandCalls (Some (\<lambda>(arg1, arg2, arg3). StartCommand arg1 arg2 arg3 e)) \<circ>
      FakeOsHelper_WaitForCommandCalls (Some (\<lambda>arg1. through Some (WaitForCommand arg1 e))) \<circ>
      FakeOsHelper_WriteStringToFileCalls (Some (\<lambda>(arg1, arg2). WriteStringToFile arg1 arg2 e))) fake"

definition FakeOsHelper_wraps :: "env \<Rightarrow> world FakeOsHelper \<Rightarrow> bool" where
  "FakeOsHelper_wraps e fake \<longleftrightarrow>
     Stub (os_fileExists fake) = Some (\<lambda>arg1. FileExists arg1 e) \<and>
     Stub (os_killCommand fake) = Some (\<lambda>(arg1, arg2). KillCommand arg1 arg2 e) \<and>
     Stub (os_readFile fake) = Some (\<lambda>arg1. ReadFile arg1 e) \<and>
     Stub (os_runCommand fake) = Some (\<lambda>(arg1, arg2). RunCommand arg1 arg2 e) \<and>
     Stub (os_sleep fake) = Some (\<lambda>arg1. Sleep arg1 e) \<and>
     Stub (os_startCommand fake) = Some (\<lambda>(arg1, arg2, arg3). StartCommand arg1 arg2 arg3 e) \<and>
     Stub (os_waitForCommand fake) = Some (\<lambda>arg1. through Some (WaitForCommand arg1 e)) \<and>
     Stub (os_writeStringToFile fake) = Some (\<lambda>(arg1, arg2). WriteStringToFile arg1 arg2 e)"

lemma FakeOsHelper_wrapping_wraps: "FakeOsHelper_wraps e (FakeOsHelper_wrapping e fake)"
  by (simp add: FakeOsHelper_wraps_def FakeOsHelper_wrapping_def double_simps)

interpretation os_wrap: wrapping FakeOsHelper_call "\<lambda>c. OsHelperImpl_call c e" "FakeOsHelper_wraps e"
  for e
proof unfold_locales
  fix fake c assume "FakeOsHelper_wraps e fake"
  then show "fst (FakeOsHelper_call c fake) = OsHelperImpl_call c e" and "FakeOsHelper_wraps e (snd (FakeOsHelper_call c fake))"
    by (cases c; simp add: FakeOsHelper_wraps_def double_simps)+
qed

end
