(* ===== verification/Fake_Db_Helper.thy ===== *)
theory Fake_Db_Helper
  imports Test_Double Db_Helper
begin

text \<open>
  \<^verbatim>\<open>db_helper/db_helperfakes/fake_dbhelper.go\<close>, the double of \<^verbatim>\<open>DBHelper\<close>: one definition per
  generated method, the contracts of \<open>Test_Double\<close> for each, and the double that wraps a
  \<open>GaleraDBHelper\<close>.
\<close>

section \<open>FakeDBHelper\<close>

subsection \<open>The struct and its methods\<close>

record 's FakeDBHelper =
  db_isDatabaseReachable :: "(unit, bool, 's) double"
  db_isProcessRunning :: "(unit, bool, 's) double"
  db_runPostStartSQL :: "(unit, go_error option, 's) double"
  db_seed :: "(unit, go_error option, 's) double"
  db_seedUsers :: "(unit, go_error option, 's) double"
  db_startMysqldForUpgrade :: "(unit, cmd option \<times> go_error option, 's) double"
  db_startMysqldInBootstrap :: "(unit, cmd option \<times> go_error option, 's) double"
  db_startMysqldInJoin :: "(unit, cmd option \<times> go_error option, 's) double"
  db_stopMysqld :: "(unit, unit, 's) spied"
  db_upgrade :: "(unit, string \<times> go_error option, 's) double"
  db_invocations :: invocations

definition new_FakeDBHelper :: "'s FakeDBHelper" where
  "new_FakeDBHelper =
     \<lparr>db_isDatabaseReachable = new_double False,
      db_isProcessRunning = new_double False,
      db_runPostStartSQL = new_double None,
      db_seed = new_double None,
      db_seedUsers = new_double None,
      db_startMysqldForUpgrade = new_double (None, None),
      db_startMysqldInBootstrap = new_double (None, None),
      db_startMysqldInJoin = new_double (None, None),
      db_stopMysqld = new_spied,
      db_upgrade = new_double ('''', None),
      db_invocations = Map.empty\<rparr>"

definition FakeDBHelper_Invocations :: "'s FakeDBHelper \<Rightarrow> invocations" where
  "FakeDBHelper_Invocations fake = db_invocations fake"

definition FakeDBHelper_recordInvocation ::
  "string \<Rightarrow> boxed list \<Rightarrow> 's FakeDBHelper \<Rightarrow> 's FakeDBHelper" where
  "FakeDBHelper_recordInvocation key args fake =
     fake\<lparr>db_invocations := logged key args (db_invocations fake)\<rparr>"

definition FakeDBHelper_IsDatabaseReachable ::
  "'s FakeDBHelper \<Rightarrow> (bool, 's) closure \<times> 's FakeDBHelper" where
  "FakeDBHelper_IsDatabaseReachable fake =
     (let specific = specificReturn (db_isDatabaseReachable fake);
          fake = fake\<lparr>db_isDatabaseReachable := appendArgs () (db_isDatabaseReachable fake)\<rparr>;
          fake = FakeDBHelper_recordInvocation ''IsDatabaseReachable'' [] fake
      in (answerWith () specific (db_isDatabaseReachable fake), fake))"

definition FakeDBHelper_IsDatabaseReachableCallCount ::
  "'s FakeDBHelper \<Rightarrow> int" where
  "FakeDBHelper_IsDatabaseReachableCallCount fake = callCount (db_isDatabaseReachable fake)"

definition FakeDBHelper_IsDatabaseReachableCalls ::
  "(unit \<Rightarrow> (bool, 's) closure) option \<Rightarrow> 's FakeDBHelper \<Rightarrow> 's FakeDBHelper" where
  "FakeDBHelper_IsDatabaseReachableCalls stub fake = fake\<lparr>db_isDatabaseReachable := (db_isDatabaseReachable fake)\<lparr>Stub := stub\<rparr>\<rparr>"

definition FakeDBHelper_IsDatabaseReachableReturns ::
  "bool \<Rightarrow> 's FakeDBHelper \<Rightarrow> 's FakeDBHelper" where
  "FakeDBHelper_IsDatabaseReachableReturns result1 fake =
     fake\<lparr>db_isDatabaseReachable := (db_isDatabaseReachable fake)\<lparr>Stub := None, Returns := result1\<rparr>\<rparr>"

definition FakeDBHelper_IsDatabaseReachableReturnsOnCall ::
  "int \<Rightarrow> bool \<Rightarrow> 's FakeDBHelper \<Rightarrow> 's FakeDBHelper" where
  "FakeDBHelper_IsDatabaseReachableReturnsOnCall i result1 fake =
     fake\<lparr>db_isDatabaseReachable := (db_isDatabaseReachable fake)\<lparr>Stub := None,
       ReturnsOnCall := (ReturnsOnCall (db_isDatabaseReachable fake))(i \<mapsto> result1)\<rparr>\<rparr>"

definition FakeDBHelper_IsProcessRunning ::
  "'s FakeDBHelper \<Rightarrow> (bool, 's) closure \<times> 's FakeDBHelper" where
  "FakeDBHelper_IsProcessRunning fake =
     (let specific = specificReturn (db_isProcessRunning fake);
          fake = fake\<lparr>db_isProcessRunning := appendArgs () (db_isProcessRunning fake)\<rparr>;
          fake = FakeDBHelper_recordInvocation ''IsProcessRunning'' [] fake
      in (answerWith () specific (db_isProcessRunning fake), fake))"

definition FakeDBHelper_IsProcessRunningCallCount ::
  "'s FakeDBHelper \<Rightarrow> int" where
  "FakeDBHelper_IsProcessRunningCallCount fake = callCount (db_isProcessRunning fake)"

definition FakeDBHelper_IsProcessRunningCalls ::
  "(unit \<Rightarrow> (bool, 's) closure) option \<Rightarrow> 's FakeDBHelper \<Rightarrow> 's FakeDBHelper" where
  "FakeDBHelper_IsProcessRunningCalls stub fake = fake\<lparr>db_isProcessRunning := (db_isProcessRunning fake)\<lparr>Stub := stub\<rparr>\<rparr>"

definition FakeDBHelper_IsProcessRunningReturns ::
  "bool \<Rightarrow> 's FakeDBHelper \<Rightarrow> 's FakeDBHelper" where
  "FakeDBHelper_IsProcessRunningReturns result1 fake =
     fake\<lparr>db_isProcessRunning := (db_isProcessRunning fake)\<lparr>Stub := None, Returns := result1\<rparr>\<rparr>"

definition FakeDBHelper_IsProcessRunningReturnsOnCall ::
  "int \<Rightarrow> bool \<Rightarrow> 's FakeDBHelper \<Rightarrow> 's FakeDBHelper" where
  "FakeDBHelper_IsProcessRunningReturnsOnCall i result1 fake =
     fake\<lparr>db_isProcessRunning := (db_isProcessRunning fake)\<lparr>Stub := None,
       ReturnsOnCall := (ReturnsOnCall (db_isProcessRunning fake))(i \<mapsto> result1)\<rparr>\<rparr>"

definition FakeDBHelper_RunPostStartSQL ::
  "'s FakeDBHelper \<Rightarrow> (go_error option, 's) closure \<times> 's FakeDBHelper" where
  "FakeDBHelper_RunPostStartSQL fake =
     (let specific = specificReturn (db_runPostStartSQL fake);
          fake = fake\<lparr>db_runPostStartSQL := appendArgs () (db_runPostStartSQL fake)\<rparr>;
          fake = FakeDBHelper_recordInvocation ''RunPostStartSQL'' [] fake
      in (answerWith () specific (db_runPostStartSQL fake), fake))"

definition FakeDBHelper_RunPostStartSQLCallCount ::
  "'s FakeDBHelper \<Rightarrow> int" where
  "FakeDBHelper_RunPostStartSQLCallCount fake = callCount (db_runPostStartSQL fake)"

definition FakeDBHelper_RunPostStartSQLCalls ::
  "(unit \<Rightarrow> (go_error option, 's) closure) option \<Rightarrow> 's FakeDBHelper \<Rightarrow> 's FakeDBHelper" where
  "FakeDBHelper_RunPostStartSQLCalls stub fake = fake\<lparr>db_runPostStartSQL := (db_runPostStartSQL fake)\<lparr>Stub := stub\<rparr>\<rparr>"

definition FakeDBHelper_RunPostStartSQLReturns ::
  "go_error option \<Rightarrow> 's FakeDBHelper \<Rightarrow> 's FakeDBHelper" where
  "FakeDBHelper_RunPostStartSQLReturns result1 fake =
     fake\<lparr>db_runPostStartSQL := (db_runPostStartSQL fake)\<lparr>Stub := None, Returns := result1\<rparr>\<rparr>"

definition FakeDBHelper_RunPostStartSQLReturnsOnCall ::
  "int \<Rightarrow> go_error option \<Rightarrow> 's FakeDBHelper \<Rightarrow> 's FakeDBHelper" where
  "FakeDBHelper_RunPostStartSQLReturnsOnCall i result1 fake =
     fake\<lparr>db_runPostStartSQL := (db_runPostStartSQL fake)\<lparr>Stub := None,
       ReturnsOnCall := (ReturnsOnCall (db_runPostStartSQL fake))(i \<mapsto> result1)\<rparr>\<rparr>"

definition FakeDBHelper_Seed ::
  "'s FakeDBHelper \<Rightarrow> (go_error option, 's) closure \<times> 's FakeDBHelper" where
  "FakeDBHelper_Seed fake =
     (let specific = specificReturn (db_seed fake);
          fake = fake\<lparr>db_seed := appendArgs () (db_seed fake)\<rparr>;
          fake = FakeDBHelper_recordInvocation ''Seed'' [] fake
      in (answerWith () specific (db_seed fake), fake))"

definition FakeDBHelper_SeedCallCount ::
  "'s FakeDBHelper \<Rightarrow> int" where
  "FakeDBHelper_SeedCallCount fake = callCount (db_seed fake)"

definition FakeDBHelper_SeedCalls ::
  "(unit \<Rightarrow> (go_error option, 's) closure) option \<Rightarrow> 's FakeDBHelper \<Rightarrow> 's FakeDBHelper" where
  "FakeDBHelper_SeedCalls stub fake = fake\<lparr>db_seed := (db_seed fake)\<lparr>Stub := stub\<rparr>\<rparr>"

definition FakeDBHelper_SeedReturns ::
  "go_error option \<Rightarrow> 's FakeDBHelper \<Rightarrow> 's FakeDBHelper" where
  "FakeDBHelper_SeedReturns result1 fake =
     fake\<lparr>db_seed := (db_seed fake)\<lparr>Stub := None, Returns := result1\<rparr>\<rparr>"

definition FakeDBHelper_SeedReturnsOnCall ::
  "int \<Rightarrow> go_error option \<Rightarrow> 's FakeDBHelper \<Rightarrow> 's FakeDBHelper" where
  "FakeDBHelper_SeedReturnsOnCall i result1 fake =
     fake\<lparr>db_seed := (db_seed fake)\<lparr>Stub := None,
       ReturnsOnCall := (ReturnsOnCall (db_seed fake))(i \<mapsto> result1)\<rparr>\<rparr>"

definition FakeDBHelper_SeedUsers ::
  "'s FakeDBHelper \<Rightarrow> (go_error option, 's) closure \<times> 's FakeDBHelper" where
  "FakeDBHelper_SeedUsers fake =
     (let specific = specificReturn (db_seedUsers fake);
          fake = fake\<lparr>db_seedUsers := appendArgs () (db_seedUsers fake)\<rparr>;
          fake = FakeDBHelper_recordInvocation ''SeedUsers'' [] fake
      in (answerWith () specific (db_seedUsers fake), fake))"

definition FakeDBHelper_SeedUsersCallCount ::
  "'s FakeDBHelper \<Rightarrow> int" where
  "FakeDBHelper_SeedUsersCallCount fake = callCount (db_seedUsers fake)"

definition FakeDBHelper_SeedUsersCalls ::
  "(unit \<Rightarrow> (go_error option, 's) closure) option \<Rightarrow> 's FakeDBHelper \<Rightarrow> 's FakeDBHelper" where
  "FakeDBHelper_SeedUsersCalls stub fake = fake\<lparr>db_seedUsers := (db_seedUsers fake)\<lparr>Stub := stub\<rparr>\<rparr>"

definition FakeDBHelper_SeedUsersReturns ::
  "go_error option \<Rightarrow> 's FakeDBHelper \<Rightarrow> 's FakeDBHelper" where
  "FakeDBHelper_SeedUsersReturns result1 fake =
     fake\<lparr>db_seedUsers := (db_seedUsers fake)\<lparr>Stub := None, Returns := result1\<rparr>\<rparr>"

definition FakeDBHelper_SeedUsersReturnsOnCall ::
  "int \<Rightarrow> go_error option \<Rightarrow> 's FakeDBHelper \<Rightarrow> 's FakeDBHelper" where
  "FakeDBHelper_SeedUsersReturnsOnCall i result1 fake =
     fake\<lparr>db_seedUsers := (db_seedUsers fake)\<lparr>Stub := None,
       ReturnsOnCall := (ReturnsOnCall (db_seedUsers fake))(i \<mapsto> result1)\<rparr>\<rparr>"

definition FakeDBHelper_StartMysqldForUpgrade ::
  "'s FakeDBHelper \<Rightarrow> (cmd option \<times> go_error option, 's) closure \<times> 's FakeDBHelper" where
  "FakeDBHelper_StartMysqldForUpgrade fake =
     (let specific = specificReturn (db_startMysqldForUpgrade fake);
          fake = fake\<lparr>db_startMysqldForUpgrade := appendArgs () (db_startMysqldForUpgrade fake)\<rparr>;
          fake = FakeDBHelper_recordInvocation ''StartMysqldForUpgrade'' [] fake
      in (answerWith () specific (db_startMysqldForUpgrade fake), fake))"

definition FakeDBHelper_StartMysqldForUpgradeCallCount ::
  "'s FakeDBHelper \<Rightarrow> int" where
  "FakeDBHelper_StartMysqldForUpgradeCallCount fake = callCount (db_startMysqldForUpgrade fake)"

definition FakeDBHelper_StartMysqldForUpgradeCalls ::
  "(unit \<Rightarrow> (cmd option \<times> go_error option, 's) closure) option \<Rightarrow> 's FakeDBHelper \<Rightarrow> 's FakeDBHelper" where
  "FakeDBHelper_StartMysqldForUpgradeCalls stub fake = fake\<lparr>db_startMysqldForUpgrade := (db_startMysqldForUpgrade fake)\<lparr>Stub := stub\<rparr>\<rparr>"

definition FakeDBHelper_StartMysqldForUpgradeReturns ::
  "cmd option \<Rightarrow> go_error option \<Rightarrow> 's FakeDBHelper \<Rightarrow> 's FakeDBHelper" where
  "FakeDBHelper_StartMysqldForUpgradeReturns result1 result2 fake =
     fake\<lparr>db_startMysqldForUpgrade := (db_startMysqldForUpgrade fake)\<lparr>Stub := None, Returns := (result1, result2)\<rparr>\<rparr>"

definition FakeDBHelper_StartMysqldForUpgradeReturnsOnCall ::
  "int \<Rightarrow> cmd option \<Rightarrow> go_error option \<Rightarrow> 's FakeDBHelper \<Rightarrow> 's FakeDBHelper" where
  "FakeDBHelper_StartMysqldForUpgradeReturnsOnCall i result1 result2 fake =
     fake\<lparr>db_startMysqldForUpgrade := (db_startMysqldForUpgrade fake)\<lparr>Stub := None,
       ReturnsOnCall := (ReturnsOnCall (db_startMysqldForUpgrade fake))(i \<mapsto> (result1, result2))\<rparr>\<rparr>"

definition FakeDBHelper_StartMysqldInBootstrap ::
  "'s FakeDBHelper \<Rightarrow> (cmd option \<times> go_error option, 's) closure \<times> 's FakeDBHelper" where
  "FakeDBHelper_StartMysqldInBootstrap fake =
     (let specific = specificReturn (db_startMysqldInBootstrap fake);
          fake = fake\<lparr>db_startMysqldInBootstrap := appendArgs () (db_startMysqldInBootstrap fake)\<rparr>;
          fake = FakeDBHelper_recordInvocation ''StartMysqldInBootstrap'' [] fake
      in (answerWith () specific (db_startMysqldInBootstrap fake), fake))"

definition FakeDBHelper_StartMysqldInBootstrapCallCount ::
  "'s FakeDBHelper \<Rightarrow> int" where
  "FakeDBHelper_StartMysqldInBootstrapCallCount fake = callCount (db_startMysqldInBootstrap fake)"

definition FakeDBHelper_StartMysqldInBootstrapCalls ::
  "(unit \<Rightarrow> (cmd option \<times> go_error option, 's) closure) option \<Rightarrow> 's FakeDBHelper \<Rightarrow> 's FakeDBHelper" where
  "FakeDBHelper_StartMysqldInBootstrapCalls stub fake = fake\<lparr>db_startMysqldInBootstrap := (db_startMysqldInBootstrap fake)\<lparr>Stub := stub\<rparr>\<rparr>"

definition FakeDBHelper_StartMysqldInBootstrapReturns ::
  "cmd option \<Rightarrow> go_error option \<Rightarrow> 's FakeDBHelper \<Rightarrow> 's FakeDBHelper" where
  "FakeDBHelper_StartMysqldInBootstrapReturns result1 result2 fake =
     fake\<lparr>db_startMysqldInBootstrap := (db_startMysqldInBootstrap fake)\<lparr>Stub := None, Returns := (result1, result2)\<rparr>\<rparr>"

definition FakeDBHelper_StartMysqldInBootstrapReturnsOnCall ::
  "int \<Rightarrow> cmd option \<Rightarrow> go_error option \<Rightarrow> 's FakeDBHelper \<Rightarrow> 's FakeDBHelper" where
  "FakeDBHelper_StartMysqldInBootstrapReturnsOnCall i result1 result2 fake =
     fake\<lparr>db_startMysqldInBootstrap := (db_startMysqldInBootstrap fake)\<lparr>Stub := None,
       ReturnsOnCall := (ReturnsOnCall (db_startMysqldInBootstrap fake))(i \<mapsto> (result1, result2))\<rparr>\<rparr>"

definition FakeDBHelper_StartMysqldInJoin ::
  "'s FakeDBHelper \<Rightarrow> (cmd option \<times> go_error option, 's) closure \<times> 's FakeDBHelper" where
  "FakeDBHelper_StartMysqldInJoin fake =
     (let specific = specificReturn (db_startMysqldInJoin fake);
          fake = fake\<lparr>db_startMysqldInJoin := appendArgs () (db_startMysqldInJoin fake)\<rparr>;
          fake = FakeDBHelper_recordInvocation ''StartMysqldInJoin'' [] fake
      in (answerWith () specific (db_startMysqldInJoin fake), fake))"

definition FakeDBHelper_StartMysqldInJoinCallCount ::
  "'s FakeDBHelper \<Rightarrow> int" where
  "FakeDBHelper_StartMysqldInJoinCallCount fake = callCount (db_startMysqldInJoin fake)"

definition FakeDBHelper_StartMysqldInJoinCalls ::
  "(unit \<Rightarrow> (cmd option \<times> go_error option, 's) closure) option \<Rightarrow> 's FakeDBHelper \<Rightarrow> 's FakeDBHelper" where
  "FakeDBHelper_StartMysqldInJoinCalls stub fake = fake\<lparr>db_startMysqldInJoin := (db_startMysqldInJoin fake)\<lparr>Stub := stub\<rparr>\<rparr>"

definition FakeDBHelper_StartMysqldInJoinReturns ::
  "cmd option \<Rightarrow> go_error option \<Rightarrow> 's FakeDBHelper \<Rightarrow> 's FakeDBHelper" where
  "FakeDBHelper_StartMysqldInJoinReturns result1 result2 fake =
     fake\<lparr>db_startMysqldInJoin := (db_startMysqldInJoin fake)\<lparr>Stub := None, Returns := (result1, result2)\<rparr>\<rparr>"

definition FakeDBHelper_StartMysqldInJoinReturnsOnCall ::
  "int \<Rightarrow> cmd option \<Rightarrow> go_error option \<Rightarrow> 's FakeDBHelper \<Rightarrow> 's FakeDBHelper" where
  "FakeDBHelper_StartMysqldInJoinReturnsOnCall i result1 result2 fake =
     fake\<lparr>db_startMysqldInJoin := (db_startMysqldInJoin fake)\<lparr>Stub := None,
       ReturnsOnCall := (ReturnsOnCall (db_startMysqldInJoin fake))(i \<mapsto> (result1, result2))\<rparr>\<rparr>"

definition FakeDBHelper_StopMysqld ::
  "'s FakeDBHelper \<Rightarrow> (unit, 's) closure \<times> 's FakeDBHelper" where
  "FakeDBHelper_StopMysqld fake =
     (let fake = fake\<lparr>db_stopMysqld := appendArgs () (db_stopMysqld fake)\<rparr>;
          fake = FakeDBHelper_recordInvocation ''StopMysqld'' [] fake
      in (runStub () (db_stopMysqld fake), fake))"

definition FakeDBHelper_StopMysqldCallCount ::
  "'s FakeDBHelper \<Rightarrow> int" where
  "FakeDBHelper_StopMysqldCallCount fake = callCount (db_stopMysqld fake)"

definition FakeDBHelper_StopMysqldCalls ::
  "(unit \<Rightarrow> (unit, 's) closure) option \<Rightarrow> 's FakeDBHelper \<Rightarrow> 's FakeDBHelper" where
  "FakeDBHelper_StopMysqldCalls stub fake = fake\<lparr>db_stopMysqld := (db_stopMysqld fake)\<lparr>Stub := stub\<rparr>\<rparr>"

definition FakeDBHelper_Upgrade ::
  "'s FakeDBHelper \<Rightarrow> (string \<times> go_error option, 's) closure \<times> 's FakeDBHelper" where
  "FakeDBHelper_Upgrade fake =
     (let specific = specificReturn (db_upgrade fake);
          fake = fake\<lparr>db_upgrade := appendArgs () (db_upgrade fake)\<rparr>;
          fake = FakeDBHelper_recordInvocation ''Upgrade'' [] fake
      in (answerWith () specific (db_upgrade fake), fake))"

definition FakeDBHelper_UpgradeCallCount ::
  "'s FakeDBHelper \<Rightarrow> int" where
  "FakeDBHelper_UpgradeCallCount fake = callCount (db_upgrade fake)"

definition FakeDBHelper_UpgradeCalls ::
  "(unit \<Rightarrow> (string \<times> go_error option, 's) closure) option \<Rightarrow> 's FakeDBHelper \<Rightarrow> 's FakeDBHelper" where
  "FakeDBHelper_UpgradeCalls stub fake = fake\<lparr>db_upgrade := (db_upgrade fake)\<lparr>Stub := stub\<rparr>\<rparr>"

definition FakeDBHelper_UpgradeReturns ::
  "string \<Rightarrow> go_error option \<Rightarrow> 's FakeDBHelper \<Rightarrow> 's FakeDBHelper" where
  "FakeDBHelper_UpgradeReturns result1 result2 fake =
     fake\<lparr>db_upgrade := (db_upgrade fake)\<lparr>Stub := None, Returns := (result1, result2)\<rparr>\<rparr>"

definition FakeDBHelper_UpgradeReturnsOnCall ::
  "int \<Rightarrow> string \<Rightarrow> go_error option \<Rightarrow> 's FakeDBHelper \<Rightarrow> 's FakeDBHelper" where
  "FakeDBHelper_UpgradeReturnsOnCall i result1 result2 fake =
     fake\<lparr>db_upgrade := (db_upgrade fake)\<lparr>Stub := None,
       ReturnsOnCall := (ReturnsOnCall (db_upgrade fake))(i \<mapsto> (result1, result2))\<rparr>\<rparr>"

lemmas FakeDBHelper_defs [double_simps] =
  FakeDBHelper_recordInvocation_def FakeDBHelper_IsDatabaseReachable_def FakeDBHelper_IsDatabaseReachableCallCount_def FakeDBHelper_IsDatabaseReachableCalls_def FakeDBHelper_IsDatabaseReachableReturns_def FakeDBHelper_IsDatabaseReachableReturnsOnCall_def FakeDBHelper_IsProcessRunning_def FakeDBHelper_IsProcessRunningCallCount_def FakeDBHelper_IsProcessRunningCalls_def FakeDBHelper_IsProcessRunningReturns_def FakeDBHelper_IsProcessRunningReturnsOnCall_def FakeDBHelper_RunPostStartSQL_def FakeDBHelper_RunPostStartSQLCallCount_def FakeDBHelper_RunPostStartSQLCalls_def FakeDBHelper_RunPostStartSQLReturns_def FakeDBHelper_RunPostStartSQLReturnsOnCall_def FakeDBHelper_Seed_def FakeDBHelper_SeedCallCount_def FakeDBHelper_SeedCalls_def FakeDBHelper_SeedReturns_def FakeDBHelper_SeedReturnsOnCall_def FakeDBHelper_SeedUsers_def FakeDBHelper_SeedUsersCallCount_def FakeDBHelper_SeedUsersCalls_def FakeDBHelper_SeedUsersReturns_def FakeDBHelper_SeedUsersReturnsOnCall_def FakeDBHelper_StartMysqldForUpgrade_def FakeDBHelper_StartMysqldForUpgradeCallCount_def FakeDBHelper_StartMysqldForUpgradeCalls_def FakeDBHelper_StartMysqldForUpgradeReturns_def FakeDBHelper_StartMysqldForUpgradeReturnsOnCall_def FakeDBHelper_StartMysqldInBootstrap_def FakeDBHelper_StartMysqldInBootstrapCallCount_def FakeDBHelper_StartMysqldInBootstrapCalls_def FakeDBHelper_StartMysqldInBootstrapReturns_def FakeDBHelper_StartMysqldInBootstrapReturnsOnCall_def FakeDBHelper_StartMysqldInJoin_def FakeDBHelper_StartMysqldInJoinCallCount_def FakeDBHelper_StartMysqldInJoinCalls_def FakeDBHelper_StartMysqldInJoinReturns_def FakeDBHelper_StartMysqldInJoinReturnsOnCall_def FakeDBHelper_StopMysqld_def FakeDBHelper_StopMysqldCallCount_def FakeDBHelper_StopMysqldCalls_def FakeDBHelper_Upgrade_def FakeDBHelper_UpgradeCallCount_def FakeDBHelper_UpgradeCalls_def FakeDBHelper_UpgradeReturns_def FakeDBHelper_UpgradeReturnsOnCall_def

subsection \<open>The interface\<close>

text \<open>The calls of \<^verbatim>\<open>DBHelper\<close>, and the double as a receiver of them.\<close>

datatype DBHelper_call =
    Db_IsDatabaseReachable
  | Db_IsProcessRunning
  | Db_RunPostStartSQL
  | Db_Seed
  | Db_SeedUsers
  | Db_StartMysqldForUpgrade
  | Db_StartMysqldInBootstrap
  | Db_StartMysqldInJoin
  | Db_StopMysqld
  | Db_Upgrade

fun FakeDBHelper_call :: "DBHelper_call \<Rightarrow> 's FakeDBHelper \<Rightarrow> (reply, 's) closure \<times> 's FakeDBHelper" where
  "FakeDBHelper_call Db_IsDatabaseReachable fake =
     map_prod (through ReplyBool) id (FakeDBHelper_IsDatabaseReachable fake)"
| "FakeDBHelper_call Db_IsProcessRunning fake =
     map_prod (through ReplyBool) id (FakeDBHelper_IsProcessRunning fake)"
| "FakeDBHelper_call Db_RunPostStartSQL fake =
     map_prod (through ReplyError) id (FakeDBHelper_RunPostStartSQL fake)"
| "FakeDBHelper_call Db_Seed fake =
     map_prod (through ReplyError) id (FakeDBHelper_Seed fake)"
| "FakeDBHelper_call Db_SeedUsers fake =
     map_prod (through ReplyError) id (FakeDBHelper_SeedUsers fake)"
| "FakeDBHelper_call Db_StartMysqldForUpgrade fake =
     map_prod (through ReplyCmdError) id (FakeDBHelper_StartMysqldForUpgrade fake)"
| "FakeDBHelper_call Db_StartMysqldInBootstrap fake =
     map_prod (through ReplyCmdError) id (FakeDBHelper_StartMysqldInBootstrap fake)"
| "FakeDBHelper_call Db_StartMysqldInJoin fake =
     map_prod (through ReplyCmdError) id (FakeDBHelper_StartMysqldInJoin fake)"
| "FakeDBHelper_call Db_StopMysqld fake =
     map_prod (through ReplyUnit) id (FakeDBHelper_StopMysqld fake)"
| "FakeDBHelper_call Db_Upgrade fake =
     map_prod (through ReplyStringError) id (FakeDBHelper_Upgrade fake)"

fun DBHelper_name :: "DBHelper_call \<Rightarrow> string" where
  "DBHelper_name Db_IsDatabaseReachable = ''IsDatabaseReachable''"
| "DBHelper_name Db_IsProcessRunning = ''IsProcessRunning''"
| "DBHelper_name Db_RunPostStartSQL = ''RunPostStartSQL''"
| "DBHelper_name Db_Seed = ''Seed''"
| "DBHelper_name Db_SeedUsers = ''SeedUsers''"
| "DBHelper_name Db_StartMysqldForUpgrade = ''StartMysqldForUpgrade''"
| "DBHelper_name Db_StartMysqldInBootstrap = ''StartMysqldInBootstrap''"
| "DBHelper_name Db_StartMysqldInJoin = ''StartMysqldInJoin''"
| "DBHelper_name Db_StopMysqld = ''StopMysqld''"
| "DBHelper_name Db_Upgrade = ''Upgrade''"

fun DBHelper_boxes :: "DBHelper_call \<Rightarrow> boxed list" where
  "DBHelper_boxes Db_IsDatabaseReachable = []"
| "DBHelper_boxes Db_IsProcessRunning = []"
| "DBHelper_boxes Db_RunPostStartSQL = []"
| "DBHelper_boxes Db_Seed = []"
| "DBHelper_boxes Db_SeedUsers = []"
| "DBHelper_boxes Db_StartMysqldForUpgrade = []"
| "DBHelper_boxes Db_StartMysqldInBootstrap = []"
| "DBHelper_boxes Db_StartMysqldInJoin = []"
| "DBHelper_boxes Db_StopMysqld = []"
| "DBHelper_boxes Db_Upgrade = []"

text \<open>The types of the arguments the interface declares.\<close>

definition DBHelper_signature :: "string \<rightharpoonup> box_type list" where
  "DBHelper_signature =
     [''IsDatabaseReachable'' \<mapsto> [],
      ''IsProcessRunning'' \<mapsto> [],
      ''RunPostStartSQL'' \<mapsto> [],
      ''Seed'' \<mapsto> [],
      ''SeedUsers'' \<mapsto> [],
      ''StartMysqldForUpgrade'' \<mapsto> [],
      ''StartMysqldInBootstrap'' \<mapsto> [],
      ''StartMysqldInJoin'' \<mapsto> [],
      ''StopMysqld'' \<mapsto> [],
      ''Upgrade'' \<mapsto> []]"

text \<open>What is recorded of the calls of each method, boxed as in the log.\<close>

definition FakeDBHelper_recorded :: "'s FakeDBHelper \<Rightarrow> recorded" where
  "FakeDBHelper_recorded fake =
     [(''IsDatabaseReachable'', map (\<lambda>_. []) (ArgsForCall (db_isDatabaseReachable fake))),
      (''IsProcessRunning'', map (\<lambda>_. []) (ArgsForCall (db_isProcessRunning fake))),
      (''RunPostStartSQL'', map (\<lambda>_. []) (ArgsForCall (db_runPostStartSQL fake))),
      (''Seed'', map (\<lambda>_. []) (ArgsForCall (db_seed fake))),
      (''SeedUsers'', map (\<lambda>_. []) (ArgsForCall (db_seedUsers fake))),
      (''StartMysqldForUpgrade'', map (\<lambda>_. []) (ArgsForCall (db_startMysqldForUpgrade fake))),
      (''StartMysqldInBootstrap'', map (\<lambda>_. []) (ArgsForCall (db_startMysqldInBootstrap fake))),
      (''StartMysqldInJoin'', map (\<lambda>_. []) (ArgsForCall (db_startMysqldInJoin fake))),
      (''StopMysqld'', map (\<lambda>_. []) (ArgsForCall (db_stopMysqld fake))),
      (''Upgrade'', map (\<lambda>_. []) (ArgsForCall (db_upgrade fake)))]"

text \<open>Everything a test can do to the double: calls of the interface, and its setters.\<close>

inductive FakeDBHelper_step :: "'s FakeDBHelper \<Rightarrow> 's FakeDBHelper \<Rightarrow> bool" where
  FakeDBHelper_step_call: "FakeDBHelper_step fake (snd (FakeDBHelper_call c fake))"
| FakeDBHelper_IsDatabaseReachableCalls_step: "FakeDBHelper_step fake (FakeDBHelper_IsDatabaseReachableCalls stub fake)"
| FakeDBHelper_IsDatabaseReachableReturns_step: "FakeDBHelper_step fake (FakeDBHelper_IsDatabaseReachableReturns result1 fake)"
| FakeDBHelper_IsDatabaseReachableReturnsOnCall_step: "FakeDBHelper_step fake (FakeDBHelper_IsDatabaseReachableReturnsOnCall i result1 fake)"
| FakeDBHelper_IsProcessRunningCalls_step: "FakeDBHelper_step fake (FakeDBHelper_IsProcessRunningCalls stub fake)"
| FakeDBHelper_IsProcessRunningReturns_step: "FakeDBHelper_step fake (FakeDBHelper_IsProcessRunningReturns result1 fake)"
| FakeDBHelper_IsProcessRunningReturnsOnCall_step: "FakeDBHelper_step fake (FakeDBHelper_IsProcessRunningReturnsOnCall i result1 fake)"
| FakeDBHelper_RunPostStartSQLCalls_step: "FakeDBHelper_step fake (FakeDBHelper_RunPostStartSQLCalls stub fake)"
| FakeDBHelper_RunPostStartSQLReturns_step: "FakeDBHelper_step fake (FakeDBHelper_RunPostStartSQLReturns result1 fake)"
| FakeDBHelper_RunPostStartSQLReturnsOnCall_step: "FakeDBHelper_step fake (FakeDBHelper_RunPostStartSQLReturnsOnCall i result1 fake)"
| FakeDBHelper_SeedCalls_step: "FakeDBHelper_step fake (FakeDBHelper_SeedCalls stub fake)"
| FakeDBHelper_SeedReturns_step: "FakeDBHelper_step fake (FakeDBHelper_SeedReturns result1 fake)"
| FakeDBHelper_SeedReturnsOnCall_step: "FakeDBHelper_step fake (FakeDBHelper_SeedReturnsOnCall i result1 fake)"
| FakeDBHelper_SeedUsersCalls_step: "FakeDBHelper_step fake (FakeDBHelper_SeedUsersCalls stub fake)"
| FakeDBHelper_SeedUsersReturns_step: "FakeDBHelper_step fake (FakeDBHelper_SeedUsersReturns result1 fake)"
| FakeDBHelper_SeedUsersReturnsOnCall_step: "FakeDBHelper_step fake (FakeDBHelper_SeedUsersReturnsOnCall i result1 fake)"
| FakeDBHelper_StartMysqldForUpgradeCalls_step: "FakeDBHelper_step fake (FakeDBHelper_StartMysqldForUpgradeCalls stub fake)"
| FakeDBHelper_StartMysqldForUpgradeReturns_step: "FakeDBHelper_step fake (FakeDBHelper_StartMysqldForUpgradeReturns result1 result2 fake)"
| FakeDBHelper_StartMysqldForUpgradeReturnsOnCall_step: "FakeDBHelper_step fake (FakeDBHelper_StartMysqldForUpgradeReturnsOnCall i result1 result2 fake)"
| FakeDBHelper_StartMysqldInBootstrapCalls_step: "FakeDBHelper_step fake (FakeDBHelper_StartMysqldInBootstrapCalls stub fake)"
| FakeDBHelper_StartMysqldInBootstrapReturns_step: "FakeDBHelper_step fake (FakeDBHelper_StartMysqldInBootstrapReturns result1 result2 fake)"
| FakeDBHelper_StartMysqldInBootstrapReturnsOnCall_step: "FakeDBHelper_step fake (FakeDBHelper_StartMysqldInBootstrapReturnsOnCall i result1 result2 fake)"
| FakeDBHelper_StartMysqldInJoinCalls_step: "FakeDBHelper_step fake (FakeDBHelper_StartMysqldInJoinCalls stub fake)"
| FakeDBHelper_StartMysqldInJoinReturns_step: "FakeDBHelper_step fake (FakeDBHelper_StartMysqldInJoinReturns result1 result2 fake)"
| FakeDBHelper_StartMysqldInJoinReturnsOnCall_step: "FakeDBHelper_step fake (FakeDBHelper_StartMysqldInJoinReturnsOnCall i result1 result2 fake)"
| FakeDBHelper_StopMysqldCalls_step: "FakeDBHelper_step fake (FakeDBHelper_StopMysqldCalls stub fake)"
| FakeDBHelper_UpgradeCalls_step: "FakeDBHelper_step fake (FakeDBHelper_UpgradeCalls stub fake)"
| FakeDBHelper_UpgradeReturns_step: "FakeDBHelper_step fake (FakeDBHelper_UpgradeReturns result1 result2 fake)"
| FakeDBHelper_UpgradeReturnsOnCall_step: "FakeDBHelper_step fake (FakeDBHelper_UpgradeReturnsOnCall i result1 result2 fake)"

subsection \<open>Contracts\<close>

text \<open>Each method keeps the contracts of a double.\<close>

interpretation db_isDatabaseReachable: canned "\<lambda>_. FakeDBHelper_IsDatabaseReachable" FakeDBHelper_IsDatabaseReachableCallCount FakeDBHelper_IsDatabaseReachableCalls
  "\<lambda>fake. ArgsForCall (db_isDatabaseReachable fake)" "\<lambda>fake. Stub (db_isDatabaseReachable fake)"
  FakeDBHelper_IsDatabaseReachableReturns
  FakeDBHelper_IsDatabaseReachableReturnsOnCall
  "\<lambda>fake. Returns (db_isDatabaseReachable fake)" "\<lambda>fake. ReturnsOnCall (db_isDatabaseReachable fake)"
  by unfold_locales (simp_all add: double_simps split: option.splits)

interpretation db_isProcessRunning: canned "\<lambda>_. FakeDBHelper_IsProcessRunning" FakeDBHelper_IsProcessRunningCallCount FakeDBHelper_IsProcessRunningCalls
  "\<lambda>fake. ArgsForCall (db_isProcessRunning fake)" "\<lambda>fake. Stub (db_isProcessRunning fake)"
  FakeDBHelper_IsProcessRunningReturns
  FakeDBHelper_IsProcessRunningReturnsOnCall
  "\<lambda>fake. Returns (db_isProcessRunning fake)" "\<lambda>fake. ReturnsOnCall (db_isProcessRunning fake)"
  by unfold_locales (simp_all add: double_simps split: option.splits)

interpretation db_runPostStartSQL: canned "\<lambda>_. FakeDBHelper_RunPostStartSQL" FakeDBHelper_RunPostStartSQLCallCount FakeDBHelper_RunPostStartSQLCalls
  "\<lambda>fake. ArgsForCall (db_runPostStartSQL fake)" "\<lambda>fake. Stub (db_runPostStartSQL fake)"
  FakeDBHelper_RunPostStartSQLReturns
  FakeDBHelper_RunPostStartSQLReturnsOnCall
  "\<lambda>fake. Returns (db_runPostStartSQL fake)" "\<lambda>fake. ReturnsOnCall (db_runPostStartSQL fake)"
  by unfold_locales (simp_all add: double_simps split: option.splits)

interpretation db_seed: canned "\<lambda>_. FakeDBHelper_Seed" FakeDBHelper_SeedCallCount FakeDBHelper_SeedCalls
  "\<lambda>fake. ArgsForCall (db_seed fake)" "\<lambda>fake. Stub (db_seed fake)"
  FakeDBHelper_SeedReturns
  FakeDBHelper_SeedReturnsOnCall
  "\<lambda>fake. Returns (db_seed fake)" "\<lambda>fake. ReturnsOnCall (db_seed fake)"
  by unfold_locales (simp_all add: double_simps split: option.splits)

interpretation db_seedUsers: canned "\<lambda>_. FakeDBHelper_SeedUsers" FakeDBHelper_SeedUsersCallCount FakeDBHelper_SeedUsersCalls
  "\<lambda>fake. ArgsForCall (db_seedUsers fake)" "\<lambda>fake. Stub (db_seedUsers fake)"
  FakeDBHelper_SeedUsersReturns
  FakeDBHelper_SeedUsersReturnsOnCall
  "\<lambda>fake. Returns (db_seedUsers fake)" "\<lambda>fake. ReturnsOnCall (db_seedUsers fake)"
  by unfold_locales (simp_all add: double_simps split: option.splits)

interpretation db_startMysqldForUpgrade: canned "\<lambda>_. FakeDBHelper_StartMysqldForUpgrade" FakeDBHelper_StartMysqldForUpgradeCallCount FakeDBHelper_StartMysqldForUpgradeCalls
  "\<lambda>fake. ArgsForCall (db_startMysqldForUpgrade fake)" "\<lambda>fake. Stub (db_startMysqldForUpgrade fake)"
  "\<lambda>(r1, r2). FakeDBHelper_StartMysqldForUpgradeReturns r1 r2"
  "\<lambda>i (r1, r2). FakeDBHelper_StartMysqldForUpgradeReturnsOnCall i r1 r2"
  "\<lambda>fake. Returns (db_startMysqldForUpgrade fake)" "\<lambda>fake. ReturnsOnCall (db_startMysqldForUpgrade fake)"
  by unfold_locales (simp_all add: double_simps split: option.splits)

interpretation db_startMysqldInBootstrap: canned "\<lambda>_. FakeDBHelper_StartMysqldInBootstrap" FakeDBHelper_StartMysqldInBootstrapCallCount FakeDBHelper_StartMysqldInBootstrapCalls
  "\<lambda>fake. ArgsForCall (db_startMysqldInBootstrap fake)" "\<lambda>fake. Stub (db_startMysqldInBootstrap fake)"
  "\<lambda>(r1, r2). FakeDBHelper_StartMysqldInBootstrapReturns r1 r2"
  "\<lambda>i (r1, r2). FakeDBHelper_StartMysqldInBootstrapReturnsOnCall i r1 r2"
  "\<lambda>fake. Returns (db_startMysqldInBootstrap fake)" "\<lambda>fake. ReturnsOnCall (db_startMysqldInBootstrap fake)"
  by unfold_locales (simp_all add: double_simps split: option.splits)

interpretation db_startMysqldInJoin: canned "\<lambda>_. FakeDBHelper_StartMysqldInJoin" FakeDBHelper_StartMysqldInJoinCallCount FakeDBHelper_StartMysqldInJoinCalls
  "\<lambda>fake. ArgsForCall (db_startMysqldInJoin fake)" "\<lambda>fake. Stub (db_startMysqldInJoin fake)"
  "\<lambda>(r1, r2). FakeDBHelper_StartMysqldInJoinReturns r1 r2"
  "\<lambda>i (r1, r2). FakeDBHelper_StartMysqldInJoinReturnsOnCall i r1 r2"
  "\<lambda>fake. Returns (db_startMysqldInJoin fake)" "\<lambda>fake. ReturnsOnCall (db_startMysqldInJoin fake)"
  by unfold_locales (simp_all add: double_simps split: option.splits)

interpretation db_stopMysqld: spying "\<lambda>_. FakeDBHelper_StopMysqld" FakeDBHelper_StopMysqldCallCount FakeDBHelper_StopMysqldCalls
  "\<lambda>fake. ArgsForCall (db_stopMysqld fake)" "\<lambda>fake. Stub (db_stopMysqld fake)"
  by unfold_locales (simp_all add: double_simps split: option.splits)

interpretation db_upgrade: canned "\<lambda>_. FakeDBHelper_Upgrade" FakeDBHelper_UpgradeCallCount FakeDBHelper_UpgradeCalls
  "\<lambda>fake. ArgsForCall (db_upgrade fake)" "\<lambda>fake. Stub (db_upgrade fake)"
  "\<lambda>(r1, r2). FakeDBHelper_UpgradeReturns r1 r2"
  "\<lambda>i (r1, r2). FakeDBHelper_UpgradeReturnsOnCall i r1 r2"
  "\<lambda>fake. Returns (db_upgrade fake)" "\<lambda>fake. ReturnsOnCall (db_upgrade fake)"
  by unfold_locales (simp_all add: double_simps split: option.splits)

interpretation db_log: logging FakeDBHelper_call FakeDBHelper_Invocations DBHelper_name DBHelper_boxes
proof unfold_locales
  fix c :: DBHelper_call and fake :: "'s FakeDBHelper"
  show "FakeDBHelper_Invocations (snd (FakeDBHelper_call c fake)) =
    logged (DBHelper_name c) (DBHelper_boxes c) (FakeDBHelper_Invocations fake)"
    by (cases c) (simp_all add: double_simps FakeDBHelper_Invocations_def)
qed

lemma FakeDBHelper_recorded_call:
  "FakeDBHelper_recorded (snd (FakeDBHelper_call c fake)) =
     add_call (DBHelper_name c) (DBHelper_boxes c) (FakeDBHelper_recorded fake)"
  by (cases c)
    (simp_all add: FakeDBHelper_recorded_def double_simps add_call_def)

lemma FakeDBHelper_recorded_names:
  "distinct (map fst (FakeDBHelper_recorded fake))"
  "DBHelper_name c \<in> set (map fst (FakeDBHelper_recorded fake))"
  by (simp_all add: FakeDBHelper_recorded_def) (cases c; simp)

interpretation db_inv: invariant_system "\<lambda>fake. fake = new_FakeDBHelper" FakeDBHelper_step
  "\<lambda>fake. consistent (FakeDBHelper_recorded fake) (FakeDBHelper_Invocations fake)"
proof unfold_locales
  fix fake :: "'s FakeDBHelper" assume "fake = new_FakeDBHelper"
  then show "consistent (FakeDBHelper_recorded fake) (FakeDBHelper_Invocations fake)"
    by (simp add: new_FakeDBHelper_def FakeDBHelper_recorded_def FakeDBHelper_Invocations_def double_simps consistent_def)
next
  fix fake fake' :: "'s FakeDBHelper"
  assume inv: "consistent (FakeDBHelper_recorded fake) (FakeDBHelper_Invocations fake)" and "FakeDBHelper_step fake fake'"
  from this(2) show "consistent (FakeDBHelper_recorded fake') (FakeDBHelper_Invocations fake')"
  proof cases
    case (FakeDBHelper_step_call c)
    then show ?thesis
      using consistent_logged [OF FakeDBHelper_recorded_names(1) inv FakeDBHelper_recorded_names(2)]
      by (simp add: FakeDBHelper_recorded_call db_log.call_logged)
  qed (use inv in \<open>simp_all add: FakeDBHelper_recorded_def FakeDBHelper_Invocations_def double_simps\<close>)
qed

lemma FakeDBHelper_well_typed:
  "consistent (FakeDBHelper_recorded fake) (FakeDBHelper_Invocations fake) \<Longrightarrow> well_typed DBHelper_signature (FakeDBHelper_Invocations fake)"
  by (erule well_typed_recorded) (simp add: FakeDBHelper_recorded_def DBHelper_signature_def split_beta)

subsection \<open>Wrapping the implementation\<close>

text \<open>The implementation as a receiver of the same calls, and a double with its methods as stubs.\<close>

fun GaleraDBHelper_call :: "GaleraDBHelper \<Rightarrow> DBHelper_call \<Rightarrow> reply go" where
  "GaleraDBHelper_call h Db_IsDatabaseReachable = (\<lambda>e. through ReplyBool (IsDatabaseReachable h e))"
| "GaleraDBHelper_call h Db_IsProcessRunning = (\<lambda>e. through ReplyBool (IsProcessRunning h e))"
| "GaleraDBHelper_call h Db_RunPostStartSQL = (\<lambda>e. through ReplyError (RunPostStartSQL h e))"
| "GaleraDBHelper_call h Db_Seed = (\<lambda>e. through ReplyError (Seed h e))"
| "GaleraDBHelper_call h Db_SeedUsers = (\<lambda>e. through ReplyError (SeedUsers h e))"
| "GaleraDBHelper_call h Db_StartMysqldForUpgrade = (\<lambda>e. through ReplyCmdError (StartMysqldForUpgrade h e))"
| "GaleraDBHelper_call h Db_StartMysqldInBootstrap = (\<lambda>e. through ReplyCmdError (StartMysqldInBootstrap h e))"
| "GaleraDBHelper_call h Db_StartMysqldInJoin = (\<lambda>e. through ReplyCmdError (StartMysqldInJoin h e))"
| "GaleraDBHelper_call h Db_StopMysqld = (\<lambda>e. through ReplyUnit (StopMysqld h e))"
| "GaleraDBHelper_call h Db_Upgrade = (\<lambda>e. through ReplyStringError (dbh_Upgrade h e))"

definition FakeDBHelper_wrapping :: "GaleraDBHelper \<Rightarrow> env \<Rightarrow> world FakeDBHelper \<Rightarrow> world FakeDBHelper" where
  "FakeDBHelper_wrapping h e fake =
     (FakeDBHelper_IsDatabaseReachableCalls (Some (\<lambda>_. IsDatabaseReachable h e)) \<circ>
      FakeDBHelper_IsProcessRunningCalls (Some (\<lambda>_. IsProcessRunning h e)) \<circ>
      FakeDBHelper_RunPostStartSQLCalls (Some (\<lambda>_. RunPostStartSQL h e)) \<circ>
      FakeDBHelper_SeedCalls (Some (\<lambda>_. Seed h e)) \<circ>
      FakeDBHelper_SeedUsersCalls (Some (\<lambda>_. SeedUsers h e)) \<circ>
      FakeDBHelper_StartMysqldForUpgradeCalls (Some (\<lambda>_. StartMysqldForUpgrade h e)) \<circ>
      FakeDBHelper_StartMysqldInBootstrapCalls (Some (\<lambda>_. StartMysqldInBootstrap h e)) \<circ>
      FakeDBHelper_StartMysqldInJoinCalls (Some (\<lambda>_. StartMysqldInJoin h e)) \<circ>
      FakeDBHelper_StopMysqldCalls (Some (\<lambda>_. StopMysqld h e)) \<circ>
      FakeDBHelper_UpgradeCalls (Some (\<lambda>_. dbh_Upgrade h e))) fake"

definition FakeDBHelper_wraps :: "GaleraDBHelper \<Rightarrow> env \<Rightarrow> world FakeDBHelper \<Rightarrow> bool" where
  "FakeDBHelper_wraps h e fake \<longleftrightarrow>
     Stub (db_isDatabaseReachable fake) = Some (\<lambda>_. IsDatabaseReachable h e) \<and>
     Stub (db_isProcessRunning fake) = Some (\<lambda>_. IsProcessRunning h e) \<and>
     Stub (db_runPostStartSQL fake) = Some (\<lambda>_. RunPostStartSQL h e) \<and>
     Stub (db_seed fake) = Some (\<lambda>_. Seed h e) \<and>
     Stub (db_seedUsers fake) = Some (\<lambda>_. SeedUsers h e) \<and>
     Stub (db_startMysqldForUpgrade fake) = Some (\<lambda>_. StartMysqldForUpgrade h e) \<and>
     Stub (db_startMysqldInBootstrap fake) = Some (\<lambda>_. StartMysqldInBootstrap h e) \<and>
     Stub (db_startMysqldInJoin fake) = Some (\<lambda>_. StartMysqldInJoin h e) \<and>
     Stub (db_stopMysqld fake) = Some (\<lambda>_. StopMysqld h e) \<and>
     Stub (db_upgrade fake) = Some (\<lambda>_. dbh_Upgrade h e)"

lemma FakeDBHelper_wrapping_wraps: "FakeDBHelper_wraps h e (FakeDBHelper_wrapping h e fake)"
  by (simp add: FakeDBHelper_wraps_def FakeDBHelper_wrapping_def double_simps)

interpretation db_wrap: wrapping FakeDBHelper_call "\<lambda>c. GaleraDBHelper_call h c e" "FakeDBHelper_wraps h e"
  for h e
proof unfold_locales
  fix fake c assume "FakeDBHelper_wraps h e fake"
  then show "fst (FakeDBHelper_call c fake) = GaleraDBHelper_call h c e" and "FakeDBHelper_wraps h e (snd (FakeDBHelper_call c fake))"
    by (cases c; simp add: FakeDBHelper_wraps_def double_simps)+
qed

end
