(* ===== verification/Fake_Seeders.thy ===== *)
theory Fake_Seeders
  imports Test_Double Db_Helper
begin

text \<open>
  The doubles of the two seeders, \<^verbatim>\<open>db_helper/seeder/seederfakes/fake_seeder.go\<close> and
  \<^verbatim>\<open>db_helper/db_helperfakes/fake_user_seeder.go\<close>, with the contracts of \<open>Test_Double\<close> for each
  method.
\<close>

section \<open>FakeSeeder\<close>

subsection \<open>The struct and its methods\<close>

record 's FakeSeeder =
  sd_createDBIfNeeded :: "(unit, go_error option, 's) double"
  sd_createUser :: "(unit, go_error option, 's) double"
  sd_grantUserPrivileges :: "(unit, go_error option, 's) double"
  sd_isExistingUser :: "(unit, bool \<times> go_error option, 's) double"
  sd_updateUser :: "(unit, go_error option, 's) double"
  sd_invocations :: invocations

definition new_FakeSeeder :: "'s FakeSeeder" where
  "new_FakeSeeder =
     \<lparr>sd_createDBIfNeeded = new_double None,
      sd_createUser = new_double None,
      sd_grantUserPrivileges = new_double None,
      sd_isExistingUser = new_double (False, None),
      sd_updateUser = new_double None,
      sd_invocations = Map.empty\<rparr>"

definition FakeSeeder_Invocations :: "'s FakeSeeder \<Rightarrow> invocations" where
  "FakeSeeder_Invocations fake = sd_invocations fake"

definition FakeSeeder_recordInvocation ::
  "string \<Rightarrow> boxed list \<Rightarrow> 's FakeSeeder \<Rightarrow> 's FakeSeeder" where
  "FakeSeeder_recordInvocation key args fake =
     fake\<lparr>sd_invocations := logged key args (sd_invocations fake)\<rparr>"

definition FakeSeeder_CreateDBIfNeeded ::
  "'s FakeSeeder \<Rightarrow> (go_error option, 's) closure \<times> 's FakeSeeder" where
  "FakeSeeder_CreateDBIfNeeded fake =
     (let specific = specificReturn (sd_createDBIfNeeded fake);
          fake = fake\<lparr>sd_createDBIfNeeded := appendArgs () (sd_createDBIfNeeded fake)\<rparr>;
          fake = FakeSeeder_recordInvocation ''CreateDBIfNeeded'' [] fake
      in (answerWith () specific (sd_createDBIfNeeded fake), fake))"

definition FakeSeeder_CreateDBIfNeededCallCount ::
  "'s FakeSeeder \<Rightarrow> int" where
  "FakeSeeder_CreateDBIfNeededCallCount fake = callCount (sd_createDBIfNeeded fake)"

definition FakeSeeder_CreateDBIfNeededCalls ::
  "(unit \<Rightarrow> (go_error option, 's) closure) option \<Rightarrow> 's FakeSeeder \<Rightarrow> 's FakeSeeder" where
  "FakeSeeder_CreateDBIfNeededCalls stub fake = fake\<lparr>sd_createDBIfNeeded := (sd_createDBIfNeeded fake)\<lparr>Stub := stub\<rparr>\<rparr>"

definition FakeSeeder_CreateDBIfNeededReturns ::
  "go_error option \<Rightarrow> 's FakeSeeder \<Rightarrow> 's FakeSeeder" where
  "FakeSeeder_CreateDBIfNeededReturns result1 fake =
     fake\<lparr>sd_createDBIfNeeded := (sd_createDBIfNeeded fake)\<lparr>Stub := None, Returns := result1\<rparr>\<rparr>"

definition FakeSeeder_CreateDBIfNeededReturnsOnCall ::
  "int \<Rightarrow> go_error option \<Rightarrow> 's FakeSeeder \<Rightarrow> 's FakeSeeder" where
  "FakeSeeder_CreateDBIfNeededReturnsOnCall i result1 fake =
     fake\<lparr>sd_createDBIfNeeded := (sd_createDBIfNeeded fake)\<lparr>Stub := None,
       ReturnsOnCall := (ReturnsOnCall (sd_createDBIfNeeded fake))(i \<mapsto> result1)\<rparr>\<rparr>"

definition FakeSeeder_CreateUser ::
  "'s FakeSeeder \<Rightarrow> (go_error option, 's) closure \<times> 's FakeSeeder" where
  "FakeSeeder_CreateUser fake =
     (let specific = specificReturn (sd_createUser fake);
          fake = fake\<lparr>sd_createUser := appendArgs () (sd_createUser fake)\<rparr>;
          fake = FakeSeeder_recordInvocation ''CreateUser'' [] fake
      in (answerWith () specific (sd_createUser fake), fake))"

definition FakeSeeder_CreateUserCallCount ::
  "'s FakeSeeder \<Rightarrow> int" where
  "FakeSeeder_CreateUserCallCount fake = callCount (sd_createUser fake)"

definition FakeSeeder_CreateUserCalls ::
  "(unit \<Rightarrow> (go_error option, 's) closure) option \<Rightarrow> 's FakeSeeder \<Rightarrow> 's FakeSeeder" where
  "FakeSeeder_CreateUserCalls stub fake = fake\<lparr>sd_createUser := (sd_createUser fake)\<lparr>Stub := stub\<rparr>\<rparr>"

definition FakeSeeder_CreateUserReturns ::
  "go_error option \<Rightarrow> 's FakeSeeder \<Rightarrow> 's FakeSeeder" where
  "FakeSeeder_CreateUserReturns result1 fake =
     fake\<lparr>sd_createUser := (sd_createUser fake)\<lparr>Stub := None, Returns := result1\<rparr>\<rparr>"

definition FakeSeeder_CreateUserReturnsOnCall ::
  "int \<Rightarrow> go_error option \<Rightarrow> 's FakeSeeder \<Rightarrow> 's FakeSeeder" where
  "FakeSeeder_CreateUserReturnsOnCall i result1 fake =
     fake\<lparr>sd_createUser := (sd_createUser fake)\<lparr>Stub := None,
       ReturnsOnCall := (ReturnsOnCall (sd_createUser fake))(i \<mapsto> result1)\<rparr>\<rparr>"

definition FakeSeeder_GrantUserPrivileges ::
  "'s FakeSeeder \<Rightarrow> (go_error option, 's) closure \<times> 's FakeSeeder" where
  "FakeSeeder_GrantUserPrivileges fake =
     (let specific = specificReturn (sd_grantUserPrivileges fake);
          fake = fake\<lparr>sd_grantUserPrivileges := appendArgs () (sd_grantUserPrivileges fake)\<rparr>;
          fake = FakeSeeder_recordInvocation ''GrantUserPrivileges'' [] fake
      in (answerWith () specific (sd_grantUserPrivileges fake), fake))"

definition FakeSeeder_GrantUserPrivilegesCallCount ::
  "'s FakeSeeder \<Rightarrow> int" where
  "FakeSeeder_GrantUserPrivilegesCallCount fake = callCount (sd_grantUserPrivileges fake)"

definition FakeSeeder_GrantUserPrivilegesCalls ::
  "(unit \<Rightarrow> (go_error option, 's) closure) option \<Rightarrow> 's FakeSeeder \<Rightarrow> 's FakeSeeder" where
  "FakeSeeder_GrantUserPrivilegesCalls stub fake = fake\<lparr>sd_grantUserPrivileges := (sd_grantUserPrivileges fake)\<lparr>Stub := stub\<rparr>\<rparr>"

definition FakeSeeder_GrantUserPrivilegesReturns ::
  "go_error option \<Rightarrow> 's FakeSeeder \<Rightarrow> 's FakeSeeder" where
  "FakeSeeder_GrantUserPrivilegesReturns result1 fake =
     fake\<lparr>sd_grantUserPrivileges := (sd_grantUserPrivileges fake)\<lparr>Stub := None, Returns := result1\<rparr>\<rparr>"

definition FakeSeeder_GrantUserPrivilegesReturnsOnCall ::
  "int \<Rightarrow> go_error option \<Rightarrow> 's FakeSeeder \<Rightarrow> 's FakeSeeder" where
  "FakeSeeder_GrantUserPrivilegesReturnsOnCall i result1 fake =
     fake\<lparr>sd_grantUserPrivileges := (sd_grantUserPrivileges fake)\<lparr>Stub := None,
       ReturnsOnCall := (ReturnsOnCall (sd_grantUserPrivileges fake))(i \<mapsto> result1)\<rparr>\<rparr>"

definition FakeSeeder_IsExistingUser ::
  "'s FakeSeeder \<Rightarrow> (bool \<times> go_error option, 's) closure \<times> 's FakeSeeder" where
  "FakeSeeder_IsExistingUser fake =
     (let specific = specificReturn (sd_isExistingUser fake);
          fake = fake\<lparr>sd_isExistingUser := appendArgs () (sd_isExistingUser fake)\<rparr>;
          fake = FakeSeeder_recordInvocation ''IsExistingUser'' [] fake
      in (answerWith () specific (sd_isExistingUser fake), fake))"

definition FakeSeeder_IsExistingUserCallCount ::
  "'s FakeSeeder \<Rightarrow> int" where
  "FakeSeeder_IsExistingUserCallCount fake = callCount (sd_isExistingUser fake)"

definition FakeSeeder_IsExistingUserCalls ::
  "(unit \<Rightarrow> (bool \<times> go_error option, 's) closure) option \<Rightarrow> 's FakeSeeder \<Rightarrow> 's FakeSeeder" where
  "FakeSeeder_IsExistingUserCalls stub fake = fake\<lparr>sd_isExistingUser := (sd_isExistingUser fake)\<lparr>Stub := stub\<rparr>\<rparr>"

definition FakeSeeder_IsExistingUserReturns ::
  "bool \<Rightarrow> go_error option \<Rightarrow> 's FakeSeeder \<Rightarrow> 's FakeSeeder" where
  "FakeSeeder_IsExistingUserReturns result1 result2 fake =
     fake\<lparr>sd_isExistingUser := (sd_isExistingUser fake)\<lparr>Stub := None, Returns := (result1, result2)\<rparr>\<rparr>"

definition FakeSeeder_IsExistingUserReturnsOnCall ::
  "int \<Rightarrow> bool \<Rightarrow> go_error option \<Rightarrow> 's FakeSeeder \<Rightarrow> 's FakeSeeder" where
  "FakeSeeder_IsExistingUserReturnsOnCall i result1 result2 fake =
     fake\<lparr>sd_isExistingUser := (sd_isExistingUser fake)\<lparr>Stub := None,
       ReturnsOnCall := (ReturnsOnCall (sd_isExistingUser fake))(i \<mapsto> (result1, result2))\<rparr>\<rparr>"

definition FakeSeeder_UpdateUser ::
  "'s FakeSeeder \<Rightarrow> (go_error option, 's) closure \<times> 's FakeSeeder" where
  "FakeSeeder_UpdateUser fake =
     (let specific = specificReturn (sd_updateUser fake);
          fake = fake\<lparr>sd_updateUser := appendArgs () (sd_updateUser fake)\<rparr>;
          fake = FakeSeeder_recordInvocation ''UpdateUser'' [] fake
      in (answerWith () specific (sd_updateUser fake), fake))"

definition FakeSeeder_UpdateUserCallCount ::
  "'s FakeSeeder \<Rightarrow> int" where
  "FakeSeeder_UpdateUserCallCount fake = callCount (sd_updateUser fake)"

definition FakeSeeder_UpdateUserCalls ::
  "(unit \<Rightarrow> (go_error option, 's) closure) option \<Rightarrow> 's FakeSeeder \<Rightarrow> 's FakeSeeder" where
  "FakeSeeder_UpdateUserCalls stub fake = fake\<lparr>sd_updateUser := (sd_updateUser fake)\<lparr>Stub := stub\<rparr>\<rparr>"

definition FakeSeeder_UpdateUserReturns ::
  "go_error option \<Rightarrow> 's FakeSeeder \<Rightarrow> 's FakeSeeder" where
  "FakeSeeder_UpdateUserReturns result1 fake =
     fake\<lparr>sd_updateUser := (sd_updateUser fake)\<lparr>Stub := None, Returns := result1\<rparr>\<rparr>"

definition FakeSeeder_UpdateUserReturnsOnCall ::
  "int \<Rightarrow> go_error option \<Rightarrow> 's FakeSeeder \<Rightarrow> 's FakeSeeder" where
  "FakeSeeder_UpdateUserReturnsOnCall i result1 fake =
     fake\<lparr>sd_updateUser := (sd_updateUser fake)\<lparr>Stub := None,
       ReturnsOnCall := (ReturnsOnCall (sd_updateUser fake))(i \<mapsto> result1)\<rparr>\<rparr>"

lemmas FakeSeeder_defs [double_simps] =
  FakeSeeder_recordInvocation_def FakeSeeder_CreateDBIfNeeded_def FakeSeeder_CreateDBIfNeededCallCount_def FakeSeeder_CreateDBIfNeededCalls_def FakeSeeder_CreateDBIfNeededReturns_def FakeSeeder_CreateDBIfNeededReturnsOnCall_def FakeSeeder_CreateUser_def FakeSeeder_CreateUserCallCount_def FakeSeeder_CreateUserCalls_def FakeSeeder_CreateUserReturns_def FakeSeeder_CreateUserReturnsOnCall_def FakeSeeder_GrantUserPrivileges_def FakeSeeder_GrantUserPrivilegesCallCount_def FakeSeeder_GrantUserPrivilegesCalls_def FakeSeeder_GrantUserPrivilegesReturns_def FakeSeeder_GrantUserPrivilegesReturnsOnCall_def FakeSeeder_IsExistingUser_def FakeSeeder_IsExistingUserCallCount_def FakeSeeder_IsExistingUserCalls_def FakeSeeder_IsExistingUserReturns_def FakeSeeder_IsExistingUserReturnsOnCall_def FakeSeeder_UpdateUser_def FakeSeeder_UpdateUserCallCount_def FakeSeeder_UpdateUserCalls_def FakeSeeder_UpdateUserReturns_def FakeSeeder_UpdateUserReturnsOnCall_def

subsection \<open>The interface\<close>

text \<open>The calls of \<^verbatim>\<open>Seeder\<close>, and the double as a receiver of them.\<close>

datatype Seeder_call =
    Sd_CreateDBIfNeeded
  | Sd_CreateUser
  | Sd_GrantUserPrivileges
  | Sd_IsExistingUser
  | Sd_UpdateUser

fun FakeSeeder_call :: "Seeder_call \<Rightarrow> 's FakeSeeder \<Rightarrow> (reply, 's) closure \<times> 's FakeSeeder" where
  "FakeSeeder_call Sd_CreateDBIfNeeded fake =
     map_prod (through ReplyError) id (FakeSeeder_CreateDBIfNeeded fake)"
| "FakeSeeder_call Sd_CreateUser fake =
     map_prod (through ReplyError) id (FakeSeeder_CreateUser fake)"
| "FakeSeeder_call Sd_GrantUserPrivileges fake =
     map_prod (through ReplyError) id (FakeSeeder_GrantUserPrivileges fake)"
| "FakeSeeder_call Sd_IsExistingUser fake =
     map_prod (through ReplyBoolError) id (FakeSeeder_IsExistingUser fake)"
| "FakeSeeder_call Sd_UpdateUser fake =
     map_prod (through ReplyError) id (FakeSeeder_UpdateUser fake)"

fun Seeder_name :: "Seeder_call \<Rightarrow> string" where
  "Seeder_name Sd_CreateDBIfNeeded = ''CreateDBIfNeeded''"
| "Seeder_name Sd_CreateUser = ''CreateUser''"
| "Seeder_name Sd_GrantUserPrivileges = ''GrantUserPrivileges''"
| "Seeder_name Sd_IsExistingUser = ''IsExistingUser''"
| "Seeder_name Sd_UpdateUser = ''UpdateUser''"

fun Seeder_boxes :: "Seeder_call \<Rightarrow> boxed list" where
  "Seeder_boxes Sd_CreateDBIfNeeded = []"
| "Seeder_boxes Sd_CreateUser = []"
| "Seeder_boxes Sd_GrantUserPrivileges = []"
| "Seeder_boxes Sd_IsExistingUser = []"
| "Seeder_boxes Sd_UpdateUser = []"

text \<open>The types of the arguments the interface declares.\<close>

definition Seeder_signature :: "string \<rightharpoonup> box_type list" where
  "Seeder_signature =
     [''CreateDBIfNeeded'' \<mapsto> [],
      ''CreateUser'' \<mapsto> [],
      ''GrantUserPrivileges'' \<mapsto> [],
      ''IsExistingUser'' \<mapsto> [],
      ''UpdateUser'' \<mapsto> []]"

text \<open>What is recorded of the calls of each method, boxed as in the log.\<close>

definition FakeSeeder_recorded :: "'s FakeSeeder \<Rightarrow> recorded" where
  "FakeSeeder_recorded fake =
     [(''CreateDBIfNeeded'', map (\<lambda>_. []) (ArgsForCall (sd_createDBIfNeeded fake))),
      (''CreateUser'', map (\<lambda>_. []) (ArgsForCall (sd_createUser fake))),
      (''GrantUserPrivileges'', map (\<lambda>_. []) (ArgsForCall (sd_grantUserPrivileges fake))),
      (''IsExistingUser'', map (\<lambda>_. []) (ArgsForCall (sd_isExistingUser fake))),
      (''UpdateUser'', map (\<lambda>_. []) (ArgsForCall (sd_updateUser fake)))]"

text \<open>Everything a test can do to the double: calls of the interface, and its setters.\<close>

inductive FakeSeeder_step :: "'s FakeSeeder \<Rightarrow> 's FakeSeeder \<Rightarrow> bool" where
  FakeSeeder_step_call: "FakeSeeder_step fake (snd (FakeSeeder_call c fake))"
| FakeSeeder_CreateDBIfNeededCalls_step: "FakeSeeder_step fake (FakeSeeder_CreateDBIfNeededCalls stub fake)"
| FakeSeeder_CreateDBIfNeededReturns_step: "FakeSeeder_step fake (FakeSeeder_CreateDBIfNeededReturns result1 fake)"
| FakeSeeder_CreateDBIfNeededReturnsOnCall_step: "FakeSeeder_step fake (FakeSeeder_CreateDBIfNeededReturnsOnCall i result1 fake)"
| FakeSeeder_CreateUserCalls_step: "FakeSeeder_step fake (FakeSeeder_CreateUserCalls stub fake)"
| FakeSeeder_CreateUserReturns_step: "FakeSeeder_step fake (FakeSeeder_CreateUserReturns result1 fake)"
| FakeSeeder_CreateUserReturnsOnCall_step: "FakeSeeder_step fake (FakeSeeder_CreateUserReturnsOnCall i result1 fake)"
| FakeSeeder_GrantUserPrivilegesCalls_step: "FakeSeeder_step fake (FakeSeeder_GrantUserPrivilegesCalls stub fake)"
| FakeSeeder_GrantUserPrivilegesReturns_step: "FakeSeeder_step fake (FakeSeeder_GrantUserPrivilegesReturns result1 fake)"
| FakeSeeder_GrantUserPrivilegesReturnsOnCall_step: "FakeSeeder_step fake (FakeSeeder_GrantUserPrivilegesReturnsOnCall i result1 fake)"
| FakeSeeder_IsExistingUserCalls_step: "FakeSeeder_step fake (FakeSeeder_IsExistingUserCalls stub fake)"
| FakeSeeder_IsExistingUserReturns_step: "FakeSeeder_step fake (FakeSeeder_IsExistingUserReturns result1 result2 fake)"
| FakeSeeder_IsExistingUserReturnsOnCall_step: "FakeSeeder_step fake (FakeSeeder_IsExistingUserReturnsOnCall i result1 result2 fake)"
| FakeSeeder_UpdateUserCalls_step: "FakeSeeder_step fake (FakeSeeder_UpdateUserCalls stub fake)"
| FakeSeeder_UpdateUserReturns_step: "FakeSeeder_step fake (FakeSeeder_UpdateUserReturns result1 fake)"
| FakeSeeder_UpdateUserReturnsOnCall_step: "FakeSeeder_step fake (FakeSeeder_UpdateUserReturnsOnCall i result1 fake)"

subsection \<open>Contracts\<close>

text \<open>Each method keeps the contracts of a double.\<close>

interpretation sd_createDBIfNeeded: canned "\<lambda>_. FakeSeeder_CreateDBIfNeeded" FakeSeeder_CreateDBIfNeededCallCount FakeSeeder_CreateDBIfNeededCalls
  "\<lambda>fake. ArgsForCall (sd_createDBIfNeeded fake)" "\<lambda>fake. Stub (sd_createDBIfNeeded fake)"
  FakeSeeder_CreateDBIfNeededReturns
  FakeSeeder_CreateDBIfNeededReturnsOnCall
  "\<lambda>fake. Returns (sd_createDBIfNeeded fake)" "\<lambda>fake. ReturnsOnCall (sd_createDBIfNeeded fake)"
  by unfold_locales (simp_all add: double_simps split: option.splits)

interpretation sd_createUser: canned "\<lambda>_. FakeSeeder_CreateUser" FakeSeeder_CreateUserCallCount FakeSeeder_CreateUserCalls
  "\<lambda>fake. ArgsForCall (sd_createUser fake)" "\<lambda>fake. Stub (sd_createUser fake)"
  FakeSeeder_CreateUserReturns
  FakeSeeder_CreateUserReturnsOnCall
  "\<lambda>fake. Returns (sd_createUser fake)" "\<lambda>fake. ReturnsOnCall (sd_createUser fake)"
  by unfold_locales (simp_all add: double_simps split: option.splits)

interpretation sd_grantUserPrivileges: canned "\<lambda>_. FakeSeeder_GrantUserPrivileges" FakeSeeder_GrantUserPrivilegesCallCount FakeSeeder_GrantUserPrivilegesCalls
  "\<lambda>fake. ArgsForCall (sd_grantUserPrivileges fake)" "\<lambda>fake. Stub (sd_grantUserPrivileges fake)"
  FakeSeeder_GrantUserPrivilegesReturns
  FakeSeeder_GrantUserPrivilegesReturnsOnCall
  "\<lambda>fake. Returns (sd_grantUserPrivileges fake)" "\<lambda>fake. ReturnsOnCall (sd_grantUserPrivileges fake)"
  by unfold_locales (simp_all add: double_simps split: option.splits)

interpretation sd_isExistingUser: canned "\<lambda>_. FakeSeeder_IsExistingUser" FakeSeeder_IsExistingUserCallCount FakeSeeder_IsExistingUserCalls
  "\<lambda>fake. ArgsForCall (sd_isExistingUser fake)" "\<lambda>fake. Stub (sd_isExistingUser fake)"
  "\<lambda>(r1, r2). FakeSeeder_IsExistingUserReturns r1 r2"
  "\<lambda>i (r1, r2). FakeSeeder_IsExistingUserReturnsOnCall i r1 r2"
  "\<lambda>fake. Returns (sd_isExistingUser fake)" "\<lambda>fake. ReturnsOnCall (sd_isExistingUser fake)"
  by unfold_locales (simp_all add: double_simps split: option.splits)

interpretation sd_updateUser: canned "\<lambda>_. FakeSeeder_UpdateUser" FakeSeeder_UpdateUserCallCount FakeSeeder_UpdateUserCalls
  "\<lambda>fake. ArgsForCall (sd_updateUser fake)" "\<lambda>fake. Stub (sd_updateUser fake)"
  FakeSeeder_UpdateUserReturns
  FakeSeeder_UpdateUserReturnsOnCall
  "\<lambda>fake. Returns (sd_updateUser fake)" "\<lambda>fake. ReturnsOnCall (sd_updateUser fake)"
  by unfold_locales (simp_all add: double_simps split: option.splits)

interpretation sd_log: logging FakeSeeder_call FakeSeeder_Invocations Seeder_name Seeder_boxes
proof unfold_locales
  fix c :: Seeder_call and fake :: "'s FakeSeeder"
  show "FakeSeeder_Invocations (snd (FakeSeeder_call c fake)) =
    logged (Seeder_name c) (Seeder_boxes c) (FakeSeeder_Invocations fake)"
    by (cases c) (simp_all add: double_simps FakeSeeder_Invocations_def)
qed

lemma FakeSeeder_recorded_call:
  "FakeSeeder_recorded (snd (FakeSeeder_call c fake)) =
     add_call (Seeder_name c) (Seeder_boxes c) (FakeSeeder_recorded fake)"
  by (cases c)
    (simp_all add: FakeSeeder_recorded_def double_simps add_call_def)

lemma FakeSeeder_recorded_names:
  "distinct (map fst (FakeSeeder_recorded fake))"
  "Seeder_name c \<in> set (map fst (FakeSeeder_recorded fake))"
  by (simp_all add: FakeSeeder_recorded_def) (cases c; simp)

interpretation sd_inv: invariant_system "\<lambda>fake. fake = new_FakeSeeder" FakeSeeder_step
  "\<lambda>fake. consistent (FakeSeeder_recorded fake) (FakeSeeder_Invocations fake)"
proof unfold_locales
  fix fake :: "'s FakeSeeder" assume "fake = new_FakeSeeder"
  then show "consistent (FakeSeeder_recorded fake) (FakeSeeder_Invocations fake)"
    by (simp add: new_FakeSeeder_def FakeSeeder_recorded_def FakeSeeder_Invocations_def double_simps consistent_def)
next
  fix fake fake' :: "'s FakeSeeder"
  assume inv: "consistent (FakeSeeder_recorded fake) (FakeSeeder_Invocations fake)" and "FakeSeeder_step fake fake'"
  from this(2) show "consistent (FakeSeeder_recorded fake') (FakeSeeder_Invocations fake')"
  proof cases
    case (FakeSeeder_step_call c)
    then show ?thesis
      using consistent_logged [OF FakeSeeder_recorded_names(1) inv FakeSeeder_recorded_names(2)]
      by (simp add: FakeSeeder_recorded_call sd_log.call_logged)
  qed (use inv in \<open>simp_all add: FakeSeeder_recorded_def FakeSeeder_Invocations_def double_simps\<close>)
qed

lemma FakeSeeder_well_typed:
  "consistent (FakeSeeder_recorded fake) (FakeSeeder_Invocations fake) \<Longrightarrow> well_typed Seeder_signature (FakeSeeder_Invocations fake)"
  by (erule well_typed_recorded) (simp add: FakeSeeder_recorded_def Seeder_signature_def split_beta)

subsection \<open>Wrapping the implementation\<close>

text \<open>The implementation as a receiver of the same calls, and a double with its methods as stubs.\<close>

fun seeder_call :: "seeder \<Rightarrow> Seeder_call \<Rightarrow> reply go" where
  "seeder_call s Sd_CreateDBIfNeeded = (\<lambda>e. through ReplyError (CreateDBIfNeeded s e))"
| "seeder_call s Sd_CreateUser = (\<lambda>e. through ReplyError (CreateUser s e))"
| "seeder_call s Sd_GrantUserPrivileges = (\<lambda>e. through ReplyError (GrantUserPrivileges s e))"
| "seeder_call s Sd_IsExistingUser = (\<lambda>e. through ReplyBoolError (IsExistingUser s e))"
| "seeder_call s Sd_UpdateUser = (\<lambda>e. through ReplyError (UpdateUser s e))"

definition FakeSeeder_wrapping :: "seeder \<Rightarrow> env \<Rightarrow> world FakeSeeder \<Rightarrow> world FakeSeeder" where
  "FakeSeeder_wrapping s e fake =
     (FakeSeeder_CreateDBIfNeededCalls (Some (\<lambda>_. CreateDBIfNeeded s e)) \<circ>
      FakeSeeder_CreateUserCalls (Some (\<lambda>_. CreateUser s e)) \<circ>
      FakeSeeder_GrantUserPrivilegesCalls (Some (\<lambda>_. GrantUserPrivileges s e)) \<circ>
      FakeSeeder_IsExistingUserCalls (Some (\<lambda>_. IsExistingUser s e)) \<circ>
      FakeSeeder_UpdateUserCalls (Some (\<lambda>_. UpdateUser s e))) fake"

definition FakeSeeder_wraps :: "seeder \<Rightarrow> env \<Rightarrow> world FakeSeeder \<Rightarrow> bool" where
  "FakeSeeder_wraps s e fake \<longleftrightarrow>
     Stub (sd_createDBIfNeeded fake) = Some (\<lambda>_. CreateDBIfNeeded s e) \<and>
     Stub (sd_createUser fake) = Some (\<lambda>_. CreateUser s e) \<and>
     Stub (sd_grantUserPrivileges fake) = Some (\<lambda>_. GrantUserPrivileges s e) \<and>
     Stub (sd_isExistingUser fake) = Some (\<lambda>_. IsExistingUser s e) \<and>
     Stub (sd_updateUser fake) = Some (\<lambda>_. UpdateUser s e)"

lemma FakeSeeder_wrapping_wraps: "FakeSeeder_wraps s e (FakeSeeder_wrapping s e fake)"
  by (simp add: FakeSeeder_wraps_def FakeSeeder_wrapping_def double_simps)

interpretation sd_wrap: wrapping FakeSeeder_call "\<lambda>c. seeder_call s c e" "FakeSeeder_wraps s e"
  for s e
proof unfold_locales
  fix fake c assume "FakeSeeder_wraps s e fake"
  then show "fst (FakeSeeder_call c fake) = seeder_call s c e" and "FakeSeeder_wraps s e (snd (FakeSeeder_call c fake))"
    by (cases c; simp add: FakeSeeder_wraps_def double_simps)+
qed

section \<open>FakeUserSeeder\<close>

subsection \<open>The struct and its methods\<close>

record 's FakeUserSeeder =
  us_seedUser :: "(string \<times> string \<times> string \<times> string, go_error option, 's) double"
  us_invocations :: invocations

definition new_FakeUserSeeder :: "'s FakeUserSeeder" where
  "new_FakeUserSeeder =
     \<lparr>us_seedUser = new_double None,
      us_invocations = Map.empty\<rparr>"

definition FakeUserSeeder_Invocations :: "'s FakeUserSeeder \<Rightarrow> invocations" where
  "FakeUserSeeder_Invocations fake = us_invocations fake"

definition FakeUserSeeder_recordInvocation ::
  "string \<Rightarrow> boxed list \<Rightarrow> 's FakeUserSeeder \<Rightarrow> 's FakeUserSeeder" where
  "FakeUserSeeder_recordInvocation key args fake =
     fake\<lparr>us_invocations := logged key args (us_invocations fake)\<rparr>"

definition FakeUserSeeder_SeedUser ::
  "string \<Rightarrow> string \<Rightarrow> string \<Rightarrow> string \<Rightarrow> 's FakeUserSeeder \<Rightarrow> (go_error option, 's) closure \<times> 's FakeUserSeeder" where
  "FakeUserSeeder_SeedUser arg1 arg2 arg3 arg4 fake =
     (let specific = specificReturn (us_seedUser fake);
          fake = fake\<lparr>us_seedUser := appendArgs (arg1, arg2, arg3, arg4) (us_seedUser fake)\<rparr>;
          fake = FakeUserSeeder_recordInvocation ''SeedUser'' [BString arg1, BString arg2, BString arg3, BString arg4] fake
      in (answerWith (arg1, arg2, arg3, arg4) specific (us_seedUser fake), fake))"

definition FakeUserSeeder_SeedUserCallCount ::
  "'s FakeUserSeeder \<Rightarrow> int" where
  "FakeUserSeeder_SeedUserCallCount fake = callCount (us_seedUser fake)"

definition FakeUserSeeder_SeedUserCalls ::
  "(string \<times> string \<times> string \<times> string \<Rightarrow> (go_error option, 's) closure) option \<Rightarrow> 's FakeUserSeeder \<Rightarrow> 's FakeUserSeeder" where
  "FakeUserSeeder_SeedUserCalls stub fake = fake\<lparr>us_seedUser := (us_seedUser fake)\<lparr>Stub := stub\<rparr>\<rparr>"

definition FakeUserSeeder_SeedUserArgsForCall ::
  "int \<Rightarrow> 's FakeUserSeeder \<Rightarrow> (string \<times> string \<times> string \<times> string) outcome" where
  "FakeUserSeeder_SeedUserArgsForCall i fake = indexArgs i (ArgsForCall (us_seedUser fake))"

definition FakeUserSeeder_SeedUserReturns ::
  "go_error option \<Rightarrow> 's FakeUserSeeder \<Rightarrow> 's FakeUserSeeder" where
  "FakeUserSeeder_SeedUserReturns result1 fake =
     fake\<lparr>us_seedUser := (us_seedUser fake)\<lparr>Stub := None, Returns := result1\<rparr>\<rparr>"

definition FakeUserSeeder_SeedUserReturnsOnCall ::
  "int \<Rightarrow> go_error option \<Rightarrow> 's FakeUserSeeder \<Rightarrow> 's FakeUserSeeder" where
  "FakeUserSeeder_SeedUserReturnsOnCall i result1 fake =
     fake\<lparr>us_seedUser := (us_seedUser fake)\<lparr>Stub := None,
       ReturnsOnCall := (ReturnsOnCall (us_seedUser fake))(i \<mapsto> result1)\<rparr>\<rparr>"

lemmas FakeUserSeeder_defs [double_simps] =
  FakeUserSeeder_recordInvocation_def FakeUserSeeder_SeedUser_def FakeUserSeeder_SeedUserCallCount_def FakeUserSeeder_SeedUserCalls_def FakeUserSeeder_SeedUserArgsForCall_def FakeUserSeeder_SeedUserReturns_def FakeUserSeeder_SeedUserReturnsOnCall_def

subsection \<open>The interface\<close>

text \<open>The calls of \<^verbatim>\<open>UserSeeder\<close>, and the double as a receiver of them.\<close>

datatype UserSeeder_call =
    Us_SeedUser string string string string

fun FakeUserSeeder_call :: "UserSeeder_call \<Rightarrow> 's FakeUserSeeder \<Rightarrow> (reply, 's) closure \<times> 's FakeUserSeeder" where
  "FakeUserSeeder_call (Us_SeedUser arg1 arg2 arg3 arg4) fake =
     map_prod (through ReplyError) id (FakeUserSeeder_SeedUser arg1 arg2 arg3 arg4 fake)"

fun UserSeeder_name :: "UserSeeder_call \<Rightarrow> string" where
  "UserSeeder_name (Us_SeedUser arg1 arg2 arg3 arg4) = ''SeedUser''"

fun UserSeeder_boxes :: "UserSeeder_call \<Rightarrow> boxed list" where
  "UserSeeder_boxes (Us_SeedUser arg1 arg2 arg3 arg4) = [BString arg1, BString arg2, BString arg3, BString arg4]"

text \<open>The types of the arguments the interface declares.\<close>

definition UserSeeder_signature :: "string \<rightharpoonup> box_type list" where
  "UserSeeder_signature =
     [''SeedUser'' \<mapsto> [TString, TString, TString, TString]]"

text \<open>What is recorded of the calls of each method, boxed as in the log.\<close>

definition FakeUserSeeder_recorded :: "'s FakeUserSeeder \<Rightarrow> recorded" where
  "FakeUserSeeder_recorded fake =
     [(''SeedUser'', map (\<lambda>(arg1, arg2, arg3, arg4). [BString arg1, BString arg2, BString arg3, BString arg4]) (ArgsForCall (us_seedUser fake)))]"

text \<open>Everything a test can do to the double: calls of the interface, and its setters.\<close>

inductive FakeUserSeeder_step :: "'s FakeUserSeeder \<Rightarrow> 's FakeUserSeeder \<Rightarrow> bool" where
  FakeUserSeeder_step_call: "FakeUserSeeder_step fake (snd (FakeUserSeeder_call c fake))"
| FakeUserSeeder_SeedUserCalls_step: "FakeUserSeeder_step fake (FakeUserSeeder_SeedUserCalls stub fake)"
| FakeUserSeeder_SeedUserReturns_step: "FakeUserSeeder_step fake (FakeUserSeeder_SeedUserReturns result1 fake)"
| FakeUserSeeder_SeedUserReturnsOnCall_step: "FakeUserSeeder_step fake (FakeUserSeeder_SeedUserReturnsOnCall i result1 fake)"

subsection \<open>Contracts\<close>

text \<open>Each method keeps the contracts of a double.\<close>

interpretation us_seedUser: canned "\<lambda>(arg1, arg2, arg3, arg4). FakeUserSeeder_SeedUser arg1 arg2 arg3 arg4" FakeUserSeeder_SeedUserCallCount FakeUserSeeder_SeedUserCalls
  "\<lambda>fake. ArgsForCall (us_seedUser fake)" "\<lambda>fake. Stub (us_seedUser fake)"
  FakeUserSeeder_SeedUserReturns
  FakeUserSeeder_SeedUserReturnsOnCall
  "\<lambda>fake. Returns (us_seedUser fake)" "\<lambda>fake. ReturnsOnCall (us_seedUser fake)"
  by unfold_locales (simp_all add: double_simps split: option.splits)

interpretation us_seedUser_args: inspecting "\<lambda>(arg1, arg2, arg3, arg4). FakeUserSeeder_SeedUser arg1 arg2 arg3 arg4" FakeUserSeeder_SeedUserCallCount FakeUserSeeder_SeedUserCalls
  "\<lambda>fake. ArgsForCall (us_seedUser fake)" "\<lambda>fake. Stub (us_seedUser fake)"
  FakeUserSeeder_SeedUserArgsForCall
  by unfold_locales (simp_all add: double_simps split: option.splits)

interpretation us_log: logging FakeUserSeeder_call FakeUserSeeder_Invocations UserSeeder_name UserSeeder_boxes
proof unfold_locales
  fix c :: UserSeeder_call and fake :: "'s FakeUserSeeder"
  show "FakeUserSeeder_Invocations (snd (FakeUserSeeder_call c fake)) =
    logged (UserSeeder_name c) (UserSeeder_boxes c) (FakeUserSeeder_Invocations fake)"
    by (cases c) (simp_all add: double_simps FakeUserSeeder_Invocations_def)
qed

lemma FakeUserSeeder_recorded_call:
  "FakeUserSeeder_recorded (snd (FakeUserSeeder_call c fake)) =
     add_call (UserSeeder_name c) (UserSeeder_boxes c) (FakeUserSeeder_recorded fake)"
  by (cases c)
    (simp_all add: FakeUserSeeder_recorded_def double_simps add_call_def)

lemma FakeUserSeeder_recorded_names:
  "distinct (map fst (FakeUserSeeder_recorded fake))"
  "UserSeeder_name c \<in> set (map fst (FakeUserSeeder_recorded fake))"
  by (simp_all add: FakeUserSeeder_recorded_def) (cases c; simp)

interpretation us_inv: invariant_system "\<lambda>fake. fake = new_FakeUserSeeder" FakeUserSeeder_step
  "\<lambda>fake. consistent (FakeUserSeeder_recorded fake) (FakeUserSeeder_Invocations fake)"
proof unfold_locales
  fix fake :: "'s FakeUserSeeder" assume "fake = new_FakeUserSeeder"
  then show "consistent (FakeUserSeeder_recorded fake) (FakeUserSeeder_Invocations fake)"
    by (simp add: new_FakeUserSeeder_def FakeUserSeeder_recorded_def FakeUserSeeder_Invocations_def double_simps consistent_def)
next
  fix fake fake' :: "'s FakeUserSeeder"
  assume inv: "consistent (FakeUserSeeder_recorded fake) (FakeUserSeeder_Invocations fake)" and "FakeUserSeeder_step fake fake'"
  from this(2) show "consistent (FakeUserSeeder_recorded fake') (FakeUserSeeder_Invocations fake')"
  proof cases
    case (FakeUserSeeder_step_call c)
    then show ?thesis
      using consistent_logged [OF FakeUserSeeder_recorded_names(1) inv FakeUserSeeder_recorded_names(2)]
      by (simp add: FakeUserSeeder_recorded_call us_log.call_logged)
  qed (use inv in \<open>simp_all add: FakeUserSeeder_recorded_def FakeUserSeeder_Invocations_def double_simps\<close>)
qed

lemma FakeUserSeeder_well_typed:
  "consistent (FakeUserSeeder_recorded fake) (FakeUserSeeder_Invocations fake) \<Longrightarrow> well_typed UserSeeder_signature (FakeUserSeeder_Invocations fake)"
  by (erule well_typed_recorded) (simp add: FakeUserSeeder_recorded_def UserSeeder_signature_def split_beta)

subsection \<open>Wrapping the implementation\<close>

text \<open>The implementation as a receiver of the same calls, and a double with its methods as stubs.\<close>

fun userSeeder_call :: "UserSeeder_call \<Rightarrow> reply go" where
  "userSeeder_call (Us_SeedUser arg1 arg2 arg3 arg4) = (\<lambda>e. through ReplyError (SeedUser arg1 arg2 arg3 arg4 e))"

definition FakeUserSeeder_wrapping :: "env \<Rightarrow> world FakeUserSeeder \<Rightarrow> world FakeUserSeeder" where
  "FakeUserSeeder_wrapping e fake =
     (FakeUserSeeder_SeedUserCalls (Some (\<lambda>(arg1, arg2, arg3, arg4). SeedUser arg1 arg2 arg3 arg4 e))) fake"

definition FakeUserSeeder_wraps :: "env \<Rightarrow> world FakeUserSeeder \<Rightarrow> bool" where
  "FakeUserSeeder_wraps e fake \<longleftrightarrow>
     Stub (us_seedUser fake) = Some (\<lambda>(arg1, arg2, arg3, arg4). SeedUser arg1 arg2 arg3 arg4 e)"

lemma FakeUserSeeder_wrapping_wraps: "FakeUserSeeder_wraps e (FakeUserSeeder_wrapping e fake)"
  by (simp add: FakeUserSeeder_wraps_def FakeUserSeeder_wrapping_def double_simps)

interpretation us_wrap: wrapping FakeUserSeeder_call "\<lambda>c. userSeeder_call c e" "FakeUserSeeder_wraps e"
  for e
proof unfold_locales
  fix fake c assume "FakeUserSeeder_wraps e fake"
  then show "fst (FakeUserSeeder_call c fake) = userSeeder_call c e" and "FakeUserSeeder_wraps e (snd (FakeUserSeeder_call c fake))"
    by (cases c; simp add: FakeUserSeeder_wraps_def double_simps)+
qed

end
