(* ===== verification/Fake_Start.thy ===== *)
theory Fake_Start
  imports Test_Double Start_Manager
begin

text \<open>
  The doubles around the start of a node: of the node starter
  (\<^verbatim>\<open>start_manager/node_starter/node_starterfakes/fake_starter.go\<close>), of the status server and of
  the start manager (\<^verbatim>\<open>start_manager/start_managerfakes/\<close>), of the upgrader
  (\<^verbatim>\<open>upgrader/upgraderfakes/fake_upgrader.go\<close>) and of the health checker
  (\<^verbatim>\<open>cluster_health_checker/cluster_health_checkerfakes/fake_cluster_health_checker.go\<close>), with the
  contracts of \<open>Test_Double\<close> for each method. A \<^verbatim>\<open>context.Context\<close> is a handle; the environment
  decides when it is cancelled, so the implementation of \<^verbatim>\<open>Execute\<close> does not look at it.
\<close>

section \<open>FakeStarter\<close>

subsection \<open>The struct and its methods\<close>

record 's FakeStarter =
  st_getMysqlCmd :: "(unit, cmd option, 's) double"
  st_startNodeFromState :: "(string, string \<times> nat option \<times> go_error option, 's) double"
  st_invocations :: invocations

definition new_FakeStarter :: "'s FakeStarter" where
  "new_FakeStarter =
     \<lparr>st_getMysqlCmd = new_double None,
      st_startNodeFromState = new_double ('''', None, None),
      st_invocations = Map.empty\<rparr>"

definition FakeStarter_Invocations :: "'s FakeStarter \<Rightarrow> invocations" where
  "FakeStarter_Invocations fake = st_invocations fake"

definition FakeStarter_recordInvocation ::
  "string \<Rightarrow> boxed list \<Rightarrow> 's FakeStarter \<Rightarrow> 's FakeStarter" where
  "FakeStarter_recordInvocation key args fake =
     fake\<lparr>st_invocations := logged key args (st_invocations fake)\<rparr>"

definition FakeStarter_GetMysqlCmd ::
  "'s FakeStarter \<Rightarrow> (cmd option, 's) closure \<times> 's FakeStarter" where
  "FakeStarter_GetMysqlCmd fake =
     (let specific = specificReturn (st_getMysqlCmd fake);
          fake = fake\<lparr>st_getMysqlCmd := appendArgs () (st_getMysqlCmd fake)\<rparr>;
          fake = FakeStarter_recordInvocation ''GetMysqlCmd'' [] fake
      in (answerWith () specific (st_getMysqlCmd fake), fake))"

definition FakeStarter_GetMysqlCmdCallCount ::
  "'s FakeStarter \<Rightarrow> int" where
  "FakeStarter_GetMysqlCmdCallCount fake = callCount (st_getMysqlCmd fake)"

definition FakeStarter_GetMysqlCmdCalls ::
  "(unit \<Rightarrow> (cmd option, 's) closure) option \<Rightarrow> 's FakeStarter \<Rightarrow> 's FakeStarter" where
  "FakeStarter_GetMysqlCmdCalls stub fake = fake\<lparr>st_getMysqlCmd := (st_getMysqlCmd fake)\<lparr>Stub := stub\<rparr>\<rparr>"

definition FakeStarter_GetMysqlCmdReturns ::
  "cmd option \<Rightarrow> 's FakeStarter \<Rightarrow> 's FakeStarter" where
  "FakeStarter_GetMysqlCmdReturns result1 fake =
     fake\<lparr>st_getMysqlCmd := (st_getMysqlCmd fake)\<lparr>Stub := None, Returns := result1\<rparr>\<rparr>"

definition FakeStarter_GetMysqlCmdReturnsOnCall ::
  "int \<Rightarrow> cmd option \<Rightarrow> 's FakeStarter \<Rightarrow> 's FakeStarter" where
  "FakeStarter_GetMysqlCmdReturnsOnCall i result1 fake =
     fake\<lparr>st_getMysqlCmd := (st_getMysqlCmd fake)\<lparr>Stub := None,
       ReturnsOnCall := (ReturnsOnCall (st_getMysqlCmd fake))(i \<mapsto> result1)\<rparr>\<rparr>"

definition FakeStarter_StartNodeFromState ::
  "string \<Rightarrow> 's FakeStarter \<Rightarrow> (string \<times> nat option \<times> go_error option, 's) closure \<times> 's FakeStarter" where
  "FakeStarter_StartNodeFromState arg1 fake =
     (let specific = specificReturn (st_startNodeFromState fake);
          fake = fake\<lparr>st_startNodeFromState := appendArgs arg1 (st_startNodeFromState fake)\<rparr>;
          fake = FakeStarter_recordInvocation ''StartNodeFromState'' [BString arg1] fake
      in (answerWith arg1 specific (st_startNodeFromState fake), fake))"

definition FakeStarter_StartNodeFromStateCallCount ::
  "'s FakeStarter \<Rightarrow> int" where
  "FakeStarter_StartNodeFromStateCallCount fake = callCount (st_startNodeFromState fake)"

definition FakeStarter_StartNodeFromStateCalls ::
  "(string \<Rightarrow> (string \<times> nat option \<times> go_error option, 's) closure) option \<Rightarrow> 's FakeStarter \<Rightarrow> 's FakeStarter" where
  "FakeStarter_StartNodeFromStateCalls stub fake = fake\<lparr>st_startNodeFromState := (st_startNodeFromState fake)\<lparr>Stub := stub\<rparr>\<rparr>"

definition FakeStarter_StartNodeFromStateArgsForCall ::
  "int \<Rightarrow> 's FakeStarter \<Rightarrow> string outcome" where
  "FakeStarter_StartNodeFromStateArgsForCall i fake = indexArgs i (ArgsForCall (st_startNodeFromState fake))"

definition FakeStarter_StartNodeFromStateReturns ::
  "string \<Rightarrow> nat option \<Rightarrow> go_error option \<Rightarrow> 's FakeStarter \<Rightarrow> 's FakeStarter" where
  "FakeStarter_StartNodeFromStateReturns result1 result2 result3 fake =
     fake\<lparr>st_startNodeFromState := (st_startNodeFromState fake)\<lparr>Stub := None, Returns := (result1, result2, result3)\<rparr>\<rparr>"

definition FakeStarter_StartNodeFromStateReturnsOnCall ::
  "int \<Rightarrow> string \<Rightarrow> nat option \<Rightarrow> go_error option \<Rightarrow> 's FakeStarter \<Rightarrow> 's FakeStarter" where
  "FakeStarter_StartNodeFromStateReturnsOnCall i result1 result2 result3 fake =
     fake\<lparr>st_startNodeFromState := (st_startNodeFromState fake)\<lparr>Stub := None,
       ReturnsOnCall := (ReturnsOnCall (st_startNodeFromState fake))(i \<mapsto> (result1, result2, result3))\<rparr>\<rparr>"

lemmas FakeStarter_defs [double_simps] =
  FakeStarter_recordInvocation_def FakeStarter_GetMysqlCmd_def FakeStarter_GetMysqlCmdCallCount_def FakeStarter_GetMysqlCmdCalls_def FakeStarter_GetMysqlCmdReturns_def FakeStarter_GetMysqlCmdReturnsOnCall_def FakeStarter_StartNodeFromState_def FakeStarter_StartNodeFromStateCallCount_def FakeStarter_StartNodeFromStateCalls_def FakeStarter_StartNodeFromStateArgsForCall_def FakeStarter_StartNodeFromStateReturns_def FakeStarter_StartNodeFromStateReturnsOnCall_def

subsection \<open>The interface\<close>

text \<open>The calls of \<^verbatim>\<open>Starter\<close>, and the double as a receiver of them.\<close>

datatype Starter_call =
    St_GetMysqlCmd
  | St_StartNodeFromState string

fun FakeStarter_call :: "Starter_call \<Rightarrow> 's FakeStarter \<Rightarrow> (reply, 's) closure \<times> 's FakeStarter" where
  "FakeStarter_call St_GetMysqlCmd fake =
     map_prod (through ReplyCmd) id (FakeStarter_GetMysqlCmd fake)"
| "FakeStarter_call (St_StartNodeFromState arg1) fake =
     map_prod (through ReplyStart) id (FakeStarter_StartNodeFromState arg1 fake)"

fun Starter_name :: "Starter_call \<Rightarrow> string" where
  "Starter_name St_GetMysqlCmd = ''GetMysqlCmd''"
| "Starter_name (St_StartNodeFromState arg1) = ''StartNodeFromState''"

fun Starter_boxes :: "Starter_call \<Rightarrow> boxed list" where
  "Starter_boxes St_GetMysqlCmd = []"
| "Starter_boxes (St_StartNodeFromState arg1) = [BString arg1]"

text \<open>The types of the arguments the interface declares.\<close>

definition Starter_signature :: "string \<rightharpoonup> box_type list" where
  "Starter_signature =
     [''GetMysqlCmd'' \<mapsto> [],
      ''StartNodeFromState'' \<mapsto> [TString]]"

text \<open>What is recorded of the calls of each method, boxed as in the log.\<close>

definition FakeStarter_recorded :: "'s FakeStarter \<Rightarrow> recorded" where
  "FakeStarter_recorded fake =
     [(''GetMysqlCmd'', map (\<lambda>_. []) (ArgsForCall (st_getMysqlCmd fake))),
      (''StartNodeFromState'', map (\<lambda>arg1. [BString arg1]) (ArgsForCall (st_startNodeFromState fake)))]"

text \<open>Everything a test can do to the double: calls of the interface, and its setters.\<close>

inductive FakeStarter_step :: "'s FakeStarter \<Rightarrow> 's FakeStarter \<Rightarrow> bool" where
  FakeStarter_step_call: "FakeStarter_step fake (snd (FakeStarter_call c fake))"
| FakeStarter_GetMysqlCmdCalls_step: "FakeStarter_step fake (FakeStarter_GetMysqlCmdCalls stub fake)"
| FakeStarter_GetMysqlCmdReturns_step: "FakeStarter_step fake (FakeStarter_GetMysqlCmdReturns result1 fake)"
| FakeStarter_GetMysqlCmdReturnsOnCall_step: "FakeStarter_step fake (FakeStarter_GetMysqlCmdReturnsOnCall i result1 fake)"
| FakeStarter_StartNodeFromStateCalls_step: "FakeStarter_step fake (FakeStarter_StartNodeFromStateCalls stub fake)"
| FakeStarter_StartNodeFromStateReturns_step: "FakeStarter_step fake (FakeStarter_StartNodeFromStateReturns result1 result2 result3 fake)"
| FakeStarter_StartNodeFromStateReturnsOnCall_step: "FakeStarter_step fake (FakeStarter_StartNodeFromStateReturnsOnCall i result1 result2 result3 fake)"

subsection \<open>Contracts\<close>

text \<open>Each method keeps the contracts of a double.\<close>

interpretation st_getMysqlCmd: canned "\<lambda>_. FakeStarter_GetMysqlCmd" FakeStarter_GetMysqlCmdCallCount FakeStarter_GetMysqlCmdCalls
  "\<lambda>fake. ArgsForCall (st_getMysqlCmd fake)" "\<lambda>fake. Stub (st_getMysqlCmd fake)"
  FakeStarter_GetMysqlCmdReturns
  FakeStarter_GetMysqlCmdReturnsOnCall
  "\<lambda>fake. Returns (st_getMysqlCmd fake)" "\<lambda>fake. ReturnsOnCall (st_getMysqlCmd fake)"
  by unfold_locales (simp_all add: double_simps split: option.splits)

interpretation st_startNodeFromState: canned FakeStarter_StartNodeFromState FakeStarter_StartNodeFromStateCallCount FakeStarter_StartNodeFromStateCalls
  "\<lambda>fake. ArgsForCall (st_startNodeFromState fake)" "\<lambda>fake. Stub (st_startNodeFromState fake)"
  "\<lambda>(r1, r2, r3). FakeStarter_StartNodeFromStateReturns r1 r2 r3"
  "\<lambda>i (r1, r2, r3). FakeStarter_StartNodeFromStateReturnsOnCall i r1 r2 r3"
  "\<lambda>fake. Returns (st_startNodeFromState fake)" "\<lambda>fake. ReturnsOnCall (st_startNodeFromState fake)"
  by unfold_locales (simp_all add: double_simps split: option.splits)

interpretation st_startNodeFromState_args: inspecting FakeStarter_StartNodeFromState FakeStarter_StartNodeFromStateCallCount FakeStarter_StartNodeFromStateCalls
  "\<lambda>fake. ArgsForCall (st_startNodeFromState fake)" "\<lambda>fake. Stub (st_startNodeFromState fake)"
  FakeStarter_StartNodeFromStateArgsForCall
  by unfold_locales (simp_all add: double_simps split: option.splits)

interpretation st_log: logging FakeStarter_call FakeStarter_Invocations Starter_name Starter_boxes
proof unfold_locales
  fix c :: Starter_call and fake :: "'s FakeStarter"
  show "FakeStarter_Invocations (snd (FakeStarter_call c fake)) =
    logged (Starter_name c) (Starter_boxes c) (FakeStarter_Invocations fake)"
    by (cases c) (simp_all add: double_simps FakeStarter_Invocations_def)
qed

lemma FakeStarter_recorded_call:
  "FakeStarter_recorded (snd (FakeStarter_call c fake)) =
     add_call (Starter_name c) (Starter_boxes c) (FakeStarter_recorded fake)"
  by (cases c)
    (simp_all add: FakeStarter_recorded_def double_simps add_call_def)

lemma FakeStarter_recorded_names:
  "distinct (map fst (FakeStarter_recorded fake))"
  "Starter_name c \<in> set (map fst (FakeStarter_recorded fake))"
  by (simp_all add: FakeStarter_recorded_def) (cases c; simp)

interpretation st_inv: invariant_system "\<lambda>fake. fake = new_FakeStarter" FakeStarter_step
  "\<lambda>fake. consistent (FakeStarter_recorded fake) (FakeStarter_Invocations fake)"
proof unfold_locales
  fix fake :: "'s FakeStarter" assume "fake = new_FakeStarter"
  then show "consistent (FakeStarter_recorded fake) (FakeStarter_Invocations fake)"
    by (simp add: new_FakeStarter_def FakeStarter_recorded_def FakeStarter_Invocations_def double_simps consistent_def)
next
  fix fake fake' :: "'s FakeStarter"
  assume inv: "consistent (FakeStarter_recorded fake) (FakeStarter_Invocations fake)" and "FakeStarter_step fake fake'"
  from this(2) show "consistent (FakeStarter_recorded fake') (FakeStarter_Invocations fake')"
  proof cases
    case (FakeStarter_step_call c)
    then show ?thesis
      using consistent_logged [OF FakeStarter_recorded_names(1) inv FakeStarter_recorded_names(2)]
      by (simp add: FakeStarter_recorded_call st_log.call_logged)
  qed (use inv in \<open>simp_all add: FakeStarter_recorded_def FakeStarter_Invocations_def double_simps\<close>)
qed

lemma FakeStarter_well_typed:
  "consistent (FakeStarter_recorded fake) (FakeStarter_Invocations fake) \<Longrightarrow> well_typed Starter_signature (FakeStarter_Invocations fake)"
  by (erule well_typed_recorded) (simp add: FakeStarter_recorded_def Starter_signature_def split_beta)

subsection \<open>Wrapping the implementation\<close>

text \<open>The implementation as a receiver of the same calls, and a double with its methods as stubs.\<close>

fun starter_call :: "starter \<Rightarrow> Starter_call \<Rightarrow> reply go" where
  "starter_call s St_GetMysqlCmd = (\<lambda>e. through ReplyCmd (GetMysqlCmd e))"
| "starter_call s (St_StartNodeFromState arg1) = (\<lambda>e. through ReplyStart (StartNodeFromState s arg1 e))"

definition FakeStarter_wrapping :: "starter \<Rightarrow> env \<Rightarrow> world FakeStarter \<Rightarrow> world FakeStarter" where
  "FakeStarter_wrapping s e fake =
     (FakeStarter_GetMysqlCmdCalls (Some (\<lambda>_. GetMysqlCmd e)) \<circ>
      FakeStarter_StartNodeFromStateCalls (Some (\<lambda>arg1. StartNodeFromState s arg1 e))) fake"

definition FakeStarter_wraps :: "starter \<Rightarrow> env \<Rightarrow> world FakeStarter \<Rightarrow> bool" where
  "FakeStarter_wraps s e fake \<longleftrightarrow>
     Stub (st_getMysqlCmd fake) = Some (\<lambda>_. GetMysqlCmd e) \<and>
     Stub (st_startNodeFromState fake) = Some (\<lambda>arg1. StartNodeFromState s arg1 e)"

lemma FakeStarter_wrapping_wraps: "FakeStarter_wraps s e (FakeStarter_wrapping s e fake)"
  by (simp add: FakeStarter_wraps_def FakeStarter_wrapping_def double_simps)

interpretation st_wrap: wrapping FakeStarter_call "\<lambda>c. starter_call s c e" "FakeStarter_wraps s e"
  for s e
proof unfold_locales
  fix fake c assume "FakeStarter_wraps s e fake"
  then show "fst (FakeStarter_call c fake) = starter_call s c e" and "FakeStarter_wraps s e (snd (FakeStarter_call c fake))"
    by (cases c; simp add: FakeStarter_wraps_def double_simps)+
qed

section \<open>FakeServiceStatus\<close>

subsection \<open>The struct and its methods\<close>

record 's FakeServiceStatus =
  ss_start :: "(unit, go_error option, 's) double"
  ss_invocations :: invocations

definition new_FakeServiceStatus :: "'s FakeServiceStatus" where
  "new_FakeServiceStatus =
     \<lparr>ss_start = new_double None,
      ss_invocations = Map.empty\<rparr>"

definition FakeServiceStatus_Invocations :: "'s FakeServiceStatus \<Rightarrow> invocations" where
  "FakeServiceStatus_Invocations fake = ss_invocations fake"

definition FakeServiceStatus_recordInvocation ::
  "string \<Rightarrow> boxed list \<Rightarrow> 's FakeServiceStatus \<Rightarrow> 's FakeServiceStatus" where
  "FakeServiceStatus_recordInvocation key args fake =
     fake\<lparr>ss_invocations := logged key args (ss_invocations fake)\<rparr>"

definition FakeServiceStatus_Start ::
  "'s FakeServiceStatus \<Rightarrow> (go_error option, 's) closure \<times> 's FakeServiceStatus" where
  "FakeServiceStatus_Start fake =
     (let specific = specificReturn (ss_start fake);
          fake = fake\<lparr>ss_start := appendArgs () (ss_start fake)\<rparr>;
          fake = FakeServiceStatus_recordInvocation ''Start'' [] fake
      in (answerWith () specific (ss_start fake), fake))"

definition FakeServiceStatus_StartCallCount ::
  "'s FakeServiceStatus \<Rightarrow> int" where
  "FakeServiceStatus_StartCallCount fake = callCount (ss_start fake)"

definition FakeServiceStatus_StartCalls ::
  "(unit \<Rightarrow> (go_error option, 's) closure) option \<Rightarrow> 's FakeServiceStatus \<Rightarrow> 's FakeServiceStatus" where
  "FakeServiceStatus_StartCalls stub fake = fake\<lparr>ss_start := (ss_start fake)\<lparr>Stub := stub\<rparr>\<rparr>"

definition FakeServiceStatus_StartReturns ::
  "go_error option \<Rightarrow> 's FakeServiceStatus \<Rightarrow> 's FakeServiceStatus" where
  "FakeServiceStatus_StartReturns result1 fake =
     fake\<lparr>ss_start := (ss_start fake)\<lparr>Stub := None, Returns := result1\<rparr>\<rparr>"

definition FakeServiceStatus_StartReturnsOnCall ::
  "int \<Rightarrow> go_error option \<Rightarrow> 's FakeServiceStatus \<Rightarrow> 's FakeServiceStatus" where
  "FakeServiceStatus_StartReturnsOnCall i result1 fake =
     fake\<lparr>ss_start := (ss_start fake)\<lparr>Stub := None,
       ReturnsOnCall := (ReturnsOnCall (ss_start fake))(i \<mapsto> result1)\<rparr>\<rparr>"

lemmas FakeServiceStatus_defs [double_simps] =
  FakeServiceStatus_recordInvocation_def FakeServiceStatus_Start_def FakeServiceStatus_StartCallCount_def FakeServiceStatus_StartCalls_def FakeServiceStatus_StartReturns_def FakeServiceStatus_StartReturnsOnCall_def

subsection \<open>The interface\<close>

text \<open>The calls of \<^verbatim>\<open>ServiceStatus\<close>, and the double as a receiver of them.\<close>

datatype ServiceStatus_call =
    Ss_Start

fun FakeServiceStatus_call :: "ServiceStatus_call \<Rightarrow> 's FakeServiceStatus \<Rightarrow> (reply, 's) closure \<times> 's FakeServiceStatus" where
  "FakeServiceStatus_call Ss_Start fake =
     map_prod (through ReplyError) id (FakeServiceStatus_Start fake)"

fun ServiceStatus_name :: "ServiceStatus_call \<Rightarrow> string" where
  "ServiceStatus_name Ss_Start = ''Start''"

fun ServiceStatus_boxes :: "ServiceStatus_call \<Rightarrow> boxed list" where
  "ServiceStatus_boxes Ss_Start = []"

text \<open>The types of the arguments the interface declares.\<close>

definition ServiceStatus_signature :: "string \<rightharpoonup> box_type list" where
  "ServiceStatus_signature =
     [''Start'' \<mapsto> []]"

text \<open>What is recorded of the calls of each method, boxed as in the log.\<close>

definition FakeServiceStatus_recorded :: "'s FakeServiceStatus \<Rightarrow> recorded" where
  "FakeServiceStatus_recorded fake =
     [(''Start'', map (\<lambda>_. []) (ArgsForCall (ss_start fake)))]"

text \<open>Everything a test can do to the double: calls of the interface, and its setters.\<close>

inductive FakeServiceStatus_step :: "'s FakeServiceStatus \<Rightarrow> 's FakeServiceStatus \<Rightarrow> bool" where
  FakeServiceStatus_step_call: "FakeServiceStatus_step fake (snd (FakeServiceStatus_call c fake))"
| FakeServiceStatus_StartCalls_step: "FakeServiceStatus_step fake (FakeServiceStatus_StartCalls stub fake)"
| FakeServiceStatus_StartReturns_step: "FakeServiceStatus_step fake (FakeServiceStatus_StartReturns result1 fake)"
| FakeServiceStatus_StartReturnsOnCall_step: "FakeServiceStatus_step fake (FakeServiceStatus_StartReturnsOnCall i result1 fake)"

subsection \<open>Contracts\<close>

text \<open>Each method keeps the contracts of a double.\<close>

interpretation ss_start: canned "\<lambda>_. FakeServiceStatus_Start" FakeServiceStatus_StartCallCount FakeServiceStatus_StartCalls
  "\<lambda>fake. ArgsForCall (ss_start fake)" "\<lambda>fake. Stub (ss_start fake)"
  FakeServiceStatus_StartReturns
  FakeServiceStatus_StartReturnsOnCall
  "\<lambda>fake. Returns (ss_start fake)" "\<lambda>fake. ReturnsOnCall (ss_start fake)"
  by unfold_locales (simp_all add: double_simps split: option.splits)

interpretation ss_log: logging FakeServiceStatus_call FakeServiceStatus_Invocations ServiceStatus_name ServiceStatus_boxes
proof unfold_locales
  fix c :: ServiceStatus_call and fake :: "'s FakeServiceStatus"
  show "FakeServiceStatus_Invocations (snd (FakeServiceStatus_call c fake)) =
    logged (ServiceStatus_name c) (ServiceStatus_boxes c) (FakeServiceStatus_Invocations fake)"
    by (cases c) (simp_all add: double_simps FakeServiceStatus_Invocations_def)
qed

lemma FakeServiceStatus_recorded_call:
  "FakeServiceStatus_recorded (snd (FakeServiceStatus_call c fake)) =
     add_call (ServiceStatus_name c) (ServiceStatus_boxes c) (FakeServiceStatus_recorded fake)"
  by (cases c)
    (simp_all add: FakeServiceStatus_recorded_def double_simps add_call_def)

lemma FakeServiceStatus_recorded_names:
  "distinct (map fst (FakeServiceStatus_recorded fake))"
  "ServiceStatus_name c \<in> set (map fst (FakeServiceStatus_recorded fake))"
  by (simp_all add: FakeServiceStatus_recorded_def) (cases c; simp)

interpretation ss_inv: invariant_system "\<lambda>fake. fake = new_FakeServiceStatus" FakeServiceStatus_step
  "\<lambda>fake. consistent (FakeServiceStatus_recorded fake) (FakeServiceStatus_Invocations fake)"
proof unfold_locales
  fix fake :: "'s FakeServiceStatus" assume "fake = new_FakeServiceStatus"
  then show "consistent (FakeServiceStatus_recorded fake) (FakeServiceStatus_Invocations fake)"
    by (simp add: new_FakeServiceStatus_def FakeServiceStatus_recorded_def FakeServiceStatus_Invocations_def double_simps consistent_def)
next
  fix fake fake' :: "'s FakeServiceStatus"
  assume inv: "consistent (FakeServiceStatus_recorded fake) (FakeServiceStatus_Invocations fake)" and "FakeServiceStatus_step fake fake'"
  from this(2) show "consistent (FakeServiceStatus_recorded fake') (FakeServiceStatus_Invocations fake')"
  proof cases
    case (FakeServiceStatus_step_call c)
    then show ?thesis
      using consistent_logged [OF FakeServiceStatus_recorded_names(1) inv FakeServiceStatus_recorded_names(2)]
      by (simp add: FakeServiceStatus_recorded_call ss_log.call_logged)
  qed (use inv in \<open>simp_all add: FakeServiceStatus_recorded_def FakeServiceStatus_Invocations_def double_simps\<close>)
qed

lemma FakeServiceStatus_well_typed:
  "consistent (FakeServiceStatus_recorded fake) (FakeServiceStatus_Invocations fake) \<Longrightarrow> well_typed ServiceStatus_signature (FakeServiceStatus_Invocations fake)"
  by (erule well_typed_recorded) (simp add: FakeServiceStatus_recorded_def ServiceStatus_signature_def split_beta)

subsection \<open>Wrapping the implementation\<close>

text \<open>The implementation as a receiver of the same calls, and a double with its methods as stubs.\<close>

fun GaleraInitStatusServer_call :: "GaleraInitStatusServer \<Rightarrow> ServiceStatus_call \<Rightarrow> reply go" where
  "GaleraInitStatusServer_call s Ss_Start = (\<lambda>e. through ReplyError (ServiceStatus_Start s e))"

definition FakeServiceStatus_wrapping :: "GaleraInitStatusServer \<Rightarrow> env \<Rightarrow> world FakeServiceStatus \<Rightarrow> world FakeServiceStatus" where
  "FakeServiceStatus_wrapping s e fake =
     (FakeServiceStatus_StartCalls (Some (\<lambda>_. ServiceStatus_Start s e))) fake"

definition FakeServiceStatus_wraps :: "GaleraInitStatusServer \<Rightarrow> env \<Rightarrow> world FakeServiceStatus \<Rightarrow> bool" where
  "FakeServiceStatus_wraps s e fake \<longleftrightarrow>
     Stub (ss_start fake) = Some (\<lambda>_. ServiceStatus_Start s e)"

lemma FakeServiceStatus_wrapping_wraps: "FakeServiceStatus_wraps s e (FakeServiceStatus_wrapping s e fake)"
  by (simp add: FakeServiceStatus_wraps_def FakeServiceStatus_wrapping_def double_simps)

interpretation ss_wrap: wrapping FakeServiceStatus_call "\<lambda>c. GaleraInitStatusServer_call s c e" "FakeServiceStatus_wraps s e"
  for s e
proof unfold_locales
  fix fake c assume "FakeServiceStatus_wraps s e fake"
  then show "fst (FakeServiceStatus_call c fake) = GaleraInitStatusServer_call s c e" and "FakeServiceStatus_wraps s e (snd (FakeServiceStatus_call c fake))"
    by (cases c; simp add: FakeServiceStatus_wraps_def double_simps)+
qed

section \<open>FakeStartManager\<close>

subsection \<open>The struct and its methods\<close>

record 's FakeStartManager =
  sm_execute :: "(nat, go_error option, 's) double"
  sm_shutdown :: "(unit, unit, 's) spied"
  sm_invocations :: invocations

definition new_FakeStartManager :: "'s FakeStartManager" where
  "new_FakeStartManager =
     \<lparr>sm_execute = new_double None,
      sm_shutdown = new_spied,
      sm_invocations = Map.empty\<rparr>"

definition FakeStartManager_Invocations :: "'s FakeStartManager \<Rightarrow> invocations" where
  "FakeStartManager_Invocations fake = sm_invocations fake"

definition FakeStartManager_recordInvocation ::
  "string \<Rightarrow> boxed list \<Rightarrow> 's FakeStartManager \<Rightarrow> 's FakeStartManager" where
  "FakeStartManager_recordInvocation key args fake =
     fake\<lparr>sm_invocations := logged key args (sm_invocations fake)\<rparr>"

definition FakeStartManager_Execute ::
  "nat \<Rightarrow> 's FakeStartManager \<Rightarrow> (go_error option, 's) closure \<times> 's FakeStartManager" where
  "FakeStartManager_Execute arg1 fake =
     (let specific = specificReturn (sm_execute fake);
          fake = fake\<lparr>sm_execute := appendArgs arg1 (sm_execute fake)\<rparr>;
          fake = FakeStartManager_recordInvocation ''Execute'' [BContext arg1] fake
      in (answerWith arg1 specific (sm_execute fake), fake))"

definition FakeStartManager_ExecuteCallCount ::
  "'s FakeStartManager \<Rightarrow> int" where
  "FakeStartManager_ExecuteCallCount fake = callCount (sm_execute fake)"

definition FakeStartManager_ExecuteCalls ::
  "(nat \<Rightarrow> (go_error option, 's) closure) option \<Rightarrow> 's FakeStartManager \<Rightarrow> 's FakeStartManager" where
  "FakeStartManager_ExecuteCalls stub fake = fake\<lparr>sm_execute := (sm_execute fake)\<lparr>Stub := stub\<rparr>\<rparr>"

definition FakeStartManager_ExecuteArgsForCall ::
  "int \<Rightarrow> 's FakeStartManager \<Rightarrow> nat outcome" where
  "FakeStartManager_ExecuteArgsForCall i fake = indexArgs i (ArgsForCall (sm_execute fake))"

definition FakeStartManager_ExecuteReturns ::
  "go_error option \<Rightarrow> 's FakeStartManager \<Rightarrow> 's FakeStartManager" where
  "FakeStartManager_ExecuteReturns result1 fake =
     fake\<lparr>sm_execute := (sm_execute fake)\<lparr>Stub := None, Returns := result1\<rparr>\<rparr>"

definition FakeStartManager_ExecuteReturnsOnCall ::
  "int \<Rightarrow> go_error option \<Rightarrow> 's FakeStartManager \<Rightarrow> 's FakeStartManager" where
  "FakeStartManager_ExecuteReturnsOnCall i result1 fake =
     fake\<lparr>sm_execute := (sm_execute fake)\<lparr>Stub := None,
       ReturnsOnCall := (ReturnsOnCall (sm_execute fake))(i \<mapsto> result1)\<rparr>\<rparr>"

definition FakeStartManager_Shutdown ::
  "'s FakeStartManager \<Rightarrow> (unit, 's) closure \<times> 's FakeStartManager" where
  "FakeStartManager_Shutdown fake =
     (let fake = fake\<lparr>sm_shutdown := appendArgs () (sm_shutdown fake)\<rparr>;
          fake = FakeStartManager_recordInvocation ''Shutdown'' [] fake
      in (runStub () (sm_shutdown fake), fake))"

definition FakeStartManager_ShutdownCallCount ::
  "'s FakeStartManager \<Rightarrow> int" where
  "FakeStartManager_ShutdownCallCount fake = callCount (sm_shutdown fake)"

definition FakeStartManager_ShutdownCalls ::
  "(unit \<Rightarrow> (unit, 's) closure) option \<Rightarrow> 's FakeStartManager \<Rightarrow> 's FakeStartManager" where
  "FakeStartManager_ShutdownCalls stub fake = fake\<lparr>sm_shutdown := (sm_shutdown fake)\<lparr>Stub := stub\<rparr>\<rparr>"

lemmas FakeStartManager_defs [double_simps] =
  FakeStartManager_recordInvocation_def FakeStartManager_Execute_def FakeStartManager_ExecuteCallCount_def FakeStartManager_ExecuteCalls_def FakeStartManager_ExecuteArgsForCall_def FakeStartManager_ExecuteReturns_def FakeStartManager_ExecuteReturnsOnCall_def FakeStartManager_Shutdown_def FakeStartManager_ShutdownCallCount_def FakeStartManager_ShutdownCalls_def

subsection \<open>The interface\<close>

text \<open>The calls of \<^verbatim>\<open>StartManager\<close>, and the double as a receiver of them.\<close>

datatype StartManager_call =
    Sm_Execute nat
  | Sm_Shutdown

fun FakeStartManager_call :: "StartManager_call \<Rightarrow> 's FakeStartManager \<Rightarrow> (reply, 's) closure \<times> 's FakeStartManager" where
  "FakeStartManager_call (Sm_Execute arg1) fake =
     map_prod (through ReplyError) id (FakeStartManager_Execute arg1 fake)"
| "FakeStartManager_call Sm_Shutdown fake =
     map_prod (through ReplyUnit) id (FakeStartManager_Shutdown fake)"

fun StartManager_name :: "StartManager_call \<Rightarrow> string" where
  "StartManager_name (Sm_Execute arg1) = ''Execute''"
| "StartManager_name Sm_Shutdown = ''Shutdown''"

fun StartManager_boxes :: "StartManager_call \<Rightarrow> boxed list" where
  "StartManager_boxes (Sm_Execute arg1) = [BContext arg1]"
| "StartManager_boxes Sm_Shutdown = []"

text \<open>The types of the arguments the interface declares.\<close>

definition StartManager_signature :: "string \<rightharpoonup> box_type list" where
  "StartManager_signature =
     [''Execute'' \<mapsto> [TContext],
      ''Shutdown'' \<mapsto> []]"

text \<open>What is recorded of the calls of each method, boxed as in the log.\<close>

definition FakeStartManager_recorded :: "'s FakeStartManager \<Rightarrow> recorded" where
  "FakeStartManager_recorded fake =
     [(''Execute'', map (\<lambda>arg1. [BContext arg1]) (ArgsForCall (sm_execute fake))),
      (''Shutdown'', map (\<lambda>_. []) (ArgsForCall (sm_shutdown fake)))]"

text \<open>Everything a test can do to the double: calls of the interface, and its setters.\<close>

inductive FakeStartManager_step :: "'s FakeStartManager \<Rightarrow> 's FakeStartManager \<Rightarrow> bool" where
  FakeStartManager_step_call: "FakeStartManager_step fake (snd (FakeStartManager_call c fake))"
| FakeStartManager_ExecuteCalls_step: "FakeStartManager_step fake (FakeStartManager_ExecuteCalls stub fake)"
| FakeStartManager_ExecuteReturns_step: "FakeStartManager_step fake (FakeStartManager_ExecuteReturns result1 fake)"
| FakeStartManager_ExecuteReturnsOnCall_step: "FakeStartManager_step fake (FakeStartManager_ExecuteReturnsOnCall i result1 fake)"
| FakeStartManager_ShutdownCalls_step: "FakeStartManager_step fake (FakeStartManager_ShutdownCalls stub fake)"

subsection \<open>Contracts\<close>

text \<open>Each method keeps the contracts of a double.\<close>

interpretation sm_execute: canned FakeStartManager_Execute FakeStartManager_ExecuteCallCount FakeStartManager_ExecuteCalls
  "\<lambda>fake. ArgsForCall (sm_execute fake)" "\<lambda>fake. Stub (sm_execute fake)"
  FakeStartManager_ExecuteReturns
  FakeStartManager_ExecuteReturnsOnCall
  "\<lambda>fake. Returns (sm_execute fake)" "\<lambda>fake. ReturnsOnCall (sm_execute fake)"
  by unfold_locales (simp_all add: double_simps split: option.splits)

interpretation sm_execute_args: inspecting FakeStartManager_Execute FakeStartManager_ExecuteCallCount FakeStartManager_ExecuteCalls
  "\<lambda>fake. ArgsForCall (sm_execute fake)" "\<lambda>fake. Stub (sm_execute fake)"
  FakeStartManager_ExecuteArgsForCall
  by unfold_locales (simp_all add: double_simps split: option.splits)

interpretation sm_shutdown: spying "\<lambda>_. FakeStartManager_Shutdown" FakeStartManager_ShutdownCallCount FakeStartManager_ShutdownCalls
  "\<lambda>fake. ArgsForCall (sm_shutdown fake)" "\<lambda>fake. Stub (sm_shutdown fake)"
  by unfold_locales (simp_all add: double_simps split: option.splits)

interpretation sm_log: logging FakeStartManager_call FakeStartManager_Invocations StartManager_name StartManager_boxes
proof unfold_locales
  fix c :: StartManager_call and fake :: "'s FakeStartManager"
  show "FakeStartManager_Invocations (snd (FakeStartManager_call c fake)) =
    logged (StartManager_name c) (StartManager_boxes c) (FakeStartManager_Invocations fake)"
    by (cases c) (simp_all add: double_simps FakeStartManager_Invocations_def)
qed

lemma FakeStartManager_recorded_call:
  "FakeStartManager_recorded (snd (FakeStartManager_call c fake)) =
     add_call (StartManager_name c) (StartManager_boxes c) (FakeStartManager_recorded fake)"
  by (cases c)
    (simp_all add: FakeStartManager_recorded_def double_simps add_call_def)

lemma FakeStartManager_recorded_names:
  "distinct (map fst (FakeStartManager_recorded fake))"
  "StartManager_name c \<in> set (map fst (FakeStartManager_recorded fake))"
  by (simp_all add: FakeStartManager_recorded_def) (cases c; simp)

interpretation sm_inv: invariant_system "\<lambda>fake. fake = new_FakeStartManager" FakeStartManager_step
  "\<lambda>fake. consistent (FakeStartManager_recorded fake) (FakeStartManager_Invocations fake)"
proof unfold_locales
  fix fake :: "'s FakeStartManager" assume "fake = new_FakeStartManager"
  then show "consistent (FakeStartManager_recorded fake) (FakeStartManager_Invocations fake)"
    by (simp add: new_FakeStartManager_def FakeStartManager_recorded_def FakeStartManager_Invocations_def double_simps consistent_def)
next
  fix fake fake' :: "'s FakeStartManager"
  assume inv: "consistent (FakeStartManager_recorded fake) (FakeStartManager_Invocations fake)" and "FakeStartManager_step fake fake'"
  from this(2) show "consistent (FakeStartManager_recorded fake') (FakeStartManager_Invocations fake')"
  proof cases
    case (FakeStartManager_step_call c)
    then show ?thesis
      using consistent_logged [OF FakeStartManager_recorded_names(1) inv FakeStartManager_recorded_names(2)]
      by (simp add: FakeStartManager_recorded_call sm_log.call_logged)
  qed (use inv in \<open>simp_all add: FakeStartManager_recorded_def FakeStartManager_Invocations_def double_simps\<close>)
qed

lemma FakeStartManager_well_typed:
  "consistent (FakeStartManager_recorded fake) (FakeStartManager_Invocations fake) \<Longrightarrow> well_typed StartManager_signature (FakeStartManager_Invocations fake)"
  by (erule well_typed_recorded) (simp add: FakeStartManager_recorded_def StartManager_signature_def split_beta)

subsection \<open>Wrapping the implementation\<close>

text \<open>The implementation as a receiver of the same calls, and a double with its methods as stubs.\<close>

fun startManager_call :: "startManager \<Rightarrow> StartManager_call \<Rightarrow> reply go" where
  "startManager_call m (Sm_Execute arg1) = (\<lambda>e. through ReplyError (Execute m e))"
| "startManager_call m Sm_Shutdown = (\<lambda>e. through ReplyUnit (Shutdown m e))"

definition FakeStartManager_wrapping :: "startManager \<Rightarrow> env \<Rightarrow> world FakeStartManager \<Rightarrow> world FakeStartManager" where
  "FakeStartManager_wrapping m e fake =
     (FakeStartManager_ExecuteCalls (Some (\<lambda>arg1. Execute m e)) \<circ>
      FakeStartManager_ShutdownCalls (Some (\<lambda>_. Shutdown m e))) fake"

definition FakeStartManager_wraps :: "startManager \<Rightarrow> env \<Rightarrow> world FakeStartManager \<Rightarrow> bool" where
  "FakeStartManager_wraps m e fake \<longleftrightarrow>
     Stub (sm_execute fake) = Some (\<lambda>arg1. Execute m e) \<and>
     Stub (sm_shutdown fake) = Some (\<lambda>_. Shutdown m e)"

lemma FakeStartManager_wrapping_wraps: "FakeStartManager_wraps m e (FakeStartManager_wrapping m e fake)"
  by (simp add: FakeStartManager_wraps_def FakeStartManager_wrapping_def double_simps)

interpretation sm_wrap: wrapping FakeStartManager_call "\<lambda>c. startManager_call m c e" "FakeStartManager_wraps m e"
  for m e
proof unfold_locales
  fix fake c assume "FakeStartManager_wraps m e fake"
  then show "fst (FakeStartManager_call c fake) = startManager_call m c e" and "FakeStartManager_wraps m e (snd (FakeStartManager_call c fake))"
    by (cases c; simp add: FakeStartManager_wraps_def double_simps)+
qed

section \<open>FakeUpgrader\<close>

subsection \<open>The struct and its methods\<close>

record 's FakeUpgrader =
  up_needsUpgrade :: "(unit, bool \<times> go_error option, 's) double"
  up_upgrade :: "(unit, go_error option, 's) double"
  up_invocations :: invocations

definition new_FakeUpgrader :: "'s FakeUpgrader" where
  "new_FakeUpgrader =
     \<lparr>up_needsUpgrade = new_double (False, None),
      up_upgrade = new_double None,
      up_invocations = Map.empty\<rparr>"

definition FakeUpgrader_Invocations :: "'s FakeUpgrader \<Rightarrow> invocations" where
  "FakeUpgrader_Invocations fake = up_invocations fake"

definition FakeUpgrader_recordInvocation ::
  "string \<Rightarrow> boxed list \<Rightarrow> 's FakeUpgrader \<Rightarrow> 's FakeUpgrader" where
  "FakeUpgrader_recordInvocation key args fake =
     fake\<lparr>up_invocations := logged key args (up_invocations fake)\<rparr>"

definition FakeUpgrader_NeedsUpgrade ::
  "'s FakeUpgrader \<Rightarrow> (bool \<times> go_error option, 's) closure \<times> 's FakeUpgrader" where
  "FakeUpgrader_NeedsUpgrade fake =
     (let specific = specificReturn (up_needsUpgrade fake);
          fake = fake\<lparr>up_needsUpgrade := appendArgs () (up_needsUpgrade fake)\<rparr>;
          fake = FakeUpgrader_recordInvocation ''NeedsUpgrade'' [] fake
      in (answerWith () specific (up_needsUpgrade fake), fake))"

definition FakeUpgrader_NeedsUpgradeCallCount ::
  "'s FakeUpgrader \<Rightarrow> int" where
  "FakeUpgrader_NeedsUpgradeCallCount fake = callCount (up_needsUpgrade fake)"

definition FakeUpgrader_NeedsUpgradeCalls ::
  "(unit \<Rightarrow> (bool \<times> go_error option, 's) closure) option \<Rightarrow> 's FakeUpgrader \<Rightarrow> 's FakeUpgrader" where
  "FakeUpgrader_NeedsUpgradeCalls stub fake = fake\<lparr>up_needsUpgrade := (up_needsUpgrade fake)\<lparr>Stub := stub\<rparr>\<rparr>"

definition FakeUpgrader_NeedsUpgradeReturns ::
  "bool \<Rightarrow> go_error option \<Rightarrow> 's FakeUpgrader \<Rightarrow> 's FakeUpgrader" where
  "FakeUpgrader_NeedsUpgradeReturns result1 result2 fake =
     fake\<lparr>up_needsUpgrade := (up_needsUpgrade fake)\<lparr>Stub := None, Returns := (result1, result2)\<rparr>\<rparr>"

definition FakeUpgrader_NeedsUpgradeReturnsOnCall ::
  "int \<Rightarrow> bool \<Rightarrow> go_error option \<Rightarrow> 's FakeUpgrader \<Rightarrow> 's FakeUpgrader" where
  "FakeUpgrader_NeedsUpgradeReturnsOnCall i result1 result2 fake =
     fake\<lparr>up_needsUpgrade := (up_needsUpgrade fake)\<lparr>Stub := None,
       ReturnsOnCall := (ReturnsOnCall (up_needsUpgrade fake))(i \<mapsto> (result1, result2))\<rparr>\<rparr>"

definition FakeUpgrader_Upgrade ::
  "'s FakeUpgrader \<Rightarrow> (go_error option, 's) closure \<times> 's FakeUpgrader" where
  "FakeUpgrader_Upgrade fake =
     (let specific = specificReturn (up_upgrade fake);
          fake = fake\<lparr>up_upgrade := appendArgs () (up_upgrade fake)\<rparr>;
          fake = FakeUpgrader_recordInvocation ''Upgrade'' [] fake
      in (answerWith () specific (up_upgrade fake), fake))"

definition FakeUpgrader_UpgradeCallCount ::
  "'s FakeUpgrader \<Rightarrow> int" where
  "FakeUpgrader_UpgradeCallCount fake = callCount (up_upgrade fake)"

definition FakeUpgrader_UpgradeCalls ::
  "(unit \<Rightarrow> (go_error option, 's) closure) option \<Rightarrow> 's FakeUpgrader \<Rightarrow> 's FakeUpgrader" where
  "FakeUpgrader_UpgradeCalls stub fake = fake\<lparr>up_upgrade := (up_upgrade fake)\<lparr>Stub := stub\<rparr>\<rparr>"

definition FakeUpgrader_UpgradeReturns ::
  "go_error option \<Rightarrow> 's FakeUpgrader \<Rightarrow> 's FakeUpgrader" where
  "FakeUpgrader_UpgradeReturns result1 fake =
     fake\<lparr>up_upgrade := (up_upgrade fake)\<lparr>Stub := None, Returns := result1\<rparr>\<rparr>"

definition FakeUpgrader_UpgradeReturnsOnCall ::
  "int \<Rightarrow> go_error option \<Rightarrow> 's FakeUpgrader \<Rightarrow> 's FakeUpgrader" where
  "FakeUpgrader_UpgradeReturnsOnCall i result1 fake =
     fake\<lparr>up_upgrade := (up_upgrade fake)\<lparr>Stub := None,
       ReturnsOnCall := (ReturnsOnCall (up_upgrade fake))(i \<mapsto> result1)\<rparr>\<rparr>"

lemmas FakeUpgrader_defs [double_simps] =
  FakeUpgrader_recordInvocation_def FakeUpgrader_NeedsUpgrade_def FakeUpgrader_NeedsUpgradeCallCount_def FakeUpgrader_NeedsUpgradeCalls_def FakeUpgrader_NeedsUpgradeReturns_def FakeUpgrader_NeedsUpgradeReturnsOnCall_def FakeUpgrader_Upgrade_def FakeUpgrader_UpgradeCallCount_def FakeUpgrader_UpgradeCalls_def FakeUpgrader_UpgradeReturns_def FakeUpgrader_UpgradeReturnsOnCall_def

subsection \<open>The interface\<close>

text \<open>The calls of \<^verbatim>\<open>Upgrader\<close>, and the double as a receiver of them.\<close>

datatype Upgrader_call =
    Up_NeedsUpgrade
  | Up_Upgrade

fun FakeUpgrader_call :: "Upgrader_call \<Rightarrow> 's FakeUpgrader \<Rightarrow> (reply, 's) closure \<times> 's FakeUpgrader" where
  "FakeUpgrader_call Up_NeedsUpgrade fake =
     map_prod (through ReplyBoolError) id (FakeUpgrader_NeedsUpgrade fake)"
| "FakeUpgrader_call Up_Upgrade fake =
     map_prod (through ReplyError) id (FakeUpgrader_Upgrade fake)"

fun Upgrader_name :: "Upgrader_call \<Rightarrow> string" where
  "Upgrader_name Up_NeedsUpgrade = ''NeedsUpgrade''"
| "Upgrader_name Up_Upgrade = ''Upgrade''"

fun Upgrader_boxes :: "Upgrader_call \<Rightarrow> boxed list" where
  "Upgrader_boxes Up_NeedsUpgrade = []"
| "Upgrader_boxes Up_Upgrade = []"

text \<open>The types of the arguments the interface declares.\<close>

definition Upgrader_signature :: "string \<rightharpoonup> box_type list" where
  "Upgrader_signature =
     [''NeedsUpgrade'' \<mapsto> [],
      ''Upgrade'' \<mapsto> []]"

text \<open>What is recorded of the calls of each method, boxed as in the log.\<close>

definition FakeUpgrader_recorded :: "'s FakeUpgrader \<Rightarrow> recorded" where
  "FakeUpgrader_recorded fake =
     [(''NeedsUpgrade'', map (\<lambda>_. []) (ArgsForCall (up_needsUpgrade fake))),
      (''Upgrade'', map (\<lambda>_. []) (ArgsForCall (up_upgrade fake)))]"

text \<open>Everything a test can do to the double: calls of the interface, and its setters.\<close>

inductive FakeUpgrader_step :: "'s FakeUpgrader \<Rightarrow> 's FakeUpgrader \<Rightarrow> bool" where
  FakeUpgrader_step_call: "FakeUpgrader_step fake (snd (FakeUpgrader_call c fake))"
| FakeUpgrader_NeedsUpgradeCalls_step: "FakeUpgrader_step fake (FakeUpgrader_NeedsUpgradeCalls stub fake)"
| FakeUpgrader_NeedsUpgradeReturns_step: "FakeUpgrader_step fake (FakeUpgrader_NeedsUpgradeReturns result1 result2 fake)"
| FakeUpgrader_NeedsUpgradeReturnsOnCall_step: "FakeUpgrader_step fake (FakeUpgrader_NeedsUpgradeReturnsOnCall i result1 result2 fake)"
| FakeUpgrader_UpgradeCalls_step: "FakeUpgrader_step fake (FakeUpgrader_UpgradeCalls stub fake)"
| FakeUpgrader_UpgradeReturns_step: "FakeUpgrader_step fake (FakeUpgrader_UpgradeReturns result1 fake)"
| FakeUpgrader_UpgradeReturnsOnCall_step: "FakeUpgrader_step fake (FakeUpgrader_UpgradeReturnsOnCall i result1 fake)"

subsection \<open>Contracts\<close>

text \<open>Each method keeps the contracts of a double.\<close>

interpretation up_needsUpgrade: canned "\<lambda>_. FakeUpgrader_NeedsUpgrade" FakeUpgrader_NeedsUpgradeCallCount FakeUpgrader_NeedsUpgradeCalls
  "\<lambda>fake. ArgsForCall (up_needsUpgrade fake)" "\<lambda>fake. Stub (up_needsUpgrade fake)"
  "\<lambda>(r1, r2). FakeUpgrader_NeedsUpgradeReturns r1 r2"
  "\<lambda>i (r1, r2). FakeUpgrader_NeedsUpgradeReturnsOnCall i r1 r2"
  "\<lambda>fake. Returns (up_needsUpgrade fake)" "\<lambda>fake. ReturnsOnCall (up_needsUpgrade fake)"
  by unfold_locales (simp_all add: double_simps split: option.splits)

interpretation up_upgrade: canned "\<lambda>_. FakeUpgrader_Upgrade" FakeUpgrader_UpgradeCallCount FakeUpgrader_UpgradeCalls
  "\<lambda>fake. ArgsForCall (up_upgrade fake)" "\<lambda>fake. Stub (up_upgrade fake)"
  FakeUpgrader_UpgradeReturns
  FakeUpgrader_UpgradeReturnsOnCall
  "\<lambda>fake. Returns (up_upgrade fake)" "\<lambda>fake. ReturnsOnCall (up_upgrade fake)"
  by unfold_locales (simp_all add: double_simps split: option.splits)

interpretation up_log: logging FakeUpgrader_call FakeUpgrader_Invocations Upgrader_name Upgrader_boxes
proof unfold_locales
  fix c :: Upgrader_call and fake :: "'s FakeUpgrader"
  show "FakeUpgrader_Invocations (snd (FakeUpgrader_call c fake)) =
    logged (Upgrader_name c) (Upgrader_boxes c) (FakeUpgrader_Invocations fake)"
    by (cases c) (simp_all add: double_simps FakeUpgrader_Invocations_def)
qed

lemma FakeUpgrader_recorded_call:
  "FakeUpgrader_recorded (snd (FakeUpgrader_call c fake)) =
     add_call (Upgrader_name c) (Upgrader_boxes c) (FakeUpgrader_recorded fake)"
  by (cases c)
    (simp_all add: FakeUpgrader_recorded_def double_simps add_call_def)

lemma FakeUpgrader_recorded_names:
  "distinct (map fst (FakeUpgrader_recorded fake))"
  "Upgrader_name c \<in> set (map fst (FakeUpgrader_recorded fake))"
  by (simp_all add: FakeUpgrader_recorded_def) (cases c; simp)

interpretation up_inv: invariant_system "\<lambda>fake. fake = new_FakeUpgrader" FakeUpgrader_step
  "\<lambda>fake. consistent (FakeUpgrader_recorded fake) (FakeUpgrader_Invocations fake)"
proof unfold_locales
  fix fake :: "'s FakeUpgrader" assume "fake = new_FakeUpgrader"
  then show "consistent (FakeUpgrader_recorded fake) (FakeUpgrader_Invocations fake)"
    by (simp add: new_FakeUpgrader_def FakeUpgrader_recorded_def FakeUpgrader_Invocations_def double_simps consistent_def)
next
  fix fake fake' :: "'s FakeUpgrader"
  assume inv: "consistent (FakeUpgrader_recorded fake) (FakeUpgrader_Invocations fake)" and "FakeUpgrader_step fake fake'"
  from this(2) show "consistent (FakeUpgrader_recorded fake') (FakeUpgrader_Invocations fake')"
  proof cases
    case (FakeUpgrader_step_call c)
    then show ?thesis
      using consistent_logged [OF FakeUpgrader_recorded_names(1) inv FakeUpgrader_recorded_names(2)]
      by (simp add: FakeUpgrader_recorded_call up_log.call_logged)
  qed (use inv in \<open>simp_all add: FakeUpgrader_recorded_def FakeUpgrader_Invocations_def double_simps\<close>)
qed

lemma FakeUpgrader_well_typed:
  "consistent (FakeUpgrader_recorded fake) (FakeUpgrader_Invocations fake) \<Longrightarrow> well_typed Upgrader_signature (FakeUpgrader_Invocations fake)"
  by (erule well_typed_recorded) (simp add: FakeUpgrader_recorded_def Upgrader_signature_def split_beta)

subsection \<open>Wrapping the implementation\<close>

text \<open>The implementation as a receiver of the same calls, and a double with its methods as stubs.\<close>

fun upgrader_call :: "upgrader \<Rightarrow> Upgrader_call \<Rightarrow> reply go" where
  "upgrader_call u Up_NeedsUpgrade = (\<lambda>e. through ReplyBoolError (NeedsUpgrade u e))"
| "upgrader_call u Up_Upgrade = (\<lambda>e. through ReplyError (Upgrade u e))"

definition FakeUpgrader_wrapping :: "upgrader \<Rightarrow> env \<Rightarrow> world FakeUpgrader \<Rightarrow> world FakeUpgrader" where
  "FakeUpgrader_wrapping u e fake =
     (FakeUpgrader_NeedsUpgradeCalls (Some (\<lambda>_. NeedsUpgrade u e)) \<circ>
      FakeUpgrader_UpgradeCalls (Some (\<lambda>_. Upgrade u e))) fake"

definition FakeUpgrader_wraps :: "upgrader \<Rightarrow> env \<Rightarrow> world FakeUpgrader \<Rightarrow> bool" where
  "FakeUpgrader_wraps u e fake \<longleftrightarrow>
     Stub (up_needsUpgrade fake) = Some (\<lambda>_. NeedsUpgrade u e) \<and>
     Stub (up_upgrade fake) = Some (\<lambda>_. Upgrade u e)"

lemma FakeUpgrader_wrapping_wraps: "FakeUpgrader_wraps u e (FakeUpgrader_wrapping u e fake)"
  by (simp add: FakeUpgrader_wraps_def FakeUpgrader_wrapping_def double_simps)

interpretation up_wrap: wrapping FakeUpgrader_call "\<lambda>c. upgrader_call u c e" "FakeUpgrader_wraps u e"
  for u e
proof unfold_locales
  fix fake c assume "FakeUpgrader_wraps u e fake"
  then show "fst (FakeUpgrader_call c fake) = upgrader_call u c e" and "FakeUpgrader_wraps u e (snd (FakeUpgrader_call c fake))"
    by (cases c; simp add: FakeUpgrader_wraps_def double_simps)+
qed

section \<open>FakeClusterHealthChecker\<close>

subsection \<open>The struct and its methods\<close>

record 's FakeClusterHealthChecker =
  hc_healthyCluster :: "(unit, bool, 's) double"
  hc_invocations :: invocations

definition new_FakeClusterHealthChecker :: "'s FakeClusterHealthChecker" where
  "new_FakeClusterHealthChecker =
     \<lparr>hc_healthyCluster = new_double False,
      hc_invocations = Map.empty\<rparr>"

definition FakeClusterHealthChecker_Invocations :: "'s FakeClusterHealthChecker \<Rightarrow> invocations" where
  "FakeClusterHealthChecker_Invocations fake = hc_invocations fake"

definition FakeClusterHealthChecker_recordInvocation ::
  "string \<Rightarrow> boxed list \<Rightarrow> 's FakeClusterHealthChecker \<Rightarrow> 's FakeClusterHealthChecker" where
  "FakeClusterHealthChecker_recordInvocation key args fake =
     fake\<lparr>hc_invocations := logged key args (hc_invocations fake)\<rparr>"

definition FakeClusterHealthChecker_HealthyCluster ::
  "'s FakeClusterHealthChecker \<Rightarrow> (bool, 's) closure \<times> 's FakeClusterHealthChecker" where
  "FakeClusterHealthChecker_HealthyCluster fake =
     (let specific = specificReturn (hc_healthyCluster fake);
          fake = fake\<lparr>hc_healthyCluster := appendArgs () (hc_healthyCluster fake)\<rparr>;
          fake = FakeClusterHealthChecker_recordInvocation ''HealthyCluster'' [] fake
      in (answerWith () specific (hc_healthyCluster fake), fake))"

definition FakeClusterHealthChecker_HealthyClusterCallCount ::
  "'s FakeClusterHealthChecker \<Rightarrow> int" where
  "FakeClusterHealthChecker_HealthyClusterCallCount fake = callCount (hc_healthyCluster fake)"

definition FakeClusterHealthChecker_HealthyClusterCalls ::
  "(unit \<Rightarrow> (bool, 's) closure) option \<Rightarrow> 's FakeClusterHealthChecker \<Rightarrow> 's FakeClusterHealthChecker" where
  "FakeClusterHealthChecker_HealthyClusterCalls stub fake = fake\<lparr>hc_healthyCluster := (hc_healthyCluster fake)\<lparr>Stub := stub\<rparr>\<rparr>"

definition FakeClusterHealthChecker_HealthyClusterReturns ::
  "bool \<Rightarrow> 's FakeClusterHealthChecker \<Rightarrow> 's FakeClusterHealthChecker" where
  "FakeClusterHealthChecker_HealthyClusterReturns result1 fake =
     fake\<lparr>hc_healthyCluster := (hc_healthyCluster fake)\<lparr>Stub := None, Returns := result1\<rparr>\<rparr>"

definition FakeClusterHealthChecker_HealthyClusterReturnsOnCall ::
  "int \<Rightarrow> bool \<Rightarrow> 's FakeClusterHealthChecker \<Rightarrow> 's FakeClusterHealthChecker" where
  "FakeClusterHealthChecker_HealthyClusterReturnsOnCall i result1 fake =
     fake\<lparr>hc_healthyCluster := (hc_healthyCluster fake)\<lparr>Stub := None,
       ReturnsOnCall := (ReturnsOnCall (hc_healthyCluster fake))(i \<mapsto> result1)\<rparr>\<rparr>"

lemmas FakeClusterHealthChecker_defs [double_simps] =
  FakeClusterHealthChecker_recordInvocation_def FakeClusterHealthChecker_HealthyCluster_def FakeClusterHealthChecker_HealthyClusterCallCount_def FakeClusterHealthChecker_HealthyClusterCalls_def FakeClusterHealthChecker_HealthyClusterReturns_def FakeClusterHealthChecker_HealthyClusterReturnsOnCall_def

subsection \<open>The interface\<close>

text \<open>The calls of \<^verbatim>\<open>ClusterHealthChecker\<close>, and the double as a receiver of them.\<close>

datatype ClusterHealthChecker_call =
    Hc_HealthyCluster

fun FakeClusterHealthChecker_call :: "ClusterHealthChecker_call \<Rightarrow> 's FakeClusterHealthChecker \<Rightarrow> (reply, 's) closure \<times> 's FakeClusterHealthChecker" where
  "FakeClusterHealthChecker_call Hc_HealthyCluster fake =
     map_prod (through ReplyBool) id (FakeClusterHealthChecker_HealthyCluster fake)"

fun ClusterHealthChecker_name :: "ClusterHealthChecker_call \<Rightarrow> string" where
  "ClusterHealthChecker_name Hc_HealthyCluster = ''HealthyCluster''"

fun ClusterHealthChecker_boxes :: "ClusterHealthChecker_call \<Rightarrow> boxed list" where
  "ClusterHealthChecker_boxes Hc_HealthyCluster = []"

text \<open>The types of the arguments the interface declares.\<close>

definition ClusterHealthChecker_signature :: "string \<rightharpoonup> box_type list" where
  "ClusterHealthChecker_signature =
     [''HealthyCluster'' \<mapsto> []]"

text \<open>What is recorded of the calls of each method, boxed as in the log.\<close>

definition FakeClusterHealthChecker_recorded :: "'s FakeClusterHealthChecker \<Rightarrow> recorded" where
  "FakeClusterHealthChecker_recorded fake =
     [(''HealthyCluster'', map (\<lambda>_. []) (ArgsForCall (hc_healthyCluster fake)))]"

text \<open>Everything a test can do to the double: calls of the interface, and its setters.\<close>

inductive FakeClusterHealthChecker_step :: "'s FakeClusterHealthChecker \<Rightarrow> 's FakeClusterHealthChecker \<Rightarrow> bool" where
  FakeClusterHealthChecker_step_call: "FakeClusterHealthChecker_step fake (snd (FakeClusterHealthChecker_call c fake))"
| FakeClusterHealthChecker_HealthyClusterCalls_step: "FakeClusterHealthChecker_step fake (FakeClusterHealthChecker_HealthyClusterCalls stub fake)"
| FakeClusterHealthChecker_HealthyClusterReturns_step: "FakeClusterHealthChecker_step fake (FakeClusterHealthChecker_HealthyClusterReturns result1 fake)"
| FakeClusterHealthChecker_HealthyClusterReturnsOnCall_step: "FakeClusterHealthChecker_step fake (FakeClusterHealthChecker_HealthyClusterReturnsOnCall i result1 fake)"

subsection \<open>Contracts\<close>

text \<open>Each method keeps the contracts of a double.\<close>

interpretation hc_healthyCluster: canned "\<lambda>_. FakeClusterHealthChecker_HealthyCluster" FakeClusterHealthChecker_HealthyClusterCallCount FakeClusterHealthChecker_HealthyClusterCalls
  "\<lambda>fake. ArgsForCall (hc_healthyCluster fake)" "\<lambda>fake. Stub (hc_healthyCluster fake)"
  FakeClusterHealthChecker_HealthyClusterReturns
  FakeClusterHealthChecker_HealthyClusterReturnsOnCall
  "\<lambda>fake. Returns (hc_healthyCluster fake)" "\<lambda>fake. ReturnsOnCall (hc_healthyCluster fake)"
  by unfold_locales (simp_all add: double_simps split: option.splits)

interpretation hc_log: logging FakeClusterHealthChecker_call FakeClusterHealthChecker_Invocations ClusterHealthChecker_name ClusterHealthChecker_boxes
proof unfold_locales
  fix c :: ClusterHealthChecker_call and fake :: "'s FakeClusterHealthChecker"
  show "FakeClusterHealthChecker_Invocations (snd (FakeClusterHealthChecker_call c fake)) =
    logged (ClusterHealthChecker_name c) (ClusterHealthChecker_boxes c) (FakeClusterHealthChecker_Invocations fake)"
    by (cases c) (simp_all add: double_simps FakeClusterHealthChecker_Invocations_def)
qed

lemma FakeClusterHealthChecker_recorded_call:
  "FakeClusterHealthChecker_recorded (snd (FakeClusterHealthChecker_call c fake)) =
     add_call (ClusterHealthChecker_name c) (ClusterHealthChecker_boxes c) (FakeClusterHealthChecker_recorded fake)"
  by (cases c)
    (simp_all add: FakeClusterHealthChecker_recorded_def double_simps add_call_def)

lemma FakeClusterHealthChecker_recorded_names:
  "distinct (map fst (FakeClusterHealthChecker_recorded fake))"
  "ClusterHealthChecker_name c \<in> set (map fst (FakeClusterHealthChecker_recorded fake))"
  by (simp_all add: FakeClusterHealthChecker_recorded_def) (cases c; simp)

interpretation hc_inv: invariant_system "\<lambda>fake. fake = new_FakeClusterHealthChecker" FakeClusterHealthChecker_step
  "\<lambda>fake. consistent (FakeClusterHealthChecker_recorded fake) (FakeClusterHealthChecker_Invocations fake)"
proof unfold_locales
  fix fake :: "'s FakeClusterHealthChecker" assume "fake = new_FakeClusterHealthChecker"
  then show "consistent (FakeClusterHealthChecker_recorded fake) (FakeClusterHealthChecker_Invocations fake)"
    by (simp add: new_FakeClusterHealthChecker_def FakeClusterHealthChecker_recorded_def FakeClusterHealthChecker_Invocations_def double_simps consistent_def)
next
  fix fake fake' :: "'s FakeClusterHealthChecker"
  assume inv: "consistent (FakeClusterHealthChecker_recorded fake) (FakeClusterHealthChecker_Invocations fake)" and "FakeClusterHealthChecker_step fake fake'"
  from this(2) show "consistent (FakeClusterHealthChecker_recorded fake') (FakeClusterHealthChecker_Invocations fake')"
  proof cases
    case (FakeClusterHealthChecker_step_call c)
    then show ?thesis
      using consistent_logged [OF FakeClusterHealthChecker_recorded_names(1) inv FakeClusterHealthChecker_recorded_names(2)]
      by (simp add: FakeClusterHealthChecker_recorded_call hc_log.call_logged)
  qed (use inv in \<open>simp_all add: FakeClusterHealthChecker_recorded_def FakeClusterHealthChecker_Invocations_def double_simps\<close>)
qed

lemma FakeClusterHealthChecker_well_typed:
  "consistent (FakeClusterHealthChecker_recorded fake) (FakeClusterHealthChecker_Invocations fake) \<Longrightarrow> well_typed ClusterHealthChecker_signature (FakeClusterHealthChecker_Invocations fake)"
  by (erule well_typed_recorded) (simp add: FakeClusterHealthChecker_recorded_def ClusterHealthChecker_signature_def split_beta)

subsection \<open>Wrapping the implementation\<close>

text \<open>The implementation as a receiver of the same calls, and a double with its methods as stubs.\<close>

fun httpClusterHealthChecker_call :: "httpClusterHealthChecker \<Rightarrow> ClusterHealthChecker_call \<Rightarrow> reply go" where
  "httpClusterHealthChecker_call h Hc_HealthyCluster = (\<lambda>e. through ReplyBool (HealthyCluster h e))"

definition FakeClusterHealthChecker_wrapping :: "httpClusterHealthChecker \<Rightarrow> env \<Rightarrow> world FakeClusterHealthChecker \<Rightarrow> world FakeClusterHealthChecker" where
  "FakeClusterHealthChecker_wrapping h e fake =
     (FakeClusterHealthChecker_HealthyClusterCalls (Some (\<lambda>_. HealthyCluster h e))) fake"

definition FakeClusterHealthChecker_wraps :: "httpClusterHealthChecker \<Rightarrow> env \<Rightarrow> world FakeClusterHealthChecker \<Rightarrow> bool" where
  "FakeClusterHealthChecker_wraps h e fake \<longleftrightarrow>
     Stub (hc_healthyCluster fake) = Some (\<lambda>_. HealthyCluster h e)"

lemma FakeClusterHealthChecker_wrapping_wraps: "FakeClusterHealthChecker_wraps h e (FakeClusterHealthChecker_wrapping h e fake)"
  by (simp add: FakeClusterHealthChecker_wraps_def FakeClusterHealthChecker_wrapping_def double_simps)

interpretation hc_wrap: wrapping FakeClusterHealthChecker_call "\<lambda>c. httpClusterHealthChecker_call h c e" "FakeClusterHealthChecker_wraps h e"
  for h e
proof unfold_locales
  fix fake c assume "FakeClusterHealthChecker_wraps h e fake"
  then show "fst (FakeClusterHealthChecker_call c fake) = httpClusterHealthChecker_call h c e" and "FakeClusterHealthChecker_wraps h e (snd (FakeClusterHealthChecker_call c fake))"
    by (cases c; simp add: FakeClusterHealthChecker_wraps_def double_simps)+
qed

end
