(* ===== verification/Test_Doubles.thy ===== *)
theory Test_Doubles
  imports Fake_Os_Helper Fake_Db_Helper Fake_Seeders Fake_Start
begin

text \<open>
  What the tests rely on of all the generated doubles together: the log of invocations agrees
  with the recorded arguments whatever a test does, a double that wraps an implementation cannot
  be told from it, and scripted answers come in the order of the script.
\<close>

section \<open>The log of invocations\<close>

text \<open>C27. Whatever sequence of interface calls and setter calls a test makes on a new double, its \<^verbatim>\<open>Invocations()\<close> hold, for exactly the methods that were called, the boxed arguments that the method's own record of calls (\<^verbatim>\<open>...ArgsForCall\<close>) holds, in the same order, and every entry has the arguments, in number and types, that the interface declares for the method; this is so for the doubles of all nine interfaces.\<close>

theorem test_doubles_log_what_they_record:
  "(reach (\<lambda>f. f = new_FakeOsHelper) FakeOsHelper_step os \<longrightarrow>
      consistent (FakeOsHelper_recorded os) (FakeOsHelper_Invocations os) \<and>
      well_typed OsHelper_signature (FakeOsHelper_Invocations os)) \<and>
   (reach (\<lambda>f. f = new_FakeDBHelper) FakeDBHelper_step db \<longrightarrow>
      consistent (FakeDBHelper_recorded db) (FakeDBHelper_Invocations db) \<and>
      well_typed DBHelper_signature (FakeDBHelper_Invocations db)) \<and>
   (reach (\<lambda>f. f = new_FakeSeeder) FakeSeeder_step sd \<longrightarrow>
      consistent (FakeSeeder_recorded sd) (FakeSeeder_Invocations sd) \<and>
      well_typed Seeder_signature (FakeSeeder_Invocations sd)) \<and>
   (reach (\<lambda>f. f = new_FakeUserSeeder) FakeUserSeeder_step us \<longrightarrow>
      consistent (FakeUserSeeder_recorded us) (FakeUserSeeder_Invocations us) \<and>
      well_typed UserSeeder_signature (FakeUserSeeder_Invocations us)) \<and>
   (reach (\<lambda>f. f = new_FakeStarter) FakeStarter_step st \<longrightarrow>
      consistent (FakeStarter_recorded st) (FakeStarter_Invocations st) \<and>
      well_typed Starter_signature (FakeStarter_Invocations st)) \<and>
   (reach (\<lambda>f. f = new_FakeServiceStatus) FakeServiceStatus_step ss \<longrightarrow>
      consistent (FakeServiceStatus_recorded ss) (FakeServiceStatus_Invocations ss) \<and>
      well_typed ServiceStatus_signature (FakeServiceStatus_Invocations ss)) \<and>
   (reach (\<lambda>f. f = new_FakeStartManager) FakeStartManager_step sm \<longrightarrow>
      consistent (FakeStartManager_recorded sm) (FakeStartManager_Invocations sm) \<and>
      well_typed StartManager_signature (FakeStartManager_Invocations sm)) \<and>
   (reach (\<lambda>f. f = new_FakeUpgrader) FakeUpgrader_step up \<longrightarrow>
      consistent (FakeUpgrader_recorded up) (FakeUpgrader_Invocations up) \<and>
      well_typed Upgrader_signature (FakeUpgrader_Invocations up)) \<and>
   (reach (\<lambda>f. f = new_FakeClusterHealthChecker) FakeClusterHealthChecker_step hc \<longrightarrow>
      consistent (FakeClusterHealthChecker_recorded hc) (FakeClusterHealthChecker_Invocations hc) \<and>
      well_typed ClusterHealthChecker_signature (FakeClusterHealthChecker_Invocations hc))"
  using os_inv.inv_reach [of os] db_inv.inv_reach [of db] sd_inv.inv_reach [of sd] us_inv.inv_reach [of us]
    st_inv.inv_reach [of st] ss_inv.inv_reach [of ss] sm_inv.inv_reach [of sm] up_inv.inv_reach [of up]
    hc_inv.inv_reach [of hc]
  by (intro conjI impI)
    (simp_all only: FakeOsHelper_well_typed FakeDBHelper_well_typed FakeSeeder_well_typed FakeUserSeeder_well_typed
      FakeStarter_well_typed FakeServiceStatus_well_typed FakeStartManager_well_typed FakeUpgrader_well_typed
      FakeClusterHealthChecker_well_typed)

text \<open>A double of \<^verbatim>\<open>OsHelper\<close> that was told an answer, read a file and slept.\<close>

definition example_os_double :: "unit FakeOsHelper" where
  "example_os_double =
     snd (FakeOsHelper_Sleep 5 (snd (FakeOsHelper_ReadFile ''f''
       (FakeOsHelper_ReadFileReturns ''x'' None new_FakeOsHelper))))"

lemma example_os_double_reached:
  "reach (\<lambda>f. f = new_FakeOsHelper) FakeOsHelper_step example_os_double"
proof -
  let ?R = "reach (\<lambda>f. f = new_FakeOsHelper) FakeOsHelper_step"
  have "?R new_FakeOsHelper" by (rule reach_init) simp
  then have "?R (FakeOsHelper_ReadFileReturns ''x'' None new_FakeOsHelper)"
    by (rule reach_step) (rule FakeOsHelper_ReadFileReturns_step)
  then have "?R (snd (FakeOsHelper_call (Os_ReadFile ''f'')
      (FakeOsHelper_ReadFileReturns ''x'' None new_FakeOsHelper)))"
    by (rule reach_step) (rule FakeOsHelper_step_call)
  from reach_step [OF this FakeOsHelper_step_call [of _ "Os_Sleep 5"]] show ?thesis
    by (simp add: example_os_double_def)
qed

theorem test_doubles_log_what_they_record_witness:
  "consistent (FakeOsHelper_recorded example_os_double) (FakeOsHelper_Invocations example_os_double) \<and>
   well_typed OsHelper_signature (FakeOsHelper_Invocations example_os_double) \<and>
   FakeOsHelper_Invocations example_os_double ''Sleep'' = Some [[BDuration 5]]"
proof -
  have "consistent (FakeOsHelper_recorded example_os_double) (FakeOsHelper_Invocations example_os_double) \<and>
      well_typed OsHelper_signature (FakeOsHelper_Invocations example_os_double)"
    using test_doubles_log_what_they_record example_os_double_reached by blast
  moreover have "FakeOsHelper_Invocations example_os_double ''Sleep'' = Some [[BDuration 5]]"
    by (simp add: example_os_double_def new_FakeOsHelper_def double_simps FakeOsHelper_Invocations_def
        logged_def)
  ultimately show ?thesis by blast
qed

section \<open>Wrapping doubles\<close>

text \<open>C28. A double whose stubs are set, by its \<^verbatim>\<open>...Calls\<close> methods, to the methods of the implementation is transparent: every sequence of calls of the interface is answered as by the implementation, with the same effect on the world, and panics or fails to come back exactly when the implementation does. This is so for all nine interfaces, whatever the double had recorded or been told before.\<close>

theorem wrapping_doubles_are_transparent:
  "map_option (\<lambda>(r, f, w'). (r, w')) (call_all FakeOsHelper_call os (FakeOsHelper_wrapping e f1) w) =
     in_order (\<lambda>c. OsHelperImpl_call c e) os w \<and>
   map_option (\<lambda>(r, f, w'). (r, w')) (call_all FakeDBHelper_call db (FakeDBHelper_wrapping h e f2) w) =
     in_order (\<lambda>c. GaleraDBHelper_call h c e) db w \<and>
   map_option (\<lambda>(r, f, w'). (r, w')) (call_all FakeSeeder_call sd (FakeSeeder_wrapping s e f3) w) =
     in_order (\<lambda>c. seeder_call s c e) sd w \<and>
   map_option (\<lambda>(r, f, w'). (r, w')) (call_all FakeUserSeeder_call us (FakeUserSeeder_wrapping e f4) w) =
     in_order (\<lambda>c. userSeeder_call c e) us w \<and>
   map_option (\<lambda>(r, f, w'). (r, w')) (call_all FakeStarter_call st (FakeStarter_wrapping n e f5) w) =
     in_order (\<lambda>c. starter_call n c e) st w \<and>
   map_option (\<lambda>(r, f, w'). (r, w')) (call_all FakeServiceStatus_call ss (FakeServiceStatus_wrapping g e f6) w) =
     in_order (\<lambda>c. GaleraInitStatusServer_call g c e) ss w \<and>
   map_option (\<lambda>(r, f, w'). (r, w')) (call_all FakeStartManager_call sm (FakeStartManager_wrapping m e f7) w) =
     in_order (\<lambda>c. startManager_call m c e) sm w \<and>
   map_option (\<lambda>(r, f, w'). (r, w')) (call_all FakeUpgrader_call up (FakeUpgrader_wrapping u e f8) w) =
     in_order (\<lambda>c. upgrader_call u c e) up w \<and>
   map_option (\<lambda>(r, f, w'). (r, w'))
       (call_all FakeClusterHealthChecker_call hc (FakeClusterHealthChecker_wrapping k e f9) w) =
     in_order (\<lambda>c. httpClusterHealthChecker_call k c e) hc w"
  by (intro conjI os_wrap.transparent db_wrap.transparent sd_wrap.transparent us_wrap.transparent
      st_wrap.transparent ss_wrap.transparent sm_wrap.transparent up_wrap.transparent
      hc_wrap.transparent FakeOsHelper_wrapping_wraps FakeDBHelper_wrapping_wraps
      FakeSeeder_wrapping_wraps FakeUserSeeder_wrapping_wraps FakeStarter_wrapping_wraps
      FakeServiceStatus_wrapping_wraps FakeStartManager_wrapping_wraps
      FakeUpgrader_wrapping_wraps FakeClusterHealthChecker_wrapping_wraps)

section \<open>Scripted answers\<close>

text \<open>C29. A \<^verbatim>\<open>FakeOsHelper\<close> that was told what \<^verbatim>\<open>ReadFile\<close> returns, and what it returns on call \<open>i\<close>, answers any sequence of reads so: the \<open>i\<close>-th call (counted from zero, over the whole life of the double) gets the special answer and every other call the fixed one; the test's own state is untouched; afterwards the call count is the number of reads, \<^verbatim>\<open>ReadFileArgsForCall(j)\<close> is the name read by the \<open>j\<close>-th call and panics for every other index.\<close>

theorem scripted_reads_follow_the_script:
  fixes s :: 's
  shows "\<exists>fake. call_all FakeOsHelper_ReadFile names
       (FakeOsHelper_ReadFileReturnsOnCall i c err (FakeOsHelper_ReadFileReturns c0 err0 new_FakeOsHelper)) s =
     Some (Ret (map (\<lambda>k. if int k = i then (c, err) else (c0, err0)) [0..<length names]), fake, s) \<and>
   FakeOsHelper_ReadFileCallCount fake = int (length names) \<and>
   FakeOsHelper_ReadFileArgsForCall j fake = indexArgs j names"
proof -
  let ?g = "FakeOsHelper_ReadFileReturns c0 err0 (new_FakeOsHelper :: 's FakeOsHelper)"
  let ?f = "FakeOsHelper_ReadFileReturnsOnCall i c err ?g"
  have new: "ArgsForCall (os_readFile ?f) = []" "ArgsForCall (os_readFile ?g) = []"
    "Returns (os_readFile ?g) = (c0, err0)" "ReturnsOnCall (os_readFile ?g) = Map.empty"
    by (simp_all add: double_simps new_FakeOsHelper_def)
  have "call_all FakeOsHelper_ReadFile names ?f s =
      Some (Ret (map (\<lambda>k. if int k = i then (c, err) else (c0, err0)) [0..<length names]),
        after_calls FakeOsHelper_ReadFile names ?f, s)"
    using os_readFile.answers_after_setting [of names i "(c, err)" ?g s] by (simp add: new)
  moreover have "FakeOsHelper_ReadFileCallCount (after_calls FakeOsHelper_ReadFile names ?f) =
      int (length names)"
    using os_readFile.args_after [of names ?f] by (simp add: os_readFile.count new)
  moreover have "FakeOsHelper_ReadFileArgsForCall j (after_calls FakeOsHelper_ReadFile names ?f) =
      indexArgs j names"
    by (rule os_readFile_args.inspect_after [OF new(1)])
  ultimately show ?thesis by blast
qed

end
