(* ===== verification/Double_Locks.thy ===== *)
theory Double_Locks
  imports Prelude
begin

text \<open>
  The mutexes of the generated test doubles (\<^verbatim>\<open>*fakes/fake_*.go\<close>). Every double has one \<^verbatim>\<open>sync.RWMutex\<close> per method and one
  for the log of invocations, and every generated method is a sequence of operations on them, the same in all nine doubles.
  This theory has these sequences, any number of goroutines that run them on one double, and shows that the critical sections
  exclude each other, that calls and setters alone always come to an end, and that a call and a look at the log can block
  each other for ever.
\<close>

section \<open>Mutexes and goroutines\<close>

datatype mutex = MethodMutex string | InvocationsMutex

datatype lock_op = Lock mutex | Unlock mutex | RLock mutex | RUnlock mutex

text \<open>
  The operations of the generated methods in the order they are executed; \<open>X\<close> is the name of the method. \<^verbatim>\<open>X\<close> itself holds
  its mutex while it records the invocation; \<^verbatim>\<open>XCalls\<close>, \<^verbatim>\<open>XReturns\<close> and \<^verbatim>\<open>XReturnsOnCall\<close> write, \<^verbatim>\<open>XCallCount\<close> and
  \<^verbatim>\<open>XArgsForCall\<close> read. Deferred calls run last to first.
\<close>

definition recordInvocation_locks :: "lock_op list" where
  "recordInvocation_locks = [Lock InvocationsMutex, Unlock InvocationsMutex]"

definition call_locks :: "string \<Rightarrow> lock_op list" where
  "call_locks X = [Lock (MethodMutex X)] @ recordInvocation_locks @ [Unlock (MethodMutex X)]"

definition setter_locks :: "string \<Rightarrow> lock_op list" where
  "setter_locks X = [Lock (MethodMutex X), Unlock (MethodMutex X)]"

definition getter_locks :: "string \<Rightarrow> lock_op list" where
  "getter_locks X = [RLock (MethodMutex X), RUnlock (MethodMutex X)]"

definition Invocations_locks :: "string list \<Rightarrow> lock_op list" where
  "Invocations_locks Xs =
     RLock InvocationsMutex # map (\<lambda>X. RLock (MethodMutex X)) Xs @
     map (\<lambda>X. RUnlock (MethodMutex X)) (rev Xs) @ [RUnlock InvocationsMutex]"

text \<open>A goroutine: what it has done of its current method, what is left of it, and the methods it calls then.\<close>

type_synonym goroutine = "lock_op list \<times> lock_op list \<times> lock_op list list"

definition writes :: "mutex \<Rightarrow> goroutine \<Rightarrow> bool" where
  "writes l g = (count_list (fst g) (Unlock l) < count_list (fst g) (Lock l))"

definition reads :: "mutex \<Rightarrow> goroutine \<Rightarrow> bool" where
  "reads l g = (count_list (fst g) (RUnlock l) < count_list (fst g) (RLock l))"

fun wants :: "mutex \<Rightarrow> goroutine \<Rightarrow> bool" where
  "wants l (before, Lock l' # rest, ms) = (l' = l)"
| "wants l g = False"

text \<open>
  Whether an operation can go on. A Go mutex that is wanted for writing lets no new readers in from the moment the writer
  has asked for it. When that is, the model leaves open: if \<open>polite\<close> holds, a reader waits for every goroutine that is about
  to ask, otherwise for none; the runs of the program lie between the two.
\<close>

fun may :: "bool \<Rightarrow> goroutine list \<Rightarrow> lock_op \<Rightarrow> bool" where
  "may polite gs (Lock l) = (\<forall>g \<in> set gs. \<not> writes l g \<and> \<not> reads l g)"
| "may polite gs (RLock l) = (\<forall>g \<in> set gs. \<not> writes l g \<and> (polite \<longrightarrow> \<not> wants l g))"
| "may polite gs (Unlock l) = True"
| "may polite gs (RUnlock l) = True"

inductive lock_step :: "bool \<Rightarrow> goroutine list \<Rightarrow> goroutine list \<Rightarrow> bool" for polite :: bool where
  lock_enter: "u < length gs \<Longrightarrow> gs ! u = (before, [], m # ms) \<Longrightarrow> lock_step polite gs (gs[u := ([], m, ms)])"
| lock_move: "u < length gs \<Longrightarrow> gs ! u = (before, i # rest, ms) \<Longrightarrow> may polite gs i \<Longrightarrow>
    lock_step polite gs (gs[u := (before @ [i], rest, ms)])"

inductive_cases lock_stepE: "lock_step polite gs gs'"

definition all_done :: "goroutine list \<Rightarrow> bool" where
  "all_done gs \<longleftrightarrow> (\<forall>(before, rest, ms) \<in> set gs. rest = [] \<and> ms = [])"

text \<open>Goroutines that have not begun, and call methods out of a given set.\<close>

definition ready :: "lock_op list set \<Rightarrow> goroutine list \<Rightarrow> bool" where
  "ready M gs \<longleftrightarrow> (\<forall>(before, rest, ms) \<in> set gs. before = [] \<and> rest = [] \<and> set ms \<subseteq> M)"

section \<open>Mutual exclusion\<close>

text \<open>Nobody else holds a mutex that is held for writing.\<close>

definition exclusive :: "goroutine list \<Rightarrow> bool" where
  "exclusive gs \<longleftrightarrow> (\<forall>u < length gs. \<forall>v < length gs. \<forall>l. u \<noteq> v \<and> writes l (gs ! u) \<longrightarrow> \<not> writes l (gs ! v) \<and> \<not> reads l (gs ! v))"

lemma holds_fresh [simp]: "\<not> writes l ([], rest, ms)" "\<not> reads l ([], rest, ms)"
  by (simp_all add: writes_def reads_def)

lemma holds_snoc:
  "writes l (before @ [i], rest, ms) \<Longrightarrow> writes l (before, i # rest, ms) \<or> i = Lock l"
  "reads l (before @ [i], rest, ms) \<Longrightarrow> reads l (before, i # rest, ms) \<or> i = RLock l"
  by (auto simp: writes_def reads_def split: if_splits)

text \<open>A step gives the goroutine that makes it no more than it may have, and changes no other.\<close>

lemma lock_step_holds:
  assumes "lock_step polite gs gs'"
  obtains u where "u < length gs" "length gs' = length gs" "\<forall>v. v \<noteq> u \<longrightarrow> gs' ! v = gs ! v"
    "\<forall>l. writes l (gs' ! u) \<longrightarrow> writes l (gs ! u) \<or> (\<forall>g \<in> set gs. \<not> writes l g \<and> \<not> reads l g)"
    "\<forall>l. reads l (gs' ! u) \<longrightarrow> reads l (gs ! u) \<or> (\<forall>g \<in> set gs. \<not> writes l g)"
  using assms
proof cases
  case (lock_enter u before m ms)
  then show thesis by (intro that [of u]) simp_all
next
  case (lock_move u before i rest ms)
  then show thesis
    by (intro that [of u]) (auto dest!: holds_snoc)
qed

lemma lock_step_exclusive:
  assumes "exclusive gs" and "lock_step polite gs gs'"
  shows "exclusive gs'"
proof -
  obtain u where u: "u < length gs" "length gs' = length gs" "\<forall>v. v \<noteq> u \<longrightarrow> gs' ! v = gs ! v"
    "\<forall>l. writes l (gs' ! u) \<longrightarrow> writes l (gs ! u) \<or> (\<forall>g \<in> set gs. \<not> writes l g \<and> \<not> reads l g)"
    "\<forall>l. reads l (gs' ! u) \<longrightarrow> reads l (gs ! u) \<or> (\<forall>g \<in> set gs. \<not> writes l g)"
    using lock_step_holds [OF assms(2)] .
  show ?thesis
    unfolding exclusive_def u(2)
  proof (intro allI impI)
    fix v x l
    assume "v < length gs" "x < length gs" "v \<noteq> x \<and> writes l (gs' ! v)"
    then show "\<not> writes l (gs' ! x) \<and> \<not> reads l (gs' ! x)"
      using assms(1) u unfolding exclusive_def
      by (cases "v = u"; cases "x = u"; metis nth_mem)
  qed
qed

section \<open>Every run ends\<close>

text \<open>What is left to do; every step does one thing of it.\<close>

fun left_to_do :: "goroutine \<Rightarrow> nat" where
  "left_to_do (before, rest, ms) = length rest + (\<Sum>m \<leftarrow> ms. Suc (length m))"

definition work :: "goroutine list \<Rightarrow> nat" where
  "work gs = (\<Sum>g \<leftarrow> gs. left_to_do g)"

lemma sum_list_update_less:
  fixes f :: "'a \<Rightarrow> nat"
  assumes "u < length xs" and "f (xs ! u) = Suc (f y)"
  shows "(\<Sum>x \<leftarrow> xs. f x) = Suc (\<Sum>x \<leftarrow> xs[u := y]. f x)"
  using assms by (induction xs arbitrary: u) (auto split: nat.splits)

lemma lock_step_work: "lock_step polite gs gs' \<Longrightarrow> work gs = Suc (work gs')"
  unfolding work_def by (erule lock_stepE) (auto intro!: sum_list_update_less)

lemma lock_steps_work: "(lock_step polite ^^ k) gs gs' \<Longrightarrow> work gs = work gs' + k"
  by (induction k arbitrary: gs') (auto dest: lock_step_work)

section \<open>Where a goroutine is\<close>

definition positioned :: "lock_op list set \<Rightarrow> goroutine list \<Rightarrow> bool" where
  "positioned M gs \<longleftrightarrow> (\<forall>(before, rest, ms) \<in> set gs. before @ rest \<in> insert [] M \<and> set ms \<subseteq> M)"

lemma positioned_at:
  "positioned M gs \<Longrightarrow> u < length gs \<Longrightarrow> gs ! u = (before, rest, ms) \<Longrightarrow> before @ rest \<in> insert [] M \<and> set ms \<subseteq> M"
  unfolding positioned_def by (metis (mono_tags, lifting) case_prodD nth_mem)

lemma positioned_update:
  assumes "positioned M gs" and "before @ rest \<in> insert [] M" and "set ms \<subseteq> M"
  shows "positioned M (gs[u := (before, rest, ms)])"
  unfolding positioned_def
proof
  fix g assume "g \<in> set (gs[u := (before, rest, ms)])"
  then have "g = (before, rest, ms) \<or> g \<in> set gs" using set_update_subset_insert by fast
  then show "case g of (before, rest, ms) \<Rightarrow> before @ rest \<in> insert [] M \<and> set ms \<subseteq> M"
    using assms unfolding positioned_def by blast
qed

interpretation lk: invariant_system "ready M" "lock_step polite" "\<lambda>gs. positioned M gs \<and> exclusive gs" for M polite
proof unfold_locales
  show "positioned M gs \<and> exclusive gs" if "ready M gs" for gs
  proof -
    have "\<not> writes l (gs ! u)" if "u < length gs" for u l
      using \<open>ready M gs\<close> nth_mem [OF that] by (cases "gs ! u") (fastforce simp: ready_def)
    then show ?thesis using that by (fastforce simp: positioned_def exclusive_def ready_def)
  qed
  show "positioned M gs' \<and> exclusive gs'" if inv: "positioned M gs \<and> exclusive gs" and step: "lock_step polite gs gs'" for gs gs'
  proof
    show "exclusive gs'" using lock_step_exclusive inv step by blast
    from step show "positioned M gs'"
    proof cases
      case (lock_enter u before m ms)
      then have "m \<in> M" "set ms \<subseteq> M" using positioned_at [of M gs u] inv by auto
      then show ?thesis using inv lock_enter(1) by (simp add: positioned_update)
    next
      case (lock_move u before i rest ms)
      then have "before @ i # rest \<in> insert [] M" "set ms \<subseteq> M" using positioned_at [of M gs u] inv by auto
      then show ?thesis using inv lock_move(1) by (simp add: positioned_update)
    qed
  qed
qed

text \<open>All generated methods except the look at the log.\<close>

definition calls_and_setters :: "lock_op list set" where
  "calls_and_setters = range call_locks \<union> range setter_locks \<union> range getter_locks"

lemmas method_locks_defs = call_locks_def recordInvocation_locks_def setter_locks_def getter_locks_def

text \<open>Which mutexes a goroutine in such a method can hold, by what it is about to do.\<close>

lemma holder_position:
  assumes "before @ rest \<in> insert [] calls_and_setters"
  shows "\<not> reads InvocationsMutex (before, rest, ms)"
    and "writes InvocationsMutex (before, rest, ms) \<Longrightarrow> \<exists>r. rest = Unlock InvocationsMutex # r"
    and "writes (MethodMutex X) (before, rest, ms) \<or> reads (MethodMutex X) (before, rest, ms) \<Longrightarrow>
      \<exists>i r. rest = i # r \<and> i \<in> {Lock InvocationsMutex, Unlock InvocationsMutex, Unlock (MethodMutex X), RUnlock (MethodMutex X)}"
    and "rest = i # r \<Longrightarrow> i = Lock InvocationsMutex \<or> (\<exists>Y. i = Lock (MethodMutex Y)) \<or> (\<exists>Y. i = RLock (MethodMutex Y)) \<or>
      (\<exists>l. i = Unlock l) \<or> (\<exists>l. i = RUnlock l)"
  using assms
  by (auto simp: calls_and_setters_def method_locks_defs append_eq_Cons_conv writes_def reads_def split: if_splits)

section \<open>Calls and setters never block each other for ever\<close>

lemma can_move:
  assumes "(before, i # rest, ms) \<in> set gs" and "may polite gs i"
  shows "\<exists>gs'. lock_step polite gs gs'"
  using assms by (metis in_set_conv_nth lock_move)

lemma can_enter:
  assumes "(before, [], m # ms) \<in> set gs"
  shows "\<exists>gs'. lock_step polite gs gs'"
  using assms by (metis in_set_conv_nth lock_enter)

text \<open>
  A goroutine that holds the mutex of the log lets go of it next; if nobody does, whoever wants it gets it; otherwise
  whoever holds the mutex of a method lets go of it next; and if nobody holds anything, somebody can begin.
\<close>

lemma calls_progress:
  assumes pos: "positioned calls_and_setters gs" and "\<not> all_done gs"
  shows "\<exists>gs'. lock_step polite gs gs'"
proof (rule ccontr)
  assume stuck: "\<not> (\<exists>gs'. lock_step polite gs gs')"
  have at: "before @ rest \<in> insert [] calls_and_setters" if "(before, rest, ms) \<in> set gs" for before rest ms
    using pos that unfolding positioned_def by blast
  have free: "i \<noteq> Unlock l" "i \<noteq> RUnlock l" if "(before, i # rest, ms) \<in> set gs" for before i rest ms l
    using can_move [OF that, of polite] stuck by auto
  have log: "\<not> writes InvocationsMutex g \<and> \<not> reads InvocationsMutex g" if "g \<in> set gs" for g
  proof (cases g)
    case (fields before rest ms)
    then have "before @ rest \<in> insert [] calls_and_setters" using at that by blast
    from holder_position(1,2) [OF this, of ms] show ?thesis using free that fields by blast
  qed
  then have no_log: "(before, Lock InvocationsMutex # rest, ms) \<notin> set gs" for before rest ms
    using can_move [of before "Lock InvocationsMutex" rest ms gs polite] stuck by auto
  have methods: "\<not> writes (MethodMutex X) g \<and> \<not> reads (MethodMutex X) g" if "g \<in> set gs" for g X
  proof (cases g)
    case (fields before rest ms)
    then have "before @ rest \<in> insert [] calls_and_setters" using at that by blast
    from holder_position(3) [OF this, of X ms] show ?thesis using free no_log that fields by blast
  qed
  then have no_lock: "(before, Lock (MethodMutex X) # rest, ms) \<notin> set gs" for before rest ms X
    using can_move [of before "Lock (MethodMutex X)" rest ms gs polite] stuck by auto
  have "\<not> wants (MethodMutex X) g" if "g \<in> set gs" for g X
    using no_lock that by (cases "(MethodMutex X, g)" rule: wants.cases) auto
  then have no_rlock: "(before, RLock (MethodMutex X) # rest, ms) \<notin> set gs" for before rest ms X
    using can_move [of before "RLock (MethodMutex X)" rest ms gs polite] stuck methods by auto
  obtain before rest ms where g: "(before, rest, ms) \<in> set gs" "rest \<noteq> [] \<or> ms \<noteq> []"
    using assms(2) unfolding all_done_def by blast
  show False
  proof (cases rest)
    case Nil
    then show False using g can_enter stuck by (metis list.exhaust)
  next
    case (Cons i r)
    then have "(before, i # r, ms) \<in> set gs" using g(1) by simp
    then show False using holder_position(4) [OF at [OF g(1)] Cons] free [of before i r ms] no_log no_lock no_rlock by blast
  qed
qed

section \<open>A call and a look at the log can block each other for ever\<close>

text \<open>The two kinds of steps with the new pool named.\<close>

lemma enterI: "u < length gs \<Longrightarrow> gs ! u = (before, [], m # ms) \<Longrightarrow> gs' = gs[u := ([], m, ms)] \<Longrightarrow> lock_step polite gs gs'"
  by (simp add: lock_enter)

lemma moveI: "u < length gs \<Longrightarrow> gs ! u = (before, i # rest, ms) \<Longrightarrow> may polite gs i \<Longrightarrow>
    gs' = gs[u := (before @ [i], rest, ms)] \<Longrightarrow> lock_step polite gs gs'"
  by (simp add: lock_move)

lemma lock_step_impolite: "lock_step polite gs gs' \<Longrightarrow> lock_step False gs gs'"
proof (induction rule: lock_step.induct)
  case (lock_move u gs before i rest ms)
  then have "may False gs i" by (cases i) auto
  with lock_move(1,2) show ?case by (rule lock_step.lock_move)
qed (rule lock_enter)

definition call_and_look :: "string \<Rightarrow> string list \<Rightarrow> goroutine list" where
  "call_and_look X Xs = [([], [], [call_locks X]), ([], [], [Invocations_locks Xs])]"

text \<open>The look takes the mutexes of the methods one by one, as long as the call has not begun.\<close>

lemma look_reads:
  assumes "\<forall>l. Lock l \<notin> set before"
  shows "(lock_step polite)\<^sup>*\<^sup>* [([], [], ms), (before, map (\<lambda>X. RLock (MethodMutex X)) Xs @ rest, [])]
     [([], [], ms), (before @ map (\<lambda>X. RLock (MethodMutex X)) Xs, rest, [])]"
  using assms
proof (induction Xs arbitrary: before)
  case (Cons X Xs)
  let ?i = "RLock (MethodMutex X)" and ?more = "map (\<lambda>X. RLock (MethodMutex X)) Xs"
  have none: "\<not> writes l (before, ?i # ?more @ rest, [])" for l
    using Cons.prems by (simp add: writes_def count_list_0_iff)
  have "lock_step polite [([], [], ms), (before, ?i # ?more @ rest, [])] [([], [], ms), (before @ [?i], ?more @ rest, [])]"
    by (rule moveI [where u = 1]) (simp_all add: none)
  moreover have "(lock_step polite)\<^sup>*\<^sup>* [([], [], ms), (before @ [?i], ?more @ rest, [])]
      [([], [], ms), ((before @ [?i]) @ ?more, rest, [])]"
    using Cons.prems by (intro Cons.IH) simp
  ultimately have "(lock_step polite)\<^sup>*\<^sup>* [([], [], ms), (before, ?i # ?more @ rest, [])]
      [([], [], ms), ((before @ [?i]) @ ?more, rest, [])]"
    by (rule converse_rtranclp_into_rtranclp)
  then show ?case by simp
qed simp

lemma call_and_look_block:
  assumes "Xs = as @ X # bs" and "X \<notin> set as"
  shows "\<exists>gs. (lock_step polite)\<^sup>*\<^sup>* (call_and_look X Xs) gs \<and> \<not> all_done gs \<and> (\<forall>gs'. \<not> lock_step False gs gs')"
proof -
  let ?as = "map (\<lambda>X. RLock (MethodMutex X)) as"
  let ?rest = "RLock (MethodMutex X) # map (\<lambda>X. RLock (MethodMutex X)) bs @
      map (\<lambda>X. RUnlock (MethodMutex X)) (rev Xs) @ [RUnlock InvocationsMutex]"
  let ?look = "RLock InvocationsMutex # ?as @ ?rest"
  let ?g0 = "([], [], [call_locks X]) :: goroutine"
  let ?g1 = "([], call_locks X, []) :: goroutine"
  let ?g2 = "([Lock (MethodMutex X)], [Lock InvocationsMutex, Unlock InvocationsMutex, Unlock (MethodMutex X)], []) :: goroutine"
  let ?look' = "(RLock InvocationsMutex # ?as, ?rest, []) :: goroutine"
  have start: "call_and_look X Xs = [?g0, ([], [], [?look])]"
    by (simp add: call_and_look_def Invocations_locks_def assms(1))
  have absent: "count_list ?as (Lock l) = 0" "count_list ?as (RUnlock l) = 0" "count_list ?as (RLock (MethodMutex X)) = 0" for l
    using assms(2) by (auto simp: count_list_0_iff)
  have none: "\<not> writes l ?look'" "\<not> reads (MethodMutex X) ?look'" "reads InvocationsMutex ?look'" for l
    by (simp_all add: writes_def reads_def absent)
  have s1: "lock_step polite [?g0, ([], [], [?look])] [?g0, ([], ?look, [])]"
    by (rule enterI [where u = 1]) simp_all
  have s2: "lock_step polite [?g0, ([], ?look, [])] [?g0, ([RLock InvocationsMutex], ?as @ ?rest, [])]"
    by (rule moveI [where u = 1]) simp_all
  have s3: "(lock_step polite)\<^sup>*\<^sup>* [?g0, ([RLock InvocationsMutex], ?as @ ?rest, [])] [?g0, ([RLock InvocationsMutex] @ ?as, ?rest, [])]"
    by (rule look_reads) simp
  have s4: "lock_step polite [?g0, ([RLock InvocationsMutex] @ ?as, ?rest, [])] [?g1, ?look']"
    by (rule enterI [where u = 0]) simp_all
  have s5: "lock_step polite [?g1, ?look'] [?g2, ?look']"
    using none by (intro moveI [where u = 0]) (simp_all add: call_locks_def recordInvocation_locks_def)
  have "(lock_step polite)\<^sup>*\<^sup>* (call_and_look X Xs) [?g2, ?look']"
    unfolding start
    by (rule converse_rtranclp_into_rtranclp [OF s1 converse_rtranclp_into_rtranclp [OF s2 rtranclp_trans [OF s3
          converse_rtranclp_into_rtranclp [OF s4 r_into_rtranclp [of "lock_step polite", OF s5]]]]])
  moreover have "\<not> lock_step False [?g2, ?look'] gs'" for gs'
  proof
    assume "lock_step False [?g2, ?look'] gs'"
    then show False
    proof cases
      case (lock_enter u before m ms)
      then show False by (auto simp: less_Suc_eq)
    next
      case (lock_move u before i rest ms)
      have "writes (MethodMutex X) ?g2" by (simp add: writes_def)
      then show False using lock_move none(3) by (auto simp: less_Suc_eq)
    qed
  qed
  moreover have "\<not> all_done [?g2, ?look']" by (simp add: all_done_def)
  ultimately show ?thesis by blast
qed

section \<open>Properties\<close>

text \<open>C30. However many goroutines call methods of a test double, read its counters and arguments and set its answers, in any
  interleaving of their mutex operations: at every moment nobody else holds a mutex that somebody holds for writing, so the changes of
  a call are one step; no run is longer than the work it began with, and as long as a method is not finished some
  goroutine can go on, even if every reader waits for every writer to come. So all of them finish.\<close>

theorem calls_and_setters_always_finish:
  assumes "reach (ready calls_and_setters) (lock_step polite) gs"
  shows "exclusive gs \<and> (all_done gs \<or> (\<exists>gs'. lock_step polite gs gs')) \<and>
     (\<forall>k gs'. (lock_step polite ^^ k) gs gs' \<longrightarrow> k \<le> work gs)"
proof (intro conjI allI impI)
  show "exclusive gs" "all_done gs \<or> (\<exists>gs'. lock_step polite gs gs')"
    using lk.inv_reach [OF assms] calls_progress [of gs polite] by blast+
  show "k \<le> work gs" if "(lock_step polite ^^ k) gs gs'" for k gs'
    using lock_steps_work [OF that] by simp
qed

theorem calls_and_setters_always_finish_witness:
  "exclusive [([], [], [call_locks ''Seed'', getter_locks ''Seed'']), ([], [], [setter_locks ''Seed''])] \<and>
   (\<exists>gs'. lock_step True [([], [], [call_locks ''Seed'', getter_locks ''Seed'']), ([], [], [setter_locks ''Seed''])] gs')"
proof -
  have "reach (ready calls_and_setters) (lock_step True)
      [([], [], [call_locks ''Seed'', getter_locks ''Seed'']), ([], [], [setter_locks ''Seed''])]"
    by (intro reach_init) (simp add: ready_def calls_and_setters_def)
  from calls_and_setters_always_finish [OF this] show ?thesis by (simp add: all_done_def)
qed

text \<open>C31. A goroutine that calls a method of a double and another one that looks at the log of invocations of the same double take its
  mutexes in opposite orders. There is a run after which neither has finished and neither can ever go on, whichever of the
  double's methods is called, and whether or not readers wait for writers to come.\<close>

theorem call_and_look_can_deadlock:
  assumes "X \<in> set Xs"
  shows "\<exists>gs. (lock_step polite)\<^sup>*\<^sup>* [([], [], [call_locks X]), ([], [], [Invocations_locks Xs])] gs \<and>
     \<not> all_done gs \<and> (\<forall>p gs'. \<not> lock_step p gs gs')"
proof -
  have "lock_step False gs gs'" if "lock_step p gs gs'" for p gs gs'
    using that by (rule lock_step_impolite)
  moreover obtain as bs where "Xs = as @ X # bs" "X \<notin> set as" using split_list_first [OF assms] by blast
  ultimately show ?thesis
    using call_and_look_block [of Xs as X bs polite] unfolding call_and_look_def by blast
qed

theorem call_and_look_can_deadlock_witness:
  "\<exists>gs. (lock_step True)\<^sup>*\<^sup>* [([], [], [call_locks ''Upgrade'']), ([], [], [Invocations_locks [''NeedsUpgrade'', ''Upgrade'']])] gs \<and>
     \<not> all_done gs \<and> (\<forall>p gs'. \<not> lock_step p gs gs')"
  using call_and_look_can_deadlock [of "''Upgrade''" "[''NeedsUpgrade'', ''Upgrade'']" True] by simp

end
