(* ===== verification/Spec2Isabelle.thy ===== *)
theory Spec2Isabelle
  imports Process_Table Deployment Container_Helpers Test_Doubles Double_Locks
begin

text \<open>
  A verification development of galera-init, the program that starts one node of a Galera cluster of MySQL servers:
  it upgrades the server's data if needed, decides from the configuration and a state file whether the node has to form
  the cluster or to join it, starts mysqld accordingly, seeds it, records the new state, announces the node on an HTTP
  port and then lives as long as its mysqld.

  \<^bold>\<open>The parts and their theories.\<close> File names are relative to the repository.

  \<^item> \<open>Prelude\<close>: the theorem collections, generic facts, and the locale \<open>invariant_system\<close> of a step relation with an invariant.
  \<^item> \<open>Go_Strings\<close>: what the sources use of \<^verbatim>\<open>strings\<close>, \<^verbatim>\<open>strconv\<close>, \<^verbatim>\<open>fmt\<close> and \<^verbatim>\<open>regexp\<close>, on byte strings.
  \<^item> \<open>Go_Runtime\<close>: error values and wait statuses, the world (files, log, processes, channels, the history of interactions), the
    environment that answers each interaction, and the computations \<open>'a go\<close> that run against both. \<open>Go_Logic\<close>: weakest
    preconditions, the locale \<open>world_preorder\<close> of relations kept by computations with its four interpretations (which
    interactions happen, the history explains the world, processes are left alone, interactions come in order), the locale
    \<open>polling_loop\<close>, and when a computation comes back.
  \<^item> \<open>Os_Helper\<close>: \<^verbatim>\<open>os_helper/os_helper.go\<close> over the standard library's files, processes and channels; the laws of the file
    operations are the locale \<open>file_store\<close>.
  \<^item> \<open>Cluster_Health_Checker\<close>: \<^verbatim>\<open>cluster_health_checker/cluster_health_checker.go\<close>, the probes of the other nodes.
  \<^item> \<open>Config_Model\<close>, \<open>Config_Loader\<close>: \<^verbatim>\<open>config/config.go\<close>, its records and \<^verbatim>\<open>Validate\<close> over the vendored reflective validator;
    \<^verbatim>\<open>NewConfig\<close> over the flags, the vendored \<^verbatim>\<open>service-config\<close> and \<^verbatim>\<open>mergo\<close>. \<open>Log_Sink\<close>: the levels of the vendored \<^verbatim>\<open>lager\<close> as a linear
    order, and the sinks that decide which log messages are written.
  \<^item> \<open>Sql_Db\<close>, \<open>Seeder\<close>, \<open>User_Seeder\<close>, \<open>Db_Helper\<close>: \<^verbatim>\<open>db_helper/\<close>, from the data source name (and how the vendored driver reads it)
    to starting and stopping mysqld, the reachability test, seeding and the post-start files; the locale \<open>script\<close> is what the
    loops over statements share.
  \<^item> \<open>Upgrader\<close>: \<^verbatim>\<open>upgrader/upgrader.go\<close>. \<open>Node_Starter\<close>: \<^verbatim>\<open>start_manager/node_starter/starter.go\<close>. \<open>Status_Server\<close>:
    \<^verbatim>\<open>galera_init_status_server/\<close>. \<open>Start_Manager\<close>: \<^verbatim>\<open>start_manager/start_manager.go\<close>. \<open>Main_Program\<close>: \<^verbatim>\<open>cmd/start/main.go\<close>
    with the signal handler as a step relation.
  \<^item> \<open>Process_Table\<close>: an invariant on processes, channels and signals, kept by every operation up to \<^verbatim>\<open>main\<close>. \<open>Restarts\<close>: one node
    over any number of runs. \<open>Deployment\<close>: several nodes that are started, end, are lost and are started again in any order, also several at the same time; a run of
    \<^verbatim>\<open>Execute\<close> is taken in two steps there, \<open>launch\<close> up to the announcement and \<open>await_mysqld\<close>, because it only comes back when mysqld has
    ended, and \<open>Execute_launched\<close> shows that the two make up the run.
  \<^item> \<open>Container_Helpers\<close>: \<^verbatim>\<open>integration_test/test_helpers/docker.go\<close>, with the Docker client as a parameter.
  \<^item> \<open>Test_Double\<close>, \<open>Fake_Os_Helper\<close>, \<open>Fake_Db_Helper\<close>, \<open>Fake_Seeders\<close>, \<open>Fake_Start\<close>, \<open>Test_Doubles\<close>: the generated test doubles
    \<^verbatim>\<open>*fakes/fake_*.go\<close> of all nine interfaces. \<open>Test_Double\<close> has what they share: the fields of a method as a record, the steps of the
    generated bodies, and the contracts as locales (\<open>spying\<close>: calls are recorded and a stub answers; \<open>inspecting\<close>: recorded arguments can be
    read; \<open>canned\<close>: fixed and scripted answers; \<open>logging\<close>: the log of invocations; \<open>wrapping\<close>: a double over an implementation). The
    theories of the doubles have one definition per generated method, named after the double and the method, the calls of the interface as a
    datatype with its dispatch (\<open>OsHelper_call\<close> and so on), the step relation of all a test can do to the double, and the interpretations.
    \<open>Double_Locks\<close>: the mutexes of the doubles, and any number of goroutines that use one of them.

  \<^bold>\<open>State and operations.\<close> A Go struct is a record with the fields the code reads (the logger, the operating system helper
  and database handles are the world's), a method a definition of the same name whose first argument is the receiver; the
  one mutable field, \<^verbatim>\<open>mysqlCmd\<close> of the starter, is kept in the world. Every early return is a branch, a panic and
  \<^verbatim>\<open>os.Exit\<close> are outcomes of their own, and a call that never returns is \<open>None\<close>. Long methods are split where
  a lemma needs a part of them: \<open>start_switch\<close>, \<open>update_grastate\<close> and \<open>poll_database\<close> in the starter, \<open>upgrade_result\<close> in the
  upgrader, \<open>bootstrap_procedure\<close> and \<open>await_mysqld\<close> in the start manager, \<open>exit_with\<close> in \<^verbatim>\<open>main\<close>. Time-outs are 64-bit words and
  wait statuses 32-bit words. All that is outside the program, such as the kernel, mysqld, the other nodes and concurrent processes
  that change files, is the environment: a record of arbitrary functions of the history, so theorems quantify over it, and
  what a theorem needs of it is among its hypotheses (\<open>steady\<close>: only the program changes the file and looking at it works;
  \<open>undisturbed\<close>: only the program changes it; \<open>separate\<close>: the state file is none of the other files the program writes).

  \<^bold>\<open>What is shown.\<close> This theory has the properties that span components: a node of several forms a cluster only after
  every node was asked and none is healthy, and only with a mandate from the configuration or the state file; a node that was announced
  never does it again, over any number of runs; the announcement comes right after the successful write of the state; a
  start that fails leaves the state file; only the program's own mysqld is signalled and a run ends as its mysqld ends, unless the status server fails; every run comes
  back if its surroundings allow it; the exit status passes mysqld's on; the process table is kept. \<open>Deployment\<close> shows that
  no second cluster is formed beside a running one, and \<open>Test_Doubles\<close> that the doubles log what they record, answer by their script and cannot
  be told from an implementation they wrap; \<open>Double_Locks\<close> that their critical sections exclude each other and calls always finish, but
  that a call and a look at the log can block each other for ever. The component theories
  have the functional behaviour of each operation: the decisions of the upgrader and the start manager as refinements of
  \<open>upgrade_decision\<close> and \<open>boot_decision\<close>, the statements of seeding and where it stops, reachability, the polling loop
  (that it comes back, how long it takes, when it never does), validation against the set of missing fields, loading,
  the round trip of the data source name through the driver, time-out bounds, and the signal handler.

  \<^bold>\<open>Loops and fuel.\<close> Loops over lists are structural; the upgrader's bounded wait counts down from the source's 30 tries; the starter's
  endless polling is a \<open>partial_function\<close> whose return is proved separately (\<open>wait_for_database_comes_back\<close>, with the number of rounds
  the environment needs as the bound), through \<open>polling_loop\<close>, which relates it to a fuelled loop of enough rounds.

  \<^bold>\<open>Not modelled.\<close> The data attached to log messages; the time-outs and the header limit of the HTTP status server; that its goroutine, which
  ends the process when the listener fails, may do so between the two points where the start manager waits; the query parameters and TLS settings of data source names, which the
  program does not vary; YAML decoding, which is a parameter; the order in which Go iterates over a map, which is an argument; stubs of test doubles that
  call back into their own double; a node that is lost in the middle of its start, since a start runs to its end in \<open>Deployment\<close>. \<^verbatim>\<open>tools/\<close>, which only pins versions, and the
  other vendored packages have no logic of the program and are left out.
\<close>

section \<open>An example run\<close>

text \<open>
  The first start of the bootstrap node of a two-node deployment, in the calm environment: it
  upgrades, finds no healthy node, forms the cluster, records the state and announces itself.
\<close>

definition example_manager :: startManager where
  "example_manager = wired_manager example_config"

definition boot_event :: event where
  "boot_event = EvStart ''mysqld'' [mycnf_arg, new_cluster_arg] (Some 2)"

definition example_before :: "event list" where
  "example_before =
     [EvRun ''mysqladmin'' [mylogin_arg, ''status''] None,
      EvRun ''mysqladmin'' [mylogin_arg, ''shutdown''] None,
      EvStat ''/last'' False, EvOpenAppend ''/log'' True,
      EvStart ''mysqld'' upgrade_args (Some 1),
      EvOpenDB (FormatDSN example_db) True, EvQueryRow sql_wsrep_provider None, EvCloseDB,
      EvRun ''mysql_upgrade'' [mylogin_arg] None,
      EvRun ''mysqladmin'' [mylogin_arg, ''shutdown''] None, EvRecv (Some 0),
      EvStat ''/state'' False,
      EvGet ''http://10.0.0.1:9200/'' (probe_timeout (st_healthChecker (sm_startCaller example_manager))) None,
      EvGet ''http://10.0.0.2:9200/'' (probe_timeout (st_healthChecker (sm_startCaller example_manager))) None,
      EvRead ''/grastate'' False, EvOpenAppend ''/log'' True]"

definition example_after :: "event list" where
  "example_after =
     [EvPoll (Some 1) False, EvOpenDB (FormatDSN example_db) True, EvQueryRow sql_wsrep_provider None,
      EvCloseDB, EvOpenDB (FormatDSN example_db) True, EvCloseDB,
      EvWrite ''/state'' ''CLUSTERED'' True, EvServe, EvSelect (Some 1)]"

lemma example_run:
  "\<exists>w'. Execute example_manager calm_env blank_world = Some (Ret None, w') \<and>
     trace w' = example_before @ boot_event # example_after \<and> serving w' \<and>
     files w' = [''/log'' \<mapsto> '''', ''/state'' \<mapsto> ''CLUSTERED'']"
  by (simp add: run_rules example_manager_def example_before_def example_after_def boot_event_def blank_world_def cong: run_cong)

lemma example_facts [simp]:
  "state_file example_manager = ''/state''" "ClusterIps (sm_config example_manager) = [''10.0.0.1'', ''10.0.0.2'']"
  "separate example_manager" "trace blank_world = []" "\<not> serving blank_world" "files blank_world = (\<lambda>_. None)"
  "steady calm_env f" "undisturbed calm_env f"
  by (simp_all add: example_manager_def separate_def blank_world_def steady_def undisturbed_def)

section \<open>Forming a cluster\<close>

text \<open>C1. In a deployment of several nodes the start manager starts mysqld in bootstrap mode only after it
  has asked every configured node for its health, and none of them answered that it is healthy:
  each of the probes comes earlier in the same run.\<close>

theorem bootstrap_only_after_probes:
  assumes "length (ClusterIps (Manager cfg)) > 1" and "Execute (wired_manager cfg) e w = Some (r, w')"
    and "trace w' = trace w @ xs @ EvStart ''mysqld'' [mycnf_arg, new_cluster_arg] p # ys"
    and "ip \<in> set (ClusterIps (Manager cfg))"
  shows "\<exists>status. EvGet (probe_url ip)
       (probe_timeout (NewClusterHealthChecker (ClusterIps (Manager cfg)) (ClusterProbeTimeout (Manager cfg)))) status \<in> set xs \<and>
     status \<noteq> Some 200"
proof -
  let ?h = "st_healthChecker (sm_startCaller (wired_manager cfg))"
  have "stable (preceded bootstrap_start (found_down ?h ` set (clusterIps ?h))) (Execute (wired_manager cfg))"
    using Execute_order [of "wired_manager cfg"] assms(1) by simp
  from precededD [OF stableD [OF this assms(2)] assms(3)]
  have "\<exists>x \<in> set xs. found_down ?h ip x" using assms(4) by (simp add: bootstrap_start_def)
  then show ?thesis
    unfolding found_down_iff by (auto simp: wired_manager_def Let_def start_manager_New_def NewStarter_def)
qed

theorem bootstrap_only_after_probes_witness:
  "\<exists>w' status. Execute (wired_manager example_config) calm_env blank_world = Some (Ret None, w') \<and>
     trace w' = example_before @ boot_event # example_after \<and>
     EvGet (probe_url ''10.0.0.2'') (probe_timeout (NewClusterHealthChecker (ClusterIps (Manager example_config))
       (ClusterProbeTimeout (Manager example_config)))) status \<in> set example_before \<and> status \<noteq> Some 200"
proof -
  obtain w' where w': "Execute (wired_manager example_config) calm_env blank_world = Some (Ret None, w')"
    "trace w' = example_before @ boot_event # example_after"
    using example_run unfolding example_manager_def by blast
  have "trace w' = trace blank_world @ example_before @ EvStart ''mysqld'' [mycnf_arg, new_cluster_arg] (Some 2) # example_after"
    using w'(2) by (simp add: boot_event_def)
  from bootstrap_only_after_probes [OF _ w'(1) this, of "''10.0.0.2''"] w' show ?thesis by auto
qed



section \<open>The state file and the announcement\<close>



text \<open>C3. The status server answers only at the very end of a start: when a run of the start manager makes it answer, the run
  has before that started a mysqld in one of its two modes and then written the node's new state successfully, and the
  announcement comes right after that write and happens once.\<close>

theorem announced_only_after_state_is_written:
  assumes "Execute m e w = Some (r, w')" and "status_response w request = None" and "status_response w' request \<noteq> None"
  shows "\<exists>xs newState args pid ys. trace w' = trace w @ xs @ [EvWrite (state_file m) newState True, EvServe] @ ys \<and>
     newState \<in> {''SINGLE_NODE'', ''CLUSTERED''} \<and> args \<in> {[mycnf_arg], [mycnf_arg, new_cluster_arg]} \<and>
     EvStart ''mysqld'' args (Some pid) \<in> set xs \<and> EvServe \<notin> set (xs @ ys) \<and>
     status_response w' request = Some ''galera init done''"
proof -
  have sv: "\<not> serving w" "serving w'" using assms(2,3) by (simp_all add: status_response_def split: if_splits)
  obtain xs ns args pid ch w4 ys where t: "trace w' = trace w4 @ ys"
    "trace w4 = trace w @ xs @ [EvWrite (state_file m) ns True, EvServe]" "\<forall>ev \<in> set xs. phase_event m ev"
    "ns \<in> {SingleNode, Clustered}" "args \<in> {[mycnf_arg], [mycnf_arg, new_cluster_arg]}"
    "EvStart ''mysqld'' args (Some pid) \<in> set xs" "await_mysqld (Some ch) e w4 = Some (r, w')"
    using served_trace [OF assms(1) sv] by metis
  obtain zs where "trace w' = trace w4 @ zs" "\<forall>ev \<in> set zs. ev \<noteq> EvServe" using emitsD [OF await_spares(2) t(7)] .
  then have "EvServe \<notin> set (xs @ ys)" using t(1,3) phase_event_simps(1) by auto
  then show ?thesis
    using t sv by (intro exI [of _ xs] exI [of _ ns] exI [of _ args] exI [of _ pid] exI [of _ ys])
      (auto simp: SingleNode_def Clustered_def status_response_def Status_def)
qed

theorem announced_only_after_state_is_written_witness:
  "\<exists>w' xs newState ys. Execute example_manager calm_env blank_world = Some (Ret None, w') \<and>
     trace w' = trace blank_world @ xs @ [EvWrite ''/state'' newState True, EvServe] @ ys \<and>
     newState \<in> {''SINGLE_NODE'', ''CLUSTERED''} \<and> EvServe \<notin> set (xs @ ys)"
proof -
  obtain w' where w': "Execute example_manager calm_env blank_world = Some (Ret None, w')" "serving w'"
    using example_run by blast
  then have "status_response blank_world ''/'' = None" "status_response w' ''/'' \<noteq> None"
    by (simp_all add: status_response_def)
  from announced_only_after_state_is_written [OF w'(1) this] w'(1) show ?thesis by fastforce
qed

text \<open>C7. A start that fails leaves the state file as it was: if a run ends without the announcement, it ends with an error, a panic
  or an exit, and the state file has its old contents unless the write of the new state itself failed.\<close>

theorem failed_start_keeps_the_state_file:
  assumes "separate m" and "undisturbed e (state_file m)" and "Execute m e w = Some (r, w')" and "\<not> serving w'"
    and "\<forall>c. EvWrite (state_file m) c False \<notin> set (new_events w w')"
  shows "files w' (state_file m) = files w (state_file m) \<and> r \<noteq> Ret None"
  using failed_keeps_state [OF assms] .

definition missing_package_world :: world where
  "missing_package_world = blank_world\<lparr>files := [''/last'' \<mapsto> ''5.7.25'', ''/state'' \<mapsto> ''NEEDS_BOOTSTRAP'']\<rparr>"

lemma missing_package_run:
  "\<exists>w'. Execute example_manager calm_env missing_package_world =
     Some (Ret (Some (ErrorString ''DB package is invalid because it is missing the version file.'')), w') \<and>
     \<not> serving w' \<and> trace w' = [EvRun ''mysqladmin'' [mylogin_arg, ''status''] None, EvRun ''mysqladmin'' [mylogin_arg, ''shutdown''] None,
       EvStat ''/last'' True, EvStat ''/package'' False]"
  by (simp add: run_rules example_manager_def missing_package_world_def blank_world_def cong: run_cong)

theorem failed_start_keeps_the_state_file_witness:
  "\<exists>w'. Execute example_manager calm_env missing_package_world =
     Some (Ret (Some (ErrorString ''DB package is invalid because it is missing the version file.'')), w') \<and>
     files w' ''/state'' = Some ''NEEDS_BOOTSTRAP''"
proof -
  obtain w' where w': "Execute example_manager calm_env missing_package_world =
     Some (Ret (Some (ErrorString ''DB package is invalid because it is missing the version file.'')), w')" "\<not> serving w'"
     "trace w' = [EvRun ''mysqladmin'' [mylogin_arg, ''status''] None, EvRun ''mysqladmin'' [mylogin_arg, ''shutdown''] None,
       EvStat ''/last'' True, EvStat ''/package'' False]" using missing_package_run by blast
  have "\<forall>c. EvWrite (state_file example_manager) c False \<notin> set (new_events missing_package_world w')"
    using w'(3) by (simp add: new_events_def missing_package_world_def)
  from failed_start_keeps_the_state_file [OF _ _ w'(1,2) this] w'(1) show ?thesis
    by (auto simp: missing_package_world_def)
qed

text \<open>C4. A node of a cluster of several nodes that was once announced never forms a cluster again: any later run that finds the state
  file the first one left, in any environment in which the file is steady, starts mysqld in bootstrap mode at no point.\<close>

theorem announced_node_never_bootstraps_again:
  assumes "separate m" and "length (ClusterIps (sm_config m)) > 1"
    and "undisturbed e (state_file m)" and "Execute m e w = Some (r, w1)" and "\<not> serving w" and "serving w1"
    and "steady e2 (state_file m)" and "files w2 (state_file m) = files w1 (state_file m)" and "Execute m e2 w2 = Some (r2, w3)"
  shows "EvStart ''mysqld'' [mycnf_arg, new_cluster_arg] p \<notin> set (new_events w2 w3)"
proof -
  have "files w2 (state_file m) = Some Clustered"
    using served_state_file [OF assms(3-6)] assms(2,8) by (auto simp: new_state_def)
  then have "boot_decision (length (ClusterIps (sm_config m))) (BootstrapNode (sm_config m)) (files w2 (state_file m)) \<notin> {SingleNode, NeedsBootstrap}"
    using assms(2) by (intro no_mandate_decision) (simp_all add: no_mandate_def)
  from Execute_no_bootstrap [OF assms(1,7,9) this] show ?thesis by (auto simp: bootstrap_start_def)
qed

theorem announced_node_never_bootstraps_again_witness:
  "\<exists>w1 r2 w3. Execute example_manager calm_env blank_world = Some (Ret None, w1) \<and>
     Execute example_manager calm_env (blank_world\<lparr>files := files w1\<rparr>) = Some (r2, w3) \<and>
     EvStart ''mysqld'' [mycnf_arg, new_cluster_arg] (Some 1) \<notin> set (new_events (blank_world\<lparr>files := files w1\<rparr>) w3)"
proof -
  obtain w1 where w1: "Execute example_manager calm_env blank_world = Some (Ret None, w1)" "serving w1"
    using example_run by blast
  have "always_returns calm_env (Execute example_manager)"
    by (rule Execute_returns [OF _ calm_ready]) (simp_all add: example_manager_def)
  then obtain r2 w3 where w3: "Execute example_manager calm_env (blank_world\<lparr>files := files w1\<rparr>) = Some (r2, w3)"
    using always_returnsD by blast
  have "EvStart ''mysqld'' [mycnf_arg, new_cluster_arg] (Some 1) \<notin> set (new_events (blank_world\<lparr>files := files w1\<rparr>) w3)"
    by (rule announced_node_never_bootstraps_again [OF _ _ _ w1(1) _ w1(2) _ _ w3]) simp_all
  with w1(1) w3 show ?thesis by blast
qed

section \<open>Ending\<close>

text \<open>C10. The start manager signals only a mysqld that it started itself in the same run, and only with the termination signal.\<close>

theorem only_its_own_mysqld_is_signalled:
  assumes "Execute m e w = Some (r, w')" and "\<not> serving w" and "EvKill pid signal err \<in> set (new_events w w')"
  shows "signal = 15 \<and> (\<exists>args. args \<in> {[mycnf_arg], [mycnf_arg, new_cluster_arg]} \<and>
     EvStart ''mysqld'' args (Some pid) \<in> set (new_events w w'))"
proof (cases "serving w'")
  case False
  then obtain evs where "trace w' = trace w @ evs" "\<forall>ev \<in> set evs. phase_event m ev" using unserved_phases [OF assms(1)] by blast
  then show ?thesis using assms(3) phase_event_simps(2) by auto
next
  case True
  obtain xs ns args p ch w4 ys where t: "trace w' = trace w4 @ ys" "trace w4 = trace w @ xs @ [EvWrite (state_file m) ns True, EvServe]"
    "\<forall>ev \<in> set xs. phase_event m ev" "args \<in> {[mycnf_arg], [mycnf_arg, new_cluster_arg]}"
    "EvStart ''mysqld'' args (Some p) \<in> set xs" "owns args p ch w4" "await_mysqld (Some ch) e w4 = Some (r, w')"
    using served_trace [OF assms(1,2) True] by metis
  have new: "new_events w w' = xs @ [EvWrite (state_file m) ns True, EvServe] @ ys" using t(1,2) by simp
  have "EvKill pid signal err \<in> set ys" using assms(3) t(3) phase_event_simps(2) unfolding new by auto
  moreover have "EvKill q s x \<in> set ys \<Longrightarrow> q = p \<and> s = SIGTERM" for q s x
    using t(6,7) by (cases rule: await_owned) (use t(1) in auto)
  ultimately have "pid = p \<and> signal = SIGTERM" by blast
  then show ?thesis using t(4,5) new by (auto simp: SIGTERM_def)
qed

text \<open>The calm environment, with a termination signal once the node is up.\<close>

definition terminated_env :: env where
  "terminated_env = calm_env\<lparr>selects := (\<lambda>h c. SelDone)\<rparr>"

lemma terminated_env_simps [simp]:
  "interfere terminated_env h fs = fs" "stat_fails terminated_env h f = False" "read_fails terminated_env h f = None"
  "append_fails terminated_env h f = None" "write_fails terminated_env h f = None"
  "command terminated_env h x args = ('''', None)" "spawn_fails terminated_env h x args = None"
  "exited terminated_env h pid = None" "awaited terminated_env h pid = Some None" "signal_fails terminated_env h pid = None"
  "selects terminated_env h c = SelDone" "\<not> serve_fails terminated_env h" "query_row terminated_env h q = Inr (''wsrep_provider'', ''none'')"
  by (simp_all add: terminated_env_def)

text \<open>A restart of a node that is up to date and recorded as part of the cluster.\<close>

definition clustered_world :: world where
  "clustered_world = blank_world\<lparr>files := [''/last'' \<mapsto> ''5'', ''/package'' \<mapsto> ''5'', ''/state'' \<mapsto> ''CLUSTERED'']\<rparr>"

lemma trim_facts [simp]: "strings_TrimSpace ''5'' = ''5''" "strings_TrimSpace ''CLUSTERED'' = ''CLUSTERED''"
  by code_simp+

lemma terminated_run:
  "\<exists>w'. Execute example_manager terminated_env clustered_world = Some (Ret None, w') \<and> serving w' \<and>
     EvKill 1 15 None \<in> set (trace w') \<and> (\<forall>c. EvWrite ''/state'' c False \<notin> set (trace w'))"
  by (simp add: run_rules example_manager_def clustered_world_def blank_world_def cong: run_cong)

lemma clustered_world_facts [simp]: "trace clustered_world = []" "\<not> serving clustered_world"
  by (simp_all add: clustered_world_def)

theorem only_its_own_mysqld_is_signalled_witness:
  "\<exists>w' args. Execute example_manager terminated_env clustered_world = Some (Ret None, w') \<and>
     EvKill 1 15 None \<in> set (new_events clustered_world w') \<and> EvStart ''mysqld'' args (Some 1) \<in> set (new_events clustered_world w')"
proof -
  obtain w' where w': "Execute example_manager terminated_env clustered_world = Some (Ret None, w')"
    "EvKill 1 15 None \<in> set (new_events clustered_world w')"
    using terminated_run by (auto simp: new_events_def)
  from only_its_own_mysqld_is_signalled [OF w'(1) _ w'(2)] w' show ?thesis by auto
qed






definition garbled_world :: world where
  "garbled_world = blank_world\<lparr>files := [''/last'' \<mapsto> ''5'', ''/package'' \<mapsto> ''5'', ''/state'' \<mapsto> ''?'']\<rparr>"

lemma garbled_preparation: "\<exists>w1. preparation example_manager calm_env garbled_world = Some (Ret None, w1)"
  by (simp add: run_rules preparation_def example_manager_def garbled_world_def blank_world_def cong: run_cong)




section \<open>The whole program\<close>

text \<open>A configuration that is loaded and valid is wired up and run, once the status server's address could be listened on.\<close>

lemma main_run:
  assumes "NewConfig st osArgs e w = Some (Ret (cfg, None), w1)" and "Validate order cfg = None"
    and "listen_fails e (trace w1) (GaleraInitStatusServerAddress (Manager cfg)) = None"
    and "Execute (wired_manager cfg) e ((record_event e (EvListen (GaleraInitStatusServerAddress (Manager cfg)) True) w1)
       \<lparr>logs := logs w1 @ [(INFO, ''starting'')]\<rparr>) = Some (Ret res, w2)"
  shows "\<exists>r l. main st order osArgs e w = Some (r, w2\<lparr>logs := l\<rparr>) \<and>
     process_status r = (case res of None \<Rightarrow> 0 | Some (ExitError ws) \<Rightarrow> mysqld_status ws | Some _ \<Rightarrow> 1)"
proof -
  have wire: "managerSetup cfg e w1 = Some (Ret (Some (wired_manager cfg), None),
      record_event e (EvListen (GaleraInitStatusServerAddress (Manager cfg)) True) w1)"
    using assms(3) by (simp add: managerSetup_def wired_manager_def net_Listen_def go_basic_defs Let_def)
  have ext: "\<exists>n. (exit_with err e u :: (unit outcome \<times> world) option) = Some (OsExit n, u) \<and>
      process_status (OsExit n) = (case err of ExitError ws \<Rightarrow> mysqld_status ws | _ \<Rightarrow> 1)" for err u
  proof -
    obtain n where "(exit_with err e u :: (unit outcome \<times> world) option) = Some (OsExit n, u)" by (cases err) (auto simp: exit_with_run)
    from conjI [OF this exit_with_status [OF this]] show ?thesis by (rule exI)
  qed
  show ?thesis
  proof (cases res)
    case None
    then show ?thesis
      using assms(1,2,4) wire by (auto simp: main_def go_basic_defs log_info_def log_at_def record_event_def process_status_def)
  next
    case (Some x)
    let ?u = "w2\<lparr>logs := logs w2 @ [(INFO, ''abnormal-termination'')]\<rparr>"
    obtain n where "(exit_with x e ?u :: (unit outcome \<times> world) option) = Some (OsExit n, ?u)"
      "process_status (OsExit n) = (case x of ExitError ws \<Rightarrow> mysqld_status ws | _ \<Rightarrow> 1)"
      using ext by blast
    then show ?thesis
      using assms(1,2,4) wire Some
      by (intro exI [of _ "OsExit n"] exI [of _ "logs ?u"])
        (simp add: main_def go_basic_defs log_info_def log_at_def record_event_def)
  qed
qed


lemma example_merged: "mergo_Merge example_config default_Config = example_config"
  by (simp add: mergo_Merge_def merge_DBHelper_def merge_StartManager_def merge_Upgrader_def default_Config_def zero_Config_def
      zero_DBHelper_def zero_StartManager_def zero_Upgrader_def fill_def example_config_def example_db_def)

lemma example_valid: "Validate (\<lambda>p m. m) example_config = None"
proof -
  have "fair_order (\<lambda>p m. m)" by (simp add: fair_order_def)
  then show ?thesis by (simp add: Validate_None missing_fields_def missing_db_def missing_manager_def required_def)
qed

lemma missing_package_run2:
  "\<exists>w'. Execute (wired_manager example_config) calm_env (missing_package_world\<lparr>trace := [EvListen '':8114'' True], logs := [(INFO, ''starting'')]\<rparr>) =
     Some (Ret (Some (ErrorString ''DB package is invalid because it is missing the version file.'')), w')"
  by (simp add: run_rules missing_package_world_def blank_world_def cong: run_cong)


lemma served_run:
  "\<exists>w'. Execute (wired_manager example_config) calm_env (blank_world\<lparr>trace := [EvListen '':8114'' True], logs := [(INFO, ''starting'')]\<rparr>) =
     Some (Ret None, w') \<and> started_pids (trace w') = [1, 2] \<and> serving w'"
  by (simp add: run_rules blank_world_def cong: run_cong)



text \<open>C19. A mysqld left over from an earlier run that does not shut down ends the program by a panic with the error of the shutdown, before
  anything else is done: nothing is checked, upgraded, started or announced.\<close>

theorem stubborn_leftover_stops_everything:
  assumes "snd (command e (trace w) ''mysqladmin'' [mylogin_arg, ''status'']) = None"
    and "snd (command e (trace w @ [EvRun ''mysqladmin'' [mylogin_arg, ''status''] None]) ''mysqladmin'' [mylogin_arg, ''shutdown'']) = Some x"
  shows "\<exists>w'. Execute m e w = Some (Panic (Some x), w') \<and> serving w' = serving w \<and>
     trace w' = trace w @ [EvRun ''mysqladmin'' [mylogin_arg, ''status''] None, EvRun ''mysqladmin'' [mylogin_arg, ''shutdown''] (Some x)]"
  using assms
  by (simp add: Execute_def IsProcessRunning_def Shutdown_def StopMysqld_def RunCommand_def log_info_def log_at_def log_fatal_def go_basic_defs
      record_event_def split_beta)

theorem stubborn_leftover_stops_everything_witness:
  "\<exists>w'. Execute example_manager (calm_env\<lparr>command := (\<lambda>h x args. ('''', if ''shutdown'' \<in> set args then Some (ExitError 256) else None))\<rparr>) blank_world =
     Some (Panic (Some (ExitError 256)), w') \<and> \<not> serving w'"
proof -
  let ?e = "calm_env\<lparr>command := (\<lambda>h x args. ('''', if ''shutdown'' \<in> set args then Some (ExitError 256) else None))\<rparr>"
  have "snd (command ?e (trace blank_world) ''mysqladmin'' [mylogin_arg, ''status'']) = None" by (simp add: mylogin_arg_def)
  from stubborn_leftover_stops_everything [OF this, of "ExitError 256" example_manager] show ?thesis by (auto simp: mylogin_arg_def blank_world_def)
qed

end
